(* ===== verification/Rvpn_Prelude.thy ===== *)
theory Rvpn_Prelude
  imports Main "HOL-Library.Word"
begin

text \<open>
  Shared ground of the development: the error values of the Go code, the three ways a Go
  function can end (a value, a panic, \<open>log.Fatal\<close>), the text functions of the standard library
  the program uses (\<open>strings.Split\<close>, \<open>strings.HasPrefix\<close>, decimal printing, \<open>strconv.Atoi\<close>)
  with their laws, row operations on tables held as lists, and a locale for state machines that
  keep an invariant.
\<close>

section \<open>Collections\<close>

named_theorems frame \<open>what an operation leaves unchanged\<close>
named_theorems db_inv_intros \<open>operations that keep the database invariant\<close>

section \<open>Results\<close>

text \<open>Every \<open>error\<close> value the program itself creates or passes on, by origin.\<close>

datatype go_error =
    DbError            \<comment> \<open>a driver error of \<open>database/sql\<close>\<close>
  | ParseError         \<comment> \<open>\<open>netip\<close> or \<open>strconv\<close> rejects a string\<close>
  | TargetMissing      \<comment> \<open>\<open>requested target does not exist\<close>\<close>
  | NoFreeIp           \<comment> \<open>\<open>no available ips to allocate for target\<close>\<close>
  | TokenError         \<comment> \<open>\<open>failed to validate token\<close>\<close>
  | SignError          \<comment> \<open>a token could not be signed\<close>
  | RpcError           \<comment> \<open>a jrpc or rpc call failed\<close>
  | FileError          \<comment> \<open>the state file could not be read or written\<close>
  | OsError            \<comment> \<open>an operating-system call failed\<close>
  | OsExists           \<comment> \<open>an error for which \<open>os.IsExist\<close> holds\<close>
  | OsNotExist         \<comment> \<open>an error for which \<open>os.IsNotExist\<close> holds\<close>
  | NoDefaultInterface \<comment> \<open>\<open>default interface not found\<close>\<close>

type_synonym 'a result = "go_error + 'a"

text \<open>
  A Go function body that can also die: a value, a run-time panic (nil dereference, failed type
  assertion), or the end of the process by \<open>log.Fatalf\<close>.
\<close>

datatype 'a exec = Return 'a | Panic | Fatal

fun exec_bind :: "'a exec \<Rightarrow> ('a \<Rightarrow> 'b exec) \<Rightarrow> 'b exec" where
  "exec_bind (Return x) f = f x"
| "exec_bind Panic f = Panic"
| "exec_bind Fatal f = Fatal"

lemma exec_bind_Return_iff [simp]:
  "exec_bind m f = Return y \<longleftrightarrow> (\<exists>x. m = Return x \<and> f x = Return y)"
  by (cases m) auto

text \<open>
  A body that works on a state and may return an error: \<open>and_then\<close> is the idiom
  \<open>x, err := m(); if err != nil { return err }; ...\<close>, in which a later statement never runs
  after an error but the state it left stays.  \<open>keeps P m\<close> says that \<open>m\<close> never breaks \<open>P\<close>,
  whatever it returns.
\<close>

type_synonym ('s, 'a) stmt = "'s \<Rightarrow> 'a result \<times> 's"

definition and_then :: "('s, 'a) stmt \<Rightarrow> ('a \<Rightarrow> ('s, 'b) stmt) \<Rightarrow> ('s, 'b) stmt" where
  "and_then m f s = (case m s of (Inl e, s') \<Rightarrow> (Inl e, s') | (Inr x, s') \<Rightarrow> f x s')"

definition ok :: "'a \<Rightarrow> ('s, 'a) stmt" where
  "ok x s = (Inr x, s)"

definition fail :: "go_error \<Rightarrow> ('s, 'a) stmt" where
  "fail e s = (Inl e, s)"

text \<open>A call whose error is dropped.\<close>

definition drop_error :: "('s, 'a) stmt \<Rightarrow> ('s, unit) stmt" where
  "drop_error m s = (case m s of (_, s') \<Rightarrow> (Inr (), s'))"

definition keeps :: "('s \<Rightarrow> bool) \<Rightarrow> ('s \<Rightarrow> 'r \<times> 's) \<Rightarrow> bool" where
  "keeps P m \<longleftrightarrow> (\<forall>s. P s \<longrightarrow> P (snd (m s)))"

lemma keepsI: "(\<And>s r s'. P s \<Longrightarrow> m s = (r, s') \<Longrightarrow> P s') \<Longrightarrow> keeps P m"
  unfolding keeps_def by (metis prod.collapse)

lemma keepsD: "keeps P m \<Longrightarrow> P s \<Longrightarrow> m s = (r, s') \<Longrightarrow> P s'"
  unfolding keeps_def by (metis snd_conv)

lemma and_then_Inr:
  "and_then m f s = (Inr y, s'') \<longleftrightarrow> (\<exists>x s'. m s = (Inr x, s') \<and> f x s' = (Inr y, s''))"
  by (auto simp: and_then_def split: prod.splits sum.splits)

lemma and_then_Inl:
  "and_then m f s = (Inl e, s'') \<longleftrightarrow>
     m s = (Inl e, s'') \<or> (\<exists>x s'. m s = (Inr x, s') \<and> f x s' = (Inl e, s''))"
  by (auto simp: and_then_def split: prod.splits sum.splits)

lemma case_sum_fail [simp]:
  "(case x of Inl e \<Rightarrow> fail e | Inr p \<Rightarrow> f p) s = (Inr y, s') \<longleftrightarrow>
     (\<exists>p. x = Inr p \<and> f p s = (Inr y, s'))"
  by (auto simp: fail_def split: sum.splits)

lemma case_option_fail [simp]:
  "(case x of None \<Rightarrow> fail e | Some p \<Rightarrow> f p) s = (Inr y, s') \<longleftrightarrow>
     (\<exists>p. x = Some p \<and> f p s = (Inr y, s'))"
  by (auto simp: fail_def split: option.splits)

lemma fail_Inr [simp]: "fail e s \<noteq> (Inr y, s')"
  by (simp add: fail_def)

lemma keeps_ok [intro, simp]: "keeps P (ok x)"
  by (simp add: keeps_def ok_def)

lemma keeps_fail [intro, simp]: "keeps P (fail e)"
  by (simp add: keeps_def fail_def)

lemma keeps_and_then [intro]: "keeps P m \<Longrightarrow> (\<And>x. keeps P (f x)) \<Longrightarrow> keeps P (and_then m f)"
  by (rule keepsI) (auto simp: and_then_def dest: keepsD split: prod.splits sum.splits)

lemma keeps_conj: "keeps P m \<Longrightarrow> keeps Q m \<Longrightarrow> keeps (\<lambda>s. P s \<and> Q s) m"
  by (simp add: keeps_def)

section \<open>Text\<close>

text \<open>\<open>strings.Split\<close> with a one-byte separator: never empty, separators dropped.\<close>

fun split_on :: "char \<Rightarrow> string \<Rightarrow> string list" where
  "split_on c [] = [[]]"
| "split_on c (x # xs) =
     (if x = c then [] # split_on c xs
      else case split_on c xs of [] \<Rightarrow> [[x]] | w # ws \<Rightarrow> (x # w) # ws)"

lemma split_on_nonempty [simp]: "split_on c s \<noteq> []"
  by (induction s) (auto split: list.splits)

lemma split_on_no_sep: "c \<notin> set s \<Longrightarrow> split_on c s = [s]"
  by (induction s) auto

lemma split_on_append_sep:
  "c \<notin> set s \<Longrightarrow> split_on c (s @ c # t) = s # split_on c t"
  by (induction s) auto

text \<open>\<open>strings.HasPrefix\<close>.\<close>

fun has_prefix :: "string \<Rightarrow> string \<Rightarrow> bool" where
  "has_prefix s [] = True"
| "has_prefix [] (p # ps) = False"
| "has_prefix (x # xs) (p # ps) = (x = p \<and> has_prefix xs ps)"

lemma has_prefix_append [simp]: "has_prefix (p @ s) p"
  by (induction p) auto

lemma has_prefix_iff: "has_prefix s p \<longleftrightarrow> (\<exists>t. s = p @ t)"
  by (induction s p rule: has_prefix.induct) auto

subsection \<open>Decimal numbers\<close>

definition digit :: "nat \<Rightarrow> char" where
  "digit d = char_of (48 + d)"

definition is_digit :: "char \<Rightarrow> bool" where
  "is_digit c \<longleftrightarrow> 48 \<le> (of_char c :: nat) \<and> (of_char c :: nat) \<le> 57"

definition digit_val :: "char \<Rightarrow> nat" where
  "digit_val c = of_char c - 48"

lemma of_char_digit [simp]: "d < 10 \<Longrightarrow> of_char (digit d) = 48 + d"
  by (simp add: digit_def)

lemma is_digit_digit [simp]: "d < 10 \<Longrightarrow> is_digit (digit d)"
  by (simp add: is_digit_def)

lemma digit_val_digit [simp]: "d < 10 \<Longrightarrow> digit_val (digit d) = d"
  by (simp add: digit_val_def)

lemma digit_eq_iff: "a < 10 \<Longrightarrow> b < 10 \<Longrightarrow> digit a = digit b \<longleftrightarrow> a = b"
  by (metis digit_val_digit)

text \<open>Decimal text of a natural number, without leading zeros.\<close>

fun nat_text :: "nat \<Rightarrow> string" where
  "nat_text n = (if n < 10 then [digit n] else nat_text (n div 10) @ [digit (n mod 10)])"

declare nat_text.simps [simp del]

definition digits_val :: "string \<Rightarrow> nat" where
  "digits_val s = foldl (\<lambda>v c. 10 * v + digit_val c) 0 s"

lemma digits_val_snoc [simp]: "digits_val (s @ [c]) = 10 * digits_val s + digit_val c"
  by (simp add: digits_val_def)

lemma nat_text_nonempty [simp]: "nat_text n \<noteq> []"
  by (subst nat_text.simps) simp

lemma nat_text_digits: "c \<in> set (nat_text n) \<Longrightarrow> is_digit c"
proof (induction n rule: nat_text.induct)
  case (1 n)
  then show ?case by (cases "n < 10") (auto simp: nat_text.simps [of n])
qed

lemma digits_val_nat_text [simp]: "digits_val (nat_text n) = n"
proof (induction n rule: nat_text.induct)
  case (1 n)
  show ?case
  proof (cases "n < 10")
    case True
    then show ?thesis by (simp add: nat_text.simps [of n] digits_val_def)
  next
    case False
    then show ?thesis using "1.IH" by (simp add: nat_text.simps [of n])
  qed
qed

lemma nat_text_inj: "nat_text m = nat_text n \<Longrightarrow> m = n"
  by (metis digits_val_nat_text)

lemma nat_text_hd: "n \<noteq> 0 \<Longrightarrow> hd (nat_text n) \<noteq> digit 0"
proof (induction n rule: nat_text.induct)
  case (1 n)
  show ?case
  proof (cases "n < 10")
    case True
    with "1.prems" show ?thesis by (simp add: nat_text.simps [of n] digit_eq_iff)
  next
    case False
    then have "hd (nat_text (n div 10)) \<noteq> digit 0" using "1.IH" by simp
    with False show ?thesis by (simp add: nat_text.simps [of n])
  qed
qed

lemma length_nat_text_byte: "n < 256 \<Longrightarrow> length (nat_text n) \<le> 3"
proof -
  assume "n < 256"
  then have "n div 10 div 10 < 10" by arith
  then show ?thesis
    by (simp add: nat_text.simps [of n] nat_text.simps [of "n div 10"]
        nat_text.simps [of "n div 10 div 10"])
qed

text \<open>
  \<open>strconv.Atoi\<close> on a 64-bit machine: an optional sign, at least one decimal digit, and a value
  in the range of \<open>int64\<close>; everything else is an error.
\<close>

definition all_digits :: "string \<Rightarrow> bool" where
  "all_digits s \<longleftrightarrow> s \<noteq> [] \<and> list_all is_digit s"

definition atoi :: "string \<Rightarrow> int result" where
  "atoi s =
     (let neg = (case s of c # _ \<Rightarrow> c = CHR ''-'' | [] \<Rightarrow> False);
          body = (case s of c # cs \<Rightarrow> if c = CHR ''-'' \<or> c = CHR ''+'' then cs else s | [] \<Rightarrow> s);
          v = (if neg then - int (digits_val body) else int (digits_val body))
      in if all_digits body \<and> - 9223372036854775808 \<le> v \<and> v < 9223372036854775808 then Inr v else Inl ParseError)"

lemma digit_not_sign: "is_digit c \<Longrightarrow> c \<noteq> CHR ''-'' \<and> c \<noteq> CHR ''+'' \<and> c \<noteq> CHR ''.'' \<and> c \<noteq> CHR ''/''"
  by (auto simp: is_digit_def)

lemma all_digits_nat_text [simp]: "all_digits (nat_text n)"
  by (auto simp: all_digits_def list_all_iff nat_text_digits)

lemma atoi_nat_text: "n < 2 ^ 63 \<Longrightarrow> atoi (nat_text n) = Inr (int n)"
proof -
  assume n: "n < 2 ^ 63"
  obtain c cs where t: "nat_text n = c # cs" by (cases "nat_text n") simp_all
  then have "is_digit c" by (metis list.set_intros(1) nat_text_digits)
  then have "c \<noteq> CHR ''-''" "c \<noteq> CHR ''+''" by (simp_all add: digit_not_sign)
  moreover have "all_digits (c # cs)" "digits_val (c # cs) = n"
    using t all_digits_nat_text digits_val_nat_text by metis+
  moreover have "int n < 2 ^ 63" using n by simp
  ultimately show ?thesis by (simp add: atoi_def t)
qed

lemma atoi_bounds: "atoi s = Inr v \<Longrightarrow> - (2 ^ 63) \<le> v \<and> v < 2 ^ 63"
  by (auto simp: atoi_def Let_def split: if_splits)

section \<open>Tables\<close>

text \<open>
  A table is the list of its rows in insertion order. \<open>update_where\<close> is the SQL \<open>UPDATE\<close>,
  \<open>insert_unless\<close> the SQL \<open>INSERT ... ON CONFLICT DO NOTHING\<close>: the new row goes in only when no
  row conflicts with it.
\<close>

definition update_where :: "('r \<Rightarrow> bool) \<Rightarrow> ('r \<Rightarrow> 'r) \<Rightarrow> 'r list \<Rightarrow> 'r list" where
  "update_where P f rows = map (\<lambda>r. if P r then f r else r) rows"

definition insert_unless :: "('r \<Rightarrow> 'r \<Rightarrow> bool) \<Rightarrow> 'r \<Rightarrow> 'r list \<Rightarrow> nat \<times> 'r list" where
  "insert_unless conflict r rows =
     (if list_ex (conflict r) rows then (0, rows) else (1, rows @ [r]))"

lemma length_update_where [simp]: "length (update_where P f rows) = length rows"
  by (simp add: update_where_def)

lemma update_where_set:
  "r \<in> set (update_where P f rows) \<longleftrightarrow>
     (\<exists>q \<in> set rows. (P q \<and> r = f q) \<or> (\<not> P q \<and> r = q))"
  by (auto simp: update_where_def)

lemma update_where_same_key [simp]:
  "(\<And>r. P r \<Longrightarrow> key (f r) = key r) \<Longrightarrow> map key (update_where P f rows) = map key rows"
  by (auto simp: update_where_def)

lemma update_where_replace_key [simp]:
  "map key (update_where (\<lambda>r. key r = key row) (\<lambda>_. row) rows) = map key rows"
  by (simp add: update_where_def)

lemma insert_unless_cases:
  "insert_unless conflict r rows = (n, rows') \<Longrightarrow>
     (n = 0 \<and> rows' = rows \<and> (\<exists>q \<in> set rows. conflict r q)) \<or>
     (n = 1 \<and> rows' = rows @ [r] \<and> (\<forall>q \<in> set rows. \<not> conflict r q))"
  by (auto simp: insert_unless_def list_ex_iff split: if_splits)

lemma distinct_map_append:
  "distinct (map key rows) \<Longrightarrow> \<forall>q \<in> set rows. key q \<noteq> key r \<Longrightarrow> distinct (map key (rows @ [r]))"
  by auto

section \<open>State machines\<close>

text \<open>
  The contract of a component that moves by events: a step function and an invariant it keeps.
  Everything the component does over a whole run follows once.
\<close>

locale stepper =
  fixes step :: "'e \<Rightarrow> 's \<Rightarrow> 's"
    and inv :: "'s \<Rightarrow> bool"
  assumes step_inv: "inv s \<Longrightarrow> inv (step e s)"
begin

lemma run_inv: "inv s \<Longrightarrow> inv (fold step es s)"
  by (induction es arbitrary: s) (auto intro: step_inv)

end

end
