(* ===== verification/Auth.thy ===== *)
theory Auth
  imports Rvpn_Prelude
begin

text \<open>
  Tokens of the control plane (\<open>cmd/control-plane/auth.go\<close>).  The JWT library is not part of the
  repository: it is the record \<open>jwt_lib\<close>, an argument of every definition, and what the program
  relies on is the hypothesis \<open>jwt_correct\<close> (a token signed with HS256 parses, with the key it
  was signed with, to its own claims).  A failed type assertion on a claim is a panic.
\<close>

section \<open>The library's interface\<close>

datatype claim = ClaimString string | ClaimOther int

type_synonym claims = "(string \<times> claim) list"

datatype signing_method = HMAC | OtherMethod

text \<open>
  \<open>sign_claims key cs\<close> is \<open>jwt.NewWithClaims(SigningMethodHS256, cs).SignedString(key)\<close>;
  \<open>parse_claims token keyfunc\<close> is \<open>jwt.Parse\<close>: the claims and the flag \<open>Valid\<close>, or an error, for
  instance the one the key function returns.
\<close>

record jwt_lib =
  sign_claims :: "string \<Rightarrow> claims \<Rightarrow> string result"
  parse_claims :: "string \<Rightarrow> (signing_method \<Rightarrow> string result) \<Rightarrow> (claims \<times> bool) result"

definition jwt_correct :: "jwt_lib \<Rightarrow> bool" where
  "jwt_correct J \<longleftrightarrow>
     (\<forall>key cs token keyfunc. sign_claims J key cs = Inr token \<longrightarrow> keyfunc HMAC = Inr key \<longrightarrow>
        parse_claims J token keyfunc = Inr (cs, True))"

section \<open>Signing and validating\<close>

definition SignUserToken :: "jwt_lib \<Rightarrow> string \<Rightarrow> string \<Rightarrow> string result" where
  "SignUserToken J jwtSecret user =
     (case sign_claims J jwtSecret [(''user'', ClaimString user)] of
        Inl err \<Rightarrow> Inl err
      | Inr tokenString \<Rightarrow> Inr tokenString)"

definition SignDeviceToken :: "jwt_lib \<Rightarrow> string \<Rightarrow> string \<Rightarrow> string result" where
  "SignDeviceToken J jwtSecret deviceId =
     (case sign_claims J jwtSecret [(''device'', ClaimString deviceId)] of
        Inl err \<Rightarrow> Inl err
      | Inr tokenString \<Rightarrow> Inr tokenString)"

text \<open>The key function both validators pass to \<open>jwt.Parse\<close>.\<close>

definition hmac_key :: "string \<Rightarrow> signing_method \<Rightarrow> string result" where
  "hmac_key jwtSecret m = (if m = HMAC then Inr jwtSecret else Inl TokenError)"

text \<open>The type assertion \<open>claims[name].(string)\<close>.\<close>

definition assert_string :: "claims \<Rightarrow> string \<Rightarrow> string exec" where
  "assert_string cs name =
     (case map_of cs name of Some (ClaimString s) \<Rightarrow> Return s | _ \<Rightarrow> Panic)"

definition ValidateUserToken :: "jwt_lib \<Rightarrow> string \<Rightarrow> string \<Rightarrow> string result exec" where
  "ValidateUserToken J jwtSecret tokenString =
     (case parse_claims J tokenString (hmac_key jwtSecret) of
        Inl _ \<Rightarrow> Return (Inl TokenError)
      | Inr (claims, valid) \<Rightarrow>
          if valid then exec_bind (assert_string claims ''user'') (\<lambda>user. Return (Inr user))
          else Return (Inl TokenError))"

definition ValidateDeviceToken :: "jwt_lib \<Rightarrow> string \<Rightarrow> string \<Rightarrow> string result exec" where
  "ValidateDeviceToken J jwtSecret tokenString =
     (case parse_claims J tokenString (hmac_key jwtSecret) of
        Inl _ \<Rightarrow> Return (Inl TokenError)
      | Inr (claims, valid) \<Rightarrow>
          if valid then exec_bind (assert_string claims ''device'') (\<lambda>dev. Return (Inr dev))
          else Return (Inl TokenError))"

text \<open>
  \<open>AuthUserMiddleware\<close>: the local \<open>user\<close> of the request, when it carries a valid bearer token.  The
  argument is the value of the \<open>Authorization\<close> header.
\<close>

definition AuthUserMiddleware :: "jwt_lib \<Rightarrow> string \<Rightarrow> string option \<Rightarrow> string option exec" where
  "AuthUserMiddleware J jwtSecret authHeader =
     (case authHeader of
        None \<Rightarrow> Return None
      | Some h \<Rightarrow>
          if has_prefix h ''Bearer ''
          then exec_bind (ValidateUserToken J jwtSecret (drop 7 h))
                 (\<lambda>r. case r of Inl _ \<Rightarrow> Return None | Inr user \<Rightarrow> Return (Some user))
          else Return None)"

section \<open>A JWT library for the witnesses\<close>

text \<open>
  A concrete library that satisfies the hypothesis: a token is name, key and value joined by
  colons; texts with colons cannot be signed.
\<close>

definition plain_text :: "string \<Rightarrow> bool" where
  "plain_text s \<longleftrightarrow> CHR '':'' \<notin> set s"

definition colon_sign :: "string \<Rightarrow> claims \<Rightarrow> string result" where
  "colon_sign key cs =
     (case cs of
        [(name, ClaimString v)] \<Rightarrow>
          if plain_text name \<and> plain_text key \<and> plain_text v
          then Inr (name @ '':'' @ key @ '':'' @ v) else Inl SignError
      | _ \<Rightarrow> Inl SignError)"

definition colon_parse ::
  "string \<Rightarrow> (signing_method \<Rightarrow> string result) \<Rightarrow> (claims \<times> bool) result" where
  "colon_parse token keyfunc =
     (case split_on (CHR '':'') token of
        [name, key, v] \<Rightarrow>
          if keyfunc HMAC = Inr key then Inr ([(name, ClaimString v)], True) else Inl TokenError
      | _ \<Rightarrow> Inl TokenError)"

definition colon_jwt :: jwt_lib where
  "colon_jwt = \<lparr>sign_claims = colon_sign, parse_claims = colon_parse\<rparr>"

lemma colon_sign_Inr:
  "colon_sign key cs = Inr token \<Longrightarrow>
     \<exists>name v. cs = [(name, ClaimString v)] \<and> plain_text name \<and> plain_text key \<and> plain_text v \<and>
       token = name @ '':'' @ key @ '':'' @ v"
  by (auto simp: colon_sign_def split: list.splits prod.splits claim.splits if_splits)

lemma colon_jwt_correct [simp]: "jwt_correct colon_jwt"
  unfolding jwt_correct_def colon_jwt_def
  by (auto simp: colon_parse_def plain_text_def split_on_append_sep split_on_no_sep
      dest!: colon_sign_Inr)

section \<open>What tokens promise\<close>

lemma jwt_correctD:
  "jwt_correct J \<Longrightarrow> sign_claims J key cs = Inr token \<Longrightarrow>
     parse_claims J token (hmac_key key) = Inr (cs, True)"
  by (simp add: jwt_correct_def hmac_key_def)

lemma SignUserToken_Inr:
  "SignUserToken J key user = Inr token \<Longrightarrow> sign_claims J key [(''user'', ClaimString user)] = Inr token"
  by (simp add: SignUserToken_def split: sum.splits)

lemma SignDeviceToken_Inr:
  "SignDeviceToken J key dev = Inr token \<Longrightarrow> sign_claims J key [(''device'', ClaimString dev)] = Inr token"
  by (simp add: SignDeviceToken_def split: sum.splits)

lemma user_token_authenticates:
  "jwt_correct J \<Longrightarrow> SignUserToken J key user = Inr ut \<Longrightarrow>
     AuthUserMiddleware J key (Some (''Bearer '' @ ut)) = Return (Some user)"
  using jwt_correctD [OF _ SignUserToken_Inr]
  by (simp add: AuthUserMiddleware_def ValidateUserToken_def assert_string_def)

lemma device_token_validates:
  "jwt_correct J \<Longrightarrow> SignDeviceToken J key dev = Inr dt \<Longrightarrow> ValidateDeviceToken J key dt = Return (Inr dev)"
  using jwt_correctD [OF _ SignDeviceToken_Inr]
  by (simp add: ValidateDeviceToken_def assert_string_def)

text \<open>
  Tokens round-trip through the program: a user token authenticates, behind the header
  \<open>Authorization: Bearer\<close>, exactly the user it was signed for, and a device token validates to the
  device it was signed for.
\<close>

theorem tokens_roundtrip:
  assumes "jwt_correct J"
    and "SignUserToken J key user = Inr ut" and "SignDeviceToken J key dev = Inr dt"
  shows "AuthUserMiddleware J key (Some (''Bearer '' @ ut)) = Return (Some user) \<and>
         ValidateDeviceToken J key dt = Return (Inr dev)"
  using user_token_authenticates [OF assms(1,2)] device_token_validates [OF assms(1,3)] by blast

theorem tokens_roundtrip_witness:
  "AuthUserMiddleware colon_jwt ''k'' (Some ''Bearer user:k:alice'') = Return (Some ''alice'') \<and>
   ValidateDeviceToken colon_jwt ''k'' ''device:k:d1'' = Return (Inr ''d1'')"
proof -
  have u: "SignUserToken colon_jwt ''k'' ''alice'' = Inr ''user:k:alice''" by code_simp
  have d: "SignDeviceToken colon_jwt ''k'' ''d1'' = Inr ''device:k:d1''" by code_simp
  show ?thesis using tokens_roundtrip [OF colon_jwt_correct u d] by simp
qed

text \<open>
  Both kinds of token are signed with the same secret, and the validators assert the claim they
  expect without testing for it: a device token sent as a bearer token passes the signature check
  and makes \<open>AuthUserMiddleware\<close> panic, and a user token makes \<open>ValidateDeviceToken\<close> panic.
\<close>

theorem swapped_token_panics:
  assumes "jwt_correct J"
    and "SignUserToken J key user = Inr ut" and "SignDeviceToken J key dev = Inr dt"
  shows "AuthUserMiddleware J key (Some (''Bearer '' @ dt)) = Panic \<and>
         ValidateDeviceToken J key ut = Panic"
  using jwt_correctD [OF assms(1) SignUserToken_Inr [OF assms(2)]]
    jwt_correctD [OF assms(1) SignDeviceToken_Inr [OF assms(3)]]
  by (simp add: AuthUserMiddleware_def ValidateUserToken_def ValidateDeviceToken_def
      assert_string_def)

theorem swapped_token_panics_witness:
  "AuthUserMiddleware colon_jwt ''k'' (Some ''Bearer device:k:d1'') = Panic \<and>
   ValidateDeviceToken colon_jwt ''k'' ''user:k:alice'' = Panic"
proof -
  have u: "SignUserToken colon_jwt ''k'' ''alice'' = Inr ''user:k:alice''" by code_simp
  have d: "SignDeviceToken colon_jwt ''k'' ''d1'' = Inr ''device:k:d1''" by code_simp
  show ?thesis using swapped_token_panics [OF colon_jwt_correct u d] by simp
qed

end
