(* ===== verification/Database.thy ===== *)
theory Database
  imports Rvpn_Prelude
begin

text \<open>
  The database of the control plane (\<open>cmd/control-plane/db.go\<close> over the schema of
  \<open>migrations/000002\<close>).  The tables are lists of rows; one definition per method of
  \<open>RVPNDatabase\<close>.  What the driver may do to a statement comes from a script in the state: answer
  with the rows in some order, fail before the statement takes effect, lose the answer of a
  statement that did take effect, or break off while the rows are read.  The columns that may be
  NULL in the schema are never NULL here, because every statement of the program writes them.
  The lemmas show that every statement keeps the keys of the schema, that the queries leave the
  tables alone, and what a successful statement returns.
\<close>

section \<open>Rows and tables\<close>

record RVPNTarget =
  t_name :: string
  t_owner :: string
  networkIp :: string
  networkCidr :: string
  dnsIp :: string
  serverPubkey :: string
  serverPublicIp :: string
  serverPublicVpnPort :: string
  serverInternalIp :: string
  serverInternalCidr :: string
  serverHeartbeat :: string

record RVPNConnection =
  c_id :: string
  c_target :: string
  c_deviceId :: string
  c_pubkey :: string
  clientIp :: string
  clientCidr :: string

record device_row =
  d_principal :: string
  d_target :: string
  d_hardwareId :: string
  d_deviceId :: string

record acl_row =
  acl_principal :: string
  acl_target :: string
  acl_access :: "int option"

text \<open>
  One entry of the driver's script: \<open>Answer k\<close> (the statement succeeds, rows come in an order
  starting at the k-th), \<open>StmtFails\<close>, \<open>ResultLost\<close>, \<open>RowsCut n\<close> (the connection breaks after n
  rows).  An empty script answers.
\<close>

datatype db_answer = Answer nat | StmtFails | ResultLost | RowsCut nat

record rvpn_db =
  targets :: "RVPNTarget list"
  target_acl :: "acl_row list"
  connections :: "RVPNConnection list"
  devices :: "device_row list"
  answers :: "db_answer list"

definition next_answer :: "rvpn_db \<Rightarrow> db_answer \<times> rvpn_db" where
  "next_answer d = (case answers d of [] \<Rightarrow> (Answer 0, d) | a # as \<Rightarrow> (a, d\<lparr>answers := as\<rparr>))"

text \<open>\<open>ExecContext\<close> followed by \<open>RowsAffected\<close>: \<open>None\<close> from the statement is a violated constraint.\<close>

definition exec_sql :: "(rvpn_db \<Rightarrow> (nat \<times> rvpn_db) option) \<Rightarrow> (rvpn_db, nat) stmt" where
  "exec_sql f d =
     (case next_answer d of
        (StmtFails, d) \<Rightarrow> (Inl DbError, d)
      | (ResultLost, d) \<Rightarrow> (Inl DbError, (case f d of None \<Rightarrow> d | Some (n, d') \<Rightarrow> d'))
      | (_, d) \<Rightarrow> (case f d of None \<Rightarrow> (Inl DbError, d) | Some (n, d') \<Rightarrow> (Inr n, d')))"

text \<open>
  \<open>QueryContext\<close> and the loop over \<open>rows.Next()\<close>: the program never asks \<open>rows.Err()\<close>, so rows
  that break off are a shorter answer, not an error.
\<close>

definition query_rows :: "(rvpn_db \<Rightarrow> 'r list) \<Rightarrow> (rvpn_db, 'r list) stmt" where
  "query_rows f d =
     (case next_answer d of
        (Answer k, d) \<Rightarrow> (Inr (rotate k (f d)), d)
      | (RowsCut n, d) \<Rightarrow> (Inr (take n (f d)), d)
      | (_, d) \<Rightarrow> (Inl DbError, d))"

text \<open>\<open>QueryRowContext\<close> and \<open>Scan\<close>: the first row, \<open>None\<close> for \<open>sql.ErrNoRows\<close>.\<close>

definition query_row :: "(rvpn_db \<Rightarrow> 'r list) \<Rightarrow> (rvpn_db, 'r option) stmt" where
  "query_row f d =
     (case next_answer d of
        (Answer k, d) \<Rightarrow>
          (Inr (case rotate k (f d) of [] \<Rightarrow> None | r # _ \<Rightarrow> Some r), d)
      | (RowsCut n, d) \<Rightarrow>
          (case take n (f d) of [] \<Rightarrow> (Inl DbError, d) | r # _ \<Rightarrow> (Inr (Some r), d))
      | (_, d) \<Rightarrow> (Inl DbError, d))"

section \<open>The methods of RVPNDatabase\<close>

text \<open>\<open>INSERT ... ON CONFLICT DO NOTHING\<close>: the row that conflicts with a unique key stays out.\<close>

definition target_conflict :: "RVPNTarget \<Rightarrow> RVPNTarget \<Rightarrow> bool" where
  "target_conflict r q \<longleftrightarrow> t_name q = t_name r"

definition connection_conflict :: "RVPNConnection \<Rightarrow> RVPNConnection \<Rightarrow> bool" where
  "connection_conflict r q \<longleftrightarrow>
     c_id q = c_id r \<or> (c_target q = c_target r \<and> clientIp q = clientIp r)"

definition device_conflict :: "device_row \<Rightarrow> device_row \<Rightarrow> bool" where
  "device_conflict r q \<longleftrightarrow>
     (d_principal q = d_principal r \<and> d_target q = d_target r \<and> d_hardwareId q = d_hardwareId r)
     \<or> d_deviceId q = d_deviceId r"

definition one_row :: "nat \<Rightarrow> (rvpn_db, bool) stmt" where
  "one_row n = ok (n = 1)"

definition db_createTarget :: "RVPNTarget \<Rightarrow> (rvpn_db, bool) stmt" where
  "db_createTarget row =
     and_then
       (exec_sql (\<lambda>d. case insert_unless target_conflict row (targets d) of
                        (n, rows) \<Rightarrow> Some (n, d\<lparr>targets := rows\<rparr>)))
       one_row"

definition updateTarget :: "string \<Rightarrow> RVPNTarget \<Rightarrow> (rvpn_db, bool) stmt" where
  "updateTarget name rVPNTarget =
     and_then
       (exec_sql (\<lambda>d. Some
          (length (filter (\<lambda>r. t_name r = name) (targets d)),
           d\<lparr>targets := update_where (\<lambda>r. t_name r = name) (\<lambda>r. rVPNTarget\<lparr>t_name := t_name r\<rparr>)
                          (targets d)\<rparr>)))
       one_row"

definition getTargetsByPrincipal :: "string \<Rightarrow> (rvpn_db, string list) stmt" where
  "getTargetsByPrincipal who =
     query_rows (\<lambda>d. map acl_target (filter (\<lambda>r. acl_principal r = who) (target_acl d)))"

definition getTargetsByOwner :: "string \<Rightarrow> (rvpn_db, string list) stmt" where
  "getTargetsByOwner owner =
     query_rows (\<lambda>d. map t_name (filter (\<lambda>r. t_owner r = owner) (targets d)))"

definition createDevice :: "string \<Rightarrow> string \<Rightarrow> string \<Rightarrow> string \<Rightarrow> (rvpn_db, bool) stmt" where
  "createDevice who target hardwareId deviceId =
     and_then
       (exec_sql (\<lambda>d. case insert_unless device_conflict
                          \<lparr>d_principal = who, d_target = target, d_hardwareId = hardwareId,
                           d_deviceId = deviceId\<rparr> (devices d) of
                        (n, rows) \<Rightarrow> Some (n, d\<lparr>devices := rows\<rparr>)))
       one_row"

text \<open>The empty string stands for \<open>no such device\<close>, as in the code.\<close>

definition getDeviceId :: "string \<Rightarrow> string \<Rightarrow> (rvpn_db, string) stmt" where
  "getDeviceId who hardwareId =
     and_then
       (query_row (\<lambda>d. map d_deviceId
          (filter (\<lambda>r. d_principal r = who \<and> d_hardwareId r = hardwareId) (devices d))))
       (\<lambda>row. ok (case row of None \<Rightarrow> [] | Some deviceId \<Rightarrow> deviceId))"

definition getTargetByName :: "string \<Rightarrow> (rvpn_db, RVPNTarget option) stmt" where
  "getTargetByName target = query_row (\<lambda>d. filter (\<lambda>r. t_name r = target) (targets d))"

definition getTargetClientIps :: "string \<Rightarrow> (rvpn_db, string set) stmt" where
  "getTargetClientIps target =
     and_then
       (query_rows (\<lambda>d. map clientIp (filter (\<lambda>r. c_target r = target) (connections d))))
       (\<lambda>ips. ok (set ips))"

text \<open>The zero value of \<open>RVPNConnection\<close>, with an empty id, when there is no such row.\<close>

definition no_connection :: RVPNConnection where
  "no_connection = \<lparr>c_id = [], c_target = [], c_deviceId = [], c_pubkey = [], clientIp = [],
                    clientCidr = []\<rparr>"

definition getConnection :: "string \<Rightarrow> string \<Rightarrow> (rvpn_db, RVPNConnection) stmt" where
  "getConnection targetName deviceId =
     and_then
       (query_row (\<lambda>d. filter (\<lambda>r. c_target r = targetName \<and> c_deviceId r = deviceId)
                         (connections d)))
       (\<lambda>row. ok (case row of None \<Rightarrow> no_connection | Some r \<Rightarrow> r))"

definition getConnectionsByTarget :: "string \<Rightarrow> (rvpn_db, RVPNConnection list) stmt" where
  "getConnectionsByTarget targetName =
     query_rows (\<lambda>d. filter (\<lambda>r. c_target r = targetName) (connections d))"

definition db_createConnection :: "RVPNConnection \<Rightarrow> (rvpn_db, bool) stmt" where
  "db_createConnection row =
     and_then
       (exec_sql (\<lambda>d. case insert_unless connection_conflict row (connections d) of
                        (n, rows) \<Rightarrow> Some (n, d\<lparr>connections := rows\<rparr>)))
       one_row"

text \<open>An \<open>UPDATE\<close> that would break the unique key \<open>(target, client_ip)\<close> fails as a whole.\<close>

definition updateConnection :: "RVPNConnection \<Rightarrow> (rvpn_db, bool) stmt" where
  "updateConnection row =
     and_then
       (exec_sql (\<lambda>d.
          let rows = update_where (\<lambda>r. c_id r = c_id row) (\<lambda>_. row) (connections d)
          in if distinct (map (\<lambda>r. (c_target r, clientIp r)) rows)
             then Some (length (filter (\<lambda>r. c_id r = c_id row) (connections d)),
                        d\<lparr>connections := rows\<rparr>)
             else None))
       one_row"

section \<open>Keys\<close>

text \<open>The unique constraints of the schema.\<close>

definition keys_ok :: "rvpn_db \<Rightarrow> bool" where
  "keys_ok d \<longleftrightarrow>
     distinct (map t_name (targets d)) \<and>
     distinct (map c_id (connections d)) \<and>
     distinct (map (\<lambda>r. (c_target r, clientIp r)) (connections d)) \<and>
     distinct (map (\<lambda>r. (d_principal r, d_target r, d_hardwareId r)) (devices d)) \<and>
     distinct (map d_deviceId (devices d))"

text \<open>
  The contract of a unique key: two rows with the same key conflict.  Then an
  \<open>INSERT ... ON CONFLICT DO NOTHING\<close> keeps the key unique and finds the row it has put in.
\<close>

locale unique_key =
  fixes key :: "'r \<Rightarrow> 'k"
    and conflict :: "'r \<Rightarrow> 'r \<Rightarrow> bool"
  assumes same_key: "key q = key r \<Longrightarrow> conflict r q"
begin

lemma no_conflict_key:
  "\<forall>q \<in> set rows. \<not> conflict r q \<Longrightarrow> q \<in> set rows \<Longrightarrow> key q = key r \<Longrightarrow> False"
  using same_key by blast

lemma insert_distinct:
  "insert_unless conflict r rows = (n, rows') \<Longrightarrow> distinct (map key rows) \<Longrightarrow>
     distinct (map key rows')"
  by (auto simp: insert_unless_def list_ex_iff dest: no_conflict_key no_conflict_key [OF _ _ sym]
      split: if_splits)

lemma insert_lookup:
  "insert_unless conflict r rows = (1, rows') \<Longrightarrow>
     filter (\<lambda>q. key q = key r) rows' = [r]"
  by (auto simp: insert_unless_def list_ex_iff filter_empty_conv dest: no_conflict_key
      split: if_splits)

end

interpretation target_key: unique_key t_name target_conflict
  by unfold_locales (simp add: target_conflict_def)

interpretation connection_key: unique_key c_id connection_conflict
  by unfold_locales (simp add: connection_conflict_def)

interpretation connection_ip_key: unique_key "\<lambda>r. (c_target r, clientIp r)" connection_conflict
  by unfold_locales (simp add: connection_conflict_def)

interpretation device_key:
  unique_key "\<lambda>r. (d_principal r, d_target r, d_hardwareId r)" device_conflict
  by unfold_locales (simp add: device_conflict_def)

interpretation device_id_key: unique_key d_deviceId device_conflict
  by unfold_locales (simp add: device_conflict_def)

section \<open>Invariants of statements\<close>

text \<open>A predicate on the tables that does not look at the driver's script.\<close>

definition tables_only :: "(rvpn_db \<Rightarrow> bool) \<Rightarrow> bool" where
  "tables_only P \<longleftrightarrow> (\<forall>d as. P (d\<lparr>answers := as\<rparr>) = P d)"

lemma next_answer_tables:
  "next_answer d = (a, d') \<Longrightarrow> \<exists>as. d' = d\<lparr>answers := as\<rparr>"
  by (cases d) (auto simp: next_answer_def split: list.splits)

lemma tables_onlyD: "tables_only P \<Longrightarrow> P d \<Longrightarrow> next_answer d = (a, d') \<Longrightarrow> P d'"
  using next_answer_tables unfolding tables_only_def by blast

lemma keeps_exec_sql:
  assumes "tables_only P" and "\<And>d n d'. P d \<Longrightarrow> f d = Some (n, d') \<Longrightarrow> P d'"
  shows "keeps P (exec_sql f)"
proof (rule keepsI)
  fix d r d'
  assume "P d" and e: "exec_sql f d = (r, d')"
  obtain a d0 where a: "next_answer d = (a, d0)" by fastforce
  have "P d0" using assms(1) \<open>P d\<close> a by (rule tables_onlyD)
  then show "P d'"
    using e a assms(2) by (cases a) (auto simp: exec_sql_def split: option.splits)
qed

lemma keeps_query_rows: "tables_only P \<Longrightarrow> keeps P (query_rows f)"
  by (rule keepsI) (auto simp: query_rows_def dest: tables_onlyD split: prod.splits db_answer.splits)

lemma keeps_query_row: "tables_only P \<Longrightarrow> keeps P (query_row f)"
  by (rule keepsI)
    (auto simp: query_row_def dest: tables_onlyD split: prod.splits db_answer.splits list.splits)

lemma tables_only_keys_ok [simp]: "tables_only keys_ok"
  by (simp add: tables_only_def keys_ok_def)

lemma keeps_one_row [simp]: "keeps P (one_row n)"
  by (simp add: one_row_def)

text \<open>Queries leave every table as it is.\<close>

lemma keeps_queries [db_inv_intros]:
  assumes "tables_only P"
  shows "keeps P (getTargetsByPrincipal w)" "keeps P (getTargetsByOwner w)"
    "keeps P (getDeviceId w h)" "keeps P (getTargetByName t)" "keeps P (getTargetClientIps t)"
    "keeps P (getConnection t dev)" "keeps P (getConnectionsByTarget t)"
  using assms
  by (auto simp: getTargetsByPrincipal_def getTargetsByOwner_def getDeviceId_def
      getTargetByName_def getTargetClientIps_def getConnection_def getConnectionsByTarget_def
      intro!: keeps_and_then keeps_query_rows keeps_query_row)

text \<open>Every statement that writes keeps the keys.\<close>

lemma keeps_keys_createTarget [db_inv_intros]: "keeps keys_ok (db_createTarget row)"
  unfolding db_createTarget_def
  by (intro keeps_and_then keeps_exec_sql)
    (auto simp: keys_ok_def dest: target_key.insert_distinct split: prod.splits)

lemma keeps_keys_createDevice [db_inv_intros]: "keeps keys_ok (createDevice w t h i)"
  unfolding createDevice_def
  by (intro keeps_and_then keeps_exec_sql)
    (auto simp: keys_ok_def dest: device_key.insert_distinct device_id_key.insert_distinct
      split: prod.splits)

lemma keeps_keys_createConnection [db_inv_intros]: "keeps keys_ok (db_createConnection row)"
  unfolding db_createConnection_def
  by (intro keeps_and_then keeps_exec_sql)
    (auto simp: keys_ok_def
      dest: connection_key.insert_distinct connection_ip_key.insert_distinct split: prod.splits)

lemma keeps_keys_updateTarget [db_inv_intros]: "keeps keys_ok (updateTarget name row)"
  unfolding updateTarget_def
  by (intro keeps_and_then keeps_exec_sql) (auto simp: keys_ok_def)

lemma keeps_keys_updateConnection [db_inv_intros]: "keeps keys_ok (updateConnection row)"
  unfolding updateConnection_def
  by (intro keeps_and_then keeps_exec_sql)
    (auto simp: keys_ok_def Let_def split: if_splits)

section \<open>What statements return\<close>

text \<open>A step that reads: the tables stay, the script only gets shorter.\<close>

definition only_read :: "rvpn_db \<Rightarrow> rvpn_db \<Rightarrow> bool" where
  "only_read d d' \<longleftrightarrow>
     targets d' = targets d \<and> target_acl d' = target_acl d \<and> connections d' = connections d \<and>
     devices d' = devices d \<and> set (answers d') \<subseteq> set (answers d)"

text \<open>A script in which no answer breaks off.\<close>

definition complete_reads :: "rvpn_db \<Rightarrow> bool" where
  "complete_reads d \<longleftrightarrow> (\<forall>n. RowsCut n \<notin> set (answers d))"

lemma only_read_tables:
  assumes "only_read d d'"
  shows "targets d' = targets d" "target_acl d' = target_acl d" "connections d' = connections d"
    "devices d' = devices d" "complete_reads d \<Longrightarrow> complete_reads d'"
  using assms by (auto simp: only_read_def complete_reads_def)

lemma only_read_trans: "only_read d d' \<Longrightarrow> only_read d' d'' \<Longrightarrow> only_read d d''"
  by (auto simp: only_read_def)

lemma next_answer_only_read: "next_answer d = (a, d') \<Longrightarrow> only_read d d'"
  unfolding only_read_def
  by (cases d) (auto simp: next_answer_def split: list.splits)

lemma next_answer_complete:
  "next_answer d = (RowsCut n, d') \<Longrightarrow> \<not> complete_reads d"
  by (cases "answers d") (auto simp: next_answer_def complete_reads_def)

lemma query_rows_Inr:
  assumes "query_rows f d = (Inr rs, d')"
  shows "only_read d d'" "set rs \<subseteq> set (f d')" "complete_reads d \<Longrightarrow> set rs = set (f d')"
  using assms next_answer_only_read next_answer_complete
  by (fastforce simp: query_rows_def dest: in_set_takeD split: prod.splits db_answer.splits)+

lemma query_row_Some:
  "query_row f d = (Inr (Some r), d') \<Longrightarrow> only_read d d' \<and> r \<in> set (f d')"
  unfolding query_row_def
  using next_answer_only_read
  by (auto split: prod.splits db_answer.splits list.splits)
    (metis list.set_intros(1) set_rotate, metis in_set_takeD list.set_intros(1))

lemma query_row_None:
  "query_row f d = (Inr None, d') \<Longrightarrow> only_read d d' \<and> f d' = []"
  unfolding query_row_def
  using next_answer_only_read
  by (auto split: prod.splits db_answer.splits list.splits)

lemma query_row_Inl: "query_row f d = (Inl e, d') \<Longrightarrow> only_read d d' \<and> e = DbError"
  unfolding query_row_def
  using next_answer_only_read
  by (auto split: prod.splits db_answer.splits list.splits)

lemma query_rows_Inl: "query_rows f d = (Inl e, d') \<Longrightarrow> only_read d d' \<and> e = DbError"
  unfolding query_rows_def
  using next_answer_only_read
  by (auto split: prod.splits db_answer.splits list.splits)

lemma and_then_ok: "and_then m (\<lambda>x. ok (f x)) d = (case m d of (r, d') \<Rightarrow> (map_sum id f r, d'))"
  by (auto simp: and_then_def ok_def split: prod.splits sum.splits)

lemma getTargetByName_Inr:
  assumes "getTargetByName t d = (Inr r, d')"
  shows "only_read d d'"
    "r = None \<Longrightarrow> t \<notin> t_name ` set (targets d)"
    "r = Some row \<Longrightarrow> row \<in> set (targets d) \<and> t_name row = t"
proof -
  have "only_read d d' \<and> (r = None \<longrightarrow> t \<notin> t_name ` set (targets d')) \<and>
        (r = Some row \<longrightarrow> row \<in> set (targets d') \<and> t_name row = t)"
    using assms query_row_None query_row_Some unfolding getTargetByName_def
    by (cases r) (fastforce simp: filter_empty_conv)+
  then show "only_read d d'" "r = None \<Longrightarrow> t \<notin> t_name ` set (targets d)"
    "r = Some row \<Longrightarrow> row \<in> set (targets d) \<and> t_name row = t"
    by (auto dest: only_read_tables)
qed

lemma getTargetClientIps_Inr:
  assumes "getTargetClientIps t d = (Inr ips, d')"
  shows "only_read d d'"
    "ips \<subseteq> clientIp ` {c \<in> set (connections d). c_target c = t}"
    "complete_reads d \<Longrightarrow> ips = clientIp ` {c \<in> set (connections d). c_target c = t}"
proof -
  let ?f = "\<lambda>d. map clientIp (filter (\<lambda>r. c_target r = t) (connections d))"
  obtain rs where q: "query_rows ?f d = (Inr rs, d')" and ips: "ips = set rs"
    using assms by (auto simp: getTargetClientIps_def and_then_Inr ok_def)
  show r: "only_read d d'" using q by (rule query_rows_Inr)
  show "ips \<subseteq> clientIp ` {c \<in> set (connections d). c_target c = t}"
    using query_rows_Inr(2) [OF q] ips only_read_tables(3) [OF r] by auto
  show "ips = clientIp ` {c \<in> set (connections d). c_target c = t}" if "complete_reads d"
    using query_rows_Inr(3) [OF q that] ips only_read_tables(3) [OF r] by auto
qed

lemma getConnection_Inr:
  assumes "getConnection t dev d = (Inr c, d')"
  shows "only_read d d' \<and>
    (c = no_connection \<and> (\<forall>q \<in> set (connections d). \<not> (c_target q = t \<and> c_deviceId q = dev)) \<or>
     c \<in> set (connections d) \<and> c_target c = t \<and> c_deviceId c = dev)"
proof -
  let ?f = "\<lambda>d. filter (\<lambda>r. c_target r = t \<and> c_deviceId r = dev) (connections d)"
  obtain row where q: "query_row ?f d = (Inr row, d')"
    and c: "c = (case row of None \<Rightarrow> no_connection | Some r \<Rightarrow> r)"
    using assms by (auto simp: getConnection_def and_then_Inr ok_def)
  show ?thesis
  proof (cases row)
    case None
    then have "only_read d d' \<and> ?f d' = []" using q query_row_None [of ?f d d'] by simp
    moreover from this have "connections d' = connections d" by (simp add: only_read_tables)
    ultimately show ?thesis using c None by (auto simp: filter_empty_conv)
  next
    case (Some r)
    then have "only_read d d' \<and> r \<in> set (?f d')" using q query_row_Some [of ?f d r d'] by simp
    moreover from this have "connections d' = connections d" by (simp add: only_read_tables)
    ultimately show ?thesis using c Some by auto
  qed
qed

text \<open>The outcomes of a statement that writes.\<close>

lemma exec_sql_cases:
  assumes "exec_sql f d = (r, d')"
  shows "\<exists>d0. only_read d d0 \<and>
    ((d' = d0 \<and> r = Inl DbError) \<or> (\<exists>n. f d0 = Some (n, d') \<and> (r = Inr n \<or> r = Inl DbError)))"
proof -
  obtain a d0 where a: "next_answer d = (a, d0)" by fastforce
  have "(d' = d0 \<and> r = Inl DbError) \<or> (\<exists>n. f d0 = Some (n, d') \<and> (r = Inr n \<or> r = Inl DbError))"
    using assms a by (cases a) (auto simp: exec_sql_def split: option.splits)
  then show ?thesis using next_answer_only_read [OF a] by blast
qed

lemma and_then_one_row:
  "and_then m one_row d = (r, d') \<longleftrightarrow> (\<exists>r0. m d = (r0, d') \<and> r = map_sum id (\<lambda>n. n = 1) r0)"
  by (auto simp: and_then_def one_row_def ok_def split: prod.splits sum.splits)

lemma insert_outcome:
  assumes "and_then (exec_sql (\<lambda>d. case insert_unless conflict row (get d) of
      (n, rows) \<Rightarrow> Some (n, put rows d))) one_row d = (r, d')"
  shows "\<exists>d0. only_read d d0 \<and>
    (d' = d0 \<and> r = Inl DbError \<or>
     d' = put (get d0) d0 \<and> r \<noteq> Inr True \<and> (\<exists>q \<in> set (get d0). conflict row q) \<or>
     d' = put (get d0 @ [row]) d0 \<and> r \<noteq> Inr False \<and> (\<forall>q \<in> set (get d0). \<not> conflict row q))"
proof -
  obtain r0 d0 where d0: "only_read d d0" and r: "r = map_sum id (\<lambda>n. n = 1) r0" and
    "(d' = d0 \<and> r0 = Inl DbError) \<or>
      (\<exists>n. (case insert_unless conflict row (get d0) of (n, rows) \<Rightarrow> Some (n, put rows d0)) = Some (n, d') \<and>
           (r0 = Inr n \<or> r0 = Inl DbError))"
    using assms unfolding and_then_one_row by (blast dest: exec_sql_cases)
  then show ?thesis
    by (intro exI [of _ d0])
      (auto simp: insert_unless_def list_ex_iff split: prod.splits if_splits)
qed

lemma db_createTarget_outcome:
  assumes "db_createTarget row d = (r, d')"
  shows "target_acl d' = target_acl d \<and> connections d' = connections d \<and> devices d' = devices d \<and>
    set (answers d') \<subseteq> set (answers d) \<and>
    (targets d' = targets d \<and> r \<noteq> Inr True \<or>
     targets d' = targets d @ [row] \<and> r \<noteq> Inr False \<and> t_name row \<notin> t_name ` set (targets d))"
  using insert_outcome [where get = targets and put = "\<lambda>rows d. d\<lparr>targets := rows\<rparr>",
      OF assms [unfolded db_createTarget_def]]
  by (auto simp: only_read_def target_conflict_def)

lemma createDevice_outcome:
  assumes "createDevice w t h i d = (r, d')"
  shows "targets d' = targets d \<and> target_acl d' = target_acl d \<and> connections d' = connections d \<and>
    set (answers d') \<subseteq> set (answers d) \<and>
    (devices d' = devices d \<and> (r = Inr False \<longrightarrow> (\<exists>q \<in> set (devices d). device_conflict
        \<lparr>d_principal = w, d_target = t, d_hardwareId = h, d_deviceId = i\<rparr> q)) \<and> r \<noteq> Inr True \<or>
     devices d' = devices d @ [\<lparr>d_principal = w, d_target = t, d_hardwareId = h, d_deviceId = i\<rparr>]
       \<and> r \<noteq> Inr False)"
  using insert_outcome [where get = devices and put = "\<lambda>rows d. d\<lparr>devices := rows\<rparr>",
      OF assms [unfolded createDevice_def]]
  by (auto simp: only_read_def)

lemma db_createConnection_outcome:
  assumes "db_createConnection row d = (r, d')"
  shows "targets d' = targets d \<and> target_acl d' = target_acl d \<and> devices d' = devices d \<and>
    set (answers d') \<subseteq> set (answers d) \<and>
    (connections d' = connections d \<and> r \<noteq> Inr True \<or>
     connections d' = connections d @ [row] \<and> r \<noteq> Inr False \<and>
       (\<forall>q \<in> set (connections d). \<not> connection_conflict row q))"
  using insert_outcome [where get = connections and put = "\<lambda>rows d. d\<lparr>connections := rows\<rparr>",
      OF assms [unfolded db_createConnection_def]]
  by (auto simp: only_read_def)

lemma getDeviceId_Inr:
  assumes "getDeviceId w h d = (Inr i, d')"
  shows "only_read d d' \<and>
    ((\<exists>q \<in> set (devices d). d_principal q = w \<and> d_hardwareId q = h \<and> d_deviceId q = i) \<or>
     i = [] \<and> (\<forall>q \<in> set (devices d). \<not> (d_principal q = w \<and> d_hardwareId q = h)))"
proof -
  let ?f = "\<lambda>d. map d_deviceId (filter (\<lambda>r. d_principal r = w \<and> d_hardwareId r = h) (devices d))"
  obtain row where q: "query_row ?f d = (Inr row, d')"
    and c: "i = (case row of None \<Rightarrow> [] | Some r \<Rightarrow> r)"
    using assms by (auto simp: getDeviceId_def and_then_Inr ok_def)
  show ?thesis
  proof (cases row)
    case None
    then have "only_read d d' \<and> ?f d' = []" using q query_row_None [of ?f d d'] by simp
    moreover from this have "devices d' = devices d" by (simp add: only_read_tables)
    ultimately show ?thesis using c None by (auto simp: filter_empty_conv)
  next
    case (Some r)
    then have "only_read d d' \<and> r \<in> set (?f d')" using q query_row_Some [of ?f d r d'] by simp
    moreover from this have "devices d' = devices d" by (simp add: only_read_tables)
    ultimately show ?thesis using c Some by auto
  qed
qed

end
