(* ===== verification/Http_Api.thy ===== *)
theory Http_Api
  imports Auth Database
begin

text \<open>
  The HTTP side of the control plane: \<open>target.go\<close>, \<open>device.go\<close>, \<open>util.go\<close> and the routes of
  \<open>main.go\<close>.  A handler gets the local \<open>user\<close> the middleware left, its parameters and the database;
  it answers with a status and a body, or panics.  The random id of a new device is an argument.
\<close>

section \<open>Responses and requests\<close>

datatype body =
    ErrorBody string
  | TextBody string
  | TargetsBody "string list"
  | DeviceBody string string

text \<open>\<open>HandlerError\<close> is an \<open>error\<close> a handler returns to the framework.\<close>

datatype response = Response nat body | HandlerError

definition ErrorResponse :: "string \<Rightarrow> body" where
  "ErrorResponse message = ErrorBody message"

definition went_wrong :: response where
  "went_wrong = Response 500 (ErrorResponse ''something went wrong'')"

definition unauthorized :: response where
  "unauthorized = Response 401 (ErrorResponse ''unauthorized'')"

section \<open>Targets\<close>

definition new_target :: "string \<Rightarrow> string \<Rightarrow> RVPNTarget" where
  "new_target target authUser =
     \<lparr>t_name = target, t_owner = authUser, networkIp = ''10.8.0.1'', networkCidr = ''/23'',
      dnsIp = ''1.1.1.1'', serverPubkey = [], serverPublicIp = [], serverPublicVpnPort = [],
      serverInternalIp = ''10.8.0.1'', serverInternalCidr = ''/23'', serverHeartbeat = []\<rparr>"

definition createTarget :: "string option \<Rightarrow> string \<Rightarrow> rvpn_db \<Rightarrow> response \<times> rvpn_db" where
  "createTarget user target d =
     (case user of
        None \<Rightarrow> (unauthorized, d)
      | Some authUser \<Rightarrow>
          if target = [] then (Response 400 (ErrorResponse ''target must not be empty''), d)
          else (case db_createTarget (new_target target authUser) d of
                  (Inl err, d) \<Rightarrow> (went_wrong, d)
                | (Inr createdTarget, d) \<Rightarrow>
                    if createdTarget then (Response 200 (TextBody ''successfully created target''), d)
                    else (Response 400 (ErrorResponse ''target already exists''), d)))"

definition GetAuthTargetsByPrincipal :: "string \<Rightarrow> (rvpn_db, string list) stmt" where
  "GetAuthTargetsByPrincipal who =
     and_then (getTargetsByPrincipal who) (\<lambda>allowedTargets.
     and_then (getTargetsByOwner who) (\<lambda>ownedTargets.
       ok (allowedTargets @ ownedTargets)))"

definition getTargets :: "string option \<Rightarrow> rvpn_db \<Rightarrow> response \<times> rvpn_db" where
  "getTargets user d =
     (case user of
        None \<Rightarrow> (unauthorized, d)
      | Some authUser \<Rightarrow>
          (case GetAuthTargetsByPrincipal authUser d of
             (Inl err, d) \<Rightarrow> (went_wrong, d)
           | (Inr authorizedTargets, d) \<Rightarrow> (Response 200 (TargetsBody authorizedTargets), d)))"

section \<open>Devices\<close>

text \<open>
  The parsed body of a registration: an error of \<open>BodyParser\<close>, or the pointer \<open>HardwareId\<close>, which
  is nil when the field is absent.
\<close>

type_synonym register_body = "string option result"

definition registerDevice ::
  "jwt_lib \<Rightarrow> string \<Rightarrow> string \<Rightarrow> string option \<Rightarrow> string \<Rightarrow> register_body \<Rightarrow> rvpn_db
   \<Rightarrow> response exec \<times> rvpn_db" where
  "registerDevice J jwtSecret newUUID user target reqBody d =
     (case user of
        None \<Rightarrow> (Return unauthorized, d)
      | Some authUser \<Rightarrow>
          if target = [] then (Return (Response 400 (ErrorResponse ''target must not be empty'')), d)
          else case GetAuthTargetsByPrincipal authUser d of
            (Inl err, d) \<Rightarrow> (Return went_wrong, d)
          | (Inr authorizedTargets, d) \<Rightarrow>
              let userAuthorized = list_ex (\<lambda>t. target = t) authorizedTargets
              in if \<not> userAuthorized
                 then (Return (Response 401 (ErrorResponse ''user is not authorized for this target'')), d)
                 else case reqBody of
                   Inl err \<Rightarrow> (Return HandlerError, d)
                 | Inr None \<Rightarrow> (Panic, d)
                 | Inr (Some hardwareId) \<Rightarrow>
                     (case createDevice authUser target hardwareId newUUID d of
                        (Inl err, d) \<Rightarrow> (Return went_wrong, d)
                      | (Inr createdDevice, d) \<Rightarrow>
                          (case (if createdDevice then ok newUUID else getDeviceId authUser hardwareId) d of
                             (Inl err, d) \<Rightarrow> (Return went_wrong, d)
                           | (Inr deviceId, d) \<Rightarrow>
                               (case SignDeviceToken J jwtSecret deviceId of
                                  Inl err \<Rightarrow> (Return went_wrong, d)
                                | Inr signedDeviceToken \<Rightarrow>
                                    (Return (Response 200 (DeviceBody deviceId signedDeviceToken)), d)))))"

section \<open>Routes\<close>

text \<open>The routes behind \<open>AuthUserMiddleware\<close>, each with the \<open>Authorization\<close> header of the request.\<close>

datatype api_request =
    ListTargets
  | PutTarget string
  | PostRegisterDevice string register_body string

definition serve_api ::
  "jwt_lib \<Rightarrow> string \<Rightarrow> string option \<Rightarrow> api_request \<Rightarrow> rvpn_db \<Rightarrow> response exec \<times> rvpn_db" where
  "serve_api J jwtSecret authHeader req d =
     (case AuthUserMiddleware J jwtSecret authHeader of
        Panic \<Rightarrow> (Panic, d)
      | Fatal \<Rightarrow> (Fatal, d)
      | Return user \<Rightarrow>
          (case req of
             ListTargets \<Rightarrow> (case getTargets user d of (r, d) \<Rightarrow> (Return r, d))
           | PutTarget target \<Rightarrow> (case createTarget user target d of (r, d) \<Rightarrow> (Return r, d))
           | PostRegisterDevice target reqBody newUUID \<Rightarrow>
               registerDevice J jwtSecret newUUID user target reqBody d))"

text \<open>\<open>upgradeWsMiddlware\<close>: only WebSocket upgrades reach the two device handlers.\<close>

definition upgradeWsMiddlware :: "bool \<Rightarrow> 'a \<Rightarrow> 'a option" where
  "upgradeWsMiddlware isUpgrade next = (if isUpgrade then Some next else None)"

section \<open>Authorization\<close>

text \<open>Who may use a target: its owner and the principals of its access list.\<close>

definition may_use :: "rvpn_db \<Rightarrow> string \<Rightarrow> string \<Rightarrow> bool" where
  "may_use d who target \<longleftrightarrow>
     (\<exists>r \<in> set (target_acl d). acl_principal r = who \<and> acl_target r = target) \<or>
     (\<exists>r \<in> set (targets d). t_owner r = who \<and> t_name r = target)"

lemma may_use_only_read: "only_read d d' \<Longrightarrow> may_use d' = may_use d"
  by (simp add: may_use_def fun_eq_iff only_read_tables)

lemma GetAuthTargets_Inr:
  assumes "GetAuthTargetsByPrincipal who d = (Inr ts, d')"
  shows "only_read d d'" "t \<in> set ts \<Longrightarrow> may_use d who t"
    "complete_reads d \<Longrightarrow> may_use d who t \<Longrightarrow> t \<in> set ts"
proof -
  obtain as d1 os where a: "getTargetsByPrincipal who d = (Inr as, d1)"
    and o: "getTargetsByOwner who d1 = (Inr os, d')" and ts: "ts = as @ os"
    using assms by (auto simp: GetAuthTargetsByPrincipal_def and_then_Inr ok_def)
  note qa = query_rows_Inr [OF a [unfolded getTargetsByPrincipal_def]]
    and qo = query_rows_Inr [OF o [unfolded getTargetsByOwner_def]]
  note tabs = only_read_tables [OF qa(1)] only_read_tables [OF qo(1)]
  show "only_read d d'" using qa(1) qo(1) by (rule only_read_trans)
  show "may_use d who t" if "t \<in> set ts"
    using that qa(2) qo(2) tabs by (auto simp: ts may_use_def)
  show "t \<in> set ts" if "complete_reads d" "may_use d who t"
    using that qa(3) qo(3) tabs by (auto simp: ts may_use_def)
qed

lemma GetAuthTargets_Inl:
  "GetAuthTargetsByPrincipal who d = (Inl e, d') \<Longrightarrow> only_read d d'"
  unfolding GetAuthTargetsByPrincipal_def getTargetsByPrincipal_def getTargetsByOwner_def
  by (auto simp: and_then_Inl ok_def dest!: query_rows_Inl query_rows_Inr(1) dest: only_read_trans)

text \<open>
  The list \<open>GET /target\<close> answers with holds only targets the caller owns or is granted by an
  access rule, and holds all of them when the rows are read to the end; the request changes nothing.
\<close>

theorem getTargets_exact:
  assumes "getTargets (Some who) d = (Response 200 (TargetsBody ts), d')"
  shows "only_read d d' \<and> set ts \<subseteq> {t. may_use d who t} \<and>
    (complete_reads d \<longrightarrow> set ts = {t. may_use d who t})"
proof -
  have "GetAuthTargetsByPrincipal who d = (Inr ts, d')"
    using assms by (auto simp: getTargets_def went_wrong_def split: prod.splits sum.splits)
  from GetAuthTargets_Inr [OF this] show ?thesis by blast
qed

text \<open>
  Creating a target never takes over or alters an existing one: every earlier row stays as it
  is, at most one row is added, that row belongs to the authenticated caller and has a name that was
  free, and the answer 200 means the row was added.
\<close>

theorem createTarget_no_takeover:
  assumes "createTarget user target d = (resp, d')"
  shows "(targets d' = targets d \<and> (\<forall>b. resp \<noteq> Response 200 b) \<or>
      (\<exists>who. user = Some who \<and> target \<noteq> [] \<and> target \<notin> t_name ` set (targets d) \<and>
             targets d' = targets d @ [new_target target who])) \<and>
    connections d' = connections d \<and> devices d' = devices d \<and> target_acl d' = target_acl d"
proof (cases user)
  case None
  then show ?thesis using assms by (auto simp: createTarget_def unauthorized_def)
next
  case (Some who)
  show ?thesis
  proof (cases "target = []")
    case True
    then show ?thesis using assms Some by (auto simp: createTarget_def)
  next
    case False
    obtain r d1 where c: "db_createTarget (new_target target who) d = (r, d1)" by fastforce
    have "d' = d1" "r \<noteq> Inr True \<longrightarrow> (\<forall>b. resp \<noteq> Response 200 b)"
      using assms Some False c
      by (auto simp: createTarget_def went_wrong_def split: sum.splits if_splits)
    moreover have "t_name (new_target target who) = target" by (simp add: new_target_def)
    ultimately show ?thesis using db_createTarget_outcome [OF c] Some False by auto
  qed
qed

lemma registerDevice_200:
  assumes "registerDevice J key uuid user target reqBody d =
      (Return (Response 200 (DeviceBody i token)), d')"
  shows "\<exists>who h ts d1 b d2. user = Some who \<and> reqBody = Inr (Some h) \<and>
    GetAuthTargetsByPrincipal who d = (Inr ts, d1) \<and> target \<in> set ts \<and>
    createDevice who target h uuid d1 = (Inr b, d2) \<and>
    (if b then ok uuid else getDeviceId who h) d2 = (Inr i, d') \<and>
    SignDeviceToken J key i = Inr token"
proof -
  obtain who where who: "user = Some who"
    using assms by (auto simp: registerDevice_def unauthorized_def split: option.splits)
  have t: "target \<noteq> []" using assms by (auto simp: registerDevice_def who)
  obtain r d1 where g: "GetAuthTargetsByPrincipal who d = (r, d1)" by fastforce
  obtain ts where r: "r = Inr ts" using assms t
    by (cases r) (auto simp: registerDevice_def who g went_wrong_def)
  have m: "target \<in> set ts" using assms t
    by (auto simp: registerDevice_def who g r list_ex_iff Let_def split: if_splits)
  then have l: "list_ex (\<lambda>t. target = t) ts" by (auto simp: list_ex_iff)
  obtain h where h: "reqBody = Inr (Some h)" using assms t
    by (auto simp: registerDevice_def who g r l Let_def split: sum.splits option.splits)
  obtain r2 d2 where c: "createDevice who target h uuid d1 = (r2, d2)" by fastforce
  obtain b where b: "r2 = Inr b" using assms t
    by (cases r2) (auto simp: registerDevice_def who g r l h c went_wrong_def)
  obtain r3 d3 where i: "(if b then ok uuid else getDeviceId who h) d2 = (r3, d3)" by fastforce
  have "r3 = Inr i \<and> d3 = d' \<and> SignDeviceToken J key i = Inr token" using assms t
    by (cases r3) (auto simp: registerDevice_def who g r l h c b i went_wrong_def split: sum.splits)
  then show ?thesis using who h g r m c b i by blast
qed

lemma registered_device:
  assumes "registerDevice J key uuid (Some who) target (Inr (Some h)) d =
      (Return (Response 200 (DeviceBody i token)), d')"
    and "uuid \<notin> d_deviceId ` set (devices d)"
  shows "may_use d who target \<and> SignDeviceToken J key i = Inr token \<and>
    (\<exists>q \<in> set (devices d'). d_principal q = who \<and> d_hardwareId q = h \<and> d_deviceId q = i) \<and>
    (\<exists>new. devices d' = devices d @ new)"
proof -
  obtain ts d1 b d2 where g: "GetAuthTargetsByPrincipal who d = (Inr ts, d1)" "target \<in> set ts"
    and c: "createDevice who target h uuid d1 = (Inr b, d2)"
    and i: "(if b then ok uuid else getDeviceId who h) d2 = (Inr i, d')"
    and s: "SignDeviceToken J key i = Inr token"
    using registerDevice_200 [OF assms(1)] by auto
  have dev1: "devices d1 = devices d"
    using GetAuthTargets_Inr(1) [OF g(1)] by (simp add: only_read_tables)
  note out = createDevice_outcome [OF c]
  have "(\<exists>q \<in> set (devices d'). d_principal q = who \<and> d_hardwareId q = h \<and> d_deviceId q = i) \<and>
    (\<exists>new. devices d' = devices d @ new)"
  proof (cases b)
    case True
    then have "devices d' = devices d @
        [\<lparr>d_principal = who, d_target = target, d_hardwareId = h, d_deviceId = uuid\<rparr>]" "i = uuid"
      using out i dev1 by (auto simp: ok_def)
    then show ?thesis by auto
  next
    case False
    then have get: "getDeviceId who h d2 = (Inr i, d')" and dev2: "devices d2 = devices d"
      using out i dev1 by auto
    obtain q where "q \<in> set (devices d)" "d_principal q = who" "d_hardwareId q = h"
      using False out dev1 assms(2) by (auto simp: device_conflict_def)
    then show ?thesis
      using getDeviceId_Inr [OF get] dev2 only_read_tables(4) [of d2 d'] by auto
  qed
  then show ?thesis using GetAuthTargets_Inr(2) [OF g(1)] g(2) s by blast
qed

text \<open>
  A device is registered only for a caller who may use the target, and then the caller gets a
  token for an id that is on record for the caller's own hardware id (never someone else's device).
  The fresh id must be new, and no device is ever removed.
\<close>

theorem registerDevice_own_device:
  assumes "registerDevice J key uuid (Some who) target (Inr (Some h)) d =
      (Return (Response 200 (DeviceBody i token)), d')"
    and "uuid \<notin> d_deviceId ` set (devices d)"
  shows "may_use d who target \<and> SignDeviceToken J key i = Inr token \<and>
    (\<exists>q \<in> set (devices d'). d_principal q = who \<and> d_hardwareId q = h \<and> d_deviceId q = i) \<and>
    (\<exists>new. devices d' = devices d @ new)"
  using registered_device [OF assms] .

text \<open>The run of the witnesses: alice owns target a and registers the machine hw.\<close>

definition alice_db :: rvpn_db where
  "alice_db = \<lparr>targets = [new_target ''a'' ''alice'', new_target ''b'' ''alice''], target_acl = [],
     connections = [], devices = [], answers = []\<rparr>"

theorem registerDevice_own_device_witness:
  "case registerDevice colon_jwt ''k'' ''u1'' (Some ''alice'') ''a'' (Inr (Some ''hw'')) alice_db of
     (r, d') \<Rightarrow> r = Return (Response 200 (DeviceBody ''u1'' ''device:k:u1'')) \<and>
       may_use alice_db ''alice'' ''a'' \<and>
       (\<exists>q \<in> set (devices d'). d_principal q = ''alice'' \<and> d_hardwareId q = ''hw'' \<and> d_deviceId q = ''u1'')"
proof -
  have "fst (registerDevice colon_jwt ''k'' ''u1'' (Some ''alice'') ''a'' (Inr (Some ''hw'')) alice_db)
      = Return (Response 200 (DeviceBody ''u1'' ''device:k:u1''))"
    by code_simp
  then obtain d' where r: "registerDevice colon_jwt ''k'' ''u1'' (Some ''alice'') ''a''
      (Inr (Some ''hw'')) alice_db = (Return (Response 200 (DeviceBody ''u1'' ''device:k:u1'')), d')"
    by (metis prod.collapse)
  have "''u1'' \<notin> d_deviceId ` set (devices alice_db)" by (simp add: alice_db_def)
  from registerDevice_own_device [OF r this] show ?thesis using r by auto
qed

theorem getTargets_exact_witness:
  "getTargets (Some ''alice'') alice_db = (Response 200 (TargetsBody [''a'', ''b'']), alice_db) \<and>
   set [''a'', ''b''] = {t. may_use alice_db ''alice'' t}"
proof -
  have r: "getTargets (Some ''alice'') alice_db = (Response 200 (TargetsBody [''a'', ''b'']), alice_db)"
    by code_simp
  have "complete_reads alice_db" by (simp add: complete_reads_def alice_db_def)
  then have "set [''a'', ''b''] = {t. may_use alice_db ''alice'' t}"
    using getTargets_exact [OF r] by blast
  with r show ?thesis by blast
qed

theorem createTarget_no_takeover_witness:
  "createTarget (Some ''bob'') ''a'' alice_db =
     (Response 400 (ErrorBody ''target already exists''), alice_db) \<and>
   (\<exists>d'. createTarget (Some ''bob'') ''c'' alice_db =
       (Response 200 (TextBody ''successfully created target''), d') \<and>
     targets d' = targets alice_db @ [new_target ''c'' ''bob''])"
proof -
  have taken: "createTarget (Some ''bob'') ''a'' alice_db =
      (Response 400 (ErrorBody ''target already exists''), alice_db)" by code_simp
  have "fst (createTarget (Some ''bob'') ''c'' alice_db) =
      Response 200 (TextBody ''successfully created target'')" by code_simp
  then obtain d' where r: "createTarget (Some ''bob'') ''c'' alice_db =
      (Response 200 (TextBody ''successfully created target''), d')" by (metis prod.collapse)
  show ?thesis using taken createTarget_no_takeover [OF r] r by auto
qed

text \<open>
  A device that is already registered for a target does not get its id for that target back: the
  lookup ignores the target, so for every id the caller's hardware holds on any target there is an
  order of the rows under which the registration answers with that id.
\<close>

theorem registerDevice_ignores_target:
  assumes "may_use d who target" and "target \<noteq> []"
    and "\<exists>p \<in> set (devices d). d_principal p = who \<and> d_target p = target \<and> d_hardwareId p = h"
    and "q \<in> set (devices d)" and "d_principal q = who" and "d_hardwareId q = h"
    and "SignDeviceToken J key (d_deviceId q) = Inr token"
  shows "\<exists>as. fst (registerDevice J key uuid (Some who) target (Inr (Some h)) (d\<lparr>answers := as\<rparr>)) =
    Return (Response 200 (DeviceBody (d_deviceId q) token))"
proof -
  let ?rows = "map d_deviceId (filter (\<lambda>r. d_principal r = who \<and> d_hardwareId r = h) (devices d))"
  have "d_deviceId q \<in> set ?rows" using assms(4-6) by auto
  then obtain k where k: "k < length ?rows" "?rows ! k = d_deviceId q"
    unfolding in_set_conv_nth by blast
  have "?rows \<noteq> []" using k by auto
  then have "hd (rotate k ?rows) = d_deviceId q" "rotate k ?rows \<noteq> []"
    using k by (simp_all add: hd_rotate_conv_nth)
  then obtain xs where row: "rotate k ?rows = d_deviceId q # xs" by (metis list.collapse)
  let ?d = "\<lambda>as. d\<lparr>answers := as\<rparr>"
  let ?acl = "map acl_target (filter (\<lambda>r. acl_principal r = who) (target_acl d))"
  let ?own = "map t_name (filter (\<lambda>r. t_owner r = who) (targets d))"
  have g: "GetAuthTargetsByPrincipal who (?d [Answer 0, Answer 0, Answer 0, Answer k]) =
      (Inr (?acl @ ?own), ?d [Answer 0, Answer k])"
    by (simp add: GetAuthTargetsByPrincipal_def getTargetsByPrincipal_def getTargetsByOwner_def
        query_rows_def next_answer_def and_then_def ok_def)
  have a: "list_ex (\<lambda>t. target = t) (?acl @ ?own)"
    using assms(1) by (fastforce simp: may_use_def list_ex_iff)
  have "list_ex (device_conflict \<lparr>d_principal = who, d_target = target, d_hardwareId = h,
      d_deviceId = uuid\<rparr>) (devices d)"
    using assms(3) by (auto simp: list_ex_iff device_conflict_def)
  then have c: "createDevice who target h uuid (?d [Answer 0, Answer k]) = (Inr False, ?d [Answer k])"
    by (simp add: createDevice_def exec_sql_def next_answer_def and_then_def one_row_def ok_def
        insert_unless_def)
  have i: "getDeviceId who h (?d [Answer k]) = (Inr (d_deviceId q), ?d [])"
    by (simp add: getDeviceId_def query_row_def next_answer_def and_then_def ok_def row)
  have "fst (registerDevice J key uuid (Some who) target (Inr (Some h))
      (?d [Answer 0, Answer 0, Answer 0, Answer k])) =
      Return (Response 200 (DeviceBody (d_deviceId q) token))"
    using assms(2,7) by (simp add: registerDevice_def g a c i del: list_ex_append)
  then show ?thesis by blast
qed

text \<open>Alice's machine is registered on both targets.\<close>

definition two_devices :: rvpn_db where
  "two_devices = alice_db\<lparr>devices :=
     [\<lparr>d_principal = ''alice'', d_target = ''a'', d_hardwareId = ''hw'', d_deviceId = ''u1''\<rparr>,
      \<lparr>d_principal = ''alice'', d_target = ''b'', d_hardwareId = ''hw'', d_deviceId = ''u2''\<rparr>]\<rparr>"

theorem registerDevice_ignores_target_witness:
  "\<exists>as. fst (registerDevice colon_jwt ''k'' ''u3'' (Some ''alice'') ''b'' (Inr (Some ''hw''))
       (two_devices\<lparr>answers := as\<rparr>)) = Return (Response 200 (DeviceBody ''u1'' ''device:k:u1''))"
proof -
  let ?q = "\<lparr>d_principal = ''alice'', d_target = ''a'', d_hardwareId = ''hw'', d_deviceId = ''u1''\<rparr>"
  have m: "may_use two_devices ''alice'' ''b''"
    by (simp add: may_use_def two_devices_def alice_db_def new_target_def)
  have p: "\<exists>p \<in> set (devices two_devices). d_principal p = ''alice'' \<and> d_target p = ''b'' \<and>
      d_hardwareId p = ''hw''"
    and q: "?q \<in> set (devices two_devices)" by (simp_all add: two_devices_def)
  have s: "SignDeviceToken colon_jwt ''k'' (d_deviceId ?q) = Inr ''device:k:u1''" by code_simp
  show ?thesis using registerDevice_ignores_target [OF m _ p q _ _ s] by simp
qed

end
