(* ===== verification/Conn_Man.thy ===== *)
theory Conn_Man
  imports Rvpn_Prelude
begin

text \<open>
  The connection manager of the control plane (\<open>cmd/control-plane/connman.go\<close>): which jrpc
  connection serves a target and which connections are its clients.  A \<open>*jsonrpc2.Conn\<close> is a
  number; \<open>nil\<close> is \<open>None\<close>.  Nothing ever removes an entry, which the registry contract below turns
  into the facts the handlers rest on.
\<close>

type_synonym conn = nat

record ConnectionManager =
  vpnServerConnections :: "string \<rightharpoonup> conn"
  vpnClientConnections :: "string \<rightharpoonup> conn list"

definition NewConnectionManager :: ConnectionManager where
  "NewConnectionManager = \<lparr>vpnServerConnections = Map.empty, vpnClientConnections = Map.empty\<rparr>"

definition setVPNServerConn ::
  "string \<Rightarrow> conn \<Rightarrow> ConnectionManager \<Rightarrow> bool \<times> ConnectionManager" where
  "setVPNServerConn targetName conn c =
     (let exists = vpnServerConnections c targetName \<noteq> None
      in (exists, c\<lparr>vpnServerConnections := (vpnServerConnections c)(targetName \<mapsto> conn)\<rparr>))"

definition setVPNClientConn ::
  "string \<Rightarrow> conn \<Rightarrow> ConnectionManager \<Rightarrow> ConnectionManager" where
  "setVPNClientConn targetName conn c =
     (case vpnClientConnections c targetName of
        Some conns \<Rightarrow>
          c\<lparr>vpnClientConnections := (vpnClientConnections c)(targetName \<mapsto> conns @ [conn])\<rparr>
      | None \<Rightarrow> c\<lparr>vpnClientConnections := (vpnClientConnections c)(targetName \<mapsto> [conn])\<rparr>)"

definition getVPNServerConn :: "string \<Rightarrow> ConnectionManager \<Rightarrow> conn option" where
  "getVPNServerConn targetName c =
     (case vpnServerConnections c targetName of Some retConn \<Rightarrow> Some retConn | None \<Rightarrow> None)"

definition getVPNClientConn :: "string \<Rightarrow> ConnectionManager \<Rightarrow> conn list" where
  "getVPNClientConn targetName c =
     (case vpnClientConnections c targetName of Some retConns \<Rightarrow> retConns | None \<Rightarrow> [])"

section \<open>The registry contract\<close>

text \<open>
  What a user of a registry relies on: storing changes the entry of its key only.  The latest
  entry wins, and an entry is never lost.
\<close>

locale registry =
  fixes put :: "string \<Rightarrow> conn \<Rightarrow> 'm \<Rightarrow> 'm"
    and get :: "string \<Rightarrow> 'm \<Rightarrow> conn option"
  assumes get_put: "get t' (put t c m) = (if t' = t then Some c else get t' m)"
begin

lemma get_put_same [simp]: "get t (put t c m) = Some c"
  by (simp add: get_put)

lemma present_put: "get t' m \<noteq> None \<Longrightarrow> get t' (put t c m) \<noteq> None"
  by (simp add: get_put)

lemma get_puts:
  "get t (fold (\<lambda>(t, c). put t c) ps m) =
     (case find (\<lambda>(t', c). t' = t) (rev ps) of Some (t', c) \<Rightarrow> Some c | None \<Rightarrow> get t m)"
proof (induction ps rule: rev_induct)
  case (snoc p ps)
  then show ?case by (cases p) (auto simp: get_put)
qed simp

end

interpretation servers: registry "\<lambda>t c m. snd (setVPNServerConn t c m)" getVPNServerConn
  by unfold_locales (simp add: setVPNServerConn_def getVPNServerConn_def Let_def split: option.splits)

lemma setVPNServerConn_exists:
  "fst (setVPNServerConn t c m) \<longleftrightarrow> getVPNServerConn t m \<noteq> None"
  by (auto simp: setVPNServerConn_def getVPNServerConn_def Let_def split: option.splits)

lemma getVPNServerConn_setClient [frame, simp]:
  "getVPNServerConn t (setVPNClientConn t' c m) = getVPNServerConn t m"
  by (simp add: setVPNClientConn_def getVPNServerConn_def split: option.splits)

lemma getVPNClientConn_setClient:
  "getVPNClientConn t (setVPNClientConn t' c m) =
     (if t = t' then getVPNClientConn t m @ [c] else getVPNClientConn t m)"
  by (simp add: setVPNClientConn_def getVPNClientConn_def split: option.splits)

lemma getVPNClientConn_setServer [frame, simp]:
  "getVPNClientConn t (snd (setVPNServerConn t' c m)) = getVPNClientConn t m"
  by (simp add: setVPNServerConn_def getVPNClientConn_def Let_def)

lemma New_server [simp]: "getVPNServerConn t NewConnectionManager = None"
  by (simp add: NewConnectionManager_def getVPNServerConn_def)

lemma New_clients [simp]: "getVPNClientConn t NewConnectionManager = []"
  by (simp add: NewConnectionManager_def getVPNClientConn_def)

text \<open>
  The clients the connection manager returns for a target are exactly the connections
  registered for it, in the order of registration, whatever else is registered in between.
\<close>

theorem getVPNClientConn_history:
  "getVPNClientConn t (fold (\<lambda>(t', c). setVPNClientConn t' c) ps NewConnectionManager) =
     map snd (filter (\<lambda>(t', c). t' = t) ps)"
proof (induction ps rule: rev_induct)
  case (snoc p ps)
  then show ?case by (cases p) (auto simp: getVPNClientConn_setClient)
qed simp

text \<open>
  The server connection of a target is the one registered last for it; registrations of other
  targets and of clients do not touch it, and no operation ever removes it.
\<close>

theorem getVPNServerConn_last:
  "getVPNServerConn t (fold (\<lambda>(t', c) m. snd (setVPNServerConn t' c m)) ps m) =
     (case find (\<lambda>(t', c). t' = t) (rev ps) of Some (t', c) \<Rightarrow> Some c
      | None \<Rightarrow> getVPNServerConn t m)"
  using servers.get_puts [of t ps m] by (simp add: case_prod_unfold)

end
