(* ===== verification/Netip.thy ===== *)
theory Netip
  imports Rvpn_Prelude
begin

unbundle bit_operations_syntax

text \<open>
  The part of Go's \<open>net/netip\<close> the program computes with, for IPv4: the text of an address and
  its parser, prefixes, \<open>Prefix.Contains\<close>, \<open>Prefix.Masked\<close> and \<open>Addr.Next\<close>.  An address is a
  32-bit word; the zero \<open>netip.Addr\<close>, which \<open>Next\<close> returns past the last address, is \<open>None\<close>.
  IPv6 text is not modelled: the parser rejects it.  The lemmas give the round trip of the text
  form and the reading of a prefix as an interval of 2^(32-bits) consecutive addresses.
\<close>

type_synonym ip4 = "32 word"
type_synonym addr = "ip4 option"

section \<open>Octets and addresses as text\<close>

definition octet :: "nat \<Rightarrow> ip4 \<Rightarrow> nat" where
  "octet i a = unat (take_bit 8 (drop_bit (8 * i) a))"

definition of_octets :: "nat \<Rightarrow> nat \<Rightarrow> nat \<Rightarrow> nat \<Rightarrow> ip4" where
  "of_octets a b c d = word_of_nat (((a * 256 + b) * 256 + c) * 256 + d)"

definition ip4_text :: "ip4 \<Rightarrow> string" where
  "ip4_text a = nat_text (octet 3 a) @ ''.'' @ nat_text (octet 2 a) @ ''.'' @
                nat_text (octet 1 a) @ ''.'' @ nat_text (octet 0 a)"

text \<open>\<open>Addr.String\<close>.\<close>

definition addr_text :: "addr \<Rightarrow> string" where
  "addr_text a = (case a of None \<Rightarrow> ''invalid IP'' | Some w \<Rightarrow> ip4_text w)"

text \<open>
  One field of \<open>netip.ParseAddr\<close>: one to three digits, at most 255, no leading zero.
\<close>

definition parse_octet :: "string \<Rightarrow> nat option" where
  "parse_octet s =
     (if all_digits s \<and> length s \<le> 3 \<and> (length s = 1 \<or> hd s \<noteq> digit 0) \<and> digits_val s \<le> 255
      then Some (digits_val s) else None)"

definition parse_ip4 :: "string \<Rightarrow> ip4 result" where
  "parse_ip4 s =
     (case map parse_octet (split_on (CHR ''.'') s) of
        [Some a, Some b, Some c, Some d] \<Rightarrow> Inr (of_octets a b c d)
      | _ \<Rightarrow> Inl ParseError)"

lemma octet_div: "octet i a = unat a div 256 ^ i mod 256"
  unfolding octet_def unsigned_take_bit_eq unat_drop_bit_eq
  by (simp add: drop_bit_eq_div take_bit_eq_mod power_mult)

lemma octet_less [simp]: "octet i a < 256"
  by (simp add: octet_div)

lemma octets_value:
  "((octet 3 a * 256 + octet 2 a) * 256 + octet 1 a) * 256 + octet 0 a = unat a"
proof -
  let ?n = "unat a"
  have "?n < 2 ^ 32" using unsigned_less [of a] by simp
  then have "?n div 256 div 256 div 256 < 256" by (simp add: div_mult2_eq [symmetric] less_mult_imp_div_less)
  then have "octet 3 a = ?n div 256 div 256 div 256"
    by (simp add: octet_div div_mult2_eq [symmetric])
  moreover have "octet 2 a = ?n div 256 div 256 mod 256" "octet 1 a = ?n div 256 mod 256"
    "octet 0 a = ?n mod 256"
    by (simp_all add: octet_div div_mult2_eq [symmetric])
  ultimately show ?thesis by simp
qed

lemma of_octets_octet [simp]:
  "of_octets (octet 3 a) (octet 2 a) (octet (Suc 0) a) (octet 0 a) = a"
  unfolding of_octets_def using octets_value [of a] by (simp only: One_nat_def) simp

lemma parse_octet_nat_text [simp]: "n < 256 \<Longrightarrow> parse_octet (nat_text n) = Some n"
proof -
  assume n: "n < 256"
  have "length (nat_text n) = 1 \<or> hd (nat_text n) \<noteq> digit 0"
    by (cases "n = 0") (simp_all add: nat_text_hd nat_text.simps [of 0])
  with n show ?thesis by (simp add: parse_octet_def length_nat_text_byte)
qed

lemma nat_text_no_dot: "CHR ''.'' \<notin> set (nat_text n)"
  using nat_text_digits digit_not_sign by blast

lemma parse_ip4_text [simp]: "parse_ip4 (ip4_text a) = Inr a"
  by (simp add: parse_ip4_def ip4_text_def split_on_append_sep split_on_no_sep nat_text_no_dot)

lemma ip4_text_inj: "ip4_text a = ip4_text b \<longleftrightarrow> a = b"
  by (metis parse_ip4_text sum.inject(2))

lemma ip4_text_chars: "c \<in> set (ip4_text a) \<Longrightarrow> c = CHR ''.'' \<or> is_digit c"
  by (auto simp: ip4_text_def dest: nat_text_digits)

lemma ip4_text_no_slash: "CHR ''/'' \<notin> set (ip4_text a)"
  using ip4_text_chars digit_not_sign by fastforce

lemma ip4_text_nonempty [simp]: "ip4_text a \<noteq> []"
  by (simp add: ip4_text_def)

section \<open>Prefixes\<close>

record prefix =
  pfx_addr :: ip4
  pfx_bits :: nat

text \<open>
  \<open>netip.ParsePrefix\<close>: the address before the last slash, and after it a bit count without sign
  or leading zeros, from 0 to 32.
\<close>

definition before_last :: "char \<Rightarrow> string \<Rightarrow> (string \<times> string) option" where
  "before_last c s =
     (if c \<in> set s
      then Some (rev (tl (dropWhile (\<lambda>x. x \<noteq> c) (rev s))), rev (takeWhile (\<lambda>x. x \<noteq> c) (rev s)))
      else None)"

definition parse_prefix :: "string \<Rightarrow> prefix result" where
  "parse_prefix s =
     (case before_last (CHR ''/'') s of
        None \<Rightarrow> Inl ParseError
      | Some (ip, bits) \<Rightarrow>
          (case parse_ip4 ip of
             Inl e \<Rightarrow> Inl e
           | Inr a \<Rightarrow>
               if length bits > 1 \<and> (hd bits = digit 0 \<or> \<not> is_digit (hd bits)) then Inl ParseError
               else (case atoi bits of
                       Inl e \<Rightarrow> Inl e
                     | Inr b \<Rightarrow> if b < 0 \<or> 32 < b then Inl ParseError
                                else Inr \<lparr>pfx_addr = a, pfx_bits = nat b\<rparr>)))"

definition prefix_text :: "prefix \<Rightarrow> string" where
  "prefix_text p = ip4_text (pfx_addr p) @ ''/'' @ nat_text (pfx_bits p)"

text \<open>\<open>Prefix.Contains\<close>, on the exclusive-or of the two addresses as the library computes it.\<close>

definition contains :: "prefix \<Rightarrow> addr \<Rightarrow> bool" where
  "contains p a =
     (case a of None \<Rightarrow> False | Some w \<Rightarrow> drop_bit (32 - pfx_bits p) (w XOR pfx_addr p) = 0)"

text \<open>\<open>Prefix.Masked\<close> keeps the leading bits.\<close>

definition masked :: "prefix \<Rightarrow> prefix" where
  "masked p = p\<lparr>pfx_addr := push_bit (32 - pfx_bits p) (drop_bit (32 - pfx_bits p) (pfx_addr p))\<rparr>"

text \<open>\<open>Addr.Next\<close>: the following address, the zero address past the last one.\<close>

definition next_addr :: "addr \<Rightarrow> addr" where
  "next_addr a = (case a of None \<Rightarrow> None | Some w \<Rightarrow> if w = - 1 then None else Some (w + 1))"

lemma word_xor_eq_0_iff: "x XOR y = 0 \<longleftrightarrow> x = y" for x y :: ip4
  by (metis xor.assoc xor.right_neutral xor_self_eq)

lemma contains_div:
  "contains p (Some w) \<longleftrightarrow>
     unat w div 2 ^ (32 - pfx_bits p) = unat (pfx_addr p) div 2 ^ (32 - pfx_bits p)"
proof -
  let ?k = "32 - pfx_bits p"
  have "contains p (Some w) \<longleftrightarrow> drop_bit ?k w = drop_bit ?k (pfx_addr p)"
    by (simp add: contains_def drop_bit_xor word_xor_eq_0_iff)
  also have "\<dots> \<longleftrightarrow> unat (drop_bit ?k w) = unat (drop_bit ?k (pfx_addr p))"
    by (rule word_eq_iff_unsigned)
  also have "\<dots> \<longleftrightarrow> drop_bit ?k (unat w) = drop_bit ?k (unat (pfx_addr p))"
    by (simp only: unat_drop_bit_eq)
  finally show ?thesis by (simp only: drop_bit_eq_div)
qed

lemma contains_None [simp]: "\<not> contains p None"
  by (simp add: contains_def)

lemma contains_self [simp]: "contains p (Some (pfx_addr p))"
  by (simp add: contains_div)

text \<open>The first and the last address of a prefix, as numbers.\<close>

definition pfx_first :: "prefix \<Rightarrow> nat" where
  "pfx_first p = unat (pfx_addr p) div 2 ^ (32 - pfx_bits p) * 2 ^ (32 - pfx_bits p)"

definition pfx_last :: "prefix \<Rightarrow> nat" where
  "pfx_last p = pfx_first p + (2 ^ (32 - pfx_bits p) - 1)"

lemma contains_interval:
  "contains p (Some w) \<longleftrightarrow> pfx_first p \<le> unat w \<and> unat w \<le> pfx_last p"
proof -
  let ?m = "2 ^ (32 - pfx_bits p) :: nat"
  have m: "0 < ?m" by simp
  show ?thesis
  proof
    assume "contains p (Some w)"
    then have q: "unat w div ?m = unat (pfx_addr p) div ?m" by (simp add: contains_div)
    have "unat w = unat w div ?m * ?m + unat w mod ?m" by (rule div_mult_mod_eq [symmetric])
    moreover have "unat w mod ?m \<le> ?m - 1" using m mod_less_divisor [of ?m "unat w"] by linarith
    ultimately show "pfx_first p \<le> unat w \<and> unat w \<le> pfx_last p"
      unfolding pfx_first_def pfx_last_def q [symmetric] by linarith
  next
    assume i: "pfx_first p \<le> unat w \<and> unat w \<le> pfx_last p"
    let ?q = "unat (pfx_addr p) div ?m"
    have "?q * ?m \<le> unat w" "unat w < Suc ?q * ?m"
      using i m unfolding pfx_first_def pfx_last_def mult_Suc by linarith+
    then have "unat w div ?m = ?q"
      by (metis div_nat_eqI mult.commute)
    then show "contains p (Some w)" by (simp add: contains_div)
  qed
qed

lemma pfx_addr_ge_first: "pfx_first p \<le> unat (pfx_addr p)"
  by (simp add: pfx_first_def)

lemma pfx_addr_le_last: "unat (pfx_addr p) \<le> pfx_last p"
  using contains_interval contains_self by blast

lemma pfx_last_less: "pfx_last p < 2 ^ 32"
proof -
  let ?m = "2 ^ (32 - pfx_bits p) :: nat"
  have m: "2 ^ min 32 (pfx_bits p) * ?m = (2 ^ 32 :: nat)"
    by (simp add: min_def flip: power_add)
  have "unat (pfx_addr p) < 2 ^ min 32 (pfx_bits p) * ?m"
    using unsigned_less [of "pfx_addr p"] by (simp add: m)
  then have "unat (pfx_addr p) div ?m < 2 ^ min 32 (pfx_bits p)"
    by (rule less_mult_imp_div_less)
  then have "Suc (unat (pfx_addr p) div ?m) * ?m \<le> 2 ^ min 32 (pfx_bits p) * ?m"
    by (intro mult_le_mono1) simp
  moreover have "0 < ?m" by simp
  ultimately show ?thesis unfolding pfx_last_def pfx_first_def m mult_Suc by linarith
qed

lemma next_addr_Some: "next_addr (Some w) = Some v \<longleftrightarrow> w \<noteq> - 1 \<and> v = w + 1"
  by (auto simp: next_addr_def)

lemma unat_max_ip4: "unat (- 1 :: ip4) = 2 ^ 32 - 1"
  by (simp add: unsigned_minus_1_eq_mask mask_eq_exp_minus_1)

lemma unat_succ: "w \<noteq> - 1 \<Longrightarrow> unat (w + 1) = Suc (unat w)" for w :: ip4
proof -
  assume "w \<noteq> - 1"
  then have "unat w \<noteq> unat (- 1 :: ip4)" using word_unat_eq_iff by blast
  moreover note unat_max_ip4
  ultimately have "unat w \<noteq> 2 ^ 32 - 1" by metis
  moreover have "unat w < 2 ^ 32" using unsigned_less [of w] by simp
  ultimately have "unat w + 1 < 2 ^ 32" by linarith
  then show ?thesis by (simp add: unat_word_ariths)
qed

section \<open>Round trip of prefix text\<close>

lemma before_last_append:
  "c \<notin> set t \<Longrightarrow> before_last c (s @ c # t) = Some (s, t)"
proof -
  assume t: "c \<notin> set t"
  have d: "dropWhile (\<lambda>x. x \<noteq> c) (rev t @ c # rev s) = c # rev s"
    using t by (subst dropWhile_append2) auto
  have k: "takeWhile (\<lambda>x. x \<noteq> c) (rev t @ c # rev s) = rev t"
    using t by (subst takeWhile_append2) auto
  show ?thesis by (simp add: before_last_def d k)
qed

lemma nat_text_no_slash: "CHR ''/'' \<notin> set (nat_text n)"
  using nat_text_digits digit_not_sign by blast

lemma hd_nat_text_digit: "is_digit (hd (nat_text n))"
  by (metis hd_in_set nat_text_digits nat_text_nonempty)

lemma nat_text_plain: "1 < length (nat_text n) \<Longrightarrow> hd (nat_text n) \<noteq> digit 0"
proof (cases "n = 0")
  case True
  then show "1 < length (nat_text n) \<Longrightarrow> ?thesis" by (simp add: nat_text.simps [of 0])
qed (simp add: nat_text_hd)

lemma parse_prefix_text:
  assumes "pfx_bits p \<le> 32"
  shows "parse_prefix (prefix_text p) = Inr p"
proof -
  let ?b = "nat_text (pfx_bits p)"
  have "before_last (CHR ''/'') (prefix_text p) = Some (ip4_text (pfx_addr p), ?b)"
    using before_last_append [OF nat_text_no_slash] by (simp add: prefix_text_def)
  moreover have "atoi ?b = Inr (int (pfx_bits p))"
    using assms by (intro atoi_nat_text) simp
  moreover have "\<not> (length ?b > 1 \<and> (hd ?b = digit 0 \<or> \<not> is_digit (hd ?b)))"
    using hd_nat_text_digit nat_text_plain by blast
  ultimately show ?thesis using assms by (simp add: parse_prefix_def)
qed

lemma parse_prefix_of_text: "prefix_text p = s \<Longrightarrow> pfx_bits p \<le> 32 \<Longrightarrow> parse_prefix s = Inr p"
  using parse_prefix_text by blast

lemma parse_prefix_bits: "parse_prefix s = Inr p \<Longrightarrow> pfx_bits p \<le> 32"
  by (auto simp: parse_prefix_def split: option.splits sum.splits if_splits prod.splits)

text \<open>The network every target is created with.\<close>

lemma parse_default_prefix [simp]:
  "parse_prefix ''10.8.0.1/23'' = Inr \<lparr>pfx_addr = 168296449, pfx_bits = 23\<rparr>"
proof -
  have "prefix_text \<lparr>pfx_addr = 168296449, pfx_bits = 23\<rparr> = ''10.8.0.1/23''" by code_simp
  then show ?thesis using parse_prefix_text [of "\<lparr>pfx_addr = 168296449, pfx_bits = 23\<rparr>"] by simp
qed

end
