(* ===== verification/Device_Utils.thy ===== *)
theory Device_Utils
  imports Database Conn_Man Netip
begin

text \<open>
  The helpers of the device handlers (\<open>cmd/control-plane/device_utils.go\<close>): re-syncing a public
  key, the liveness test of a target's server, the allocation of client addresses, and the wait
  that ends when no heartbeat has come for too long.
\<close>

section \<open>syncConnectionPubkey and targetServerAlive\<close>

definition syncConnectionPubkey :: "RVPNConnection \<Rightarrow> string \<Rightarrow> (rvpn_db, unit) stmt" where
  "syncConnectionPubkey rVPNConnection pubkey =
     and_then (updateConnection (rVPNConnection\<lparr>c_pubkey := pubkey\<rparr>)) (\<lambda>_. ok ())"

definition targetServerAlive :: "RVPNTarget option \<Rightarrow> ConnectionManager \<Rightarrow> bool" where
  "targetServerAlive rVPNTarget connMan =
     (case rVPNTarget of
        None \<Rightarrow> False
      | Some t \<Rightarrow>
          if serverPubkey t = [] \<or> serverPublicIp t = [] \<or> serverPublicVpnPort t = [] then False
          else getVPNServerConn (t_name t) connMan \<noteq> None)"

section \<open>Allocation of client addresses\<close>

text \<open>
  The loop of \<open>getNextClientIp\<close>: walk up from an address while it is inside the network; the first
  address whose text is not taken is the result, the empty string when the walk leaves the network.
\<close>

function next_free_ip :: "prefix \<Rightarrow> string set \<Rightarrow> addr \<Rightarrow> string" where
  "next_free_ip p used currIp =
     (if contains p currIp
      then if addr_text currIp \<notin> used then addr_text currIp
           else next_free_ip p used (next_addr currIp)
      else [])"
  by pat_completeness auto
termination
proof (relation "measure (\<lambda>(p, used, a). case a of None \<Rightarrow> 0 | Some w \<Rightarrow> 2 ^ 32 - unat w)")
  fix p used a
  assume c: "contains p a"
  then obtain w where w: "a = Some w" by (cases a) auto
  have "unat w < 2 ^ 32" using unsigned_less [of w] by simp
  then show "((p, used, next_addr a), p, used, a)
      \<in> measure (\<lambda>(p, used, a). case a of None \<Rightarrow> 0 | Some w \<Rightarrow> 2 ^ 32 - unat w)"
    by (auto simp: w next_addr_def unat_succ)
qed simp

declare next_free_ip.simps [simp del]

definition getNextClientIp :: "string \<Rightarrow> (rvpn_db, string \<times> string) stmt" where
  "getNextClientIp target =
     and_then (getTargetByName target) (\<lambda>rVPNTarget.
       case rVPNTarget of
         None \<Rightarrow> fail TargetMissing
       | Some t \<Rightarrow>
           and_then (getTargetClientIps target) (\<lambda>clientIpSet.
             case parse_prefix (networkIp t @ networkCidr t) of
               Inl e \<Rightarrow> fail e
             | Inr serverIpPrefix \<Rightarrow>
                 (let ipToAllocate =
                    next_free_ip serverIpPrefix clientIpSet (next_addr (Some (pfx_addr serverIpPrefix)))
                  in if ipToAllocate = [] then fail NoFreeIp
                     else ok (ipToAllocate, networkCidr t))))"

section \<open>The wait for heartbeats\<close>

text \<open>
  \<open>blockUntilStale\<close> loops over a \<open>select\<close>: the minute ticker, the end of the context, a heartbeat.
  The events carry the clock's reading (seconds) when the loop sees them; the result says whether
  the loop is still waiting (and since when) or has returned, and which events it has not seen.
\<close>

datatype wait_event = Tick int | CtxDone | Heartbeat int

datatype wait = Waiting int | Returned "wait_event list"

fun blockUntilStale :: "int \<Rightarrow> int \<Rightarrow> wait_event list \<Rightarrow> wait" where
  "blockUntilStale staleTimeout lastHeartbeat [] = Waiting lastHeartbeat"
| "blockUntilStale staleTimeout lastHeartbeat (Tick now # es) =
     (if now - lastHeartbeat \<ge> staleTimeout then Returned es
      else blockUntilStale staleTimeout lastHeartbeat es)"
| "blockUntilStale staleTimeout lastHeartbeat (CtxDone # es) = Returned es"
| "blockUntilStale staleTimeout lastHeartbeat (Heartbeat now # es) =
     blockUntilStale staleTimeout now es"

section \<open>The allocator's contract\<close>

text \<open>
  What the rest of the control plane relies on: a result is the least free address from the start
  on, and no result means that every address left in the network is taken.
\<close>

locale ip_allocator =
  fixes alloc :: "prefix \<Rightarrow> string set \<Rightarrow> addr \<Rightarrow> string"
  assumes alloc_found:
    "alloc p used (Some w) \<noteq> [] \<Longrightarrow>
       \<exists>v. w \<le> v \<and> contains p (Some v) \<and> alloc p used (Some w) = ip4_text v \<and>
           ip4_text v \<notin> used \<and> (\<forall>u. w \<le> u \<and> u < v \<longrightarrow> ip4_text u \<in> used)"
    and alloc_exhausted:
    "alloc p used (Some w) = [] \<Longrightarrow> contains p (Some w) \<Longrightarrow> w \<le> u \<Longrightarrow> contains p (Some u) \<Longrightarrow>
       ip4_text u \<in> used"
begin

lemma alloc_fresh: "alloc p used (Some w) \<noteq> [] \<Longrightarrow> alloc p used (Some w) \<notin> used"
  using alloc_found by metis

lemma alloc_capacity:
  assumes "finite used" and w: "contains p (Some w)" and c: "card used \<le> pfx_last p - unat w"
  shows "alloc p used (Some w) \<noteq> []"
proof
  assume none: "alloc p used (Some w) = []"
  let ?N = "{unat w .. pfx_last p}"
  let ?f = "\<lambda>n. ip4_text (word_of_nat n)"
  have unat: "unat (word_of_nat n :: ip4) = n" if "n \<in> ?N" for n
    using that pfx_last_less [of p] by (simp add: unat_of_nat)
  have "?f ` ?N \<subseteq> used"
  proof
    fix s
    assume "s \<in> ?f ` ?N"
    then obtain n where n: "n \<in> ?N" "s = ?f n" by blast
    then have "w \<le> word_of_nat n" "contains p (Some (word_of_nat n))"
      using unat [OF n(1)] w by (auto simp: word_le_nat_alt contains_interval)
    then show "s \<in> used" using n(2) none w alloc_exhausted by blast
  qed
  moreover have "inj_on ?f ?N"
    by (rule inj_onI) (metis ip4_text_inj unat)
  ultimately have "card ?N \<le> card used"
    using \<open>finite used\<close> card_inj_on_le by blast
  moreover have "unat w \<le> pfx_last p" using w by (simp add: contains_interval)
  ultimately show False using c by simp
qed

end

lemma next_free_ip_Some:
  "next_free_ip p used (Some w) =
     (if contains p (Some w)
      then if ip4_text w \<notin> used then ip4_text w else next_free_ip p used (next_addr (Some w))
      else [])"
  by (simp add: next_free_ip.simps [of p used "Some w"] addr_text_def)

lemma next_free_ip_None [simp]: "next_free_ip p used None = []"
  by (simp add: next_free_ip.simps)

lemma succ_le_iff: "w \<noteq> - 1 \<Longrightarrow> w + 1 \<le> u \<longleftrightarrow> w < u" for u w :: ip4
  by (simp add: word_less_nat_alt word_le_nat_alt unat_succ Suc_le_eq)

lemma next_free_ip_found:
  "next_free_ip p used a \<noteq> [] \<Longrightarrow> a = Some w \<Longrightarrow>
     \<exists>v. w \<le> v \<and> contains p (Some v) \<and> next_free_ip p used a = ip4_text v \<and>
         ip4_text v \<notin> used \<and> (\<forall>u. w \<le> u \<and> u < v \<longrightarrow> ip4_text u \<in> used)"
proof (induction p used a arbitrary: w rule: next_free_ip.induct)
  case (1 p used a)
  note a = \<open>a = Some w\<close>
  have c: "contains p (Some w)"
    using "1.prems"(1) by (auto simp: a next_free_ip_Some split: if_splits)
  show ?case
  proof (cases "ip4_text w \<in> used")
    case True
    then have step: "next_free_ip p used a = next_free_ip p used (next_addr a)"
      using c by (simp add: a next_free_ip_Some)
    then have nx: "w \<noteq> - 1" "next_addr a = Some (w + 1)"
      using "1.prems"(1) by (auto simp: a next_addr_def split: if_splits)
    have "\<not> addr_text a \<notin> used" using True by (simp add: a addr_text_def)
    then obtain v where v: "w + 1 \<le> v" "contains p (Some v)" "next_free_ip p used a = ip4_text v"
      "ip4_text v \<notin> used" "\<forall>u. w + 1 \<le> u \<and> u < v \<longrightarrow> ip4_text u \<in> used"
      using "1.IH" [of "w + 1"] c "1.prems"(1) by (auto simp: a [symmetric] step nx(2))
    then show ?thesis
      using True succ_le_iff [OF nx(1)] by (metis order.order_iff_strict)
  next
    case False
    then show ?thesis using c by (auto simp: a next_free_ip_Some)
  qed
qed

lemma next_free_ip_exhausted:
  "next_free_ip p used a = [] \<Longrightarrow> a = Some w \<Longrightarrow> contains p (Some w) \<Longrightarrow> w \<le> u \<Longrightarrow>
     contains p (Some u) \<Longrightarrow> ip4_text u \<in> used"
proof (induction p used a arbitrary: w rule: next_free_ip.induct)
  case (1 p used a)
  note a = \<open>a = Some w\<close>
  have t: "ip4_text w \<in> used" and step: "next_free_ip p used (next_addr a) = []"
    using "1.prems"(1,3) by (simp_all add: a next_free_ip_Some split: if_splits)
  show ?case
  proof (cases "u = w")
    case True
    with t show ?thesis by simp
  next
    case False
    with \<open>w \<le> u\<close> have lt: "w < u" by simp
    then have m: "w \<noteq> - 1" by (metis word_order.extremum_strict)
    then have "contains p (Some (w + 1))"
      using lt "1.prems"(3,5) by (auto simp: contains_interval unat_succ word_less_nat_alt)
    moreover have "w + 1 \<le> u" using lt m by (simp add: succ_le_iff)
    ultimately show ?thesis
      using "1.IH" [of "w + 1"] "1.prems"(3,5) t step m
      by (simp add: a addr_text_def next_addr_def)
  qed
qed

interpretation allocator: ip_allocator next_free_ip
  by unfold_locales (use next_free_ip_found next_free_ip_exhausted in blast)+

section \<open>What getNextClientIp promises\<close>

definition target_ips :: "string \<Rightarrow> rvpn_db \<Rightarrow> string set" where
  "target_ips target d = clientIp ` {c \<in> set (connections d). c_target c = target}"

lemma target_ips_finite [simp]: "finite (target_ips t d)"
  by (simp add: target_ips_def)

lemma getNextClientIp_Inr:
  assumes "getNextClientIp t d = (Inr (ip, cidr), d')"
  shows "\<exists>row p used. row \<in> set (targets d) \<and> t_name row = t \<and> cidr = networkCidr row \<and>
    parse_prefix (networkIp row @ networkCidr row) = Inr p \<and>
    used \<subseteq> target_ips t d \<and> (complete_reads d \<longrightarrow> used = target_ips t d) \<and>
    ip = next_free_ip p used (next_addr (Some (pfx_addr p))) \<and> ip \<noteq> [] \<and> only_read d d'"
proof -
  obtain row d1 used d2 p where
    t: "getTargetByName t d = (Inr (Some row), d1)" and
    u: "getTargetClientIps t d1 = (Inr used, d2)" and
    p: "parse_prefix (networkIp row @ networkCidr row) = Inr p" and
    ip: "ip = next_free_ip p used (next_addr (Some (pfx_addr p)))" "ip \<noteq> []"
      "cidr = networkCidr row" "d' = d2"
    using assms unfolding getNextClientIp_def
    by (auto simp: and_then_Inr ok_def Let_def split: if_splits)
  note r1 = getTargetByName_Inr(1,3) [OF t] and r2 = getTargetClientIps_Inr [OF u]
  have "used \<subseteq> target_ips t d" "complete_reads d \<Longrightarrow> used = target_ips t d"
    using r2(2,3) only_read_tables(3,5) [OF r1(1)] by (auto simp: target_ips_def)
  moreover have "only_read d d'" using only_read_trans [OF r1(1) r2(1)] ip(4) by simp
  ultimately show ?thesis using r1(2) p ip by blast
qed

lemma next_addr_found:
  "next_free_ip p used (next_addr (Some a)) = s \<Longrightarrow> s \<noteq> [] \<Longrightarrow>
     \<exists>v. a < v \<and> contains p (Some v) \<and> s = ip4_text v \<and> s \<notin> used \<and>
         (\<forall>u. a < u \<and> u < v \<longrightarrow> ip4_text u \<in> used)"
proof -
  assume s: "next_free_ip p used (next_addr (Some a)) = s" "s \<noteq> []"
  then have m: "a \<noteq> - 1" "next_addr (Some a) = Some (a + 1)"
    by (auto simp: next_addr_def split: if_splits)
  then show ?thesis
    using allocator.alloc_found [of p used "a + 1"] s by (auto simp: succ_le_iff)
qed

text \<open>
  C25: An address handed out by \<open>getNextClientIp\<close> lies inside the network of the requested target,
  strictly above the server's own address, is not held by any connection of the target, and is the
  least such address; the CIDR that comes with it is the target's.  (The rows must all be read:
  the program does not notice rows that break off.)
\<close>

theorem getNextClientIp_least_free:
  assumes "getNextClientIp t d = (Inr (ip, cidr), d')" and "complete_reads d"
  shows "\<exists>row p v. row \<in> set (targets d) \<and> t_name row = t \<and> cidr = networkCidr row \<and>
    parse_prefix (networkIp row @ networkCidr row) = Inr p \<and>
    ip = ip4_text v \<and> contains p (Some v) \<and> pfx_addr p < v \<and> ip \<notin> target_ips t d \<and>
    (\<forall>u. pfx_addr p < u \<and> u < v \<longrightarrow> ip4_text u \<in> target_ips t d)"
  using getNextClientIp_Inr [OF assms(1)] next_addr_found assms(2) by metis

lemma getNextClientIp_answered:
  assumes "answers d = []" and "filter (\<lambda>r. t_name r = t) (targets d) = [row]"
    and "parse_prefix (networkIp row @ networkCidr row) = Inr p"
  shows "getNextClientIp t d =
    (let ip = next_free_ip p (target_ips t d) (next_addr (Some (pfx_addr p)))
     in if ip = [] then (Inl NoFreeIp, d) else (Inr (ip, networkCidr row), d))"
proof -
  have "clientIp ` {x \<in> set (connections d). c_target x = t} = target_ips t d"
    by (simp add: target_ips_def)
  then show ?thesis
    using assms
    by (simp add: getNextClientIp_def getTargetByName_def getTargetClientIps_def query_row_def
        query_rows_def next_answer_def and_then_def ok_def fail_def Let_def)
qed

lemma next_free_ip_nonempty:
  assumes "finite used" and "card used < pfx_last p - unat (pfx_addr p)"
  shows "next_free_ip p used (next_addr (Some (pfx_addr p))) \<noteq> []"
proof -
  let ?a = "pfx_addr p"
  have lt: "Suc (unat ?a) \<le> pfx_last p" using assms(2) by linarith
  then have "?a \<noteq> - 1" using pfx_last_less [of p] unat_max_ip4 by force
  then have s: "next_addr (Some ?a) = Some (?a + 1)" "unat (?a + 1) = Suc (unat ?a)"
    by (simp_all add: next_addr_def unat_succ)
  have "contains p (Some (?a + 1))"
    using lt s(2) pfx_addr_ge_first [of p] by (auto simp: contains_interval)
  moreover have "card used \<le> pfx_last p - unat (?a + 1)"
    using assms(2) s(2) by linarith
  ultimately show ?thesis
    unfolding s(1) by (intro allocator.alloc_capacity assms(1))
qed

text \<open>
  When the database answers, allocation succeeds as long as fewer addresses are taken than the
  network has above the server's own one; it cannot fail early or loop.
\<close>

theorem getNextClientIp_capacity:
  assumes "answers d = []" and "filter (\<lambda>r. t_name r = t) (targets d) = [row]"
    and "parse_prefix (networkIp row @ networkCidr row) = Inr p"
    and "card (target_ips t d) < pfx_last p - unat (pfx_addr p)"
  shows "\<exists>ip. ip \<noteq> [] \<and> getNextClientIp t d = (Inr (ip, networkCidr row), d)"
  using next_free_ip_nonempty [OF target_ips_finite assms(4)]
    getNextClientIp_answered [OF assms(1-3)]
  by (auto simp: Let_def)

section \<open>What the wait for heartbeats promises\<close>

text \<open>The last heartbeat seen before a point of a run.\<close>

definition beat_after :: "int \<Rightarrow> wait_event \<Rightarrow> int" where
  "beat_after b e = (case e of Heartbeat now \<Rightarrow> now | _ \<Rightarrow> b)"

fun last_beat :: "int \<Rightarrow> wait_event list \<Rightarrow> int" where
  "last_beat b [] = b"
| "last_beat b (e # es) = last_beat (beat_after b e) es"

definition ends_wait :: "int \<Rightarrow> int \<Rightarrow> wait_event \<Rightarrow> bool" where
  "ends_wait stale beat e =
     (case e of Tick now \<Rightarrow> now - beat \<ge> stale | CtxDone \<Rightarrow> True | Heartbeat _ \<Rightarrow> False)"

text \<open>No event of a run ends the wait.\<close>

definition keeps_waiting :: "int \<Rightarrow> int \<Rightarrow> wait_event list \<Rightarrow> bool" where
  "keeps_waiting stale b es \<longleftrightarrow>
     (\<forall>xs e ys. es = xs @ e # ys \<longrightarrow> \<not> ends_wait stale (last_beat b xs) e)"

lemma keeps_waiting_Nil [simp]: "keeps_waiting stale b []"
  by (simp add: keeps_waiting_def)

lemma keeps_waiting_Cons:
  "keeps_waiting stale b (e # es) \<longleftrightarrow>
     \<not> ends_wait stale b e \<and> keeps_waiting stale (beat_after b e) es"
proof
  assume k: "keeps_waiting stale b (e # es)"
  have "\<not> ends_wait stale b e"
    using k unfolding keeps_waiting_def by (metis append_Nil last_beat.simps(1))
  moreover have "\<not> ends_wait stale (last_beat (beat_after b e) xs) x" if "es = xs @ x # ys" for xs x ys
    using k that unfolding keeps_waiting_def by (metis append_Cons last_beat.simps(2))
  ultimately show "\<not> ends_wait stale b e \<and> keeps_waiting stale (beat_after b e) es"
    by (simp add: keeps_waiting_def)
next
  assume k: "\<not> ends_wait stale b e \<and> keeps_waiting stale (beat_after b e) es"
  show "keeps_waiting stale b (e # es)"
    unfolding keeps_waiting_def
  proof (intro allI impI)
    fix xs x ys
    assume "e # es = xs @ x # ys"
    then show "\<not> ends_wait stale (last_beat b xs) x"
      using k by (cases xs) (auto simp: keeps_waiting_def)
  qed
qed

lemma blockUntilStale_Cons:
  "blockUntilStale stale b (e # es) =
     (if ends_wait stale b e then Returned es else blockUntilStale stale (beat_after b e) es)"
  by (cases e) (simp_all add: ends_wait_def beat_after_def)

lemma blockUntilStale_waits:
  "keeps_waiting stale b es \<Longrightarrow> blockUntilStale stale b (es @ fs) = blockUntilStale stale (last_beat b es) fs"
proof (induction es arbitrary: b)
  case (Cons e es)
  then show ?case by (simp add: blockUntilStale_Cons keeps_waiting_Cons)
qed simp

lemma first_end:
  "keeps_waiting stale b es \<or>
     (\<exists>xs e ys. es = xs @ e # ys \<and> keeps_waiting stale b xs \<and> ends_wait stale (last_beat b xs) e)"
proof (induction es arbitrary: b)
  case (Cons e es)
  show ?case
  proof (cases "ends_wait stale b e")
    case True
    then show ?thesis by (metis append_Nil keeps_waiting_Nil last_beat.simps(1))
  next
    case False
    then show ?thesis
      using Cons.IH [of "beat_after b e"]
      by (metis append_Cons keeps_waiting_Cons last_beat.simps(2))
  qed
qed simp

text \<open>
  \<open>blockUntilStale\<close> returns exactly at the first event that ends the wait (the end of the
  context, or a tick that finds the latest heartbeat at least the timeout old), with the later
  events unseen; otherwise it is still waiting and remembers the latest heartbeat.
\<close>

theorem blockUntilStale_first_end:
  "(blockUntilStale stale b es = Returned rest \<longleftrightarrow>
      (\<exists>xs e. es = xs @ e # rest \<and> keeps_waiting stale b xs \<and> ends_wait stale (last_beat b xs) e)) \<and>
   (blockUntilStale stale b es = Waiting l \<longleftrightarrow> keeps_waiting stale b es \<and> l = last_beat b es)"
proof -
  have ret: "blockUntilStale stale b (xs @ e # ys) = Returned ys"
    if "keeps_waiting stale b xs" "ends_wait stale (last_beat b xs) e" for xs e ys
    using that by (simp add: blockUntilStale_waits blockUntilStale_Cons)
  have wait: "blockUntilStale stale b es = Waiting (last_beat b es)" if "keeps_waiting stale b es"
    using blockUntilStale_waits [OF that, of "[]"] by simp
  show ?thesis
    using first_end [of stale b es] ret wait by (metis wait.distinct(1) wait.inject)
qed

text \<open>
  A device that stops sending heartbeats is noticed: any run that contains a tick at least the
  timeout after every heartbeat of the run has returned by that tick.
\<close>

theorem blockUntilStale_notices:
  assumes "Tick now \<in> set es" and "b + stale \<le> now"
    and "\<forall>t. Heartbeat t \<in> set es \<longrightarrow> t + stale \<le> now"
  shows "\<exists>rest. blockUntilStale stale b es = Returned rest"
  using assms
proof (induction es arbitrary: b)
  case (Cons e es)
  show ?case
  proof (cases "ends_wait stale b e")
    case True
    then show ?thesis by (simp add: blockUntilStale_Cons)
  next
    case False
    then have "Tick now \<in> set es" using Cons.prems(1,2) by (auto simp: ends_wait_def)
    moreover have "beat_after b e + stale \<le> now" using Cons.prems(2,3) by (cases e) (auto simp: beat_after_def)
    ultimately show ?thesis using Cons.IH Cons.prems(3) False by (simp add: blockUntilStale_Cons)
  qed
qed simp

text \<open>
  A device that sends a heartbeat often enough is never dropped: if at every tick the latest
  heartbeat is younger than the timeout and the context lives, the wait goes on.
\<close>

theorem blockUntilStale_stays:
  assumes "CtxDone \<notin> set es"
    and "\<forall>xs now ys. es = xs @ Tick now # ys \<longrightarrow> now - last_beat b xs < stale"
  shows "blockUntilStale stale b es = Waiting (last_beat b es)"
proof -
  have "keeps_waiting stale b es"
    unfolding keeps_waiting_def
  proof (intro allI impI)
    fix xs e ys
    assume es: "es = xs @ e # ys"
    have "now - last_beat b xs < stale" if "e = Tick now" for now
      using assms(2) es that by blast
    moreover have "e \<noteq> CtxDone" using assms(1) es by auto
    ultimately show "\<not> ends_wait stale (last_beat b xs) e"
      by (cases e) (fastforce simp: ends_wait_def)+
  qed
  then show ?thesis using blockUntilStale_waits [of stale b es "[]"] by simp
qed

section \<open>Witnesses\<close>

text \<open>A target with the network every target gets, of which no address is taken.\<close>

definition plain_target :: RVPNTarget where
  "plain_target = \<lparr>t_name = ''t'', t_owner = ''o'', networkIp = ''10.8.0.1'', networkCidr = ''/23'',
     dnsIp = [], serverPubkey = [], serverPublicIp = [], serverPublicVpnPort = [],
     serverInternalIp = [], serverInternalCidr = [], serverHeartbeat = []\<rparr>"

definition empty_target_db :: rvpn_db where
  "empty_target_db = \<lparr>targets = [plain_target], target_acl = [], connections = [], devices = [],
                      answers = []\<rparr>"

lemma empty_target_facts:
  "answers empty_target_db = []" "complete_reads empty_target_db"
  "target_ips ''t'' empty_target_db = {}"
  "filter (\<lambda>r. t_name r = ''t'') (targets empty_target_db) = [plain_target]"
  "parse_prefix (networkIp plain_target @ networkCidr plain_target) =
     Inr \<lparr>pfx_addr = 168296449, pfx_bits = 23\<rparr>"
  "networkCidr plain_target = ''/23''"
  using parse_default_prefix
  by (simp_all add: empty_target_db_def plain_target_def complete_reads_def target_ips_def)

lemma first_default_ip:
  "next_free_ip \<lparr>pfx_addr = 168296449, pfx_bits = 23\<rparr> {} (next_addr (Some 168296449)) =
     ip4_text 168296450"
  by (simp add: next_addr_def next_free_ip_Some contains_interval pfx_first_def pfx_last_def)

theorem getNextClientIp_least_free_witness:
  "\<exists>v. getNextClientIp ''t'' empty_target_db = (Inr (ip4_text 168296450, ''/23''), empty_target_db) \<and>
     ip4_text 168296450 = ip4_text v \<and>
     (\<exists>p. contains p (Some v) \<and> pfx_addr p < v)"
proof -
  have g: "getNextClientIp ''t'' empty_target_db =
      (Inr (ip4_text 168296450, ''/23''), empty_target_db)"
    using getNextClientIp_answered [OF empty_target_facts(1,4,5)]
    by (simp add: empty_target_facts(3,6) first_default_ip Let_def)
  show ?thesis
    using getNextClientIp_least_free [OF g empty_target_facts(2)] g by blast
qed

theorem getNextClientIp_capacity_witness:
  "\<exists>ip. ip \<noteq> [] \<and> getNextClientIp ''t'' empty_target_db = (Inr (ip, ''/23''), empty_target_db)"
proof -
  have "card (target_ips ''t'' empty_target_db) < pfx_last \<lparr>pfx_addr = 168296449, pfx_bits = 23\<rparr>
      - unat (pfx_addr \<lparr>pfx_addr = 168296449, pfx_bits = 23\<rparr>)"
    by (simp add: empty_target_facts(3) pfx_last_def pfx_first_def)
  from getNextClientIp_capacity [OF empty_target_facts(1,4,5) this]
  show ?thesis by (simp add: empty_target_facts(6))
qed

theorem blockUntilStale_notices_witness:
  "\<exists>rest. blockUntilStale 180 0 [Heartbeat 10, Tick 60, Tick 200] = Returned rest"
  by (rule blockUntilStale_notices [of 200]) simp_all

theorem blockUntilStale_stays_witness:
  "blockUntilStale 180 0 [Heartbeat 50, Tick 60, Tick 200] = Waiting 50"
proof -
  have "blockUntilStale 180 0 [Heartbeat 50, Tick 60, Tick 200] =
      Waiting (last_beat 0 [Heartbeat 50, Tick 60, Tick 200])"
    by (rule blockUntilStale_stays)
      (auto simp: Cons_eq_append_conv beat_after_def)
  then show ?thesis by (simp add: beat_after_def)
qed

end
