(* ===== verification/Jrpc_Types.thy ===== *)
theory Jrpc_Types
  imports Rvpn_Prelude
begin

text \<open>
  The messages between the control plane and the devices (\<open>common/jrpc_types.go\<close>): the method names,
  the requests with their fields, and the answers.  A call names its method and carries the
  request; an answer is the JSON object a device sends back, from which each response struct takes
  its own fields (absent ones stay empty).
\<close>

section \<open>Requests\<close>

record WireGuardPeer =
  PublicKey :: string
  AllowedIP :: string
  AllowedCidr :: string

record ConnectServerRequest =
  ServerPublicKey :: string
  ClientPublicKey :: string
  ClientIp :: string
  ClientCidr :: string
  ServerIp :: string
  ServerPort :: int
  DnsIp :: string

record ServeVPNRequest =
  sv_ServerPublicKey :: string
  ServerInternalIp :: string
  ServerInternalCidr :: string
  ServerPublicVPNPort :: int
  Peers :: "WireGuardPeer list"

datatype rpc_call =
    GetDeviceAuth
  | GetClientInformation
  | GetServeInformation
  | ConnectServer ConnectServerRequest
  | ServeVPN ServeVPNRequest
  | AppendVPNPeers "WireGuardPeer list"
  | DeleteVPNPeers "WireGuardPeer list"
  | DeviceHeartbeat

fun method_name :: "rpc_call \<Rightarrow> string" where
  "method_name GetDeviceAuth = ''get_device_auth''"
| "method_name GetClientInformation = ''get_client_information''"
| "method_name GetServeInformation = ''get_serve_information''"
| "method_name (ConnectServer _) = ''connect_server''"
| "method_name (ServeVPN _) = ''serve_vpn''"
| "method_name (AppendVPNPeers _) = ''append_vpn_peers''"
| "method_name (DeleteVPNPeers _) = ''delete_vpn_peers''"
| "method_name DeviceHeartbeat = ''device_heartbeat''"

section \<open>Answers\<close>

text \<open>The fields of all response structs; a response struct reads the ones it has.\<close>

record rpc_reply =
  Success :: bool
  DeviceToken :: string
  re_PublicKey :: string
  PublicVpnPort :: string

definition GetDeviceAuthResponse :: "bool \<Rightarrow> string \<Rightarrow> rpc_reply" where
  "GetDeviceAuthResponse success token =
     \<lparr>Success = success, DeviceToken = token, re_PublicKey = [], PublicVpnPort = []\<rparr>"

definition GetClientInformationResponse :: "bool \<Rightarrow> string \<Rightarrow> rpc_reply" where
  "GetClientInformationResponse success publickey =
     \<lparr>Success = success, DeviceToken = [], re_PublicKey = publickey, PublicVpnPort = []\<rparr>"

definition GetServeInformationResponse :: "bool \<Rightarrow> string \<Rightarrow> string \<Rightarrow> rpc_reply" where
  "GetServeInformationResponse success publickey port =
     \<lparr>Success = success, DeviceToken = [], re_PublicKey = publickey, PublicVpnPort = port\<rparr>"

text \<open>The responses that say no more than whether the request succeeded.\<close>

definition SuccessResponse :: "bool \<Rightarrow> rpc_reply" where
  "SuccessResponse success =
     \<lparr>Success = success, DeviceToken = [], re_PublicKey = [], PublicVpnPort = []\<rparr>"

end
