(* ===== verification/Ws_Session.thy ===== *)
theory Ws_Session
  imports Auth Device_Utils Jrpc_Types
begin

text \<open>
  What the two WebSocket handlers of the control plane share: the state they work on (database,
  connection manager, the calls sent to devices), the events that move a session, the jrpc handler
  that answers heartbeats, and the final wait.
\<close>

section \<open>What the handlers share\<close>

record world =
  db :: rvpn_db
  connMan :: ConnectionManager
  sent :: "(conn \<times> rpc_call) list"

definition send :: "conn \<Rightarrow> rpc_call \<Rightarrow> world \<Rightarrow> world" where
  "send c m w = w\<lparr>sent := sent w @ [(c, m)]\<rparr>"

definition run_db :: "(rvpn_db, 'a) stmt \<Rightarrow> world \<Rightarrow> 'a result \<times> world" where
  "run_db m w = (case m (db w) of (r, d) \<Rightarrow> (r, w\<lparr>db := d\<rparr>))"

text \<open>
  What moves a session: the scheduler (with the random id \<open>uuid.New\<close> returns if it is asked), an
  answer of the device that was called (with the clock's reading), an event of the final wait.
\<close>

datatype session_event =
    Run string
  | Reply int "rpc_reply result"
  | Wait wait_event

definition on_run :: "session_event \<Rightarrow> 'a \<Rightarrow> (string \<Rightarrow> 'a) \<Rightarrow> 'a" where
  "on_run e stay k = (case e of Run u \<Rightarrow> k u | _ \<Rightarrow> stay)"

definition on_reply :: "session_event \<Rightarrow> 'a \<Rightarrow> (int \<Rightarrow> rpc_reply result \<Rightarrow> 'a) \<Rightarrow> 'a" where
  "on_reply e stay k = (case e of Reply now r \<Rightarrow> k now r | _ \<Rightarrow> stay)"

definition on_wait :: "session_event \<Rightarrow> 'a \<Rightarrow> (wait_event \<Rightarrow> 'a) \<Rightarrow> 'a" where
  "on_wait e stay k = (case e of Wait v \<Rightarrow> k v | _ \<Rightarrow> stay)"

lemma on_event_simps [simp]:
  "on_run (Run u) s k = k u" "on_run (Reply now r) s k = s" "on_run (Wait v) s k = s"
  "on_reply (Reply now r) s k' = k' now r" "on_reply (Run u) s k' = s" "on_reply (Wait v) s k' = s"
  "on_wait (Wait v) s k'' = k'' v" "on_wait (Run u) s k'' = s" "on_wait (Reply now r) s k'' = s"
  by (simp_all add: on_run_def on_reply_def on_wait_def)

datatype panic_reason = FailedAssertion | NilPointer

text \<open>\<open>3*time.Minute\<close>, in seconds.\<close>

definition stale_timeout :: int where
  "stale_timeout = 180"

section \<open>The jrpc handlers and the final wait\<close>

text \<open>
  \<open>jrpcClientHandler.Handle\<close>: a heartbeat goes to the channel the wait reads and is answered, any other
  method gets no answer at all.
\<close>

definition session_Handle :: "int \<Rightarrow> string \<Rightarrow> wait_event option \<times> rpc_reply option" where
  "session_Handle now method =
     (if method = method_name DeviceHeartbeat
      then (Some (Heartbeat now), Some (SuccessResponse True)) else (None, None))"

text \<open>\<open>jrpcServeHandler.Handle\<close>, which is written out again and does the same.\<close>

definition serve_session_Handle :: "int \<Rightarrow> string \<Rightarrow> wait_event option \<times> rpc_reply option" where
  "serve_session_Handle now method =
     (if method = method_name DeviceHeartbeat
      then (Some (Heartbeat now), Some (SuccessResponse True)) else (None, None))"

lemma serve_session_Handle_eq: "serve_session_Handle = session_Handle"
  by (intro ext) (simp add: serve_session_Handle_def session_Handle_def)

definition session_wait :: "int \<Rightarrow> wait_event \<Rightarrow> int option" where
  "session_wait lastHeartbeat e =
     (case blockUntilStale stale_timeout lastHeartbeat [e] of
        Waiting l \<Rightarrow> Some l
      | Returned _ \<Rightarrow> None)"

text \<open>A row of the connection table as a peer of the VPN server.\<close>

definition peer_of :: "RVPNConnection \<Rightarrow> WireGuardPeer" where
  "peer_of c = \<lparr>PublicKey = c_pubkey c, AllowedIP = clientIp c, AllowedCidr = clientCidr c\<rparr>"

text \<open>
  A session alone: \<open>solo ev step n\<close> takes n steps, each with the event \<open>ev\<close> names for the stage the
  session is in.
\<close>

fun solo ::
  "('p \<Rightarrow> session_event) \<Rightarrow> (session_event \<Rightarrow> 'p \<Rightarrow> world \<Rightarrow> 'p \<times> world)
   \<Rightarrow> nat \<Rightarrow> 'p \<times> world \<Rightarrow> 'p \<times> world" where
  "solo ev step 0 s = s"
| "solo ev step (Suc n) s = solo ev step n (step (ev (fst s)) (fst s) (snd s))"

lemma solo_settled:
  "step (ev pc) pc w = (pc, w) \<Longrightarrow> solo ev step n (pc, w) = (pc, w)"
  by (induction n) auto

end
