(* ===== verification/Connect_Session.thy ===== *)
theory Connect_Session
  imports Ws_Session
begin

text \<open>
  The WebSocket handler of a connecting device (\<open>cmd/control-plane/device_connect.go\<close>).  Each
  device has its own goroutine, so the handler is a state machine whose steps end where the
  goroutine can be interrupted: at every call to a device and at every statement that touches the
  database.  One definition per stage, in the order of the code; \<open>connect_step\<close> runs the stage a
  session is in.  \<open>clientConnect_body\<close> is the same handler written straight through, for a session
  that is alone; the refinement theorem at the end says that it is what the stages compute when no
  other session runs in between.
\<close>

section \<open>createConnection\<close>

definition createConnection :: "RVPNConnection \<Rightarrow> (rvpn_db, unit) stmt" where
  "createConnection rVPNConnection =
     and_then (getConnection (c_target rVPNConnection) (c_deviceId rVPNConnection))
       (\<lambda>existing.
          if c_id existing \<noteq> [] then ok ()
          else and_then (db_createConnection rVPNConnection) (\<lambda>_. ok ()))"

section \<open>The stages of clientConnect\<close>

text \<open>
  Where a session is, with the local variables it still needs: the device id, the target's row, the
  public key the client reported, the device connection.
\<close>

datatype connect_pc =
    CAuth
  | CTarget string
  | CInfo string RVPNTarget
  | CLookup string RVPNTarget string
  | CSync RVPNTarget RVPNConnection string
  | CAlloc string RVPNTarget string
  | CCheck RVPNTarget RVPNConnection
  | CInsert RVPNTarget RVPNConnection
  | CAppend RVPNTarget RVPNConnection
  | CAwaitAppend RVPNTarget RVPNConnection
  | CConnect RVPNTarget RVPNConnection
  | CAwaitConnect RVPNTarget RVPNConnection
  | CWait int
  | CDone
  | CPanic panic_reason

text \<open>The answer to \<open>get_device_auth\<close>: the token must validate; an empty device id is only logged.\<close>

definition connect_auth ::
  "jwt_lib \<Rightarrow> string \<Rightarrow> rpc_reply result \<Rightarrow> world \<Rightarrow> connect_pc \<times> world" where
  "connect_auth J jwtSecret reply w =
     (case reply of
        Inl err \<Rightarrow> (CDone, w)
      | Inr getDeviceAuthResponse \<Rightarrow>
          (case ValidateDeviceToken J jwtSecret (DeviceToken getDeviceAuthResponse) of
             Return (Inr deviceId) \<Rightarrow> (CTarget deviceId, w)
           | Return (Inl err) \<Rightarrow> (CDone, w)
           | _ \<Rightarrow> (CPanic FailedAssertion, w)))"

definition connect_target ::
  "string \<Rightarrow> conn \<Rightarrow> string \<Rightarrow> world \<Rightarrow> connect_pc \<times> world" where
  "connect_target target me deviceId w =
     (case run_db (getTargetByName target) w of
        (Inl err, w) \<Rightarrow> (CDone, w)
      | (Inr rVPNTarget, w) \<Rightarrow>
          if \<not> targetServerAlive rVPNTarget (connMan w) then (CDone, w)
          else (case rVPNTarget of
                  None \<Rightarrow> (CDone, w)
                | Some t \<Rightarrow> (CInfo deviceId t, send me GetClientInformation w)))"

definition connect_info ::
  "string \<Rightarrow> RVPNTarget \<Rightarrow> rpc_reply result \<Rightarrow> world \<Rightarrow> connect_pc \<times> world" where
  "connect_info deviceId t reply w =
     (case reply of
        Inl err \<Rightarrow> (CDone, w)
      | Inr clientInformationResponse \<Rightarrow>
          (CLookup deviceId t (re_PublicKey clientInformationResponse), w))"

text \<open>
  An error of \<open>getConnection\<close> is only logged, and the zero connection it returns reads as
  \<open>no connection yet\<close>.
\<close>

definition connect_lookup ::
  "string \<Rightarrow> string \<Rightarrow> RVPNTarget \<Rightarrow> string \<Rightarrow> world \<Rightarrow> connect_pc \<times> world" where
  "connect_lookup target deviceId t pubkey w =
     (case run_db (getConnection target deviceId) w of
        (r, w) \<Rightarrow>
          let deviceConnection = (case r of Inl err \<Rightarrow> no_connection | Inr c \<Rightarrow> c)
          in if c_id deviceConnection \<noteq> []
             then if c_pubkey deviceConnection \<noteq> pubkey then (CSync t deviceConnection pubkey, w)
                  else (CConnect t deviceConnection, w)
             else (CAlloc deviceId t pubkey, w))"

definition connect_sync ::
  "RVPNTarget \<Rightarrow> RVPNConnection \<Rightarrow> string \<Rightarrow> world \<Rightarrow> connect_pc \<times> world" where
  "connect_sync t deviceConnection pubkey w =
     (case run_db (syncConnectionPubkey deviceConnection pubkey) w of
        (Inl err, w) \<Rightarrow> (CDone, w)
      | (Inr _, w) \<Rightarrow> (CAppend t (deviceConnection\<lparr>c_pubkey := pubkey\<rparr>), w))"

definition connect_alloc ::
  "string \<Rightarrow> string \<Rightarrow> RVPNTarget \<Rightarrow> string \<Rightarrow> string \<Rightarrow> world \<Rightarrow> connect_pc \<times> world" where
  "connect_alloc target deviceId t pubkey newUUID w =
     (case run_db (getNextClientIp target) w of
        (Inl err, w) \<Rightarrow> (CDone, w)
      | (Inr (ip, cidr), w) \<Rightarrow>
          (CCheck t \<lparr>c_id = newUUID, c_target = target, c_deviceId = deviceId, c_pubkey = pubkey,
                     clientIp = ip, clientCidr = cidr\<rparr>, w))"

text \<open>The two statements of \<open>createConnection\<close>, between which another session may run.\<close>

definition connect_check ::
  "RVPNTarget \<Rightarrow> RVPNConnection \<Rightarrow> world \<Rightarrow> connect_pc \<times> world" where
  "connect_check t deviceConnection w =
     (case run_db (getConnection (c_target deviceConnection) (c_deviceId deviceConnection)) w of
        (Inl err, w) \<Rightarrow> (CDone, w)
      | (Inr existing, w) \<Rightarrow>
          if c_id existing \<noteq> [] then (CAppend t deviceConnection, w)
          else (CInsert t deviceConnection, w))"

definition connect_insert ::
  "RVPNTarget \<Rightarrow> RVPNConnection \<Rightarrow> world \<Rightarrow> connect_pc \<times> world" where
  "connect_insert t deviceConnection w =
     (case run_db (db_createConnection deviceConnection) w of
        (Inl err, w) \<Rightarrow> (CDone, w)
      | (Inr _, w) \<Rightarrow> (CAppend t deviceConnection, w))"

text \<open>A nil server connection is logged and then called, which dereferences it.\<close>

definition connect_append ::
  "string \<Rightarrow> RVPNTarget \<Rightarrow> RVPNConnection \<Rightarrow> world \<Rightarrow> connect_pc \<times> world" where
  "connect_append target t deviceConnection w =
     (case getVPNServerConn target (connMan w) of
        None \<Rightarrow> (CPanic NilPointer, w)
      | Some vpnServerConn \<Rightarrow>
          (CAwaitAppend t deviceConnection,
           send vpnServerConn (AppendVPNPeers [peer_of deviceConnection]) w))"

definition connect_request :: "RVPNTarget \<Rightarrow> RVPNConnection \<Rightarrow> int \<Rightarrow> ConnectServerRequest" where
  "connect_request t deviceConnection port =
     \<lparr>ServerPublicKey = serverPubkey t, ClientPublicKey = c_pubkey deviceConnection,
      ClientIp = clientIp deviceConnection, ClientCidr = clientCidr deviceConnection,
      ServerIp = serverPublicIp t, ServerPort = port, DnsIp = dnsIp t\<rparr>"

definition connect_connect ::
  "conn \<Rightarrow> RVPNTarget \<Rightarrow> RVPNConnection \<Rightarrow> world \<Rightarrow> connect_pc \<times> world" where
  "connect_connect me t deviceConnection w =
     (case atoi (serverPublicVpnPort t) of
        Inl err \<Rightarrow> (CDone, w)
      | Inr port \<Rightarrow>
          (CAwaitConnect t deviceConnection,
           send me (ConnectServer (connect_request t deviceConnection port)) w))"

text \<open>Whatever the device answered, it is now registered as a client and the wait begins.\<close>

definition connect_register ::
  "string \<Rightarrow> conn \<Rightarrow> int \<Rightarrow> world \<Rightarrow> connect_pc \<times> world" where
  "connect_register target me now w =
     (CWait now, w\<lparr>connMan := setVPNClientConn target me (connMan w)\<rparr>)"

text \<open>One step of the session \<open>me\<close> for \<open>target\<close>; an event the stage does not wait for is ignored.\<close>

definition connect_step ::
  "jwt_lib \<Rightarrow> string \<Rightarrow> string \<Rightarrow> conn \<Rightarrow> session_event \<Rightarrow> connect_pc \<Rightarrow> world \<Rightarrow> connect_pc \<times> world"
where
  "connect_step J jwtSecret target me e pc w =
     (case pc of
        CAuth \<Rightarrow> on_reply e (pc, w) (\<lambda>now r. connect_auth J jwtSecret r w)
      | CTarget dev \<Rightarrow> on_run e (pc, w) (\<lambda>u. connect_target target me dev w)
      | CInfo dev t \<Rightarrow> on_reply e (pc, w) (\<lambda>now r. connect_info dev t r w)
      | CLookup dev t pubkey \<Rightarrow> on_run e (pc, w) (\<lambda>u. connect_lookup target dev t pubkey w)
      | CSync t c pubkey \<Rightarrow> on_run e (pc, w) (\<lambda>u. connect_sync t c pubkey w)
      | CAlloc dev t pubkey \<Rightarrow> on_run e (pc, w) (\<lambda>u. connect_alloc target dev t pubkey u w)
      | CCheck t c \<Rightarrow> on_run e (pc, w) (\<lambda>u. connect_check t c w)
      | CInsert t c \<Rightarrow> on_run e (pc, w) (\<lambda>u. connect_insert t c w)
      | CAppend t c \<Rightarrow> on_run e (pc, w) (\<lambda>u. connect_append target t c w)
      | CAwaitAppend t c \<Rightarrow> on_reply e (pc, w) (\<lambda>now r. (CConnect t c, w))
      | CConnect t c \<Rightarrow> on_run e (pc, w) (\<lambda>u. connect_connect me t c w)
      | CAwaitConnect t c \<Rightarrow> on_reply e (pc, w) (\<lambda>now r. connect_register target me now w)
      | CWait l \<Rightarrow>
          on_wait e (pc, w) (\<lambda>e. case session_wait l e of None \<Rightarrow> (CDone, w) | Some l' \<Rightarrow> (CWait l', w))
      | CDone \<Rightarrow> (pc, w)
      | CPanic r \<Rightarrow> (pc, w))"

section \<open>The handler written straight through\<close>

text \<open>
  Lines 104 to 158 of \<open>clientConnect\<close>: make sure the device has a connection.  The result is the
  connection and the flag \<open>appendPeerToVPNServer\<close>, or \<open>None\<close> where the handler returns.
\<close>

definition connect_ensure ::
  "string \<Rightarrow> string \<Rightarrow> string \<Rightarrow> string \<Rightarrow> world \<Rightarrow> (RVPNConnection \<times> bool) option \<times> world" where
  "connect_ensure target deviceId pubkey newUUID w =
     (case run_db (getConnection target deviceId) w of
        (found, w) \<Rightarrow>
     let deviceConnection = (case found of Inl err \<Rightarrow> no_connection | Inr c \<Rightarrow> c)
     in if c_id deviceConnection \<noteq> []
        then if c_pubkey deviceConnection \<noteq> pubkey
             then (case run_db (syncConnectionPubkey deviceConnection pubkey) w of
                     (Inl err, w) \<Rightarrow> (None, w)
                   | (Inr _, w) \<Rightarrow> (Some (deviceConnection\<lparr>c_pubkey := pubkey\<rparr>, True), w))
             else (Some (deviceConnection, False), w)
        else (case run_db (getNextClientIp target) w of
                (Inl err, w) \<Rightarrow> (None, w)
              | (Inr (ip, cidr), w) \<Rightarrow>
                  let c = \<lparr>c_id = newUUID, c_target = target, c_deviceId = deviceId,
                           c_pubkey = pubkey, clientIp = ip, clientCidr = cidr\<rparr>
                  in (case run_db (createConnection c) w of
                        (Inl err, w) \<Rightarrow> (None, w)
                      | (Inr _, w) \<Rightarrow> (Some (c, True), w))))"

text \<open>
  Lines 160 to 213: tell the server, tell the device, register the device and wait.  The clock is
  read when the wait begins.
\<close>

definition connect_issue ::
  "string \<Rightarrow> conn \<Rightarrow> int \<Rightarrow> RVPNTarget \<Rightarrow> RVPNConnection \<Rightarrow> bool \<Rightarrow> world \<Rightarrow> connect_pc \<times> world" where
  "connect_issue target me now t deviceConnection appendPeerToVPNServer w =
     (let appended =
        (if appendPeerToVPNServer
         then case getVPNServerConn target (connMan w) of
                None \<Rightarrow> None
              | Some vpnServerConn \<Rightarrow>
                  Some (send vpnServerConn (AppendVPNPeers [peer_of deviceConnection]) w)
         else Some w)
      in case appended of
           None \<Rightarrow> (CPanic NilPointer, w)
         | Some w \<Rightarrow>
             (case atoi (serverPublicVpnPort t) of
                Inl err \<Rightarrow> (CDone, w)
              | Inr intServerVpnPort \<Rightarrow>
                  let w = send me (ConnectServer (connect_request t deviceConnection intServerVpnPort)) w
                  in (CWait now, w\<lparr>connMan := setVPNClientConn target me (connMan w)\<rparr>)))"

text \<open>
  \<open>clientConnect\<close> for a session nobody interrupts, given the answers of the devices it calls: to
  \<open>get_device_auth\<close> and to \<open>get_client_information\<close> (the answers to \<open>append_vpn_peers\<close> and to
  \<open>connect_server\<close> are not used), the fresh id, and the clock when the wait begins.
\<close>

definition clientConnect_body ::
  "jwt_lib \<Rightarrow> string \<Rightarrow> string \<Rightarrow> conn \<Rightarrow> rpc_reply result \<Rightarrow> rpc_reply result \<Rightarrow> string \<Rightarrow> int
   \<Rightarrow> world \<Rightarrow> connect_pc \<times> world" where
  "clientConnect_body J jwtSecret target me authReply infoReply newUUID now w =
     (case authReply of
        Inl err \<Rightarrow> (CDone, w)
      | Inr getDeviceAuthResponse \<Rightarrow>
     (case ValidateDeviceToken J jwtSecret (DeviceToken getDeviceAuthResponse) of
        Panic \<Rightarrow> (CPanic FailedAssertion, w)
      | Fatal \<Rightarrow> (CPanic FailedAssertion, w)
      | Return (Inl err) \<Rightarrow> (CDone, w)
      | Return (Inr deviceId) \<Rightarrow>
     (case run_db (getTargetByName target) w of
        (Inl err, w) \<Rightarrow> (CDone, w)
      | (Inr rVPNTarget, w) \<Rightarrow>
     if \<not> targetServerAlive rVPNTarget (connMan w) then (CDone, w)
     else case rVPNTarget of None \<Rightarrow> (CDone, w) | Some t \<Rightarrow>
     let w = send me GetClientInformation w
     in case infoReply of
        Inl err \<Rightarrow> (CDone, w)
      | Inr clientInformationResponse \<Rightarrow>
     (case connect_ensure target deviceId (re_PublicKey clientInformationResponse) newUUID w of
        (None, w) \<Rightarrow> (CDone, w)
      | (Some (deviceConnection, appendPeerToVPNServer), w) \<Rightarrow>
          connect_issue target me now t deviceConnection appendPeerToVPNServer w))))"

section \<open>The stages compute the handler\<close>

text \<open>
  A session alone: \<open>solo_event\<close> is the event its stage waits for.  Eleven steps are enough for the longest path; afterwards the session waits or has ended.
\<close>

definition solo_event ::
  "rpc_reply result \<Rightarrow> rpc_reply result \<Rightarrow> rpc_reply result \<Rightarrow> rpc_reply result \<Rightarrow> string \<Rightarrow> int
   \<Rightarrow> connect_pc \<Rightarrow> session_event" where
  "solo_event authReply infoReply appendReply connectReply newUUID now pc =
     (case pc of
        CAuth \<Rightarrow> Reply now authReply
      | CInfo _ _ \<Rightarrow> Reply now infoReply
      | CAwaitAppend _ _ \<Rightarrow> Reply now appendReply
      | CAwaitConnect _ _ \<Rightarrow> Reply now connectReply
      | _ \<Rightarrow> Run newUUID)"

abbreviation run_solo where
  "run_solo J key target me ra ri rp rc u now \<equiv>
     solo (solo_event ra ri rp rc u now) (connect_step J key target me)"

lemma run_solo_settled [simp]:
  "run_solo J key target me ra ri rp rc u now n (CDone, w) = (CDone, w)"
  "run_solo J key target me ra ri rp rc u now n (CPanic r, w) = (CPanic r, w)"
  "run_solo J key target me ra ri rp rc u now n (CWait l, w) = (CWait l, w)"
  by (auto intro!: solo_settled simp: connect_step_def solo_event_def)

lemma solo_stages:
  fixes J and key target ra ri rp rc u and me :: conn and now :: int and n :: nat
  defines "R \<equiv> run_solo J key target me ra ri rp rc u now"
  shows
    "R (Suc n) (CAuth, w) = R n (connect_auth J key ra w)"
    "R (Suc n) (CTarget dev, w) = R n (connect_target target me dev w)"
    "R (Suc n) (CInfo dev t, w) = R n (connect_info dev t ri w)"
    "R (Suc n) (CLookup dev t pk, w) = R n (connect_lookup target dev t pk w)"
    "R (Suc n) (CSync t c pk, w) = R n (connect_sync t c pk w)"
    "R (Suc n) (CAlloc dev t pk, w) = R n (connect_alloc target dev t pk u w)"
    "R (Suc n) (CCheck t c, w) = R n (connect_check t c w)"
    "R (Suc n) (CInsert t c, w) = R n (connect_insert t c w)"
    "R (Suc n) (CAppend t c, w) = R n (connect_append target t c w)"
    "R (Suc n) (CAwaitAppend t c, w) = R n (CConnect t c, w)"
    "R (Suc n) (CConnect t c, w) = R n (connect_connect me t c w)"
    "R (Suc n) (CAwaitConnect t c, w) = R n (connect_register target me now w)"
  by (simp_all add: R_def connect_step_def solo_event_def)

lemma solo_issue:
  "run_solo J key target me ra ri rp rc u now (Suc (Suc n)) (CConnect t c, w) =
     connect_issue target me now t c False w"
  "run_solo J key target me ra ri rp rc u now (Suc (Suc (Suc (Suc n)))) (CAppend t c, w) =
     connect_issue target me now t c True w"
  by (simp_all add: solo_stages connect_issue_def connect_connect_def connect_append_def
      connect_register_def Let_def del: solo.simps(2) split: sum.split option.split)

definition issue_ensured ::
  "string \<Rightarrow> conn \<Rightarrow> int \<Rightarrow> RVPNTarget \<Rightarrow> (RVPNConnection \<times> bool) option \<times> world \<Rightarrow> connect_pc \<times> world" where
  "issue_ensured target me now t r =
     (case r of (None, w) \<Rightarrow> (CDone, w) | (Some (c, app), w) \<Rightarrow> connect_issue target me now t c app w)"

lemma solo_create:
  "run_solo J key target me ra ri rp rc u now (Suc (Suc (Suc (Suc (Suc (Suc n)))))) (CCheck t c, w) =
     (case run_db (createConnection c) w of
        (Inl err, w) \<Rightarrow> (CDone, w)
      | (Inr _, w) \<Rightarrow> connect_issue target me now t c True w)"
  by (auto simp: solo_stages(7,8) connect_check_def connect_insert_def run_db_def createConnection_def and_then_def
      ok_def solo_issue simp del: solo.simps(2) split: prod.split sum.split)

lemma solo_ensure:
  "run_solo J key target me ra ri rp rc u now (Suc (Suc (Suc (Suc (Suc (Suc (Suc (Suc n))))))))
       (CLookup dev t pk, w) =
     issue_ensured target me now t (connect_ensure target dev pk u w)"
proof -
  obtain r d where g: "run_db (getConnection target dev) w = (r, d)" by fastforce
  let ?q = "case r of Inl err \<Rightarrow> no_connection | Inr c \<Rightarrow> c"
  consider "c_id ?q = []" | "c_id ?q \<noteq> []" "c_pubkey ?q \<noteq> pk" | "c_id ?q \<noteq> []" "c_pubkey ?q = pk"
    by blast
  then show ?thesis
    by cases (simp_all add: solo_stages(4-6) g connect_lookup_def connect_ensure_def issue_ensured_def Let_def
        connect_alloc_def connect_sync_def solo_create solo_issue
        del: solo.simps(2) split: prod.split sum.split)
qed

text \<open>
  C12: The handler written straight through is what the stages of a session compute when nothing
  interrupts it: after any number of steps from eleven on, the session stands where
  \<open>clientConnect_body\<close> ends, with the same database, connection manager and messages.
\<close>

theorem clientConnect_refinement:
  "run_solo J key target me ra ri rp rc u now (n + 11) (CAuth, w) =
     clientConnect_body J key target me ra ri u now w"
proof -
  have n: "n + 11 = Suc (Suc (Suc (Suc (Suc (Suc (Suc (Suc (Suc (Suc (Suc n))))))))))" by simp
  show ?thesis
    unfolding n clientConnect_body_def
    by (simp add: solo_stages(1-3) connect_auth_def connect_target_def connect_info_def
        solo_ensure issue_ensured_def Let_def del: solo.simps(2)
        split: sum.split exec.split prod.split option.split)
qed

end
