(* ===== verification/Serve_Session.thy ===== *)
theory Serve_Session
  imports Ws_Session
begin

text \<open>
  The WebSocket handler of a serving device (\<open>cmd/control-plane/device_serve.go\<close>), in the same form
  as the connecting one: stages, a step function, the handler written straight through, and the
  theorem that relates them.
\<close>

section \<open>The stages of clientServe\<close>

text \<open>
  The local variables a session still needs: the target's row as it was read, with the fields of
  the server filled in from \<open>SUpdate\<close> on.
\<close>

datatype serve_pc =
    SAuth
  | STarget string
  | SInfo "RVPNTarget option"
  | SUpdate RVPNTarget
  | SList RVPNTarget int
  | SAwaitServe
  | SWait int
  | SDone
  | SPanic panic_reason

definition serve_auth ::
  "jwt_lib \<Rightarrow> string \<Rightarrow> rpc_reply result \<Rightarrow> world \<Rightarrow> serve_pc \<times> world" where
  "serve_auth J jwtSecret reply w =
     (case reply of
        Inl err \<Rightarrow> (SDone, w)
      | Inr getDeviceAuthResponse \<Rightarrow>
          (case ValidateDeviceToken J jwtSecret (DeviceToken getDeviceAuthResponse) of
             Return (Inr deviceId) \<Rightarrow> (STarget deviceId, w)
           | Return (Inl err) \<Rightarrow> (SDone, w)
           | _ \<Rightarrow> (SPanic FailedAssertion, w)))"

text \<open>A target that does not exist is logged; the handler goes on with the nil pointer.\<close>

definition serve_target :: "string \<Rightarrow> conn \<Rightarrow> world \<Rightarrow> serve_pc \<times> world" where
  "serve_target target me w =
     (case run_db (getTargetByName target) w of
        (Inl err, w) \<Rightarrow> (SDone, w)
      | (Inr rVPNTarget, w) \<Rightarrow> (SInfo rVPNTarget, send me GetServeInformation w))"

definition serve_info ::
  "string \<Rightarrow> RVPNTarget option \<Rightarrow> rpc_reply result \<Rightarrow> world \<Rightarrow> serve_pc \<times> world" where
  "serve_info clientPublicIP rVPNTarget reply w =
     (case reply of
        Inl err \<Rightarrow> (SDone, w)
      | Inr serveInformationResponse \<Rightarrow>
          (case rVPNTarget of
             None \<Rightarrow> (SPanic NilPointer, w)
           | Some t \<Rightarrow>
               (SUpdate (t\<lparr>serverPubkey := re_PublicKey serveInformationResponse,
                          serverPublicIp := clientPublicIP,
                          serverPublicVpnPort := PublicVpnPort serveInformationResponse\<rparr>), w)))"

text \<open>The result of \<open>updateTarget\<close> is not looked at.\<close>

definition serve_update :: "string \<Rightarrow> RVPNTarget \<Rightarrow> world \<Rightarrow> serve_pc \<times> world" where
  "serve_update target t w =
     (case run_db (updateTarget target t) w of
        (_, w) \<Rightarrow>
          (case atoi (serverPublicVpnPort t) of
             Inl err \<Rightarrow> (SDone, w)
           | Inr intServerVpnPort \<Rightarrow> (SList t intServerVpnPort, w)))"

definition serve_request :: "RVPNTarget \<Rightarrow> int \<Rightarrow> WireGuardPeer list \<Rightarrow> ServeVPNRequest" where
  "serve_request t port rVPNPeers =
     \<lparr>sv_ServerPublicKey = serverPubkey t, ServerInternalIp = serverInternalIp t,
      ServerInternalCidr = serverInternalCidr t, ServerPublicVPNPort = port, Peers = rVPNPeers\<rparr>"

text \<open>An error of \<open>getConnectionsByTarget\<close> is logged, and the server starts without peers.\<close>

definition serve_list ::
  "string \<Rightarrow> conn \<Rightarrow> RVPNTarget \<Rightarrow> int \<Rightarrow> world \<Rightarrow> serve_pc \<times> world" where
  "serve_list target me t port w =
     (case run_db (getConnectionsByTarget target) w of
        (r, w) \<Rightarrow>
          let targetConnections = (case r of Inl err \<Rightarrow> [] | Inr cs \<Rightarrow> cs);
              rVPNPeers = map peer_of targetConnections
          in (SAwaitServe, send me (ServeVPN (serve_request t port rVPNPeers)) w))"

text \<open>Whatever the device answered, it is now the server of the target.\<close>

definition serve_register :: "string \<Rightarrow> conn \<Rightarrow> int \<Rightarrow> world \<Rightarrow> serve_pc \<times> world" where
  "serve_register target me now w =
     (SWait now, w\<lparr>connMan := snd (setVPNServerConn target me (connMan w))\<rparr>)"

definition serve_step ::
  "jwt_lib \<Rightarrow> string \<Rightarrow> string \<Rightarrow> string \<Rightarrow> conn \<Rightarrow> session_event \<Rightarrow> serve_pc \<Rightarrow> world \<Rightarrow> serve_pc \<times> world"
where
  "serve_step J jwtSecret target clientPublicIP me e pc w =
     (case pc of
        SAuth \<Rightarrow> on_reply e (pc, w) (\<lambda>now r. serve_auth J jwtSecret r w)
      | STarget dev \<Rightarrow> on_run e (pc, w) (\<lambda>u. serve_target target me w)
      | SInfo t \<Rightarrow> on_reply e (pc, w) (\<lambda>now r. serve_info clientPublicIP t r w)
      | SUpdate t \<Rightarrow> on_run e (pc, w) (\<lambda>u. serve_update target t w)
      | SList t port \<Rightarrow> on_run e (pc, w) (\<lambda>u. serve_list target me t port w)
      | SAwaitServe \<Rightarrow> on_reply e (pc, w) (\<lambda>now r. serve_register target me now w)
      | SWait l \<Rightarrow>
          on_wait e (pc, w) (\<lambda>e. case session_wait l e of None \<Rightarrow> (SDone, w) | Some l' \<Rightarrow> (SWait l', w))
      | SDone \<Rightarrow> (pc, w)
      | SPanic r \<Rightarrow> (pc, w))"

section \<open>The handler written straight through\<close>

definition clientServe_body ::
  "jwt_lib \<Rightarrow> string \<Rightarrow> string \<Rightarrow> string \<Rightarrow> conn \<Rightarrow> rpc_reply result \<Rightarrow> rpc_reply result \<Rightarrow> int
   \<Rightarrow> world \<Rightarrow> serve_pc \<times> world" where
  "clientServe_body J jwtSecret target clientPublicIP me authReply infoReply now w =
     (case authReply of
        Inl err \<Rightarrow> (SDone, w)
      | Inr getDeviceAuthResponse \<Rightarrow>
     (case ValidateDeviceToken J jwtSecret (DeviceToken getDeviceAuthResponse) of
        Panic \<Rightarrow> (SPanic FailedAssertion, w)
      | Fatal \<Rightarrow> (SPanic FailedAssertion, w)
      | Return (Inl err) \<Rightarrow> (SDone, w)
      | Return (Inr deviceId) \<Rightarrow>
     (case run_db (getTargetByName target) w of
        (Inl err, w) \<Rightarrow> (SDone, w)
      | (Inr rVPNTarget, w) \<Rightarrow>
     let w = send me GetServeInformation w
     in case infoReply of
        Inl err \<Rightarrow> (SDone, w)
      | Inr serveInformationResponse \<Rightarrow>
     (case rVPNTarget of
        None \<Rightarrow> (SPanic NilPointer, w)
      | Some t0 \<Rightarrow>
     let t = t0\<lparr>serverPubkey := re_PublicKey serveInformationResponse,
                serverPublicIp := clientPublicIP,
                serverPublicVpnPort := PublicVpnPort serveInformationResponse\<rparr>
     in case run_db (updateTarget target t) w of
        (_, w) \<Rightarrow>
     (case atoi (serverPublicVpnPort t) of
        Inl err \<Rightarrow> (SDone, w)
      | Inr intServerVpnPort \<Rightarrow>
     (case run_db (getConnectionsByTarget target) w of
        (listed, w) \<Rightarrow>
     let rVPNPeers = (case listed of Inl err \<Rightarrow> [] | Inr cs \<Rightarrow> map peer_of cs);
         w = send me (ServeVPN (serve_request t intServerVpnPort rVPNPeers)) w
     in (SWait now, w\<lparr>connMan := snd (setVPNServerConn target me (connMan w))\<rparr>)))))))"

section \<open>The stages compute the handler\<close>

definition solo_serve_event ::
  "rpc_reply result \<Rightarrow> rpc_reply result \<Rightarrow> rpc_reply result \<Rightarrow> int \<Rightarrow> serve_pc \<Rightarrow> session_event" where
  "solo_serve_event authReply infoReply serveReply now pc =
     (case pc of
        SAuth \<Rightarrow> Reply now authReply
      | SInfo _ \<Rightarrow> Reply now infoReply
      | SAwaitServe \<Rightarrow> Reply now serveReply
      | _ \<Rightarrow> Run [])"

abbreviation run_solo_serve where
  "run_solo_serve J key target ip me ra ri rs now \<equiv>
     solo (solo_serve_event ra ri rs now) (serve_step J key target ip me)"

lemma solo_serve_settled [simp]:
  "run_solo_serve J key target ip me ra ri rs now n (SDone, w) = (SDone, w)"
  "run_solo_serve J key target ip me ra ri rs now n (SPanic r, w) = (SPanic r, w)"
  "run_solo_serve J key target ip me ra ri rs now n (SWait l, w) = (SWait l, w)"
  by (auto intro!: solo_settled simp: serve_step_def solo_serve_event_def)

lemma solo_serve_stages:
  fixes J and key target ip ra ri rs and me :: conn and now :: int and n :: nat
  defines "R \<equiv> run_solo_serve J key target ip me ra ri rs now"
  shows
    "R (Suc n) (SAuth, w) = R n (serve_auth J key ra w)"
    "R (Suc n) (STarget dev, w) = R n (serve_target target me w)"
    "R (Suc n) (SInfo t', w) = R n (serve_info ip t' ri w)"
    "R (Suc n) (SUpdate t, w) = R n (serve_update target t w)"
    "R (Suc n) (SList t port, w) = R n (serve_list target me t port w)"
    "R (Suc n) (SAwaitServe, w) = R n (serve_register target me now w)"
  by (simp_all add: R_def serve_step_def solo_serve_event_def)

text \<open>
  C39: The serving handler written straight through is what the stages of a session compute when
  nothing interrupts it, after any number of steps from six on.
\<close>

theorem clientServe_refinement:
  "run_solo_serve J key target ip me ra ri rs now (n + 6) (SAuth, w) =
     clientServe_body J key target ip me ra ri now w"
proof -
  have n: "n + 6 = Suc (Suc (Suc (Suc (Suc (Suc n)))))" by simp
  show ?thesis
    unfolding n clientServe_body_def
    by (simp add: solo_serve_stages serve_auth_def serve_target_def serve_info_def serve_update_def
        serve_list_def serve_register_def Let_def del: solo.simps(2)
        split: sum.split exec.split prod.split option.split)
qed

end
