(* ===== verification/Control_Plane.thy ===== *)
theory Control_Plane
  imports Http_Api Connect_Session Serve_Session
begin

text \<open>
  The whole control plane (\<open>cmd/control-plane/main.go\<close>): the HTTP routes and any number of
  WebSocket sessions, each a goroutine of its own, over one database and one connection manager.
  \<open>cp_step\<close> is one event; a run is a list of events.  Sessions are numbered in the order they are
  opened, and the number is also the session's jrpc connection.
\<close>

record system =
  cp_world :: world
  connects :: "conn \<Rightarrow> (string \<times> connect_pc) option"
  serves :: "conn \<Rightarrow> (string \<times> string \<times> serve_pc) option"
  next_conn :: conn

text \<open>
  \<open>Http\<close> carries the \<open>Authorization\<close> header; \<open>OpenServe\<close> the addresses of the \<open>X-Forwarded-For\<close>
  header (\<open>c.IPs()\<close>, whose first entry the handler takes).  \<open>Restart\<close> is the end of the process, a
  crash included, and its next start: the database stays, the rest is gone.
\<close>

datatype cp_event =
    Http "string option" api_request
  | OpenConnect string
  | OpenServe string "string list"
  | Connect conn session_event
  | Serve conn session_event
  | Restart

text \<open>The check both WebSocket routes make before they upgrade the connection.\<close>

definition ws_refused :: "string \<Rightarrow> response option" where
  "ws_refused target =
     (if target = [] then Some (Response 400 (ErrorResponse ''target must not be empty'')) else None)"

definition open_connect :: "string \<Rightarrow> system \<Rightarrow> system" where
  "open_connect target s =
     (case ws_refused target of
        Some _ \<Rightarrow> s
      | None \<Rightarrow>
          s\<lparr>cp_world := send (next_conn s) GetDeviceAuth (cp_world s),
            connects := (connects s)(next_conn s \<mapsto> (target, CAuth)),
            next_conn := Suc (next_conn s)\<rparr>)"

definition open_serve :: "string \<Rightarrow> string list \<Rightarrow> system \<Rightarrow> system" where
  "open_serve target forwarded s =
     (case ws_refused target of
        Some _ \<Rightarrow> s
      | None \<Rightarrow>
          (case forwarded of
             [] \<Rightarrow> s
           | clientPublicIP # _ \<Rightarrow>
               s\<lparr>cp_world := send (next_conn s) GetDeviceAuth (cp_world s),
                 serves := (serves s)(next_conn s \<mapsto> (target, clientPublicIP, SAuth)),
                 next_conn := Suc (next_conn s)\<rparr>))"

definition run_connect :: "jwt_lib \<Rightarrow> string \<Rightarrow> conn \<Rightarrow> session_event \<Rightarrow> system \<Rightarrow> system" where
  "run_connect J jwtSecret c e s =
     (case connects s c of
        None \<Rightarrow> s
      | Some (target, pc) \<Rightarrow>
          (case connect_step J jwtSecret target c e pc (cp_world s) of
             (pc', w') \<Rightarrow> s\<lparr>cp_world := w', connects := (connects s)(c \<mapsto> (target, pc'))\<rparr>))"

definition run_serve :: "jwt_lib \<Rightarrow> string \<Rightarrow> conn \<Rightarrow> session_event \<Rightarrow> system \<Rightarrow> system" where
  "run_serve J jwtSecret c e s =
     (case serves s c of
        None \<Rightarrow> s
      | Some (target, ip, pc) \<Rightarrow>
          (case serve_step J jwtSecret target ip c e pc (cp_world s) of
             (pc', w') \<Rightarrow> s\<lparr>cp_world := w', serves := (serves s)(c \<mapsto> (target, ip, pc'))\<rparr>))"

definition restart :: "system \<Rightarrow> system" where
  "restart s =
     s\<lparr>cp_world := (cp_world s)\<lparr>connMan := NewConnectionManager\<rparr>,
       connects := (\<lambda>c. map_option (\<lambda>(target, _). (target, CDone)) (connects s c)),
       serves := (\<lambda>c. map_option (\<lambda>(target, ip, _). (target, ip, SDone)) (serves s c))\<rparr>"

definition run_http :: "jwt_lib \<Rightarrow> string \<Rightarrow> string option \<Rightarrow> api_request \<Rightarrow> system \<Rightarrow> system" where
  "run_http J jwtSecret authHeader req s =
     (case serve_api J jwtSecret authHeader req (db (cp_world s)) of
        (_, d) \<Rightarrow> s\<lparr>cp_world := (cp_world s)\<lparr>db := d\<rparr>\<rparr>)"

fun cp_step :: "jwt_lib \<Rightarrow> string \<Rightarrow> cp_event \<Rightarrow> system \<Rightarrow> system" where
  "cp_step J key (Http h req) s = run_http J key h req s"
| "cp_step J key (OpenConnect target) s = open_connect target s"
| "cp_step J key (OpenServe target forwarded) s = open_serve target forwarded s"
| "cp_step J key (Connect c e) s = run_connect J key c e s"
| "cp_step J key (Serve c e) s = run_serve J key c e s"
| "cp_step J key Restart s = restart s"

text \<open>The first start, on empty tables, with any script for the database driver.\<close>

definition boot :: "db_answer list \<Rightarrow> system" where
  "boot script =
     \<lparr>cp_world = \<lparr>db = \<lparr>targets = [], target_acl = [], connections = [], devices = [],
                        answers = script\<rparr>,
                  connMan = NewConnectionManager, sent = []\<rparr>,
      connects = (\<lambda>_. None), serves = (\<lambda>_. None), next_conn = 0\<rparr>"

definition cp_run :: "jwt_lib \<Rightarrow> string \<Rightarrow> cp_event list \<Rightarrow> system \<Rightarrow> system" where
  "cp_run J key es s = fold (cp_step J key) es s"

lemma cp_run_simps [simp]:
  "cp_run J key [] s = s"
  "cp_run J key (e # es) s = cp_run J key es (cp_step J key e s)"
  "cp_run J key (es @ es') s = cp_run J key es' (cp_run J key es s)"
  by (simp_all add: cp_run_def)

end
