(* ===== verification/Control_Plane_Inv.thy ===== *)
theory Control_Plane_Inv
  imports Control_Plane
begin

text \<open>
  The invariant of the control plane over every run, whatever devices, users, the scheduler and the
  database driver do: what the tables hold, what sessions know, whom messages go to and whose keys
  they carry.  \<open>hist\<close> is what has happened so far: the events, and the targets of the sessions.
\<close>

section \<open>What devices have said\<close>

record hist =
  seen :: "cp_event set"
  clients_of :: "conn \<Rightarrow> string option"
  servers_of :: "conn \<Rightarrow> string option"

definition hist_le :: "hist \<Rightarrow> hist \<Rightarrow> bool" where
  "hist_le h h' \<longleftrightarrow> seen h \<subseteq> seen h' \<and> clients_of h \<subseteq>\<^sub>m clients_of h' \<and> servers_of h \<subseteq>\<^sub>m servers_of h'"

text \<open>The session has sent a token that validates for the device.\<close>

definition has_token :: "jwt_lib \<Rightarrow> string \<Rightarrow> hist \<Rightarrow> conn \<Rightarrow> string \<Rightarrow> bool" where
  "has_token J key h c dev \<longleftrightarrow>
     (\<exists>now r. Connect c (Reply now (Inr r)) \<in> seen h \<and>
              ValidateDeviceToken J key (DeviceToken r) = Return (Inr dev))"

text \<open>The session has a valid token and has reported the public key.\<close>

definition admitted :: "jwt_lib \<Rightarrow> string \<Rightarrow> hist \<Rightarrow> conn \<Rightarrow> string \<Rightarrow> bool" where
  "admitted J key h c pk \<longleftrightarrow>
     (\<exists>dev. has_token J key h c dev) \<and>
     (\<exists>now r. Connect c (Reply now (Inr r)) \<in> seen h \<and> re_PublicKey r = pk)"

text \<open>Some session for the target was admitted with the key.\<close>

definition vouched :: "jwt_lib \<Rightarrow> string \<Rightarrow> hist \<Rightarrow> string \<Rightarrow> string \<Rightarrow> bool" where
  "vouched J key h target pk \<longleftrightarrow> (\<exists>c. clients_of h c = Some target \<and> admitted J key h c pk)"

lemma hist_le_seen: "hist_le h h' \<Longrightarrow> x \<in> seen h \<Longrightarrow> x \<in> seen h'"
  by (auto simp: hist_le_def)

lemma has_token_mono: "has_token J key h c dev \<Longrightarrow> hist_le h h' \<Longrightarrow> has_token J key h' c dev"
  by (auto simp: has_token_def hist_le_def)

lemma admitted_mono:
  assumes "admitted J key h c pk" and le: "hist_le h h'"
  shows "admitted J key h' c pk"
proof -
  obtain dev now r where t: "has_token J key h c dev"
    and e: "Connect c (Reply now (Inr r)) \<in> seen h" and pk: "re_PublicKey r = pk"
    using assms(1) unfolding admitted_def by (elim conjE exE)
  have "has_token J key h' c dev" using t le by (rule has_token_mono)
  moreover have "Connect c (Reply now (Inr r)) \<in> seen h'" using le e by (rule hist_le_seen)
  ultimately show ?thesis using pk unfolding admitted_def by (intro conjI exI)
qed

lemma map_le_Some: "m c = Some x \<Longrightarrow> m \<subseteq>\<^sub>m m' \<Longrightarrow> m' c = Some x"
  by (metis domI map_le_def)

lemma hist_leD:
  "hist_le h h' \<Longrightarrow> clients_of h c = Some t \<Longrightarrow> clients_of h' c = Some t"
  "hist_le h h' \<Longrightarrow> servers_of h c = Some t \<Longrightarrow> servers_of h' c = Some t"
  unfolding hist_le_def using map_le_Some by fast+

lemma vouched_mono:
  assumes "vouched J key h target pk" and le: "hist_le h h'"
  shows "vouched J key h' target pk"
  using assms(1) admitted_mono [OF _ le] hist_leD(1) [OF le] unfolding vouched_def by blast

lemmas hist_mono = has_token_mono admitted_mono vouched_mono hist_leD

section \<open>The tables\<close>

text \<open>The network every target is created with.\<close>

definition rvpn_net :: prefix where
  "rvpn_net = \<lparr>pfx_addr = 168296449, pfx_bits = 23\<rparr>"

definition net_address :: "string \<Rightarrow> bool" where
  "net_address s \<longleftrightarrow> (\<exists>v. s = ip4_text v \<and> contains rvpn_net (Some v) \<and> pfx_addr rvpn_net < v)"

definition good_target :: "RVPNTarget \<Rightarrow> bool" where
  "good_target t \<longleftrightarrow>
     t_name t \<noteq> [] \<and> networkIp t = ''10.8.0.1'' \<and> networkCidr t = ''/23'' \<and> dnsIp t = ''1.1.1.1'' \<and>
     serverInternalIp t = ''10.8.0.1'' \<and> serverInternalCidr t = ''/23''"

definition good_row :: "jwt_lib \<Rightarrow> string \<Rightarrow> hist \<Rightarrow> RVPNConnection \<Rightarrow> bool" where
  "good_row J key h c \<longleftrightarrow>
     net_address (clientIp c) \<and> clientCidr c = ''/23'' \<and> vouched J key h (c_target c) (c_pubkey c)"

definition rows_inv :: "jwt_lib \<Rightarrow> string \<Rightarrow> hist \<Rightarrow> rvpn_db \<Rightarrow> bool" where
  "rows_inv J key h d \<longleftrightarrow>
     (\<forall>t \<in> set (targets d). good_target t) \<and> (\<forall>c \<in> set (connections d). good_row J key h c)"

definition db_inv :: "jwt_lib \<Rightarrow> string \<Rightarrow> hist \<Rightarrow> rvpn_db \<Rightarrow> bool" where
  "db_inv J key h d \<longleftrightarrow> keys_ok d \<and> rows_inv J key h d"

lemma good_row_mono: "good_row J key h c \<Longrightarrow> hist_le h h' \<Longrightarrow> good_row J key h' c"
  by (auto simp: good_row_def intro: hist_mono)

lemma db_inv_mono: "db_inv J key h d \<Longrightarrow> hist_le h h' \<Longrightarrow> db_inv J key h' d"
  by (auto simp: db_inv_def rows_inv_def intro: good_row_mono)

lemma tables_only_db_inv [simp]: "tables_only (db_inv J key h)"
  by (auto simp: tables_only_def db_inv_def rows_inv_def keys_ok_def)

lemma good_target_network:
  "good_target t \<Longrightarrow> parse_prefix (networkIp t @ networkCidr t) = Inr rvpn_net"
  using parse_default_prefix by (simp add: good_target_def rvpn_net_def)

lemma good_new_target: "target \<noteq> [] \<Longrightarrow> good_target (new_target target who)"
  by (simp add: good_target_def new_target_def)

text \<open>Each statement that writes keeps the invariant when it writes a good row.\<close>

lemma keeps_db_inv_conj:
  "keeps keys_ok m \<Longrightarrow> keeps (rows_inv J key h) m \<Longrightarrow> keeps (db_inv J key h) m"
  unfolding db_inv_def by (rule keeps_conj)

lemma tables_only_rows_inv [simp]: "tables_only (rows_inv J key h)"
  by (auto simp: tables_only_def rows_inv_def)

lemma keeps_db_inv_createTarget: "good_target t \<Longrightarrow> keeps (db_inv J key h) (db_createTarget t)"
  by (intro keeps_db_inv_conj keeps_keys_createTarget keepsI)
    (auto simp: rows_inv_def dest!: db_createTarget_outcome)

lemma keeps_db_inv_createDevice: "keeps (db_inv J key h) (createDevice w t hw i)"
  by (intro keeps_db_inv_conj keeps_keys_createDevice keepsI)
    (auto simp: rows_inv_def dest!: createDevice_outcome)

lemma keeps_db_inv_createConnection:
  "good_row J key h c \<Longrightarrow> keeps (db_inv J key h) (db_createConnection c)"
  by (intro keeps_db_inv_conj keeps_keys_createConnection keepsI)
    (auto simp: rows_inv_def dest!: db_createConnection_outcome)

lemma keeps_db_inv_updateTarget:
  assumes "good_target t"
  shows "keeps (db_inv J key h) (updateTarget name t)"
proof -
  have "good_target (t\<lparr>t_name := t_name r\<rparr>)" if "good_target r" for r
    using assms that by (simp add: good_target_def)
  then have "keeps (rows_inv J key h) (updateTarget name t)"
    unfolding updateTarget_def
    by (intro keeps_and_then keeps_exec_sql) (auto simp: rows_inv_def update_where_set)
  then show ?thesis by (intro keeps_db_inv_conj keeps_keys_updateTarget)
qed

lemma keeps_db_inv_updateConnection:
  assumes "good_row J key h c"
  shows "keeps (db_inv J key h) (updateConnection c)"
proof -
  have "keeps (rows_inv J key h) (updateConnection c)"
    unfolding updateConnection_def using assms
    by (intro keeps_and_then keeps_exec_sql)
      (auto simp: rows_inv_def update_where_set Let_def split: if_splits)
  then show ?thesis by (intro keeps_db_inv_conj keeps_keys_updateConnection)
qed

lemmas keeps_db_inv =
  keeps_queries [OF tables_only_db_inv] keeps_db_inv_createTarget keeps_db_inv_createDevice
  keeps_db_inv_createConnection keeps_db_inv_updateTarget keeps_db_inv_updateConnection

section \<open>The shared state\<close>

text \<open>What may be said to whom.\<close>

definition good_peer :: "jwt_lib \<Rightarrow> string \<Rightarrow> hist \<Rightarrow> string \<Rightarrow> WireGuardPeer \<Rightarrow> bool" where
  "good_peer J key h target p \<longleftrightarrow>
     net_address (AllowedIP p) \<and> AllowedCidr p = ''/23'' \<and> vouched J key h target (PublicKey p)"

definition good_request :: "ConnectServerRequest \<Rightarrow> bool" where
  "good_request r \<longleftrightarrow>
     net_address (ClientIp r) \<and> ClientCidr r = ''/23'' \<and> DnsIp r = ''1.1.1.1'' \<and>
     ServerPublicKey r \<noteq> [] \<and> ServerIp r \<noteq> []"

fun good_message :: "jwt_lib \<Rightarrow> string \<Rightarrow> hist \<Rightarrow> conn \<times> rpc_call \<Rightarrow> bool" where
  "good_message J key h (c, GetDeviceAuth) \<longleftrightarrow> True"
| "good_message J key h (c, GetClientInformation) \<longleftrightarrow>
     clients_of h c \<noteq> None \<and> (\<exists>dev. has_token J key h c dev)"
| "good_message J key h (c, GetServeInformation) \<longleftrightarrow> servers_of h c \<noteq> None"
| "good_message J key h (c, ConnectServer r) \<longleftrightarrow>
     clients_of h c \<noteq> None \<and> admitted J key h c (ClientPublicKey r) \<and> good_request r"
| "good_message J key h (c, ServeVPN r) \<longleftrightarrow>
     (\<exists>target. servers_of h c = Some target \<and> (\<forall>p \<in> set (Peers r). good_peer J key h target p)) \<and>
     ServerInternalIp r = ''10.8.0.1'' \<and> ServerInternalCidr r = ''/23''"
| "good_message J key h (c, AppendVPNPeers ps) \<longleftrightarrow>
     (\<exists>target. servers_of h c = Some target \<and> (\<forall>p \<in> set ps. good_peer J key h target p))"
| "good_message J key h (c, DeleteVPNPeers ps) \<longleftrightarrow> False"
| "good_message J key h (c, DeviceHeartbeat) \<longleftrightarrow> False"

definition connMan_inv :: "hist \<Rightarrow> ConnectionManager \<Rightarrow> bool" where
  "connMan_inv h m \<longleftrightarrow>
     (\<forall>t c. getVPNServerConn t m = Some c \<longrightarrow> servers_of h c = Some t) \<and>
     (\<forall>t. \<forall>c \<in> set (getVPNClientConn t m). clients_of h c = Some t)"

definition world_inv :: "jwt_lib \<Rightarrow> string \<Rightarrow> hist \<Rightarrow> world \<Rightarrow> bool" where
  "world_inv J key h w \<longleftrightarrow>
     db_inv J key h (db w) \<and> connMan_inv h (connMan w) \<and> (\<forall>m \<in> set (sent w). good_message J key h m)"

text \<open>What a step never takes back: registered servers, and owners of targets.\<close>

definition owner_of :: "world \<Rightarrow> (string \<times> string) set" where
  "owner_of w = (\<lambda>t. (t_name t, t_owner t)) ` set (targets (db w))"

definition grows :: "world \<Rightarrow> world \<Rightarrow> bool" where
  "grows w w' \<longleftrightarrow>
     (\<forall>t. getVPNServerConn t (connMan w) \<noteq> None \<longrightarrow> getVPNServerConn t (connMan w') \<noteq> None) \<and>
     owner_of w \<subseteq> owner_of w'"

lemma grows_refl [simp]: "grows w w"
  by (simp add: grows_def)

lemma grows_trans: "grows w w' \<Longrightarrow> grows w' w'' \<Longrightarrow> grows w w''"
  by (auto simp: grows_def)

lemma good_peer_mono: "good_peer J key h t p \<Longrightarrow> hist_le h h' \<Longrightarrow> good_peer J key h' t p"
  by (auto simp: good_peer_def intro: vouched_mono)

lemma good_message_mono:
  assumes "good_message J key h m" and le: "hist_le h h'"
  shows "good_message J key h' m"
proof -
  note up = hist_leD [OF le] has_token_mono [OF _ le] admitted_mono [OF _ le] good_peer_mono [OF _ le]
  obtain c q where m: "m = (c, q)" by fastforce
  show ?thesis
    using assms(1) unfolding m by (cases q) (auto dest: up)
qed

lemma connMan_inv_mono: "connMan_inv h m \<Longrightarrow> hist_le h h' \<Longrightarrow> connMan_inv h' m"
  unfolding connMan_inv_def using hist_leD by blast

lemma world_inv_mono: "world_inv J key h w \<Longrightarrow> hist_le h h' \<Longrightarrow> world_inv J key h' w"
  unfolding world_inv_def using db_inv_mono connMan_inv_mono good_message_mono by blast

lemma world_inv_send:
  "world_inv J key h (send c m w) \<longleftrightarrow> world_inv J key h w \<and> good_message J key h (c, m)"
  by (auto simp: world_inv_def send_def)

lemma send_simps [simp]:
  "db (send c m w) = db w" "connMan (send c m w) = connMan w" "owner_of (send c m w) = owner_of w"
  "grows w (send c m w)"
  by (simp_all add: send_def owner_of_def grows_def)

text \<open>Every statement of a session keeps the owners of targets; those it may use are these.\<close>

definition keeps_owners :: "(rvpn_db, 'a) stmt \<Rightarrow> bool" where
  "keeps_owners m \<longleftrightarrow>
     (\<forall>x. keeps (\<lambda>d. x \<in> (\<lambda>t. (t_name t, t_owner t)) ` set (targets d)) m)"

lemma run_db_inv:
  assumes "run_db m w = (r, w')" and "keeps (db_inv J key h) m" and "keeps_owners m"
    and "world_inv J key h w"
  shows "world_inv J key h w' \<and> grows w w' \<and> connMan w' = connMan w"
proof -
  obtain d where d: "m (db w) = (r, d)" "w' = w\<lparr>db := d\<rparr>"
    using assms(1) by (auto simp: run_db_def split: prod.splits)
  have "db_inv J key h d"
    using assms(2,4) d(1) by (auto simp: world_inv_def dest: keepsD)
  moreover have "owner_of w \<subseteq> owner_of w'"
    using assms(3) d unfolding keeps_owners_def owner_of_def by (auto dest!: keepsD)
  ultimately show ?thesis
    using assms(4) d(2) by (auto simp: world_inv_def grows_def)
qed

lemma keeps_owners_query: "keeps_owners (query_rows f)" "keeps_owners (query_row f')"
  by (auto simp: keeps_owners_def tables_only_def intro!: keeps_query_rows keeps_query_row)

lemma keeps_owners_and_then: "keeps_owners m \<Longrightarrow> (\<And>x. keeps_owners (f x)) \<Longrightarrow> keeps_owners (and_then m f)"
  by (auto simp: keeps_owners_def)

lemma keeps_owners_ok [simp]: "keeps_owners (ok x)" "keeps_owners (fail e)" "keeps_owners (one_row n)"
  by (simp_all add: keeps_owners_def)

lemma keeps_owners_exec:
  assumes "\<And>d n d'. f d = Some (n, d') \<Longrightarrow>
      (\<lambda>t. (t_name t, t_owner t)) ` set (targets d) \<subseteq> (\<lambda>t. (t_name t, t_owner t)) ` set (targets d')"
  shows "keeps_owners (exec_sql f)"
  unfolding keeps_owners_def
proof (intro allI keeps_exec_sql)
  show "tables_only (\<lambda>d. x \<in> (\<lambda>t. (t_name t, t_owner t)) ` set (targets d))" for x
    by (simp add: tables_only_def)
qed (use assms in blast)

lemma keeps_owners_stmts [simp]:
  "keeps_owners (getTargetByName t)" "keeps_owners (getConnection t dev)"
  "keeps_owners (getTargetClientIps t)" "keeps_owners (getConnectionsByTarget t)"
  "keeps_owners (getTargetsByPrincipal w)" "keeps_owners (getTargetsByOwner w)"
  "keeps_owners (getDeviceId w i)"
  "keeps_owners (db_createConnection c)" "keeps_owners (updateConnection c)"
  "keeps_owners (createDevice w t i j)" "keeps_owners (db_createTarget row)"
  unfolding getTargetByName_def getConnection_def getTargetClientIps_def getConnectionsByTarget_def
    getTargetsByPrincipal_def getTargetsByOwner_def getDeviceId_def db_createConnection_def
    updateConnection_def createDevice_def db_createTarget_def
  by (auto simp: keeps_owners_query insert_unless_def Let_def
      intro!: keeps_owners_and_then keeps_owners_exec split: if_splits)

text \<open>A session writes a target's row back with the owner it has read.\<close>

lemma run_updateTarget:
  assumes "run_db (updateTarget name t) w = (r, w')" and "world_inv J key h w"
    and "good_target t" and "t_name t = name" and "(name, t_owner t) \<in> owner_of w"
  shows "world_inv J key h w' \<and> grows w w' \<and> connMan w' = connMan w"
proof -
  let ?P = "\<lambda>d. keys_ok d \<and> (name, t_owner t) \<in> (\<lambda>t. (t_name t, t_owner t)) ` set (targets d)"
  have unique: "t_owner q = t_owner t" if "?P d" "q \<in> set (targets d)" "t_name q = name" for d q
    using that by (auto simp: keys_ok_def distinct_map inj_on_def)
  have "keeps (\<lambda>d. ?P d \<and> x \<in> (\<lambda>t. (t_name t, t_owner t)) ` set (targets d)) (updateTarget name t)" for x
    unfolding updateTarget_def
  proof (intro keeps_and_then keeps_exec_sql)
    let ?Q = "\<lambda>d. ?P d \<and> x \<in> (\<lambda>t. (t_name t, t_owner t)) ` set (targets d)"
    show "tables_only ?Q" by (simp add: tables_only_def keys_ok_def)
    fix d n d'
    assume q: "?Q d" and d': "Some (length (filter (\<lambda>r. t_name r = name) (targets d)),
        d\<lparr>targets := update_where (\<lambda>r. t_name r = name) (\<lambda>r. t\<lparr>t_name := t_name r\<rparr>) (targets d)\<rparr>)
      = Some (n, d')"
    have "map (\<lambda>t. (t_name t, t_owner t)) (targets d') = map (\<lambda>t. (t_name t, t_owner t)) (targets d)"
    proof -
      have t': "targets d' =
        map (\<lambda>r. if t_name r = name then t\<lparr>t_name := t_name r\<rparr> else r) (targets d)"
        using d' by (auto simp: update_where_def)
      have "t_owner t = t_owner r" if "r \<in> set (targets d)" "t_name r = name" for r
        using unique [of d r] q that by simp
      then show ?thesis unfolding t' by simp
    qed
    then have "(\<lambda>t. (t_name t, t_owner t)) ` set (targets d') = (\<lambda>t. (t_name t, t_owner t)) ` set (targets d)"
      by (metis set_map)
    moreover have "keys_ok d'" using d' q by (auto simp: keys_ok_def)
    ultimately show "?Q d'" using q by simp
  qed simp
  note K = this
  obtain d where d: "updateTarget name t (db w) = (r, d)" "w' = w\<lparr>db := d\<rparr>"
    using assms(1) by (auto simp: run_db_def split: prod.splits)
  have "x \<in> owner_of w'" if "x \<in> owner_of w" for x
    using keepsD [OF K [of x] _ d(1)] that assms(2,5) d(2)
    by (simp add: owner_of_def world_inv_def db_inv_def)
  moreover have "db_inv J key h d"
    using keepsD [OF keeps_db_inv_updateTarget [OF assms(3)] _ d(1)] assms(2)
    by (simp add: world_inv_def)
  ultimately show ?thesis using assms(2) d(2) by (auto simp: world_inv_def grows_def)
qed

end
