(* ===== verification/Control_Plane_Safety.thy ===== *)
theory Control_Plane_Safety
  imports Control_Plane_Inv
begin

text \<open>
  Every stage of a session keeps the invariant of the control plane, so every event does, so every
  run does; and what follows from it for the messages, the tables and the sessions.
\<close>

section \<open>What a connecting session knows\<close>

definition ready :: "world \<Rightarrow> string \<Rightarrow> RVPNTarget \<Rightarrow> bool" where
  "ready w target t \<longleftrightarrow>
     good_target t \<and> serverPubkey t \<noteq> [] \<and> serverPublicIp t \<noteq> [] \<and>
     getVPNServerConn target (connMan w) \<noteq> None"

definition own_row :: "jwt_lib \<Rightarrow> string \<Rightarrow> hist \<Rightarrow> conn \<Rightarrow> string \<Rightarrow> RVPNConnection \<Rightarrow> bool" where
  "own_row J key h c target q \<longleftrightarrow>
     c_target q = target \<and> net_address (clientIp q) \<and> clientCidr q = ''/23'' \<and>
     admitted J key h c (c_pubkey q)"

fun connect_inv ::
  "jwt_lib \<Rightarrow> string \<Rightarrow> hist \<Rightarrow> world \<Rightarrow> conn \<Rightarrow> string \<Rightarrow> connect_pc \<Rightarrow> bool" where
  "connect_inv J key h w c target CAuth = True"
| "connect_inv J key h w c target (CTarget dev) = has_token J key h c dev"
| "connect_inv J key h w c target (CInfo dev t) = (has_token J key h c dev \<and> ready w target t)"
| "connect_inv J key h w c target (CLookup dev t pk) = (admitted J key h c pk \<and> ready w target t)"
| "connect_inv J key h w c target (CSync t q pk) =
     (own_row J key h c target (q\<lparr>c_pubkey := pk\<rparr>) \<and> ready w target t)"
| "connect_inv J key h w c target (CAlloc dev t pk) = (admitted J key h c pk \<and> ready w target t)"
| "connect_inv J key h w c target (CCheck t q) = (own_row J key h c target q \<and> ready w target t)"
| "connect_inv J key h w c target (CInsert t q) = (own_row J key h c target q \<and> ready w target t)"
| "connect_inv J key h w c target (CAppend t q) = (own_row J key h c target q \<and> ready w target t)"
| "connect_inv J key h w c target (CAwaitAppend t q) = (own_row J key h c target q \<and> ready w target t)"
| "connect_inv J key h w c target (CConnect t q) = (own_row J key h c target q \<and> ready w target t)"
| "connect_inv J key h w c target (CAwaitConnect t q) = (own_row J key h c target q \<and> ready w target t)"
| "connect_inv J key h w c target (CWait l) = True"
| "connect_inv J key h w c target CDone = True"
| "connect_inv J key h w c target (CPanic r) = (r = FailedAssertion)"

lemma ready_grows: "ready w target t \<Longrightarrow> grows w w' \<Longrightarrow> ready w' target t"
  unfolding ready_def grows_def by blast

lemma own_row_mono: "own_row J key h c target q \<Longrightarrow> hist_le h h' \<Longrightarrow> own_row J key h' c target q"
  by (auto simp: own_row_def intro: admitted_mono)

lemma connect_inv_mono:
  assumes "connect_inv J key h w c target pc" and "hist_le h h'" and "grows w w'"
  shows "connect_inv J key h' w' c target pc"
  using assms(1) has_token_mono [OF _ assms(2)] admitted_mono [OF _ assms(2)]
    own_row_mono [OF _ assms(2)] ready_grows [OF _ assms(3)]
  by (cases pc) auto

lemma own_row_good: "own_row J key h c target q \<Longrightarrow> clients_of h c = Some target \<Longrightarrow> good_row J key h q"
  by (auto simp: own_row_def good_row_def vouched_def)

lemma own_row_peer:
  "own_row J key h c target q \<Longrightarrow> clients_of h c = Some target \<Longrightarrow> good_peer J key h target (peer_of q)"
  by (auto simp: own_row_def good_peer_def peer_of_def vouched_def)

definition stage_ok ::
  "jwt_lib \<Rightarrow> string \<Rightarrow> hist \<Rightarrow> conn \<Rightarrow> string \<Rightarrow> world \<Rightarrow> connect_pc \<times> world \<Rightarrow> bool" where
  "stage_ok J key h c target w r \<longleftrightarrow>
     world_inv J key h (snd r) \<and> connect_inv J key h (snd r) c target (fst r) \<and> grows w (snd r)"

lemma stage_ok_same [simp]:
  "stage_ok J key h c target w (pc, w) \<longleftrightarrow> world_inv J key h w \<and> connect_inv J key h w c target pc"
  by (simp add: stage_ok_def)

section \<open>The stages of a connecting session\<close>

lemma connect_auth_ok:
  assumes "world_inv J key h w" and "Connect c (Reply now r) \<in> seen h"
  shows "stage_ok J key h c target w (connect_auth J key r w)"
  using assms
  by (auto simp: connect_auth_def has_token_def split: sum.split exec.split)

lemma alive_ready:
  "targetServerAlive (Some t) (connMan w) \<Longrightarrow> good_target t \<Longrightarrow> t_name t = target \<Longrightarrow> ready w target t"
  by (auto simp: targetServerAlive_def ready_def split: if_splits)

lemma connect_target_ok:
  assumes "world_inv J key h w" and "has_token J key h c dev" and "clients_of h c = Some target"
  shows "stage_ok J key h c target w (connect_target target c dev w)"
proof -
  obtain r w1 where r: "run_db (getTargetByName target) w = (r, w1)" by fastforce
  have w1: "world_inv J key h w1" "grows w w1" "connMan w1 = connMan w"
    using run_db_inv [OF r keeps_db_inv(4) keeps_owners_stmts(1) assms(1)] by auto
  have row: "good_target t \<and> t_name t = target" if some: "r = Inr (Some t)" for t
  proof -
    obtain d where "getTargetByName target (db w) = (Inr (Some t), d)"
      using r some by (auto simp: run_db_def split: prod.splits)
    from getTargetByName_Inr(3) [OF this refl] show ?thesis
      using assms(1) by (auto simp: world_inv_def db_inv_def rows_inv_def)
  qed
  show ?thesis
    using w1 assms row alive_ready [of _ w1]
    by (auto simp: connect_target_def r stage_ok_def world_inv_send ready_grows targetServerAlive_def
        ready_def grows_def intro: grows_trans split: sum.split option.split)
qed

lemma connect_info_ok:
  assumes "world_inv J key h w" and "connect_inv J key h w c target (CInfo dev t)"
    and "Connect c (Reply now r) \<in> seen h"
  shows "stage_ok J key h c target w (connect_info dev t r w)"
  using assms by (auto simp: connect_info_def admitted_def split: sum.split)


lemma run_getConnection:
  assumes "run_db (getConnection target dev) w = (Inr q, w')" and "c_id q \<noteq> []"
    and "world_inv J key h w"
  shows "c_target q = target \<and> good_row J key h q"
proof -
  obtain d where "getConnection target dev (db w) = (Inr q, d)"
    using assms(1) by (auto simp: run_db_def split: prod.splits)
  from getConnection_Inr [OF this] show ?thesis
    using assms(2,3) by (auto simp: world_inv_def db_inv_def rows_inv_def no_connection_def)
qed

lemma connect_lookup_ok:
  assumes "world_inv J key h w" and "connect_inv J key h w c target (CLookup dev t pk)"
  shows "stage_ok J key h c target w (connect_lookup target dev t pk w)"
proof -
  obtain r w1 where r: "run_db (getConnection target dev) w = (r, w1)" by fastforce
  have w1: "world_inv J key h w1" "grows w w1"
    using run_db_inv [OF r keeps_db_inv(6) keeps_owners_stmts(2) assms(1)] by auto
  have rd: "ready w1 target t" using assms(2) ready_grows [OF _ w1(2)] by simp
  show ?thesis
  proof (cases r)
    case (Inl e)
    then show ?thesis
      using w1 rd assms by (simp add: connect_lookup_def r stage_ok_def no_connection_def)
  next
    case (Inr q)
    have "c_target q = target \<and> good_row J key h q" if "c_id q \<noteq> []"
      using run_getConnection [OF _ that assms(1)] r Inr by blast
    then show ?thesis
      using w1 rd assms Inr
      by (auto simp: connect_lookup_def r stage_ok_def own_row_def good_row_def Let_def)
  qed
qed

lemma keeps_sync:
  "good_row J key h (q\<lparr>c_pubkey := pk\<rparr>) \<Longrightarrow> keeps (db_inv J key h) (syncConnectionPubkey q pk)"
  unfolding syncConnectionPubkey_def by (intro keeps_and_then keeps_db_inv_updateConnection) simp_all

lemma connect_sync_ok:
  assumes "world_inv J key h w" and "connect_inv J key h w c target (CSync t q pk)"
    and "clients_of h c = Some target"
  shows "stage_ok J key h c target w (connect_sync t q pk w)"
proof -
  obtain r w1 where r: "run_db (syncConnectionPubkey q pk) w = (r, w1)" by fastforce
  have own: "own_row J key h c target (q\<lparr>c_pubkey := pk\<rparr>)" using assms(2) by simp
  have "keeps_owners (syncConnectionPubkey q pk)"
    by (simp add: syncConnectionPubkey_def keeps_owners_and_then)
  then have w1: "world_inv J key h w1" "grows w w1"
    using run_db_inv [OF r keeps_sync [OF own_row_good [OF own assms(3)]] _ assms(1)] by auto
  show ?thesis
    using w1 own assms(2) ready_grows [OF _ w1(2)]
    by (auto simp: connect_sync_def r stage_ok_def split: sum.split)
qed

lemma keeps_getNextClientIp:
  "keeps (db_inv J key h) (getNextClientIp target)" "keeps_owners (getNextClientIp target)"
  unfolding getNextClientIp_def
  by (auto intro!: keeps_and_then keeps_owners_and_then keeps_db_inv split: option.split sum.split
      simp: Let_def)

lemma allocated_address:
  assumes "getNextClientIp target d = (Inr (ip, cidr), d')" and "db_inv J key h d"
  shows "net_address ip \<and> cidr = ''/23''"
proof -
  obtain row p used where row: "row \<in> set (targets d)" "cidr = networkCidr row"
    and p: "parse_prefix (networkIp row @ networkCidr row) = Inr p"
    and ip: "ip = next_free_ip p used (next_addr (Some (pfx_addr p)))" "ip \<noteq> []"
    using getNextClientIp_Inr [OF assms(1)] by blast
  have g: "good_target row" using row(1) assms(2) by (auto simp: db_inv_def rows_inv_def)
  then have "p = rvpn_net" using good_target_network p by auto
  moreover obtain v where "pfx_addr p < v" "contains p (Some v)" "ip = ip4_text v"
    using next_addr_found [OF ip(1) [symmetric] ip(2)] by blast
  ultimately show ?thesis
    using g row(2) by (auto simp: net_address_def good_target_def)
qed

lemma connect_alloc_ok:
  assumes "world_inv J key h w" and "connect_inv J key h w c target (CAlloc dev t pk)"
  shows "stage_ok J key h c target w (connect_alloc target dev t pk u w)"
proof -
  obtain r w1 where r: "run_db (getNextClientIp target) w = (r, w1)" by fastforce
  have w1: "world_inv J key h w1" "grows w w1"
    using run_db_inv [OF r keeps_getNextClientIp assms(1)] by auto
  have "net_address ip \<and> cidr = ''/23''" if "r = Inr (ip, cidr)" for ip cidr
    using r that assms(1) allocated_address
    by (auto simp: run_db_def world_inv_def split: prod.splits)
  then show ?thesis
    using w1 assms(2) ready_grows [OF _ w1(2)]
    by (auto simp: connect_alloc_def r stage_ok_def own_row_def split: sum.split)
qed

lemma connect_check_ok:
  assumes "world_inv J key h w" and "connect_inv J key h w c target (CCheck t q)"
  shows "stage_ok J key h c target w (connect_check t q w)"
proof -
  obtain r w1 where r: "run_db (getConnection (c_target q) (c_deviceId q)) w = (r, w1)" by fastforce
  have w1: "world_inv J key h w1" "grows w w1"
    using run_db_inv [OF r keeps_db_inv(6) keeps_owners_stmts(2) assms(1)] by auto
  show ?thesis
    using w1 assms(2) ready_grows [OF _ w1(2)]
    by (auto simp: connect_check_def r stage_ok_def split: sum.split)
qed

lemma connect_insert_ok:
  assumes "world_inv J key h w" and "connect_inv J key h w c target (CInsert t q)"
    and "clients_of h c = Some target"
  shows "stage_ok J key h c target w (connect_insert t q w)"
proof -
  obtain r w1 where r: "run_db (db_createConnection q) w = (r, w1)" by fastforce
  have "good_row J key h q" using assms(2,3) own_row_good by auto
  then have w1: "world_inv J key h w1" "grows w w1"
    using run_db_inv [OF r keeps_db_inv_createConnection keeps_owners_stmts(8) assms(1)] by auto
  show ?thesis
    using w1 assms(2) ready_grows [OF _ w1(2)]
    by (auto simp: connect_insert_def r stage_ok_def split: sum.split)
qed

text \<open>The nil server connection the code tests for cannot occur here: entries are never removed.\<close>

lemma connect_append_ok:
  assumes "world_inv J key h w" and "connect_inv J key h w c target (CAppend t q)"
    and "clients_of h c = Some target"
  shows "stage_ok J key h c target w (connect_append target t q w)"
proof -
  obtain srv where srv: "getVPNServerConn target (connMan w) = Some srv"
    using assms(2) by (auto simp: ready_def)
  then have "servers_of h srv = Some target"
    using assms(1) by (auto simp: world_inv_def connMan_inv_def)
  then have "good_message J key h (srv, AppendVPNPeers [peer_of q])"
    using own_row_peer assms(2,3) by auto
  then show ?thesis
    using assms(1,2) srv ready_grows [OF _ send_simps(4)]
    by (auto simp: connect_append_def stage_ok_def world_inv_send)
qed

lemma connect_connect_ok:
  assumes "world_inv J key h w" and "connect_inv J key h w c target (CConnect t q)"
    and "clients_of h c = Some target"
  shows "stage_ok J key h c target w (connect_connect c t q w)"
proof -
  have "good_message J key h (c, ConnectServer (connect_request t q port))" for port
    using assms(2,3)
    by (auto simp: connect_request_def good_request_def own_row_def ready_def good_target_def)
  then show ?thesis
    using assms(1,2) ready_grows [OF _ send_simps(4)]
    by (auto simp: connect_connect_def stage_ok_def world_inv_send split: sum.split)
qed

lemma connect_register_ok:
  assumes "world_inv J key h w" and "clients_of h c = Some target"
  shows "stage_ok J key h c target w (connect_register target c now w)"
  using assms
  by (auto simp: connect_register_def stage_ok_def world_inv_def connMan_inv_def grows_def owner_of_def
      getVPNClientConn_setClient split: if_splits)

lemma connect_step_ok:
  assumes "world_inv J key h w" and "connect_inv J key h w c target pc"
    and "clients_of h c = Some target" and "Connect c e \<in> seen h"
  shows "stage_ok J key h c target w (connect_step J key target c e pc w)"
proof (cases pc)
  case CAuth
  then show ?thesis using assms connect_auth_ok by (cases e) (auto simp: connect_step_def)
next
  case (CTarget dev)
  then show ?thesis using assms connect_target_ok by (cases e) (auto simp: connect_step_def)
next
  case (CInfo dev t)
  then show ?thesis using assms connect_info_ok by (cases e) (auto simp: connect_step_def)
next
  case (CLookup dev t pk)
  then show ?thesis using assms connect_lookup_ok by (cases e) (auto simp: connect_step_def)
next
  case (CSync t q pk)
  then show ?thesis using assms connect_sync_ok by (cases e) (auto simp: connect_step_def)
next
  case (CAlloc dev t pk)
  then show ?thesis using assms connect_alloc_ok by (cases e) (auto simp: connect_step_def)
next
  case (CCheck t q)
  then show ?thesis using assms connect_check_ok by (cases e) (auto simp: connect_step_def)
next
  case (CInsert t q)
  then show ?thesis using assms connect_insert_ok by (cases e) (auto simp: connect_step_def)
next
  case (CAppend t q)
  then show ?thesis using assms connect_append_ok by (cases e) (auto simp: connect_step_def)
next
  case (CAwaitAppend t q)
  then show ?thesis using assms by (cases e) (auto simp: connect_step_def)
next
  case (CConnect t q)
  then show ?thesis using assms connect_connect_ok by (cases e) (auto simp: connect_step_def)
next
  case (CAwaitConnect t q)
  then show ?thesis using assms connect_register_ok by (cases e) (auto simp: connect_step_def)
next
  case (CWait l)
  then show ?thesis using assms by (cases e) (auto simp: connect_step_def split: option.split)
qed (use assms in \<open>auto simp: connect_step_def\<close>)

section \<open>The stages of a serving session\<close>

definition read_row :: "world \<Rightarrow> string \<Rightarrow> RVPNTarget \<Rightarrow> bool" where
  "read_row w target t \<longleftrightarrow> good_target t \<and> t_name t = target \<and> (target, t_owner t) \<in> owner_of w"

fun serve_inv :: "world \<Rightarrow> string \<Rightarrow> serve_pc \<Rightarrow> bool" where
  "serve_inv w target (SInfo (Some t)) = read_row w target t"
| "serve_inv w target (SUpdate t) = read_row w target t"
| "serve_inv w target (SList t port) = read_row w target t"
| "serve_inv w target pc = True"

lemma serve_inv_grows:
  assumes "serve_inv w target pc" and "grows w w'"
  shows "serve_inv w' target pc"
proof -
  have "read_row w' target t" if "read_row w target t" for t
    using that assms(2) by (auto simp: read_row_def grows_def)
  then show ?thesis using assms(1) by (cases "(w, target, pc)" rule: serve_inv.cases) auto
qed

definition serve_ok ::
  "jwt_lib \<Rightarrow> string \<Rightarrow> hist \<Rightarrow> string \<Rightarrow> world \<Rightarrow> serve_pc \<times> world \<Rightarrow> bool" where
  "serve_ok J key h target w r \<longleftrightarrow>
     world_inv J key h (snd r) \<and> serve_inv (snd r) target (fst r) \<and> grows w (snd r)"

lemma serve_ok_same [simp]:
  "serve_ok J key h target w (pc, w) \<longleftrightarrow> world_inv J key h w \<and> serve_inv w target pc"
  by (simp add: serve_ok_def)

lemma serve_target_ok:
  assumes "world_inv J key h w" and "servers_of h c = Some target"
  shows "serve_ok J key h target w (serve_target target c w)"
proof -
  obtain r w1 where r: "run_db (getTargetByName target) w = (r, w1)" by fastforce
  have w1: "world_inv J key h w1" "grows w w1"
    using run_db_inv [OF r keeps_db_inv(4) keeps_owners_stmts(1) assms(1)] by auto
  have row: "read_row w target t" if some: "r = Inr (Some t)" for t
  proof -
    obtain d where "getTargetByName target (db w) = (Inr (Some t), d)"
      using r some by (auto simp: run_db_def split: prod.splits)
    from getTargetByName_Inr(3) [OF this refl] show ?thesis
      using assms(1) by (force simp: world_inv_def db_inv_def rows_inv_def read_row_def owner_of_def)
  qed
  have "serve_inv w target (SInfo t)" if "r = Inr t" for t
    using row that by (cases t) auto
  then have "serve_inv (send c GetServeInformation w1) target (SInfo t)" if "r = Inr t" for t
    using that serve_inv_grows [OF _ grows_trans [OF w1(2) send_simps(4)]] by blast
  then show ?thesis
    using w1 assms(2) grows_trans [OF w1(2) send_simps(4)]
    by (auto simp: serve_target_def r serve_ok_def world_inv_send split: sum.split)
qed

lemma serve_info_ok:
  assumes "world_inv J key h w" and "serve_inv w target (SInfo t)"
  shows "serve_ok J key h target w (serve_info ip t r w)"
  using assms by (auto simp: serve_info_def read_row_def good_target_def split: sum.split option.split)

lemma serve_update_ok:
  assumes "world_inv J key h w" and "serve_inv w target (SUpdate t)"
  shows "serve_ok J key h target w (serve_update target t w)"
proof -
  obtain r w1 where r: "run_db (updateTarget target t) w = (r, w1)" by fastforce
  have "world_inv J key h w1 \<and> grows w w1 \<and> connMan w1 = connMan w"
    using run_updateTarget [OF r assms(1)] assms(2) by (auto simp: read_row_def)
  then show ?thesis
    using assms(2) serve_inv_grows [of w target "SUpdate t" w1]
    by (auto simp: serve_update_def r serve_ok_def split: sum.split)
qed

lemma listed_peers:
  assumes "run_db (getConnectionsByTarget target) w = (Inr cs, w')" and "world_inv J key h w"
  shows "\<forall>q \<in> set cs. good_peer J key h target (peer_of q)"
proof -
  obtain d where d: "getConnectionsByTarget target (db w) = (Inr cs, d)"
    using assms(1) by (auto simp: run_db_def split: prod.splits)
  have "connections d = connections (db w)"
    using query_rows_Inr(1) [OF d [unfolded getConnectionsByTarget_def]] by (rule only_read_tables)
  then have "set cs \<subseteq> {q \<in> set (connections (db w)). c_target q = target}"
    using query_rows_Inr(2) [OF d [unfolded getConnectionsByTarget_def]] by auto
  then show ?thesis
    using assms(2)
    by (auto simp: world_inv_def db_inv_def rows_inv_def good_row_def good_peer_def peer_of_def)
qed

lemma serve_list_ok:
  assumes "world_inv J key h w" and "serve_inv w target (SList t port)"
    and "servers_of h c = Some target"
  shows "serve_ok J key h target w (serve_list target c t port w)"
proof -
  obtain r w1 where r: "run_db (getConnectionsByTarget target) w = (r, w1)" by fastforce
  have w1: "world_inv J key h w1" "grows w w1"
    using run_db_inv [OF r keeps_db_inv(7) keeps_owners_stmts(4) assms(1)] by auto
  let ?cs = "case r of Inl err \<Rightarrow> [] | Inr cs \<Rightarrow> cs"
  have "\<forall>q \<in> set ?cs. good_peer J key h target (peer_of q)"
    using listed_peers assms(1) r by (cases r) auto
  then have "good_message J key h (c, ServeVPN (serve_request t port (map peer_of ?cs)))"
    using assms(2,3) by (auto simp: serve_request_def read_row_def good_target_def)
  then show ?thesis
    using w1 grows_trans [OF w1(2) send_simps(4)]
    by (auto simp: serve_list_def r serve_ok_def world_inv_send Let_def)
qed

lemma serve_register_ok:
  assumes "world_inv J key h w" and "servers_of h c = Some target"
  shows "serve_ok J key h target w (serve_register target c now w)"
  using assms servers.present_put
  by (auto simp: serve_register_def serve_ok_def world_inv_def connMan_inv_def grows_def owner_of_def
      servers.get_put split: if_splits)

lemma serve_step_ok:
  assumes "world_inv J key h w" and "serve_inv w target pc" and "servers_of h c = Some target"
  shows "serve_ok J key h target w (serve_step J key target ip c e pc w)"
proof (cases pc)
  case SAuth
  then show ?thesis
    using assms by (cases e) (auto simp: serve_step_def serve_auth_def split: sum.split exec.split)
next
  case (STarget dev)
  then show ?thesis using assms serve_target_ok by (cases e) (auto simp: serve_step_def)
next
  case (SInfo t)
  then show ?thesis using assms serve_info_ok by (cases e) (auto simp: serve_step_def)
next
  case (SUpdate t)
  then show ?thesis using assms serve_update_ok by (cases e) (auto simp: serve_step_def)
next
  case (SList t port)
  then show ?thesis using assms serve_list_ok by (cases e) (auto simp: serve_step_def)
next
  case SAwaitServe
  then show ?thesis using assms serve_register_ok by (cases e) (auto simp: serve_step_def)
next
  case (SWait l)
  then show ?thesis using assms by (cases e) (auto simp: serve_step_def split: option.split)
qed (use assms in \<open>auto simp: serve_step_def\<close>)

section \<open>HTTP requests\<close>

lemma keeps_GetAuthTargets:
  "keeps (db_inv J key h) (GetAuthTargetsByPrincipal who)" "keeps_owners (GetAuthTargetsByPrincipal who)"
  unfolding GetAuthTargetsByPrincipal_def
  by (auto intro!: keeps_and_then keeps_owners_and_then keeps_db_inv)

text \<open>A handler is a function on the database; it keeps what each of its statements keeps.\<close>

definition handler_keeps :: "(rvpn_db \<Rightarrow> bool) \<Rightarrow> (rvpn_db \<Rightarrow> 'a \<times> rvpn_db) \<Rightarrow> bool" where
  "handler_keeps P f \<longleftrightarrow> (\<forall>d. P d \<longrightarrow> P (snd (f d)))"

lemma handler_keeps_run:
  "keeps P m \<Longrightarrow> (\<And>r. handler_keeps P (k r)) \<Longrightarrow> handler_keeps P (\<lambda>d. case m d of (r, d) \<Rightarrow> k r d)"
  by (auto simp: handler_keeps_def keeps_def split: prod.split)

lemma handler_keeps_done [simp]: "handler_keeps P (\<lambda>d. (r, d))"
  by (simp add: handler_keeps_def)

lemma createTarget_keeps:
  assumes "\<And>t. good_target t \<Longrightarrow> keeps P (db_createTarget t)"
  shows "handler_keeps P (createTarget user target)"
  using assms good_new_target
  by (auto simp: handler_keeps_def createTarget_def keeps_def split: option.split prod.split sum.split)
    (metis snd_conv)+

lemma getTargets_keeps:
  assumes "\<And>who. keeps P (GetAuthTargetsByPrincipal who)"
  shows "handler_keeps P (getTargets user)"
  using assms
  by (auto simp: handler_keeps_def getTargets_def dest: keepsD
      split: option.split prod.split sum.split)

lemma registerDevice_keeps:
  assumes "\<And>who. keeps P (GetAuthTargetsByPrincipal who)" and "\<And>w t hw i. keeps P (createDevice w t hw i)"
    and "\<And>w hw. keeps P (getDeviceId w hw)"
  shows "handler_keeps P (registerDevice J key u user target body)"
  unfolding handler_keeps_def registerDevice_def Let_def ok_def
  by (auto split: option.split prod.split sum.split)
    (blast intro: keepsD [OF assms(1)] keepsD [OF assms(2)] keepsD [OF assms(3)])+

lemma serve_api_keeps:
  assumes "\<And>t. good_target t \<Longrightarrow> keeps P (db_createTarget t)"
    and "\<And>who. keeps P (GetAuthTargetsByPrincipal who)" and "\<And>w t hw i. keeps P (createDevice w t hw i)"
    and "\<And>w hw. keeps P (getDeviceId w hw)"
  shows "handler_keeps P (serve_api J key hdr req)"
  using createTarget_keeps [OF assms(1)] getTargets_keeps [OF assms(2)] registerDevice_keeps [OF assms(2-4)]
  by (auto simp: handler_keeps_def serve_api_def split: exec.split api_request.split prod.split)
    (metis snd_conv)+

lemma keeps_ownersD:
  "keeps_owners m \<Longrightarrow> keeps (\<lambda>d. x \<in> (\<lambda>t. (t_name t, t_owner t)) ` set (targets d)) m"
  unfolding keeps_owners_def by blast

lemma run_http_ok:
  assumes "world_inv J key h (cp_world s)"
  shows "world_inv J key h (cp_world (run_http J key hdr req s)) \<and>
    grows (cp_world s) (cp_world (run_http J key hdr req s))"
proof -
  let ?own = "\<lambda>x d. x \<in> (\<lambda>t. (t_name t, t_owner t)) ` set (targets d)"
  obtain r d where d: "serve_api J key hdr req (db (cp_world s)) = (r, d)" by fastforce
  have "handler_keeps (db_inv J key h) (serve_api J key hdr req)"
    by (intro serve_api_keeps keeps_GetAuthTargets keeps_db_inv)
  then have "db_inv J key h d"
    using assms d by (auto simp: handler_keeps_def world_inv_def dest: spec [of _ "db (cp_world s)"])
  moreover have "handler_keeps (?own x) (serve_api J key hdr req)" for x
    by (intro serve_api_keeps keeps_ownersD keeps_owners_stmts keeps_GetAuthTargets)
  then have "?own x d" if "?own x (db (cp_world s))" for x
    using that d unfolding handler_keeps_def by (metis snd_conv)
  ultimately show ?thesis
    using assms d by (auto simp: run_http_def world_inv_def grows_def owner_of_def)
qed

section \<open>The whole system\<close>

definition hist_of :: "cp_event list \<Rightarrow> system \<Rightarrow> hist" where
  "hist_of es s =
     \<lparr>seen = set es, clients_of = (\<lambda>c. map_option fst (connects s c)),
      servers_of = (\<lambda>c. map_option fst (serves s c))\<rparr>"

definition sys_inv :: "jwt_lib \<Rightarrow> string \<Rightarrow> hist \<Rightarrow> system \<Rightarrow> bool" where
  "sys_inv J key h s \<longleftrightarrow>
     world_inv J key h (cp_world s) \<and>
     (\<forall>c target pc. connects s c = Some (target, pc) \<longrightarrow>
        clients_of h c = Some target \<and> connect_inv J key h (cp_world s) c target pc) \<and>
     (\<forall>c target ip pc. serves s c = Some (target, ip, pc) \<longrightarrow>
        servers_of h c = Some target \<and> serve_inv (cp_world s) target pc) \<and>
     (\<forall>c. next_conn s \<le> c \<longrightarrow> connects s c = None \<and> serves s c = None)"

definition history_inv :: "jwt_lib \<Rightarrow> string \<Rightarrow> cp_event list \<times> system \<Rightarrow> bool" where
  "history_inv J key r \<longleftrightarrow> sys_inv J key (hist_of (fst r) (snd r)) (snd r)"

definition history_step :: "jwt_lib \<Rightarrow> string \<Rightarrow> cp_event \<Rightarrow> cp_event list \<times> system \<Rightarrow> cp_event list \<times> system" where
  "history_step J key e r = (fst r @ [e], cp_step J key e (snd r))"

lemma sys_invD:
  assumes "sys_inv J key h s"
  shows "world_inv J key h (cp_world s)"
    "connects s c = Some (target, pc) \<Longrightarrow> clients_of h c = Some target"
    "connects s c = Some (target, pc) \<Longrightarrow> connect_inv J key h (cp_world s) c target pc"
    "serves s c = Some (target, ip, pc') \<Longrightarrow> servers_of h c = Some target"
    "serves s c = Some (target, ip, pc') \<Longrightarrow> serve_inv (cp_world s) target pc'"
    "next_conn s \<le> c \<Longrightarrow> connects s c = None \<and> serves s c = None"
  using assms unfolding sys_inv_def by blast+

lemma sys_invI:
  assumes "world_inv J key h (cp_world s)"
    and "\<And>c target pc. connects s c = Some (target, pc) \<Longrightarrow>
           clients_of h c = Some target \<and> connect_inv J key h (cp_world s) c target pc"
    and "\<And>c target ip pc. serves s c = Some (target, ip, pc) \<Longrightarrow>
           servers_of h c = Some target \<and> serve_inv (cp_world s) target pc"
    and "\<And>c. next_conn s \<le> c \<Longrightarrow> connects s c = None \<and> serves s c = None"
  shows "sys_inv J key h s"
  unfolding sys_inv_def using assms by blast

lemma hist_le_refl [simp]: "hist_le h h"
  by (simp add: hist_le_def)

text \<open>A step of the shared state that goes well is a step of the system that goes well.\<close>

lemma sys_inv_world:
  assumes "sys_inv J key h s" and "hist_le h h'" and "world_inv J key h' w" and "grows (cp_world s) w"
  shows "sys_inv J key h' (s\<lparr>cp_world := w\<rparr>)"
proof (rule sys_invI)
  note D = sys_invD [OF assms(1)]
  show "world_inv J key h' (cp_world (s\<lparr>cp_world := w\<rparr>))" using assms(3) by simp
  fix c target pc ip pc'
  show "clients_of h' c = Some target \<and> connect_inv J key h' (cp_world (s\<lparr>cp_world := w\<rparr>)) c target pc"
    if "connects (s\<lparr>cp_world := w\<rparr>) c = Some (target, pc)"
    using that D(2,3) [of c target pc] hist_leD(1) [OF assms(2)] connect_inv_mono [OF _ assms(2,4)]
    by auto
  show "servers_of h' c = Some target \<and> serve_inv (cp_world (s\<lparr>cp_world := w\<rparr>)) target pc'"
    if "serves (s\<lparr>cp_world := w\<rparr>) c = Some (target, ip, pc')"
    using that D(4,5) [of c target ip pc'] hist_leD(2) [OF assms(2)] serve_inv_grows [OF _ assms(4)]
    by auto
  show "connects (s\<lparr>cp_world := w\<rparr>) c = None \<and> serves (s\<lparr>cp_world := w\<rparr>) c = None"
    if "next_conn (s\<lparr>cp_world := w\<rparr>) \<le> c"
    using that D(6) [of c] by simp
qed

lemma sys_inv_mono:
  assumes "sys_inv J key h s" and "hist_le h h'"
  shows "sys_inv J key h' s"
  using sys_inv_world [OF assms world_inv_mono [OF sys_invD(1) [OF assms(1)] assms(2)] grows_refl]
  by simp

lemma sys_inv_connect:
  assumes "sys_inv J key h s" and "connects s c = Some (target, pc)" and "Connect c e \<in> seen h"
  shows "sys_inv J key h (run_connect J key c e s)"
proof -
  obtain pc' w where st: "connect_step J key target c e pc (cp_world s) = (pc', w)" by fastforce
  have "stage_ok J key h c target (cp_world s) (connect_step J key target c e pc (cp_world s))"
    using assms by (intro connect_step_ok) (auto simp: sys_inv_def)
  then have ok: "world_inv J key h w" "connect_inv J key h w c target pc'" "grows (cp_world s) w"
    by (simp_all add: st stage_ok_def)
  have "sys_inv J key h (s\<lparr>cp_world := w\<rparr>)"
    using assms(1) hist_le_refl ok(1,3) by (rule sys_inv_world)
  moreover have "clients_of h c = Some target" "\<not> next_conn s \<le> c"
    using assms(1,2) by (auto simp: sys_inv_def)
  ultimately show ?thesis
    using ok(2) by (auto simp: run_connect_def assms(2) st sys_inv_def)
qed

lemma sys_inv_serve:
  assumes "sys_inv J key h s" and "serves s c = Some (target, ip, pc)"
  shows "sys_inv J key h (run_serve J key c e s)"
proof -
  obtain pc' w where st: "serve_step J key target ip c e pc (cp_world s) = (pc', w)" by fastforce
  have "serve_ok J key h target (cp_world s) (serve_step J key target ip c e pc (cp_world s))"
    using assms by (intro serve_step_ok) (auto simp: sys_inv_def)
  then have ok: "world_inv J key h w" "serve_inv w target pc'" "grows (cp_world s) w"
    by (simp_all add: st serve_ok_def)
  have "sys_inv J key h (s\<lparr>cp_world := w\<rparr>)"
    using assms(1) hist_le_refl ok(1,3) by (rule sys_inv_world)
  moreover have "servers_of h c = Some target" "\<not> next_conn s \<le> c"
    using assms(1,2) by (auto simp: sys_inv_def)
  ultimately show ?thesis
    using ok(2) by (auto simp: run_serve_def assms(2) st sys_inv_def)
qed

lemma hist_of_extend:
  assumes "\<And>c t pc. connects s c = Some (t, pc) \<Longrightarrow> \<exists>pc'. connects s' c = Some (t, pc')"
    and "\<And>c t r. serves s c = Some (t, r) \<Longrightarrow> \<exists>r'. serves s' c = Some (t, r')"
  shows "hist_le (hist_of es s) (hist_of (es @ [e]) s')"
  unfolding hist_le_def hist_of_def map_le_def
  using assms by (fastforce simp: dom_def)

lemma run_http_frame:
  "run_http J key hdr req s = s\<lparr>cp_world := cp_world (run_http J key hdr req s)\<rparr>"
  by (simp add: run_http_def split: prod.split)

lemma sys_inv_http:
  assumes "sys_inv J key h s" and "hist_le h h'"
  shows "sys_inv J key h' (run_http J key hdr req s)"
proof -
  have "world_inv J key h' (cp_world s)" using sys_invD(1) [OF assms(1)] assms(2) by (rule world_inv_mono)
  then show ?thesis
    using run_http_ok [of J key h' s hdr req] sys_inv_world [OF assms] run_http_frame
    by metis
qed

lemma sys_inv_open_connect:
  assumes "sys_inv J key h s" and "hist_le h h'" and "clients_of h' (next_conn s) = Some target"
  shows "sys_inv J key h' (s\<lparr>cp_world := send (next_conn s) GetDeviceAuth (cp_world s),
    connects := (connects s)(next_conn s \<mapsto> (target, CAuth)), next_conn := Suc (next_conn s)\<rparr>)"
proof -
  let ?w = "send (next_conn s) GetDeviceAuth (cp_world s)"
  have w: "world_inv J key h' ?w"
    using world_inv_mono [OF sys_invD(1) [OF assms(1)] assms(2)] by (simp add: world_inv_send)
  have "sys_inv J key h' (s\<lparr>cp_world := ?w\<rparr>)" using assms(1,2) w send_simps(4) by (rule sys_inv_world)
  note D = sys_invD [OF this, simplified]
  show ?thesis
    by (rule sys_invI) (use w assms(3) D(2-6) in \<open>auto split: if_splits\<close>)
qed

lemma sys_inv_open_serve:
  assumes "sys_inv J key h s" and "hist_le h h'" and "servers_of h' (next_conn s) = Some target"
  shows "sys_inv J key h' (s\<lparr>cp_world := send (next_conn s) GetDeviceAuth (cp_world s),
    serves := (serves s)(next_conn s \<mapsto> (target, ip, SAuth)), next_conn := Suc (next_conn s)\<rparr>)"
proof -
  let ?w = "send (next_conn s) GetDeviceAuth (cp_world s)"
  have w: "world_inv J key h' ?w"
    using world_inv_mono [OF sys_invD(1) [OF assms(1)] assms(2)] by (simp add: world_inv_send)
  have "sys_inv J key h' (s\<lparr>cp_world := ?w\<rparr>)" using assms(1,2) w send_simps(4) by (rule sys_inv_world)
  note D = sys_invD [OF this, simplified]
  show ?thesis
    by (rule sys_invI) (use w assms(3) D(2-6) in \<open>auto split: if_splits\<close>)
qed

lemma sys_inv_restart:
  assumes "sys_inv J key h s" and "hist_le h h'"
  shows "sys_inv J key h' (restart s)"
proof -
  have "world_inv J key h' (cp_world s)" using sys_invD(1) [OF assms(1)] assms(2) by (rule world_inv_mono)
  then have "world_inv J key h' (cp_world (restart s))"
    by (simp add: restart_def world_inv_def connMan_inv_def)
  then show ?thesis
    using sys_invD(2,4,6) [OF assms(1)] hist_leD [OF assms(2)]
    by (intro sys_invI) (auto simp: restart_def)
qed

text \<open>Every event extends the history: sessions keep their targets.\<close>

lemma hist_of_step:
  assumes "sys_inv J key h s"
  shows "hist_le (hist_of es s) (hist_of (es @ [e]) (cp_step J key e s))"
proof (rule hist_of_extend)
  note fresh = sys_invD(6) [OF assms, of "next_conn s", simplified]
  show "\<exists>pc'. connects (cp_step J key e s) c = Some (t, pc')" if "connects s c = Some (t, pc)" for c t pc
    using that fresh
    by (cases e) (auto simp: run_http_def open_connect_def open_serve_def run_connect_def run_serve_def
        restart_def split: option.split prod.split list.split)
  show "\<exists>r'. serves (cp_step J key e s) c = Some (t, r')" if "serves s c = Some (t, r)" for c t r
    using that fresh
    by (cases e; cases r) (auto simp: run_http_def open_connect_def open_serve_def run_connect_def
        run_serve_def restart_def split: option.split prod.split list.split)
qed

lemma sys_inv_step:
  assumes "sys_inv J key (hist_of es s) s"
  shows "sys_inv J key (hist_of (es @ [e]) (cp_step J key e s)) (cp_step J key e s)"
proof -
  let ?h = "hist_of (es @ [e]) (cp_step J key e s)"
  have le: "hist_le (hist_of es s) ?h" using assms by (rule hist_of_step)
  have same: "sys_inv J key ?h s" using assms le by (rule sys_inv_mono)
  show ?thesis
  proof (cases e)
    case (Http hdr req)
    then show ?thesis using sys_inv_http [OF assms le] by simp
  next
    case (OpenConnect target)
    then show ?thesis
      using same sys_inv_open_connect [OF assms le, of target]
      by (auto simp: open_connect_def hist_of_def split: option.split)
  next
    case (OpenServe target forwarded)
    then show ?thesis
      using same sys_inv_open_serve [OF assms le, of target "hd forwarded"]
      by (auto simp: open_serve_def hist_of_def split: option.split list.split)
  next
    case (Connect c ev)
    have "Connect c ev \<in> seen ?h" using Connect by (simp add: hist_of_def)
    with same Connect show ?thesis
      using sys_inv_connect [OF same]
      by (cases "connects s c") (auto simp: run_connect_def)
  next
    case (Serve c ev)
    with same show ?thesis
      using sys_inv_serve [OF same]
      by (cases "serves s c") (auto simp: run_serve_def)
  next
    case Restart
    then show ?thesis using sys_inv_restart [OF assms le] by simp
  qed
qed

interpretation cp: stepper "history_step J key" "history_inv J key" for J key
  by unfold_locales (simp add: history_inv_def history_step_def sys_inv_step)

lemma history_run: "fold (history_step J key) es (es0, s) = (es0 @ es, cp_run J key es s)"
  by (induction es arbitrary: es0 s) (auto simp: history_step_def)

lemma boot_inv: "history_inv J key ([], boot script)"
  by (simp add: history_inv_def sys_inv_def boot_def world_inv_def db_inv_def rows_inv_def keys_ok_def
      connMan_inv_def hist_of_def)

lemma run_sys_inv:
  "sys_inv J key (hist_of es (cp_run J key es (boot script))) (cp_run J key es (boot script))"
  using cp.run_inv [OF boot_inv, of J key es script] by (simp add: history_run history_inv_def)

end
