(* ===== verification/Connect_Props.thy ===== *)
theory Connect_Props
  imports Connect_Session
begin

text \<open>
  What a connecting device gets from \<open>clientConnect\<close> when the database answers and no other session
  runs: an address of its own the first time, the same address when it comes back, and a re-sync of
  its key when the key has changed.
\<close>

section \<open>Statements on a database that answers\<close>

lemma world_same_db [simp]: "w\<lparr>db := db w\<rparr> = w"
  by (cases w) simp

lemma run_db_send [simp]: "db (send c m w) = db w" "connMan (send c m w) = connMan w"
  "sent (send c m w) = sent w @ [(c, m)]" "send c m w\<lparr>db := d\<rparr> = send c m (w\<lparr>db := d\<rparr>)"
  by (simp_all add: send_def)

definition first_row :: "'r list \<Rightarrow> 'r option" where
  "first_row rows = (case rows of [] \<Rightarrow> None | r # _ \<Rightarrow> Some r)"

lemma first_row_simps [simp]: "first_row [] = None" "first_row (r # rs) = Some r"
  by (simp_all add: first_row_def)

lemma getTargetByName_answered:
  "answers d = [] \<Longrightarrow>
     getTargetByName target d = (Inr (first_row (filter (\<lambda>r. t_name r = target) (targets d))), d)"
  by (simp add: getTargetByName_def query_row_def next_answer_def first_row_def)

lemma getConnection_answered:
  "answers d = [] \<Longrightarrow>
     getConnection target dev d =
       (Inr (case first_row (filter (\<lambda>r. c_target r = target \<and> c_deviceId r = dev) (connections d)) of
               None \<Rightarrow> no_connection | Some r \<Rightarrow> r), d)"
  by (simp add: getConnection_def query_row_def next_answer_def first_row_def and_then_def ok_def)

lemma db_createConnection_answered:
  "answers d = [] \<Longrightarrow> \<forall>q \<in> set (connections d). \<not> connection_conflict c q \<Longrightarrow>
     db_createConnection c d = (Inr True, d\<lparr>connections := connections d @ [c]\<rparr>)"
  by (simp add: db_createConnection_def exec_sql_def next_answer_def insert_unless_def list_ex_iff
      and_then_def one_row_def ok_def)

lemma no_such_row:
  "\<forall>q \<in> set (connections d). \<not> (c_target q = target \<and> c_deviceId q = dev) \<Longrightarrow>
     filter (\<lambda>r. c_target r = target \<and> c_deviceId r = dev) (connections d) = []"
  by (simp add: filter_empty_conv)

lemma getNextClientIp_succeeds:
  assumes "answers d = []" and "filter (\<lambda>r. t_name r = t) (targets d) = [row]"
    and "parse_prefix (networkIp row @ networkCidr row) = Inr p"
    and "card (target_ips t d) < pfx_last p - unat (pfx_addr p)"
  obtains v where "getNextClientIp t d = (Inr (ip4_text v, networkCidr row), d)"
    and "contains p (Some v)" and "pfx_addr p < v" and "ip4_text v \<notin> target_ips t d"
proof -
  let ?ip = "next_free_ip p (target_ips t d) (next_addr (Some (pfx_addr p)))"
  have ne: "?ip \<noteq> []" using next_free_ip_nonempty [OF _ assms(4)] by simp
  obtain v where "pfx_addr p < v" "contains p (Some v)" "?ip = ip4_text v" "?ip \<notin> target_ips t d"
    using next_addr_found [OF refl ne] by blast
  then show ?thesis
    using that [of v] getNextClientIp_answered [OF assms(1-3)] ne by (auto simp: Let_def)
qed

section \<open>A device that connects for the first time\<close>

lemma createConnection_fresh:
  assumes "answers d = []" and "c_target c = target"
    and "\<forall>q \<in> set (connections d). \<not> (c_target q = target \<and> c_deviceId q = c_deviceId c)"
    and "c_id c \<notin> c_id ` set (connections d)" and "clientIp c \<notin> target_ips target d"
  shows "createConnection c d = (Inr (), d\<lparr>connections := connections d @ [c]\<rparr>)"
proof -
  have "getConnection (c_target c) (c_deviceId c) d = (Inr no_connection, d)"
    using no_such_row [OF assms(3)] assms(1,2) by (simp add: getConnection_answered)
  moreover have "\<forall>q \<in> set (connections d). \<not> connection_conflict c q"
    using assms(2,4,5) unfolding connection_conflict_def target_ips_def
    by (auto simp: image_iff)
  ultimately show ?thesis
    using db_createConnection_answered [OF assms(1), of c]
    by (simp add: createConnection_def and_then_def ok_def no_connection_def)
qed

lemma connect_ensure_fresh:
  assumes "answers (db w) = []" and "filter (\<lambda>r. t_name r = target) (targets (db w)) = [t]"
    and "parse_prefix (networkIp t @ networkCidr t) = Inr p"
    and "card (target_ips target (db w)) < pfx_last p - unat (pfx_addr p)"
    and "\<forall>q \<in> set (connections (db w)). \<not> (c_target q = target \<and> c_deviceId q = dev)"
    and "u \<notin> c_id ` set (connections (db w))"
  shows "\<exists>v c. connect_ensure target dev pk u w =
      (Some (c, True), w\<lparr>db := (db w)\<lparr>connections := connections (db w) @ [c]\<rparr>\<rparr>) \<and>
    c = \<lparr>c_id = u, c_target = target, c_deviceId = dev, c_pubkey = pk, clientIp = ip4_text v,
         clientCidr = networkCidr t\<rparr> \<and>
    contains p (Some v) \<and> pfx_addr p < v \<and> ip4_text v \<notin> target_ips target (db w)"
proof -
  obtain v where v: "getNextClientIp target (db w) = (Inr (ip4_text v, networkCidr t), db w)"
    "contains p (Some v)" "pfx_addr p < v" "ip4_text v \<notin> target_ips target (db w)"
    using getNextClientIp_succeeds [OF assms(1-4)] by blast
  let ?c = "\<lparr>c_id = u, c_target = target, c_deviceId = dev, c_pubkey = pk, clientIp = ip4_text v,
         clientCidr = networkCidr t\<rparr>"
  have "createConnection ?c (db w) = (Inr (), (db w)\<lparr>connections := connections (db w) @ [?c]\<rparr>)"
    using assms(5,6) v(4) by (intro createConnection_fresh [OF assms(1)]) auto
  then show ?thesis
    using v assms(1) no_such_row [OF assms(5)]
    by (intro exI [of _ v] exI [of _ ?c])
      (simp add: connect_ensure_def run_db_def getConnection_answered no_connection_def
        Let_def)
qed

lemma connect_first_run:
  assumes "answers (db w) = []" and "ValidateDeviceToken J key (DeviceToken a) = Return (Inr dev)"
    and "filter (\<lambda>r. t_name r = target) (targets (db w)) = [t]"
    and "targetServerAlive (Some t) (connMan w)" and "getVPNServerConn target (connMan w) = Some srv"
    and "parse_prefix (networkIp t @ networkCidr t) = Inr p"
    and "card (target_ips target (db w)) < pfx_last p - unat (pfx_addr p)"
    and "\<forall>q \<in> set (connections (db w)). \<not> (c_target q = target \<and> c_deviceId q = dev)"
    and "u \<notin> c_id ` set (connections (db w))"
    and "atoi (serverPublicVpnPort t) = Inr port"
  shows "\<exists>v c w'. clientConnect_body J key target me (Inr a) (Inr i) u now w = (CWait now, w') \<and>
    c = \<lparr>c_id = u, c_target = target, c_deviceId = dev, c_pubkey = re_PublicKey i,
         clientIp = ip4_text v, clientCidr = networkCidr t\<rparr> \<and>
    contains p (Some v) \<and> pfx_addr p < v \<and> ip4_text v \<notin> target_ips target (db w) \<and>
    db w' = (db w)\<lparr>connections := connections (db w) @ [c]\<rparr> \<and>
    sent w' = sent w @ [(me, GetClientInformation), (srv, AppendVPNPeers [peer_of c]),
                        (me, ConnectServer (connect_request t c port))] \<and>
    getVPNClientConn target (connMan w') = getVPNClientConn target (connMan w) @ [me]"
proof -
  let ?w = "send me GetClientInformation w"
  have "\<exists>v c. connect_ensure target dev (re_PublicKey i) u ?w =
      (Some (c, True), ?w\<lparr>db := (db ?w)\<lparr>connections := connections (db ?w) @ [c]\<rparr>\<rparr>) \<and>
    c = \<lparr>c_id = u, c_target = target, c_deviceId = dev, c_pubkey = re_PublicKey i,
         clientIp = ip4_text v, clientCidr = networkCidr t\<rparr> \<and>
    contains p (Some v) \<and> pfx_addr p < v \<and> ip4_text v \<notin> target_ips target (db ?w)"
    by (rule connect_ensure_fresh) (use assms in simp_all)
  then obtain v c where e: "connect_ensure target dev (re_PublicKey i) u ?w =
      (Some (c, True), ?w\<lparr>db := (db w)\<lparr>connections := connections (db w) @ [c]\<rparr>\<rparr>)"
    and c: "c = \<lparr>c_id = u, c_target = target, c_deviceId = dev, c_pubkey = re_PublicKey i,
         clientIp = ip4_text v, clientCidr = networkCidr t\<rparr>"
    and v: "contains p (Some v)" "pfx_addr p < v" "ip4_text v \<notin> target_ips target (db w)"
    by (simp only: run_db_send) blast
  show ?thesis
    using e c v assms
    by (intro exI [of _ v] exI [of _ c])
      (simp add: clientConnect_body_def run_db_def getTargetByName_answered connect_issue_def
        send_def getVPNClientConn_setClient)
qed

text \<open>
  C6: The first time a device connects to a live target whose network has room, exactly one row is
  added, for this device and the key it reported, with an address of the target's network that no
  other connection of the target holds; the target's server is told that peer before the device is
  told to connect, the device is told the same address and the server's key, address and port, and
  it becomes a client of the target and is waited for.
\<close>

theorem clientConnect_first_time:
  assumes "answers (db w) = []" and "ValidateDeviceToken J key (DeviceToken a) = Return (Inr dev)"
    and "filter (\<lambda>r. t_name r = target) (targets (db w)) = [t]"
    and "targetServerAlive (Some t) (connMan w)" and "getVPNServerConn target (connMan w) = Some srv"
    and "parse_prefix (networkIp t @ networkCidr t) = Inr p"
    and "card (target_ips target (db w)) < pfx_last p - unat (pfx_addr p)"
    and "\<forall>q \<in> set (connections (db w)). \<not> (c_target q = target \<and> c_deviceId q = dev)"
    and "u \<notin> c_id ` set (connections (db w))"
    and "atoi (serverPublicVpnPort t) = Inr port"
  shows "\<exists>v c w'. clientConnect_body J key target me (Inr a) (Inr i) u now w = (CWait now, w') \<and>
    c = \<lparr>c_id = u, c_target = target, c_deviceId = dev, c_pubkey = re_PublicKey i,
         clientIp = ip4_text v, clientCidr = networkCidr t\<rparr> \<and>
    contains p (Some v) \<and> pfx_addr p < v \<and> ip4_text v \<notin> target_ips target (db w) \<and>
    db w' = (db w)\<lparr>connections := connections (db w) @ [c]\<rparr> \<and>
    sent w' = sent w @ [(me, GetClientInformation), (srv, AppendVPNPeers [peer_of c]),
                        (me, ConnectServer (connect_request t c port))] \<and>
    getVPNClientConn target (connMan w') = getVPNClientConn target (connMan w) @ [me]"
  by (rule connect_first_run [OF assms])

section \<open>A device that comes back\<close>

text \<open>
  A device that has a connection and reports the key on file is told the address it already
  has; the tables do not change and the target's server is not bothered.
\<close>

theorem clientConnect_returning:
  assumes "answers (db w) = []" and "ValidateDeviceToken J key (DeviceToken a) = Return (Inr dev)"
    and "filter (\<lambda>r. t_name r = target) (targets (db w)) = [t]"
    and "targetServerAlive (Some t) (connMan w)"
    and "filter (\<lambda>r. c_target r = target \<and> c_deviceId r = dev) (connections (db w)) = [c]"
    and "c_id c \<noteq> []" and "c_pubkey c = re_PublicKey i"
    and "atoi (serverPublicVpnPort t) = Inr port"
  shows "clientConnect_body J key target me (Inr a) (Inr i) u now w =
    (CWait now, w\<lparr>connMan := setVPNClientConn target me (connMan w),
                  sent := sent w @ [(me, GetClientInformation),
                                    (me, ConnectServer (connect_request t c port))]\<rparr>)"
  using assms
  by (simp add: clientConnect_body_def run_db_def getTargetByName_answered getConnection_answered
      connect_ensure_def connect_issue_def send_def Let_def)

text \<open>An update that does not move an address breaks no key.\<close>

lemma updateConnection_pubkey:
  assumes "answers d = []" and "keys_ok d" and "c \<in> set (connections d)"
  shows "\<exists>b. updateConnection (c\<lparr>c_pubkey := pk\<rparr>) d =
    (Inr b, d\<lparr>connections := update_where (\<lambda>r. c_id r = c_id c) (\<lambda>r. r\<lparr>c_pubkey := pk\<rparr>) (connections d)\<rparr>)"
proof -
  have same: "r = c" if "r \<in> set (connections d)" "c_id r = c_id c" for r
    using that assms(2,3) by (auto simp: keys_ok_def distinct_map dest: inj_onD)
  have rows: "update_where (\<lambda>r. c_id r = c_id c) (\<lambda>_. c\<lparr>c_pubkey := pk\<rparr>) (connections d) =
    update_where (\<lambda>r. c_id r = c_id c) (\<lambda>r. r\<lparr>c_pubkey := pk\<rparr>) (connections d)"
    using same by (auto simp: update_where_def)
  have "distinct (map (\<lambda>r. (c_target r, clientIp r))
      (update_where (\<lambda>r. c_id r = c_id c) (\<lambda>r. r\<lparr>c_pubkey := pk\<rparr>) (connections d)))"
    using assms(2) by (simp add: keys_ok_def)
  then show ?thesis
    using assms(1) rows
    by (simp add: updateConnection_def exec_sql_def next_answer_def and_then_def one_row_def ok_def
        Let_def)
qed

text \<open>
  C26: A device that has a connection but reports another key keeps its address: its row gets the
  new key and nothing else changes in the tables, and the target's server is told the new key with
  the old address before the device is told to connect.
\<close>

theorem clientConnect_key_changed:
  assumes "answers (db w) = []" and "keys_ok (db w)"
    and "ValidateDeviceToken J key (DeviceToken a) = Return (Inr dev)"
    and "filter (\<lambda>r. t_name r = target) (targets (db w)) = [t]"
    and "targetServerAlive (Some t) (connMan w)" and "getVPNServerConn target (connMan w) = Some srv"
    and "filter (\<lambda>r. c_target r = target \<and> c_deviceId r = dev) (connections (db w)) = [c]"
    and "c_id c \<noteq> []" and "c_pubkey c \<noteq> re_PublicKey i"
    and "atoi (serverPublicVpnPort t) = Inr port"
  shows "clientConnect_body J key target me (Inr a) (Inr i) u now w =
    (CWait now,
     w\<lparr>db := (db w)\<lparr>connections := update_where (\<lambda>r. c_id r = c_id c)
                       (\<lambda>r. r\<lparr>c_pubkey := re_PublicKey i\<rparr>) (connections (db w))\<rparr>,
       connMan := setVPNClientConn target me (connMan w),
       sent := sent w @
         [(me, GetClientInformation),
          (srv, AppendVPNPeers [peer_of (c\<lparr>c_pubkey := re_PublicKey i\<rparr>)]),
          (me, ConnectServer (connect_request t (c\<lparr>c_pubkey := re_PublicKey i\<rparr>) port))]\<rparr>)"
proof -
  have "c \<in> set (filter (\<lambda>r. c_target r = target \<and> c_deviceId r = dev) (connections (db w)))"
    using assms(7) by simp
  then have "c \<in> set (connections (db w))" by simp
  then obtain b where u: "updateConnection (c\<lparr>c_pubkey := re_PublicKey i\<rparr>) (db w) =
    (Inr b, (db w)\<lparr>connections := update_where (\<lambda>r. c_id r = c_id c)
                       (\<lambda>r. r\<lparr>c_pubkey := re_PublicKey i\<rparr>) (connections (db w))\<rparr>)"
    using updateConnection_pubkey [OF assms(1,2)] by blast
  show ?thesis
    using assms u
    by (simp add: clientConnect_body_def run_db_def getTargetByName_answered getConnection_answered
        connect_ensure_def connect_issue_def send_def Let_def syncConnectionPubkey_def and_then_def
        ok_def)
qed

section \<open>Witnesses\<close>

text \<open>A target with a live server (connection 7); device \<open>d1\<close> holds its first address.\<close>

definition live_target :: RVPNTarget where
  "live_target =
     \<lparr>t_name = ''t'', t_owner = ''alice'', networkIp = ''10.8.0.1'', networkCidr = ''/23'',
      dnsIp = ''1.1.1.1'', serverPubkey = ''spk'', serverPublicIp = ''9.9.9.9'',
      serverPublicVpnPort = ''21820'', serverInternalIp = ''10.8.0.1'', serverInternalCidr = ''/23'',
      serverHeartbeat = []\<rparr>"

definition d1_connection :: RVPNConnection where
  "d1_connection = \<lparr>c_id = ''c1'', c_target = ''t'', c_deviceId = ''d1'', c_pubkey = ''pk1'',
                    clientIp = ''10.8.0.2'', clientCidr = ''/23''\<rparr>"

definition live_world :: world where
  "live_world =
     \<lparr>db = \<lparr>targets = [live_target], target_acl = [], connections = [d1_connection], devices = [],
            answers = []\<rparr>,
      connMan = snd (setVPNServerConn ''t'' 7 NewConnectionManager), sent = []\<rparr>"

definition token_reply :: "string \<Rightarrow> rpc_reply" where
  "token_reply token = GetDeviceAuthResponse True token"

lemma live_world_facts:
  "answers (db live_world) = []"
  "filter (\<lambda>r. t_name r = ''t'') (targets (db live_world)) = [live_target]"
  "targetServerAlive (Some live_target) (connMan live_world)"
  "getVPNServerConn ''t'' (connMan live_world) = Some 7"
  by (simp_all add: live_world_def live_target_def targetServerAlive_def)

lemma live_port: "atoi (serverPublicVpnPort live_target) = Inr 21820"
proof -
  have "nat_text 21820 = ''21820''" by (simp add: nat_text.simps digit_def) code_simp
  then show ?thesis using atoi_nat_text [of 21820] by (simp add: live_target_def)
qed

lemma live_tokens:
  "ValidateDeviceToken colon_jwt ''k'' (DeviceToken (token_reply ''device:k:d1'')) = Return (Inr ''d1'')"
  "ValidateDeviceToken colon_jwt ''k'' (DeviceToken (token_reply ''device:k:d2'')) = Return (Inr ''d2'')"
  by code_simp+

lemma d1_facts:
  "filter (\<lambda>r. c_target r = ''t'' \<and> c_deviceId r = ''d1'') (connections (db live_world))
     = [d1_connection]"
  "c_id d1_connection \<noteq> []"
  "c_pubkey d1_connection = re_PublicKey (GetClientInformationResponse True ''pk1'')"
  "c_pubkey d1_connection \<noteq> re_PublicKey (GetClientInformationResponse True ''pk2'')"
  by (simp_all add: live_world_def d1_connection_def GetClientInformationResponse_def)

theorem clientConnect_returning_witness:
  "clientConnect_body colon_jwt ''k'' ''t'' 5 (Inr (token_reply ''device:k:d1''))
       (Inr (GetClientInformationResponse True ''pk1'')) ''c9'' 100 live_world =
     (CWait 100, live_world\<lparr>connMan := setVPNClientConn ''t'' 5 (connMan live_world),
        sent := sent live_world @ [(5, GetClientInformation),
                 (5, ConnectServer (connect_request live_target d1_connection 21820))]\<rparr>)"
  by (rule clientConnect_returning [OF live_world_facts(1) live_tokens(1) live_world_facts(2,3)
        d1_facts(1-3) live_port])

theorem clientConnect_key_changed_witness:
  "clientConnect_body colon_jwt ''k'' ''t'' 5 (Inr (token_reply ''device:k:d1''))
       (Inr (GetClientInformationResponse True ''pk2'')) ''c9'' 100 live_world =
     (CWait 100, live_world\<lparr>db := (db live_world)\<lparr>connections := [d1_connection\<lparr>c_pubkey := ''pk2''\<rparr>]\<rparr>,
        connMan := setVPNClientConn ''t'' 5 (connMan live_world),
        sent := [(5, GetClientInformation),
                 (7, AppendVPNPeers [peer_of (d1_connection\<lparr>c_pubkey := ''pk2''\<rparr>)]),
                 (5, ConnectServer (connect_request live_target (d1_connection\<lparr>c_pubkey := ''pk2''\<rparr>)
                                      21820))]\<rparr>)"
proof -
  have k: "keys_ok (db live_world)" by (simp add: keys_ok_def live_world_def)
  have w: "connections (db live_world) = [d1_connection]" "sent live_world = []"
    by (simp_all add: live_world_def)
  show ?thesis
    using clientConnect_key_changed [OF live_world_facts(1) k live_tokens(1) live_world_facts(2-4)
        d1_facts(1,2,4) live_port, of 5 "''c9''" 100]
    by (simp add: update_where_def w GetClientInformationResponse_def)
qed

text \<open>A second device finds the next address.\<close>

theorem clientConnect_first_time_witness:
  "\<exists>v c w'. clientConnect_body colon_jwt ''k'' ''t'' 5 (Inr (token_reply ''device:k:d2''))
       (Inr (GetClientInformationResponse True ''pk2'')) ''c9'' 100 live_world = (CWait 100, w') \<and>
    c_deviceId c = ''d2'' \<and> clientIp c = ip4_text v \<and> clientIp c \<noteq> ''10.8.0.2'' \<and>
    connections (db w') = [d1_connection, c] \<and>
    sent w' = [(5, GetClientInformation), (7, AppendVPNPeers [peer_of c]),
               (5, ConnectServer (connect_request live_target c 21820))]"
proof -
  have p: "parse_prefix (networkIp live_target @ networkCidr live_target) =
      Inr \<lparr>pfx_addr = 168296449, pfx_bits = 23\<rparr>"
    using parse_default_prefix by (simp add: live_target_def)
  have ips: "target_ips ''t'' (db live_world) = {''10.8.0.2''}"
  proof -
    have "{c \<in> set (connections (db live_world)). c_target c = ''t''} = {d1_connection}"
      by (simp add: live_world_def d1_connection_def Collect_conv_if)
    then show ?thesis by (simp add: target_ips_def) (simp add: d1_connection_def)
  qed
  have room: "card (target_ips ''t'' (db live_world)) <
      pfx_last \<lparr>pfx_addr = 168296449, pfx_bits = 23\<rparr> - unat (pfx_addr \<lparr>pfx_addr = 168296449, pfx_bits = 23\<rparr>)"
    unfolding ips by (simp add: pfx_last_def pfx_first_def)
  have new: "\<forall>q \<in> set (connections (db live_world)). \<not> (c_target q = ''t'' \<and> c_deviceId q = ''d2'')"
    "''c9'' \<notin> c_id ` set (connections (db live_world))"
    by (simp_all add: live_world_def d1_connection_def)
  have w: "connections (db live_world) = [d1_connection]" "sent live_world = []"
    by (simp_all add: live_world_def)
  note first = clientConnect_first_time [OF live_world_facts(1) live_tokens(2) live_world_facts(2-4) p
      room new live_port, of 5 "GetClientInformationResponse True ''pk2''" 100]
  obtain v c w' where
    "clientConnect_body colon_jwt ''k'' ''t'' 5 (Inr (token_reply ''device:k:d2''))
       (Inr (GetClientInformationResponse True ''pk2'')) ''c9'' 100 live_world = (CWait 100, w')"
    and c: "c = \<lparr>c_id = ''c9'', c_target = ''t'', c_deviceId = ''d2'',
         c_pubkey = re_PublicKey (GetClientInformationResponse True ''pk2''),
         clientIp = ip4_text v, clientCidr = networkCidr live_target\<rparr>"
    and "ip4_text v \<notin> target_ips ''t'' (db live_world)"
    and "db w' = (db live_world)\<lparr>connections := connections (db live_world) @ [c]\<rparr>"
    and "sent w' = sent live_world @ [(5, GetClientInformation), (7, AppendVPNPeers [peer_of c]),
                        (5, ConnectServer (connect_request live_target c 21820))]"
    using first by (elim exE conjE) (rule that, assumption+)
  moreover from this have "clientIp c = ip4_text v" "c_deviceId c = ''d2''" by simp_all
  ultimately show ?thesis
    unfolding ips w
    by (intro exI [of _ v] exI [of _ c] exI [of _ w'] conjI) (simp_all add: w)
qed

end
