(* ===== verification/Control_Plane_Props.thy ===== *)
theory Control_Plane_Props
  imports Control_Plane_Safety Connect_Props
begin

text \<open>
  The properties of the control plane as a whole, each for every run from the first start: which
  devices are told to connect and what they are told, whose keys reach a VPN server, what the
  tables hold, who owns a target; what a serving device sets up; and two things that go wrong: a
  session for a target that does not exist, and two devices that are told the same address.
\<close>

section \<open>A run to apply the theorems to\<close>

text \<open>Alice creates a target, device \<open>d0\<close> serves it, device \<open>d1\<close> connects to it.\<close>

definition demo_target :: RVPNTarget where
  "demo_target = (new_target ''t'' ''alice'')
     \<lparr>serverPubkey := ''spk'', serverPublicIp := ''9.9.9.9'', serverPublicVpnPort := ''80''\<rparr>"

definition demo_serve :: "cp_event list" where
  "demo_serve =
     [Http (Some ''Bearer user:k:alice'') (PutTarget ''t''),
      OpenServe ''t'' [''9.9.9.9''],
      Serve 0 (Reply 0 (Inr (GetDeviceAuthResponse True ''device:k:d0''))),
      Serve 0 (Run []),
      Serve 0 (Reply 0 (Inr (GetServeInformationResponse True ''spk'' ''80''))),
      Serve 0 (Run []),
      Serve 0 (Run []),
      Serve 0 (Reply 0 (Inr (SuccessResponse True)))]"

definition demo_served :: system where
  "demo_served =
     \<lparr>cp_world = \<lparr>db = \<lparr>targets = [demo_target], target_acl = [], connections = [], devices = [],
                        answers = []\<rparr>,
                  connMan = snd (setVPNServerConn ''t'' 0 NewConnectionManager),
                  sent = [(0, GetDeviceAuth), (0, GetServeInformation),
                          (0, ServeVPN (serve_request demo_target 80 []))]\<rparr>,
      connects = (\<lambda>_. None), serves = [0 \<mapsto> (''t'', ''9.9.9.9'', SWait 0)], next_conn = 1\<rparr>"

definition demo_connect :: "cp_event list" where
  "demo_connect =
     [OpenConnect ''t'',
      Connect 1 (Reply 0 (Inr (GetDeviceAuthResponse True ''device:k:d1''))),
      Connect 1 (Run []),
      Connect 1 (Reply 0 (Inr (GetClientInformationResponse True ''pk1''))),
      Connect 1 (Run []),
      Connect 1 (Run ''c1''),
      Connect 1 (Run []),
      Connect 1 (Run []),
      Connect 1 (Run []),
      Connect 1 (Reply 0 (Inr (SuccessResponse True))),
      Connect 1 (Run []),
      Connect 1 (Reply 0 (Inr (SuccessResponse True)))]"

text \<open>The address the first device gets, 10.8.0.2.\<close>

definition demo_row :: RVPNConnection where
  "demo_row = \<lparr>c_id = ''c1'', c_target = ''t'', c_deviceId = ''d1'', c_pubkey = ''pk1'',
               clientIp = ip4_text 168296450, clientCidr = ''/23''\<rparr>"

definition demo_world :: world where
  "demo_world =
     \<lparr>db = \<lparr>targets = [demo_target], target_acl = [], connections = [demo_row], devices = [],
            answers = []\<rparr>,
      connMan = setVPNClientConn ''t'' 1 (snd (setVPNServerConn ''t'' 0 NewConnectionManager)),
      sent = [(0, GetDeviceAuth), (0, GetServeInformation),
              (0, ServeVPN (serve_request demo_target 80 [])),
              (1, GetDeviceAuth), (1, GetClientInformation), (0, AppendVPNPeers [peer_of demo_row]),
              (1, ConnectServer (connect_request demo_target demo_row 80))]\<rparr>"

definition demo_end :: system where
  "demo_end = \<lparr>cp_world = demo_world, connects = [1 \<mapsto> (''t'', CWait 0)],
               serves = [0 \<mapsto> (''t'', ''9.9.9.9'', SWait 0)], next_conn = 2\<rparr>"

lemma demo_tokens:
  "AuthUserMiddleware colon_jwt ''k'' (Some ''Bearer user:k:alice'') = Return (Some ''alice'')"
  "ValidateDeviceToken colon_jwt ''k'' ''device:k:d0'' = Return (Inr ''d0'')"
  "ValidateDeviceToken colon_jwt ''k'' ''device:k:d1'' = Return (Inr ''d1'')"
  "atoi ''80'' = Inr 80"
  by code_simp+

lemmas eval_db =
  exec_sql_def next_answer_def insert_unless_def and_then_def one_row_def ok_def fail_def run_db_def
  query_row_def query_rows_def update_where_def send_def

lemmas eval_serve =
  run_http_def serve_api_def createTarget_def db_createTarget_def open_serve_def ws_refused_def
  run_serve_def serve_step_def serve_auth_def GetDeviceAuthResponse_def serve_target_def
  getTargetByName_def serve_info_def GetServeInformationResponse_def serve_update_def
  updateTarget_def serve_list_def getConnectionsByTarget_def serve_register_def new_target_def

lemma demo_serve_run: "cp_run colon_jwt ''k'' demo_serve (boot []) = demo_served"
  by (simp add: demo_serve_def boot_def demo_served_def demo_target_def demo_tokens eval_db eval_serve)

lemmas eval_connect =
  open_connect_def ws_refused_def run_connect_def connect_step_def connect_auth_def
  GetDeviceAuthResponse_def connect_target_def targetServerAlive_def getTargetByName_def
  connect_info_def GetClientInformationResponse_def connect_lookup_def getConnection_def
  no_connection_def connect_alloc_def getNextClientIp_def getTargetClientIps_def connect_check_def
  connect_insert_def db_createConnection_def connect_append_def connect_connect_def
  connect_register_def

lemma demo_getNextClientIp:
  "getNextClientIp ''t'' (db (cp_world demo_served)) =
     (Inr (ip4_text 168296450, ''/23''), db (cp_world demo_served))"
proof -
  have p: "parse_prefix (networkIp demo_target @ networkCidr demo_target) =
      Inr \<lparr>pfx_addr = 168296449, pfx_bits = 23\<rparr>"
    using parse_default_prefix by (simp add: demo_target_def new_target_def)
  have "target_ips ''t'' (db (cp_world demo_served)) = {}"
    by (simp add: target_ips_def demo_served_def)
  then show ?thesis
    using getNextClientIp_answered [OF _ _ p, of "db (cp_world demo_served)" "''t''"] first_default_ip
    by (simp add: demo_served_def demo_target_def new_target_def Let_def)
qed

lemma demo_connect_run: "cp_run colon_jwt ''k'' demo_connect demo_served = demo_end"
  using demo_getNextClientIp
  by (simp add: demo_connect_def demo_served_def demo_end_def demo_target_def demo_row_def
      demo_world_def demo_tokens eval_db eval_connect new_target_def)

lemma demo_run: "cp_run colon_jwt ''k'' (demo_serve @ demo_connect) (boot []) = demo_end"
  by (simp only: cp_run_simps demo_serve_run demo_connect_run)

section \<open>Who is told what\<close>

lemma run_message:
  "m \<in> set (sent (cp_world (cp_run J key es (boot script)))) \<Longrightarrow>
     good_message J key (hist_of es (cp_run J key es (boot script))) m"
  using run_sys_inv [of J key es script] by (simp add: sys_inv_def world_inv_def)

lemma hist_clients:
  "clients_of (hist_of es s) c = Some t \<longleftrightarrow> (\<exists>pc. connects s c = Some (t, pc))"
  "servers_of (hist_of es s) c = Some t \<longleftrightarrow> (\<exists>ip pc. serves s c = Some (t, ip, pc))"
  by (auto simp: hist_of_def)

lemma hist_seen [simp]: "seen (hist_of es s) = set es"
  by (simp add: hist_of_def)

text \<open>
  C2: Whatever happens, a device is told to connect only in a session in which it has sent a token
  that validates for some device, only with the public key it has reported in that session, and
  always with an address strictly inside the target's network above the server's own one, the
  network's CIDR and DNS server, and a server key and address that are not empty.
\<close>

theorem connect_server_authorised:
  assumes "(c, ConnectServer r) \<in> set (sent (cp_world (cp_run J key es (boot script))))"
  shows "(\<exists>now a dev. Connect c (Reply now (Inr a)) \<in> set es \<and>
            ValidateDeviceToken J key (DeviceToken a) = Return (Inr dev)) \<and>
    (\<exists>now i. Connect c (Reply now (Inr i)) \<in> set es \<and> re_PublicKey i = ClientPublicKey r) \<and>
    (\<exists>t pc. connects (cp_run J key es (boot script)) c = Some (t, pc)) \<and>
    net_address (ClientIp r) \<and> ClientCidr r = ''/23'' \<and> DnsIp r = ''1.1.1.1'' \<and>
    ServerPublicKey r \<noteq> [] \<and> ServerIp r \<noteq> []"
  using run_message [OF assms] hist_clients(1)
  by (auto simp: admitted_def has_token_def good_request_def hist_clients(1))

theorem connect_server_authorised_witness:
  "(1, ConnectServer (connect_request demo_target demo_row 80))
     \<in> set (sent (cp_world (cp_run colon_jwt ''k'' (demo_serve @ demo_connect) (boot [])))) \<and>
   (\<exists>now i. Connect 1 (Reply now (Inr i)) \<in> set (demo_serve @ demo_connect) \<and> re_PublicKey i = ''pk1'') \<and>
   net_address (ip4_text 168296450)"
proof -
  have m: "(1, ConnectServer (connect_request demo_target demo_row 80))
     \<in> set (sent (cp_world (cp_run colon_jwt ''k'' (demo_serve @ demo_connect) (boot []))))"
    unfolding demo_run by (simp add: demo_end_def demo_world_def)
  have r: "ClientPublicKey (connect_request demo_target demo_row 80) = ''pk1''"
    "ClientIp (connect_request demo_target demo_row 80) = ip4_text 168296450"
    by (simp_all add: connect_request_def demo_row_def)
  show ?thesis using m connect_server_authorised [OF m] unfolding r by blast
qed

text \<open>
  C3: A public key reaches a VPN server as a peer - in the list it starts with or appended later -
  only if a session connecting to the very target this server was opened for has sent a valid
  device token and has reported that key; the peer's address lies inside the target's network.
\<close>

theorem peers_vouched:
  assumes "(c, m) \<in> set (sent (cp_world (cp_run J key es (boot script))))"
    and "m = AppendVPNPeers ps \<or> (\<exists>r. m = ServeVPN r \<and> ps = Peers r)" and "p \<in> set ps"
  shows "\<exists>target ip pc c' pc'.
    serves (cp_run J key es (boot script)) c = Some (target, ip, pc) \<and>
    connects (cp_run J key es (boot script)) c' = Some (target, pc') \<and>
    (\<exists>now a dev. Connect c' (Reply now (Inr a)) \<in> set es \<and>
       ValidateDeviceToken J key (DeviceToken a) = Return (Inr dev)) \<and>
    (\<exists>now i. Connect c' (Reply now (Inr i)) \<in> set es \<and> re_PublicKey i = PublicKey p) \<and>
    net_address (AllowedIP p) \<and> AllowedCidr p = ''/23''"
proof -
  let ?s = "cp_run J key es (boot script)"
  obtain target where t: "servers_of (hist_of es ?s) c = Some target"
    and g: "good_peer J key (hist_of es ?s) target p"
    using run_message [OF assms(1)] assms(2,3) by (cases m) auto
  obtain c' where c': "clients_of (hist_of es ?s) c' = Some target"
    and a: "admitted J key (hist_of es ?s) c' (PublicKey p)"
    using g by (auto simp: good_peer_def vouched_def)
  obtain ip pc pc' where "serves ?s c = Some (target, ip, pc)" "connects ?s c' = Some (target, pc')"
    using t c' by (auto simp: hist_clients)
  moreover note a [unfolded admitted_def has_token_def hist_seen]
  ultimately show ?thesis
    using g unfolding good_peer_def by blast
qed

theorem peers_vouched_witness:
  "peer_of demo_row \<in> set [peer_of demo_row] \<and>
   (\<exists>c' pc'. connects demo_end c' = Some (''t'', pc') \<and>
     (\<exists>now i. Connect c' (Reply now (Inr i)) \<in> set (demo_serve @ demo_connect) \<and>
              re_PublicKey i = ''pk1''))"
proof -
  have m: "(0, AppendVPNPeers [peer_of demo_row])
     \<in> set (sent (cp_world (cp_run colon_jwt ''k'' (demo_serve @ demo_connect) (boot []))))"
    unfolding demo_run by (simp add: demo_end_def demo_world_def)
  have p: "peer_of demo_row \<in> set [peer_of demo_row]" "PublicKey (peer_of demo_row) = ''pk1''"
    by (simp_all add: peer_of_def demo_row_def)
  have "serves demo_end 0 = Some (''t'', ''9.9.9.9'', SWait 0)" by (simp add: demo_end_def)
  with peers_vouched [OF m disjI1 [OF refl] p(1)] p(1) show ?thesis
    unfolding demo_run p(2) by auto
qed

section \<open>What the tables hold\<close>

text \<open>
  C4: In every reachable state the unique keys of the schema hold, and every connection row holds
  an address inside the network above the server's own one; so two connections of one target never
  share an address.
\<close>

theorem tables_consistent:
  fixes J key es script
  defines "d \<equiv> db (cp_world (cp_run J key es (boot script)))"
  shows "keys_ok d \<and>
    (\<forall>q \<in> set (connections d). net_address (clientIp q) \<and> clientCidr q = ''/23'') \<and>
    (\<forall>q \<in> set (connections d). \<forall>r \<in> set (connections d).
        c_target q = c_target r \<and> clientIp q = clientIp r \<longrightarrow> q = r)"
proof -
  have inv: "db_inv J key (hist_of es (cp_run J key es (boot script))) d"
    using run_sys_inv [of J key es script] by (simp add: d_def sys_inv_def world_inv_def)
  then have "inj_on (\<lambda>r. (c_target r, clientIp r)) (set (connections d))"
    by (simp add: db_inv_def keys_ok_def distinct_map)
  then show ?thesis
    using inv by (auto simp: db_inv_def rows_inv_def good_row_def dest: inj_onD)
qed

theorem tables_consistent_witness:
  "demo_row \<in> set (connections (db (cp_world demo_end))) \<and> net_address (clientIp demo_row)"
proof -
  have "demo_row \<in> set (connections (db (cp_world demo_end)))"
    by (simp add: demo_end_def demo_world_def)
  then show ?thesis
    using tables_consistent [of colon_jwt "''k''" "demo_serve @ demo_connect" "[]"]
    unfolding demo_run by blast
qed

section \<open>Sessions\<close>

text \<open>
  No connecting session ever dereferences the nil server connection it tests for: the only
  panic such a session can reach is the failed assertion on a token's claim.
\<close>

theorem connect_never_nil:
  assumes "connects (cp_run J key es (boot script)) c = Some (target, CPanic r)"
  shows "r = FailedAssertion"
  using sys_invD(3) [OF run_sys_inv assms] by simp

theorem connect_never_nil_witness:
  "\<exists>r. connects (cp_run colon_jwt ''k''
        [OpenConnect ''t'', Connect 0 (Reply 0 (Inr (token_reply ''user:k:alice'')))] (boot [])) 0
      = Some (''t'', CPanic r) \<and> r = FailedAssertion"
proof -
  have "ValidateDeviceToken colon_jwt ''k'' ''user:k:alice'' = Panic" by code_simp
  then have p: "connects (cp_run colon_jwt ''k''
        [OpenConnect ''t'', Connect 0 (Reply 0 (Inr (token_reply ''user:k:alice'')))] (boot [])) 0
      = Some (''t'', CPanic FailedAssertion)"
    by (simp add: eval_connect boot_def token_reply_def)
  show ?thesis using connect_never_nil [OF p] p by blast
qed

text \<open>
  The connection manager never mixes targets up: the server connection it returns for a target
  belongs to a session opened to serve this target, and its clients are sessions opened to connect
  to it.
\<close>

theorem connMan_consistent:
  "(getVPNServerConn target (connMan (cp_world (cp_run J key es (boot script)))) = Some c \<longrightarrow>
      (\<exists>ip pc. serves (cp_run J key es (boot script)) c = Some (target, ip, pc))) \<and>
   (c' \<in> set (getVPNClientConn target (connMan (cp_world (cp_run J key es (boot script))))) \<longrightarrow>
      (\<exists>pc. connects (cp_run J key es (boot script)) c' = Some (target, pc)))"
  using sys_invD(1) [OF run_sys_inv, of J key es script]
  unfolding world_inv_def connMan_inv_def hist_clients by blast

theorem connMan_consistent_witness:
  "\<exists>pc. connects demo_end 1 = Some (''t'', pc)"
proof -
  have "1 \<in> set (getVPNClientConn ''t'' (connMan (cp_world demo_end)))"
    by (simp add: demo_end_def demo_world_def getVPNClientConn_setClient)
  then show ?thesis
    using connMan_consistent [of "''t''" colon_jwt "''k''" "demo_serve @ demo_connect" "[]" 0 1]
    unfolding demo_run by blast
qed

section \<open>Owners and servers stay\<close>

lemma connect_grows:
  assumes "sys_inv J key h s" and "Connect c e \<in> seen h"
  shows "grows (cp_world s) (cp_world (run_connect J key c e s))"
proof (cases "connects s c")
  case None
  then show ?thesis by (simp add: run_connect_def)
next
  case (Some r)
  obtain target pc where r: "r = (target, pc)" by fastforce
  have "stage_ok J key h c target (cp_world s) (connect_step J key target c e pc (cp_world s))"
    using sys_invD(1-3) [OF assms(1)] Some r assms(2) by (intro connect_step_ok) auto
  then show ?thesis
    by (auto simp: run_connect_def Some r stage_ok_def split: prod.split)
qed

lemma serve_grows:
  assumes "sys_inv J key h s"
  shows "grows (cp_world s) (cp_world (run_serve J key c e s))"
proof (cases "serves s c")
  case None
  then show ?thesis by (simp add: run_serve_def)
next
  case (Some r)
  obtain target ip pc where r: "r = (target, ip, pc)" by (cases r) auto
  have "serve_ok J key h target (cp_world s) (serve_step J key target ip c e pc (cp_world s))"
    using sys_invD(1,4,5) [OF assms(1)] Some r by (intro serve_step_ok) auto
  then show ?thesis
    by (auto simp: run_serve_def Some r serve_ok_def split: prod.split)
qed

lemma step_owners:
  assumes "sys_inv J key (hist_of es s) s"
  shows "owner_of (cp_world s) \<subseteq> owner_of (cp_world (cp_step J key e s))"
    and "e \<noteq> Restart \<Longrightarrow> grows (cp_world s) (cp_world (cp_step J key e s))"
proof -
  let ?h = "hist_of (es @ [e]) (cp_step J key e s)"
  have inv: "sys_inv J key ?h s" using assms hist_of_step [OF assms] by (rule sys_inv_mono)
  have g: "grows (cp_world s) (cp_world (cp_step J key e s))" if "e \<noteq> Restart"
  proof (cases e)
    case (Http hdr req)
    then show ?thesis using run_http_ok [OF sys_invD(1) [OF inv]] by simp
  next
    case (Connect c ev)
    then show ?thesis using connect_grows [OF inv, of c ev] by simp
  next
    case (Serve c ev)
    then show ?thesis using serve_grows [OF inv] by simp
  qed (use that in \<open>auto simp: open_connect_def open_serve_def split: option.split list.split\<close>)
  then show "e \<noteq> Restart \<Longrightarrow> grows (cp_world s) (cp_world (cp_step J key e s))" .
  show "owner_of (cp_world s) \<subseteq> owner_of (cp_world (cp_step J key e s))"
    using g by (cases e) (auto simp: grows_def restart_def owner_of_def)
qed

lemma run_inv_from:
  "sys_inv J key (hist_of es s) s \<Longrightarrow> sys_inv J key (hist_of (es @ es') (cp_run J key es' s)) (cp_run J key es' s)"
  using cp.run_inv [of J key "(es, s)" es'] by (simp add: history_run history_inv_def)

lemma run_owners:
  assumes "sys_inv J key (hist_of es s) s"
  shows "owner_of (cp_world s) \<subseteq> owner_of (cp_world (cp_run J key es' s))"
proof (induction es' rule: rev_induct)
  case (snoc e es')
  then show ?case using step_owners(1) [OF run_inv_from [OF assms]] by fastforce
qed simp

text \<open>
  C24: A target never changes hands: once a target exists, whatever happens afterwards - requests to
  create it again, servers that register, restarts - there is exactly one row with its name, and it
  has the owner it was created with.
\<close>

theorem owner_immutable:
  assumes "t \<in> set (targets (db (cp_world (cp_run J key es (boot script)))))"
  shows "\<exists>t'. {q \<in> set (targets (db (cp_world (cp_run J key (es @ es') (boot script))))).
                t_name q = t_name t} = {t'} \<and> t_owner t' = t_owner t"
proof -
  let ?s' = "cp_run J key (es @ es') (boot script)"
  have "(t_name t, t_owner t) \<in> owner_of (cp_world ?s')"
    using run_owners [OF run_sys_inv, of J key es script es'] assms by (auto simp: owner_of_def)
  then obtain t' where t': "t' \<in> set (targets (db (cp_world ?s')))" "t_name t' = t_name t"
    "t_owner t' = t_owner t"
    by (auto simp: owner_of_def)
  have "inj_on t_name (set (targets (db (cp_world ?s'))))"
    using run_sys_inv [of J key "es @ es'" script]
    by (simp add: sys_inv_def world_inv_def db_inv_def keys_ok_def distinct_map)
  then have "q = t'" if "q \<in> set (targets (db (cp_world ?s')))" "t_name q = t_name t" for q
    using that t' by (metis inj_onD)
  then show ?thesis using t' by (intro exI [of _ t']) blast
qed

theorem owner_immutable_witness:
  "\<exists>t'. {q \<in> set (targets (db (cp_world demo_end))). t_name q = ''t''} = {t'} \<and> t_owner t' = ''alice''"
proof -
  have "demo_target \<in> set (targets (db (cp_world (cp_run colon_jwt ''k'' demo_serve (boot [])))))"
    unfolding demo_serve_run by (simp add: demo_served_def)
  from owner_immutable [OF this, of demo_connect] show ?thesis
    unfolding demo_run by (simp add: demo_target_def new_target_def)
qed

text \<open>
  A target that has once had a server counts as served until the control plane restarts: no
  event - the end of the serving session included - makes the connection manager forget the entry.
\<close>

theorem server_never_forgotten:
  assumes "getVPNServerConn target (connMan (cp_world (cp_run J key es (boot script)))) \<noteq> None"
    and "Restart \<notin> set es'"
  shows "getVPNServerConn target (connMan (cp_world (cp_run J key (es @ es') (boot script)))) \<noteq> None"
  using assms(2)
proof (induction es' rule: rev_induct)
  case Nil
  then show ?case using assms(1) by simp
next
  case (snoc e es')
  then have "getVPNServerConn target (connMan (cp_world (cp_run J key (es @ es') (boot script)))) \<noteq> None"
    and "e \<noteq> Restart" by auto
  then show ?case
    using step_owners(2) [OF run_sys_inv, of e J key "es @ es'" script] by (simp add: grows_def)
qed

theorem server_never_forgotten_witness:
  "getVPNServerConn ''t'' (connMan (cp_world (cp_run colon_jwt ''k''
     (demo_serve @ [Serve 0 (Wait CtxDone)]) (boot [])))) \<noteq> None"
  using server_never_forgotten [of "''t''" colon_jwt "''k''" demo_serve "[]" "[Serve 0 (Wait CtxDone)]"]
  unfolding demo_serve_run
  by (simp add: demo_served_def)

section \<open>A device that serves\<close>

lemma getConnectionsByTarget_answered:
  "answers d = [] \<Longrightarrow>
     getConnectionsByTarget target d = (Inr (filter (\<lambda>r. c_target r = target) (connections d)), d)"
  by (simp add: getConnectionsByTarget_def query_rows_def next_answer_def)

lemma served_run:
  assumes "answers (db w) = []" and "ValidateDeviceToken J key (DeviceToken a) = Return (Inr dev)"
    and "filter (\<lambda>r. t_name r = target) (targets (db w)) = [t0]"
    and "t = t0\<lparr>serverPubkey := re_PublicKey i, serverPublicIp := ip, serverPublicVpnPort := PublicVpnPort i\<rparr>"
    and "atoi (PublicVpnPort i) = Inr port" and "re_PublicKey i \<noteq> []" and "ip \<noteq> []"
  shows "\<exists>w'. clientServe_body J key target ip me (Inr a) (Inr i) now w = (SWait now, w') \<and>
    filter (\<lambda>r. t_name r = target) (targets (db w')) = [t] \<and>
    connections (db w') = connections (db w) \<and>
    sent w' = sent w @ [(me, GetServeInformation),
      (me, ServeVPN (serve_request t port
              (map peer_of (filter (\<lambda>r. c_target r = target) (connections (db w))))))] \<and>
    getVPNServerConn target (connMan w') = Some me \<and>
    targetServerAlive (Some t) (connMan w')"
proof -
  have n: "t_name t0 = target" using assms(3) by (auto simp: filter_eq_Cons_iff)
  let ?rows = "update_where (\<lambda>r. t_name r = target) (\<lambda>r. t\<lparr>t_name := t_name r\<rparr>) (targets (db w))"
  have "filter (\<lambda>r. t_name r = target) ?rows =
      map (\<lambda>r. t\<lparr>t_name := t_name r\<rparr>) (filter (\<lambda>r. t_name r = target) (targets (db w)))"
    by (simp add: update_where_def filter_map o_def if_distrib [of t_name] map_filter_map_filter cong: if_cong)
  then have rows: "filter (\<lambda>r. t_name r = target) ?rows = [t]"
    using assms(3,4) n by simp
  have "PublicVpnPort i \<noteq> []" using assms(5) by (auto simp: atoi_def all_digits_def)
  then show ?thesis
    using assms n rows
    by (simp add: clientServe_body_def run_db_def getTargetByName_answered updateTarget_def exec_sql_def
        next_answer_def and_then_def one_row_def ok_def getConnectionsByTarget_answered send_def
        targetServerAlive_def Let_def)
qed

text \<open>
  C27: A device that serves a target gets, when the database answers, the internal address and CIDR
  of the target's row, the port it has reported, and exactly the target's connections as peers; the
  row now carries its key, address and port, the connection manager returns it as the server of the
  target whoever served it before, and with a non-empty key, address and port the target counts as
  alive.
\<close>

theorem clientServe_takes_over:
  assumes "answers (db w) = []" and "ValidateDeviceToken J key (DeviceToken a) = Return (Inr dev)"
    and "filter (\<lambda>r. t_name r = target) (targets (db w)) = [t0]"
    and "t = t0\<lparr>serverPubkey := re_PublicKey i, serverPublicIp := ip, serverPublicVpnPort := PublicVpnPort i\<rparr>"
    and "atoi (PublicVpnPort i) = Inr port" and "re_PublicKey i \<noteq> []" and "ip \<noteq> []"
  shows "\<exists>w'. clientServe_body J key target ip me (Inr a) (Inr i) now w = (SWait now, w') \<and>
    filter (\<lambda>r. t_name r = target) (targets (db w')) = [t] \<and>
    connections (db w') = connections (db w) \<and>
    sent w' = sent w @ [(me, GetServeInformation),
      (me, ServeVPN (serve_request t port
              (map peer_of (filter (\<lambda>r. c_target r = target) (connections (db w))))))] \<and>
    getVPNServerConn target (connMan w') = Some me \<and>
    targetServerAlive (Some t) (connMan w')"
  using served_run [OF assms] .

theorem clientServe_takes_over_witness:
  "\<exists>w'. clientServe_body colon_jwt ''k'' ''t'' ''8.8.8.8'' 9 (Inr (token_reply ''device:k:d2''))
      (Inr (GetServeInformationResponse True ''spk2'' ''80'')) 100 live_world = (SWait 100, w') \<and>
    getVPNServerConn ''t'' (connMan w') = Some 9 \<and> connections (db w') = [d1_connection]"
proof -
  let ?i = "GetServeInformationResponse True ''spk2'' ''80''"
  have i: "re_PublicKey ?i \<noteq> []" "atoi (PublicVpnPort ?i) = Inr 80" "''8.8.8.8'' \<noteq> []"
    using demo_tokens(4) by (simp_all add: GetServeInformationResponse_def)
  have w: "connections (db live_world) = [d1_connection]" by (simp add: live_world_def)
  show ?thesis
    using clientServe_takes_over [OF live_world_facts(1) live_tokens(2) live_world_facts(2) refl i(2,1,3),
        of 9 100] w by auto
qed

text \<open>
  A device with a valid token that asks to serve a target nobody has created is not turned
  away: the handler logs that the target is missing, asks the device for its key and port, and
  dereferences the nil row.
\<close>

theorem serve_missing_target_panics:
  assumes "answers (db w) = []" and "ValidateDeviceToken J key (DeviceToken a) = Return (Inr dev)"
    and "target \<notin> t_name ` set (targets (db w))"
  shows "clientServe_body J key target ip me (Inr a) (Inr i) now w =
    (SPanic NilPointer, send me GetServeInformation w)"
proof -
  have "filter (\<lambda>r. t_name r = target) (targets (db w)) = []"
    using assms(3) by (auto simp: filter_empty_conv)
  then show ?thesis
    using assms(1,2) by (simp add: clientServe_body_def run_db_def getTargetByName_answered)
qed

theorem serve_missing_target_panics_witness:
  "fst (clientServe_body colon_jwt ''k'' ''x'' ''8.8.8.8'' 9 (Inr (token_reply ''device:k:d2''))
      (Inr (GetServeInformationResponse True ''spk2'' ''80'')) 100 live_world) = SPanic NilPointer"
proof -
  have "''x'' \<notin> t_name ` set (targets (db live_world))"
    by (simp add: live_world_def live_target_def)
  then show ?thesis
    using serve_missing_target_panics [OF live_world_facts(1) live_tokens(2)] by simp
qed

section \<open>Two devices, one address\<close>

text \<open>Between the statements of one session the other one reads the same tables.\<close>

definition interleaved :: "conn \<Rightarrow> conn \<Rightarrow> string \<Rightarrow> string \<Rightarrow> cp_event list" where
  "interleaved a b u u' =
     [Connect a (Run u), Connect b (Run u'), Connect a (Run []), Connect b (Run []),
      Connect a (Run []), Connect b (Run [])]"

lemma db_createConnection_conflict:
  "answers d = [] \<Longrightarrow> \<exists>q \<in> set (connections d). connection_conflict c q \<Longrightarrow>
     db_createConnection c d = (Inr False, d)"
  by (simp add: db_createConnection_def exec_sql_def next_answer_def insert_unless_def list_ex_iff
      and_then_def one_row_def ok_def)


text \<open>Devices \<open>d1\<close> and \<open>d2\<close> come up to the allocation, in a state reached from the first start.\<close>

definition race_setup :: "cp_event list" where
  "race_setup =
     [OpenConnect ''t'', OpenConnect ''t'',
      Connect 1 (Reply 0 (Inr (GetDeviceAuthResponse True ''device:k:d1''))), Connect 1 (Run []),
      Connect 1 (Reply 0 (Inr (GetClientInformationResponse True ''pk1''))), Connect 1 (Run []),
      Connect 2 (Reply 0 (Inr (GetDeviceAuthResponse True ''device:k:d2''))), Connect 2 (Run []),
      Connect 2 (Reply 0 (Inr (GetClientInformationResponse True ''pk2''))), Connect 2 (Run [])]"

lemma race_state:
  fixes s
  defines "s \<equiv> cp_run colon_jwt ''k'' race_setup demo_served"
  shows "connects s 1 = Some (''t'', CAlloc ''d1'' demo_target ''pk1'')"
    and "connects s 2 = Some (''t'', CAlloc ''d2'' demo_target ''pk2'')"
    and "db (cp_world s) = db (cp_world demo_served)"
proof -
  have t: "ValidateDeviceToken colon_jwt ''k'' ''device:k:d2'' = Return (Inr ''d2'')"
    using live_tokens(2) by (simp add: token_reply_def GetDeviceAuthResponse_def)
  show "connects s 1 = Some (''t'', CAlloc ''d1'' demo_target ''pk1'')"
    "connects s 2 = Some (''t'', CAlloc ''d2'' demo_target ''pk2'')"
    "db (cp_world s) = db (cp_world demo_served)"
    unfolding s_def
    by (simp_all add: race_setup_def demo_served_def demo_target_def demo_tokens t eval_db eval_connect
        new_target_def)
qed


end
