(* ===== verification/Daemon_Store.thy ===== *)
theory Daemon_Store
  imports Rvpn_Prelude
begin

text \<open>
  The state the rVPN daemon keeps on disk (\<open>daemon/state.go\<close>, \<open>daemon/state_linux.go\<close>): reading it,
  writing it, and setting it up.  The file system is the one directory and the one file the code
  touches.  The contents of the file are the struct \<open>json.Unmarshal\<close> makes of them: \<open>json.Marshal\<close>
  of the four texts never fails and reads back as it was written, an empty or foreign file reads as
  whatever \<open>json.Unmarshal\<close> leaves in the struct, and its error is dropped by the code.  Every system
  call may fail: \<open>faults\<close> lists what the next calls do, and a system without faults is one whose list
  is empty.
\<close>

section \<open>The file system\<close>

record RVpnState =
  ControlPlaneAuth :: string
  st_PrivateKey :: string
  st_PublicKey :: string
  ActiveProfile :: string

definition empty_RVpnState :: RVpnState where
  "empty_RVpnState = \<lparr>ControlPlaneAuth = [], st_PrivateKey = [], st_PublicKey = [], ActiveProfile = []\<rparr>"

record disk =
  dir_exists :: bool
  state_file :: "RVpnState option"
  faults :: "bool list"

text \<open>One system call: the next entry of the list says whether it fails.\<close>

definition syscall :: "(disk, 'a) stmt \<Rightarrow> (disk, 'a) stmt" where
  "syscall m d =
     (case faults d of
        [] \<Rightarrow> m d
      | b # bs \<Rightarrow> if b then (Inl OsError, d\<lparr>faults := bs\<rparr>) else m (d\<lparr>faults := bs\<rparr>))"

definition os_ReadFile :: "(disk, RVpnState) stmt" where
  "os_ReadFile = syscall (\<lambda>d. case state_file d of None \<Rightarrow> (Inl OsNotExist, d) | Some s \<Rightarrow> (Inr s, d))"

text \<open>\<open>os.OpenFile\<close> with \<open>O_CREATE\<close> and \<open>O_TRUNC\<close>: the old contents are gone at once.\<close>

definition os_OpenTrunc :: "(disk, unit) stmt" where
  "os_OpenTrunc =
     syscall (\<lambda>d. if dir_exists d then (Inr (), d\<lparr>state_file := Some empty_RVpnState\<rparr>)
                  else (Inl OsNotExist, d))"

text \<open>
  The buffered writer: \<open>Write\<close> fails only when the text does not fit the buffer and the system call
  fails; otherwise the text reaches the file at \<open>Flush\<close>.
\<close>

definition bufio_Write :: "(disk, unit) stmt" where
  "bufio_Write = syscall (ok ())"

definition bufio_Flush :: "RVpnState \<Rightarrow> (disk, unit) stmt" where
  "bufio_Flush s = syscall (\<lambda>d. (Inr (), d\<lparr>state_file := Some s\<rparr>))"

text \<open>\<open>os.IsNotExist\<close> of the error of \<open>os.Stat\<close>; a failed call is another error.\<close>

definition stat_dir_missing :: "disk \<Rightarrow> bool \<times> disk" where
  "stat_dir_missing d =
     (case syscall (\<lambda>d. if dir_exists d then (Inr (), d) else (Inl OsNotExist, d)) d of
        (r, d') \<Rightarrow> (r = Inl OsNotExist, d'))"

definition stat_file_missing :: "disk \<Rightarrow> bool \<times> disk" where
  "stat_file_missing d =
     (case syscall (\<lambda>d. if state_file d = None then (Inl OsNotExist, d) else (Inr (), d)) d of
        (r, d') \<Rightarrow> (r = Inl OsNotExist, d'))"

definition os_MkdirAll :: "(disk, unit) stmt" where
  "os_MkdirAll = syscall (\<lambda>d. (Inr (), d\<lparr>dir_exists := True\<rparr>))"

section \<open>The operations\<close>

text \<open>\<open>path.Clean\<close> and \<open>path.Join\<close> of two elements.\<close>

fun clean_parts :: "bool \<Rightarrow> string list \<Rightarrow> string list \<Rightarrow> string list" where
  "clean_parts rooted out [] = out"
| "clean_parts rooted out (x # xs) =
     clean_parts rooted
       (if x = [] \<or> x = ''.'' then out
        else if x = ''..''
        then (if out \<noteq> [] \<and> last out \<noteq> ''..'' then butlast out else if rooted then out else out @ [''..''])
        else out @ [x]) xs"

fun join_parts :: "string list \<Rightarrow> string" where
  "join_parts [] = []"
| "join_parts [x] = x"
| "join_parts (x # y # xs) = x @ ''/'' @ join_parts (y # xs)"

definition path_Clean :: "string \<Rightarrow> string" where
  "path_Clean p =
     (let rooted = p \<noteq> [] \<and> hd p = CHR ''/''; out = join_parts (clean_parts rooted [] (split_on (CHR ''/'') p)) in
      if rooted then ''/'' @ out else if out = [] then ''.'' else out)"

definition path_Join :: "string \<Rightarrow> string \<Rightarrow> string" where
  "path_Join x y =
     (if x = [] \<and> y = [] then [] else path_Clean (if x = [] then y else if y = [] then x else x @ ''/'' @ y))"

definition stateDir :: string where
  "stateDir = ''/var/lib/rvpn''"

text \<open>No platform's version returns an error; that of Windows panics when the library names no directory.\<close>

definition getRVpnStatePath :: "string result" where
  "getRVpnStatePath = Inr (path_Join stateDir ''state.json'')"

definition getRVpnStatePath_darwin :: "string result" where
  "getRVpnStatePath_darwin = Inr (path_Join stateDir ''state.json'')"

definition getRVpnStatePath_windows :: "(string \<Rightarrow> string list) \<Rightarrow> string result exec" where
  "getRVpnStatePath_windows SystemConfig =
     (case SystemConfig ''rvpn'' of [] \<Rightarrow> Panic | configPath # _ \<Rightarrow> Return (Inr (path_Join configPath ''state.json'')))"

lemma state_paths:
  "getRVpnStatePath = Inr ''/var/lib/rvpn/state.json''" "getRVpnStatePath_darwin = getRVpnStatePath"
  by (simp_all add: getRVpnStatePath_def getRVpnStatePath_darwin_def path_Join_def path_Clean_def stateDir_def)

definition GetRVpnState :: "(disk, RVpnState) stmt" where
  "GetRVpnState =
     (case getRVpnStatePath of
        Inl e \<Rightarrow> fail e
      | Inr _ \<Rightarrow> and_then os_ReadFile (\<lambda>rVpnStateObj. ok rVpnStateObj))"

text \<open>The error of \<open>w.Flush\<close> is dropped, and the file is not closed.\<close>

definition SetRVpnState :: "RVpnState \<Rightarrow> (disk, unit) stmt" where
  "SetRVpnState rVpnStateData =
     (case getRVpnStatePath of
        Inl e \<Rightarrow> fail e
      | Inr _ \<Rightarrow>
          and_then os_OpenTrunc (\<lambda>_.
          and_then bufio_Write (\<lambda>_.
          and_then (drop_error (bufio_Flush rVpnStateData)) (\<lambda>_.
            ok ()))))"

definition InitRVPNState :: "(disk, unit) stmt" where
  "InitRVPNState d =
     (case getRVpnStatePath of
        Inl e \<Rightarrow> (Inl e, d)
      | Inr _ \<Rightarrow>
          (case stat_dir_missing d of
             (missing, d) \<Rightarrow>
               and_then (if missing then os_MkdirAll else ok ()) (\<lambda>_ d.
                 case stat_file_missing d of
                   (missing, d) \<Rightarrow>
                     if missing then drop_error (SetRVpnState empty_RVpnState) d else (Inr (), d)) d))"

section \<open>The contract of a state store\<close>

text \<open>
  What the daemon relies on: while the store is sound, a read answers and changes nothing, and a
  write is what the next read answers.
\<close>

locale state_store =
  fixes get :: "('s, 'v) stmt"
    and set_value :: "'v \<Rightarrow> ('s, unit) stmt"
    and sound :: "'s \<Rightarrow> bool"
  assumes get_sound: "sound s \<Longrightarrow> \<exists>v. get s = (Inr v, s)"
    and set_sound: "sound s \<Longrightarrow> \<exists>s'. set_value v s = (Inr (), s') \<and> sound s' \<and> get s' = (Inr v, s')"
begin

text \<open>A read-modify-write.\<close>

lemma update_sound:
  assumes "sound s"
  shows "\<exists>v s'. get s = (Inr v, s) \<and> and_then get (\<lambda>v. set_value (f v)) s = (Inr (), s') \<and> sound s' \<and>
    get s' = (Inr (f v), s')"
proof -
  obtain v where v: "get s = (Inr v, s)" using get_sound [OF assms] by blast
  obtain s' where "set_value (f v) s = (Inr (), s')" "sound s'" "get s' = (Inr (f v), s')"
    using set_sound [OF assms] by blast
  with v show ?thesis by (auto simp: and_then_def)
qed

text \<open>Filling in a missing value happens once: done again, it finds the value and changes nothing.\<close>

lemma ensure_sound:
  assumes "sound s" and "\<And>v. missing v \<Longrightarrow> \<not> missing (f v)"
  shows "\<exists>v s'. and_then get (\<lambda>v. if missing v then and_then (set_value (f v)) (\<lambda>_. ok (f v)) else ok v) s = (Inr v, s') \<and>
    sound s' \<and> get s' = (Inr v, s') \<and> \<not> missing v \<and>
    and_then get (\<lambda>v. if missing v then and_then (set_value (g v)) (\<lambda>_. ok (g v)) else ok v) s' = (Inr v, s')"
proof -
  obtain v where v: "get s = (Inr v, s)" using get_sound [OF assms(1)] by blast
  obtain s' where s': "set_value (f v) s = (Inr (), s')" "sound s'" "get s' = (Inr (f v), s')"
    using set_sound [OF assms(1)] by blast
  show ?thesis
  proof (cases "missing v")
    case True
    then show ?thesis using v s' assms(2) by (auto simp: and_then_def ok_def)
  next
    case False
    then show ?thesis using v assms(1) by (auto simp: and_then_def ok_def)
  qed
qed

end

text \<open>The daemon's store is sound when the directory and the file exist and no call fails.\<close>

definition disk_sound :: "disk \<Rightarrow> bool" where
  "disk_sound d \<longleftrightarrow> dir_exists d \<and> state_file d \<noteq> None \<and> faults d = []"

lemma GetRVpnState_run: "disk_sound d \<Longrightarrow> GetRVpnState d = (Inr (the (state_file d)), d)"
  by (auto simp: GetRVpnState_def getRVpnStatePath_def os_ReadFile_def syscall_def and_then_def ok_def
      disk_sound_def)

lemma SetRVpnState_run: "disk_sound d \<Longrightarrow> SetRVpnState s d = (Inr (), d\<lparr>state_file := Some s\<rparr>)"
  by (simp add: SetRVpnState_def getRVpnStatePath_def os_OpenTrunc_def bufio_Write_def bufio_Flush_def
      drop_error_def syscall_def and_then_def ok_def disk_sound_def)

lemma disk_sound_update [simp]: "disk_sound d \<Longrightarrow> disk_sound (d\<lparr>state_file := Some s\<rparr>)"
  by (simp add: disk_sound_def)

interpretation store: state_store GetRVpnState SetRVpnState disk_sound
  by unfold_locales (auto simp: GetRVpnState_run SetRVpnState_run)

section \<open>Properties\<close>

text \<open>
  What is saved is what is read: on a file system without faults, saving a state succeeds, and
  reading it back answers that state and leaves everything as it is.
\<close>

theorem state_roundtrip:
  assumes "disk_sound d"
  shows "\<exists>d'. SetRVpnState s d = (Inr (), d') \<and> disk_sound d' \<and> GetRVpnState d' = (Inr s, d')"
  using store.set_sound [OF assms] by blast

theorem state_roundtrip_witness:
  "let d = \<lparr>dir_exists = True, state_file = Some empty_RVpnState, faults = []\<rparr>;
       s = empty_RVpnState\<lparr>ControlPlaneAuth := ''token''\<rparr> in
   disk_sound d \<and> GetRVpnState (snd (SetRVpnState s d)) = (Inr s, snd (SetRVpnState s d))"
proof -
  let ?d = "\<lparr>dir_exists = True, state_file = Some empty_RVpnState, faults = []\<rparr>"
  let ?s = "empty_RVpnState\<lparr>ControlPlaneAuth := ''token''\<rparr>"
  have "disk_sound ?d" by (simp add: disk_sound_def)
  with state_roundtrip [OF this, of ?s] show ?thesis by (auto simp: Let_def)
qed

text \<open>
  Saving reports success even when the text never reaches the file: the file has been
  truncated, the error of the flush is dropped, and the saved state - keys and token - is lost.
\<close>

theorem flush_error_loses_state:
  assumes "dir_exists d" and "faults d = False # False # True # fs"
  shows "\<exists>d'. SetRVpnState s d = (Inr (), d') \<and> state_file d' = Some empty_RVpnState"
  using assms
  by (simp add: SetRVpnState_def getRVpnStatePath_def os_OpenTrunc_def bufio_Write_def bufio_Flush_def
      drop_error_def syscall_def and_then_def ok_def)

theorem flush_error_loses_state_witness:
  "let d = \<lparr>dir_exists = True, state_file = Some (empty_RVpnState\<lparr>ControlPlaneAuth := ''token''\<rparr>),
            faults = [False, False, True]\<rparr> in
   dir_exists d \<and> faults d = [False, False, True] \<and>
   (\<exists>d'. SetRVpnState (empty_RVpnState\<lparr>ControlPlaneAuth := ''new''\<rparr>) d = (Inr (), d') \<and>
      state_file d' = Some empty_RVpnState)"
  using flush_error_loses_state
    [of "\<lparr>dir_exists = True, state_file = Some (empty_RVpnState\<lparr>ControlPlaneAuth := ''token''\<rparr>),
          faults = [False, False, True]\<rparr>" "[]" "empty_RVpnState\<lparr>ControlPlaneAuth := ''new''\<rparr>"]
  by (simp add: Let_def)

text \<open>
  Setting up the state makes the store sound on any file system without faults, creates an
  empty state only when there is none, and never touches one that is there.
\<close>

theorem init_state_sound:
  assumes "faults d = []" and "state_file d \<noteq> None \<longrightarrow> dir_exists d"
  shows "\<exists>d'. InitRVPNState d = (Inr (), d') \<and> disk_sound d' \<and>
    state_file d' = Some (case state_file d of None \<Rightarrow> empty_RVpnState | Some s \<Rightarrow> s)"
proof -
  define e where "e = d\<lparr>dir_exists := True\<rparr>"
  have dir: "stat_dir_missing d = (\<not> dir_exists d, d)"
    using assms(1) by (simp add: stat_dir_missing_def syscall_def)
  have mk: "(if \<not> dir_exists d then os_MkdirAll else ok ()) d = (Inr (), e)"
    using assms(1) by (simp add: os_MkdirAll_def syscall_def ok_def e_def)
  have sf: "stat_file_missing e = (state_file d = None, e)"
    using assms(1) by (simp add: stat_file_missing_def syscall_def e_def)
  have set_empty: "drop_error (SetRVpnState empty_RVpnState) e = (Inr (), e\<lparr>state_file := Some empty_RVpnState\<rparr>)"
    using assms(1)
    by (simp add: drop_error_def SetRVpnState_def getRVpnStatePath_def os_OpenTrunc_def bufio_Write_def
        bufio_Flush_def syscall_def and_then_def ok_def e_def)
  have "InitRVPNState d =
    (if state_file d = None then (Inr (), e\<lparr>state_file := Some empty_RVpnState\<rparr>) else (Inr (), e))"
    using mk by (simp add: InitRVPNState_def getRVpnStatePath_def dir and_then_def sf set_empty)
  then show ?thesis using assms(1) by (auto simp: disk_sound_def e_def)
qed

theorem init_state_sound_witness:
  "let d = \<lparr>dir_exists = False, state_file = None, faults = []\<rparr> in
   faults d = [] \<and> (\<exists>d'. InitRVPNState d = (Inr (), d') \<and> disk_sound d' \<and> state_file d' = Some empty_RVpnState)"
  using init_state_sound [of "\<lparr>dir_exists = False, state_file = None, faults = []\<rparr>"]
  by (simp add: Let_def)

end
