(* ===== verification/Go_Prog.thy ===== *)
theory Go_Prog
  imports Rvpn_Prelude
begin

text \<open>
  The shape of the device-side code: a body that works on a state and ends with a value, a panic or
  \<open>log.Fatalf\<close>.  \<open>must\<close> is the idiom \<open>if err != nil { log.Fatalf(...) }\<close>, \<open>warn\<close> the one that only
  logs, \<open>check\<close> the one that returns the error.  The rules turn a body that has returned into the
  steps it has made; \<open>returned\<close> collects them.
\<close>

named_theorems returned \<open>what a body that returned has done\<close>

type_synonym ('s, 'a) prog = "'s \<Rightarrow> 'a exec \<times> 's"

definition ret :: "'a \<Rightarrow> ('s, 'a) prog" where
  "ret x s = (Return x, s)"

definition panic :: "('s, 'a) prog" where
  "panic s = (Panic, s)"

definition log_fatal :: "('s, 'a) prog" where
  "log_fatal s = (Fatal, s)"

definition bind :: "('s, 'a) prog \<Rightarrow> ('a \<Rightarrow> ('s, 'b) prog) \<Rightarrow> ('s, 'b) prog" where
  "bind m f s =
     (case m s of
        (Return x, s') \<Rightarrow> f x s'
      | (Panic, s') \<Rightarrow> (Panic, s')
      | (Fatal, s') \<Rightarrow> (Fatal, s'))"

definition then_do :: "('s, 'a) prog \<Rightarrow> ('s, 'b) prog \<Rightarrow> ('s, 'b) prog" where
  "then_do m n = bind m (\<lambda>_. n)"

definition asks :: "('s \<Rightarrow> 'a) \<Rightarrow> ('s, 'a) prog" where
  "asks f s = (Return (f s), s)"

definition modify :: "('s \<Rightarrow> 's) \<Rightarrow> ('s, unit) prog" where
  "modify f s = (Return (), f s)"

definition attempt :: "('s, 'a) stmt \<Rightarrow> ('s, 'a result) prog" where
  "attempt m s = (case m s of (r, s') \<Rightarrow> (Return r, s'))"

definition must :: "('s, 'a) stmt \<Rightarrow> ('s, 'a) prog" where
  "must m s = (case m s of (Inr x, s') \<Rightarrow> (Return x, s') | (Inl e, s') \<Rightarrow> (Fatal, s'))"

definition warn :: "('s, 'a) stmt \<Rightarrow> ('s, unit) prog" where
  "warn m s = (case m s of (_, s') \<Rightarrow> (Return (), s'))"

text \<open>A call inside a function that itself returns an error.\<close>

definition check :: "('s, 'a) stmt \<Rightarrow> ('a \<Rightarrow> ('s, 'b result) prog) \<Rightarrow> ('s, 'b result) prog" where
  "check m f s = (case m s of (Inr x, s') \<Rightarrow> f x s' | (Inl e, s') \<Rightarrow> (Return (Inl e), s'))"

fun each :: "('x \<Rightarrow> ('s, unit) prog) \<Rightarrow> 'x list \<Rightarrow> ('s, unit) prog" where
  "each f [] = ret ()"
| "each f (x # xs) = then_do (f x) (each f xs)"

text \<open>A loop whose body may return an error, which ends the loop and the function.\<close>

fun each_check :: "('x \<Rightarrow> ('s, unit) stmt) \<Rightarrow> 'x list \<Rightarrow> ('s, unit) stmt" where
  "each_check f [] = ok ()"
| "each_check f (x # xs) = and_then (f x) (\<lambda>_. each_check f xs)"

section \<open>Bodies that have returned\<close>

lemma ret_Return [returned]: "ret x s = (Return y, s') \<longleftrightarrow> y = x \<and> s' = s"
  by (auto simp: ret_def)

lemma panic_Return [returned]: "panic s \<noteq> (Return y, s')"
  by (simp add: panic_def)

lemma log_fatal_Return [returned]: "log_fatal s \<noteq> (Return y, s')"
  by (simp add: log_fatal_def)

lemma bind_Return [returned]:
  "bind m f s = (Return y, s'') \<longleftrightarrow> (\<exists>x s'. m s = (Return x, s') \<and> f x s' = (Return y, s''))"
  by (auto simp: bind_def split: prod.splits exec.splits)

lemma then_do_Return [returned]:
  "then_do m n s = (Return y, s'') \<longleftrightarrow> (\<exists>x s'. m s = (Return x, s') \<and> n s' = (Return y, s''))"
  by (simp add: then_do_def bind_Return)

lemma asks_Return [returned]: "asks f s = (Return y, s') \<longleftrightarrow> y = f s \<and> s' = s"
  by (auto simp: asks_def)

lemma modify_Return [returned]: "modify f s = (Return y, s') \<longleftrightarrow> s' = f s"
  by (auto simp: modify_def)

lemma attempt_Return [returned]: "attempt m s = (Return r, s') \<longleftrightarrow> m s = (r, s')"
  by (auto simp: attempt_def split: prod.splits)

lemma must_Return [returned]: "must m s = (Return x, s') \<longleftrightarrow> m s = (Inr x, s')"
  by (auto simp: must_def split: prod.splits sum.splits)

lemma warn_Return [returned]: "warn m s = (Return x, s') \<longleftrightarrow> (\<exists>r. m s = (r, s'))"
  by (auto simp: warn_def split: prod.splits)

lemma if_Return [returned]:
  "(if b then m else n) s = (Return y, s') \<longleftrightarrow> (b \<and> m s = (Return y, s')) \<or> (\<not> b \<and> n s = (Return y, s'))"
  by simp

text \<open>A loop that has returned is the fold of its steps.\<close>

lemma each_fold: "each f xs s = (Return (), s') \<Longrightarrow> s' = fold (\<lambda>x s. snd (f x s)) xs s"
  by (induction xs arbitrary: s) (auto simp: returned)

text \<open>Bodies that end otherwise.\<close>

lemma bind_Fatal: "m s = (Fatal, s') \<Longrightarrow> bind m f s = (Fatal, s')"
  by (simp add: bind_def)

lemma bind_step: "m s = (Return x, s') \<Longrightarrow> bind m f s = f x s'"
  by (simp add: bind_def)

lemma then_do_Fatal: "m s = (Fatal, s') \<Longrightarrow> then_do m n s = (Fatal, s')"
  by (simp add: then_do_def bind_Fatal)

lemma then_do_step: "m s = (Return x, s') \<Longrightarrow> then_do m n s = n s'"
  by (simp add: then_do_def bind_step)

text \<open>To run a body on a concrete state.\<close>

lemmas prog_run = ret_def panic_def log_fatal_def bind_def then_do_def asks_def modify_def attempt_def
  must_def warn_def check_def ok_def fail_def and_then_def

section \<open>Bodies that keep an invariant\<close>

named_theorems keeps_intros \<open>bodies that keep a predicate of the state, however they end\<close>

lemma keeps_prog_done [keeps_intros]:
  "keeps P (ret x)" "keeps P panic" "keeps P log_fatal" "keeps P (asks f)"
  by (simp_all add: keeps_def ret_def panic_def log_fatal_def asks_def)

lemma keeps_modify [keeps_intros]: "(\<And>s. P s \<Longrightarrow> P (f s)) \<Longrightarrow> keeps P (modify f)"
  by (simp add: keeps_def modify_def)

lemma keeps_bind [keeps_intros]:
  assumes "keeps P m" and "\<And>x. keeps P (f x)"
  shows "keeps P (bind m f)"
proof (rule keepsI)
  fix s r s' assume "P s" and run: "bind m f s = (r, s')"
  obtain q s1 where q: "m s = (q, s1)" by fastforce
  with \<open>P s\<close> have "P s1" using keepsD [OF assms(1)] by blast
  then show "P s'" using run q keepsD [OF assms(2)] by (cases q) (auto simp: bind_def)
qed

lemma keeps_then_do [keeps_intros]: "keeps P m \<Longrightarrow> keeps P n \<Longrightarrow> keeps P (then_do m n)"
  unfolding then_do_def by (rule keeps_bind)

lemma keeps_lifts [keeps_intros]:
  assumes "keeps P m"
  shows "keeps P (attempt m)" "keeps P (must m)" "keeps P (warn m)"
  by (rule keepsI, use keepsD [OF assms] in
      \<open>auto simp: attempt_def must_def warn_def split: prod.splits sum.splits\<close>)+

lemma keeps_each [keeps_intros]: "(\<And>x. x \<in> set xs \<Longrightarrow> keeps P (f x)) \<Longrightarrow> keeps P (each f xs)"
  by (induction xs) (auto intro: keeps_intros)

lemma keeps_cases [keeps_intros]:
  "(b \<Longrightarrow> keeps P m) \<Longrightarrow> (\<not> b \<Longrightarrow> keeps P n) \<Longrightarrow> keeps P (if b then m else n)"
  "(\<And>e. keeps P (g e)) \<Longrightarrow> (\<And>y. keeps P (h y)) \<Longrightarrow> keeps P (case_sum g h r)"
  "keeps P m \<Longrightarrow> (\<And>x. keeps P (k x)) \<Longrightarrow> keeps P (case_option m k q)"
  "(\<And>x y. keeps P (j x y)) \<Longrightarrow> keeps P (case_prod j z)"
  by (auto split: sum.split option.split prod.split)

lemma keeps_check [keeps_intros]:
  assumes "keeps P m" and "\<And>x. keeps P (f x)"
  shows "keeps P (check m f)"
proof (rule keepsI)
  fix s r s' assume "P s" and run: "check m f s = (r, s')"
  obtain q s1 where q: "m s = (q, s1)" by fastforce
  with \<open>P s\<close> have "P s1" using keepsD [OF assms(1)] by blast
  then show "P s'" using run q keepsD [OF assms(2)] by (cases q) (auto simp: check_def)
qed

lemma keeps_each_check [keeps_intros]:
  "(\<And>x. x \<in> set xs \<Longrightarrow> keeps P (f x)) \<Longrightarrow> keeps P (each_check f xs)"
  by (induction xs) (auto intro: keeps_and_then)

text \<open>Bodies after which, when they return, a predicate holds.\<close>

definition ends :: "('s \<Rightarrow> bool) \<Rightarrow> ('s, 'a) prog \<Rightarrow> bool" where
  "ends P m \<longleftrightarrow> (\<forall>s x s'. m s = (Return x, s') \<longrightarrow> P s')"

lemma endsD: "ends P m \<Longrightarrow> m s = (Return x, s') \<Longrightarrow> P s'"
  unfolding ends_def by blast

lemma ends_last: "(\<And>x. ends P (f x)) \<Longrightarrow> ends P (bind m f)" "ends P n \<Longrightarrow> ends P (then_do m n)"
  unfolding ends_def by (metis bind_Return, metis then_do_Return)

lemma ends_prod: "(\<And>x y. ends P (j x y)) \<Longrightarrow> ends P (case z of (x, y) \<Rightarrow> j x y)"
  by (simp split: prod.split)

lemma ends_first: "ends P m \<Longrightarrow> keeps P n \<Longrightarrow> ends P (then_do m n)"
  unfolding ends_def using keepsD by (metis then_do_Return)

end
