(* ===== verification/Wg_Config.thy ===== *)
theory Wg_Config
  imports Go_Prog Netip
begin

text \<open>
  What the WireGuard daemons of all platforms share: the configurations the rVPN daemon hands over
  (\<open>daemon/wg/client.go\<close>), the configuration a device is given (\<open>wgtypes.Config\<close> with the fields the
  program sets), and the parsing of addresses.
\<close>

section \<open>Configurations\<close>

record ClientWgConfig =
  ClientPrivateKey :: string
  cw_ServerPublicKey :: string
  cw_ClientIp :: string
  cw_ClientCidr :: string
  cw_ServerIp :: string
  cw_ServerPort :: int
  cw_DnsIp :: string

record wg_peer =
  wp_PublicKey :: string
  wp_AllowedIP :: string
  wp_AllowedCidr :: string

record ServeWgConfig =
  PrivateKey :: string
  ListenPort :: int
  InternalIp :: string
  InternalCidr :: string
  sw_Peers :: "wg_peer list"

section \<open>The configuration of a device\<close>

text \<open>
  A parsed key is opaque here; \<open>ZeroKey\<close> is the zero value \<open>wgtypes.Key{}\<close> that a failed parse
  leaves behind.
\<close>

datatype wg_key = Key string | ZeroKey

text \<open>\<open>net.ParseIP\<close> yields nil on a bad text; an allowed network is an address and a mask length.\<close>

record peer_config =
  pc_PublicKey :: wg_key
  pc_Endpoint :: "(ip4 option \<times> int) option"
  pc_Keepalive :: "int option"
  pc_ReplaceAllowedIPs :: bool
  pc_AllowedIPs :: "(ip4 option \<times> nat) list"

record wg_config =
  wc_PrivateKey :: "wg_key option"
  wc_ListenPort :: "int option"
  wc_ReplacePeers :: bool
  wc_Peers :: "peer_config list"

definition parse_ip :: "string \<Rightarrow> ip4 option" where
  "parse_ip s = (case parse_ip4 s of Inl _ \<Rightarrow> None | Inr a \<Rightarrow> Some a)"

text \<open>The server and the control plane are given as single addresses, to which the code appends \<open>/32\<close>.\<close>

definition parse_host :: "string \<Rightarrow> ('s, prefix) prog" where
  "parse_host s = (case parse_prefix (s @ ''/32'') of Inl _ \<Rightarrow> log_fatal | Inr p \<Rightarrow> ret p)"

lemma before_last_host: "before_last (CHR ''/'') (s @ ''/32'') = Some (s, ''32'')"
  by (simp add: before_last_def)

lemma parse_host_bits: "parse_prefix (s @ ''/32'') = Inr p \<Longrightarrow> pfx_bits p = 32"
proof -
  have "atoi ''32'' = Inr 32" by code_simp
  then show "parse_prefix (s @ ''/32'') = Inr p \<Longrightarrow> pfx_bits p = 32"
    by (auto simp: parse_prefix_def before_last_host is_digit_def digit_def split: sum.splits if_splits)
qed

text \<open>
  \<open>net.ParseCIDR\<close> of the text of a \<open>netip.Prefix\<close>: the masked network.  The zero prefix, here
  \<open>None\<close>, prints as \<open>invalid Prefix\<close>, which does not parse.
\<close>

definition prefix_String :: "prefix option \<Rightarrow> string" where
  "prefix_String p = (case p of None \<Rightarrow> ''invalid Prefix'' | Some p \<Rightarrow> prefix_text p)"

definition parse_cidr :: "string \<Rightarrow> prefix result" where
  "parse_cidr s = map_sum id masked (parse_prefix s)"

lemma parse_cidr_zero [simp]: "parse_cidr (prefix_String None) = Inl ParseError"
  by (simp add: parse_cidr_def prefix_String_def parse_prefix_def before_last_def)

lemma parse_cidr_String [simp]:
  "pfx_bits p \<le> 32 \<Longrightarrow> parse_cidr (prefix_String (Some p)) = Inr (masked p)"
  by (simp add: parse_cidr_def prefix_String_def parse_prefix_text)

text \<open>A host route: a prefix of 32 bits is its own network.\<close>

lemma masked_host [simp]: "pfx_bits p = 32 \<Longrightarrow> masked p = p"
  by (simp add: masked_def)

section \<open>Keys\<close>

text \<open>
  The key library: making a key may fail, and a key has a text and a public half.  Keys come from a
  source of randomness; the argument of \<open>GeneratePrivateKey\<close> counts the calls.
\<close>

record 'k wgtypes =
  GeneratePrivateKey :: "nat \<Rightarrow> 'k result"
  key_String :: "'k \<Rightarrow> string"
  PublicKey_String :: "'k \<Rightarrow> string"

definition GenerateKeyPair :: "'k wgtypes \<Rightarrow> nat \<Rightarrow> string \<times> string \<times> go_error option" where
  "GenerateKeyPair W n =
     (case GeneratePrivateKey W n of
        Inl err \<Rightarrow> ([], [], Some err)
      | Inr privateKey \<Rightarrow> (key_String W privateKey, PublicKey_String W privateKey, None))"

section \<open>The client's configuration\<close>

text \<open>
  The one peer a client has: the server, reached at its public address, with all of IPv4 allowed
  through the tunnel.  \<open>51720\<close> and 20 seconds are constants of the code.
\<close>

definition client_wg_config :: "wg_key \<Rightarrow> wg_key \<Rightarrow> ClientWgConfig \<Rightarrow> wg_config" where
  "client_wg_config pri pub wgConf =
     \<lparr>wc_PrivateKey = Some pri, wc_ListenPort = Some 51720, wc_ReplacePeers = True,
      wc_Peers =
        [\<lparr>pc_PublicKey = pub, pc_Endpoint = Some (parse_ip (cw_ServerIp wgConf), cw_ServerPort wgConf),
          pc_Keepalive = Some 20, pc_ReplaceAllowedIPs = True,
          pc_AllowedIPs = [(parse_ip ''0.0.0.0'', 0)]\<rparr>]\<rparr>"

end
