(* ===== verification/Rvpn_Daemon.thy ===== *)
theory Rvpn_Daemon
  imports Daemon_Store Wg_Config Jrpc_Types
begin

text \<open>
  The rVPN daemon (\<open>daemon/daemon.go\<close>, \<open>daemon/daemon_linux.go\<close>, and the stubs of
  \<open>daemon/daemon_windows.go\<close> and \<open>daemon/daemon_darwin.go\<close>): the handler of the control plane's
  requests, the procedures it offers to the command line and the GUI, and its life from \<open>Start\<close> to
  the shutdown of the device.  The WireGuard daemon below it differs by platform: it is the record
  \<open>wireguard\<close>, over a state of any type, and the Linux one is an instance.  Handlers run one after
  the other, as the connections hand them out; what the daemon answers to the control plane is logged
  in \<open>sent\<close>.
\<close>

section \<open>The state\<close>

datatype RVPNStatus = StatusConnected | StatusDisconnected | StatusServing

record ConnectRequest =
  cr_Profile :: string
  cr_DeviceToken :: string
  cr_ControlPlaneWS :: string
  cr_Opts :: "string list"

record ServeRequest =
  sr_Profile :: string
  sr_DeviceToken :: string
  sr_ControlPlaneWS :: string

text \<open>Connections are numbered; a nil connection is \<open>None\<close>.\<close>

record RVPNDaemon =
  status :: RVPNStatus
  activeControlPlaneWs :: "nat option"
  activeProfile :: string
  jrpcConn :: "nat option"
  jrpcCtxCancel :: "nat option"
  opts :: "string list"
  has_wireguard :: bool

definition NewRVPNDaemon :: RVPNDaemon where
  "NewRVPNDaemon =
     \<lparr>status = StatusDisconnected, activeControlPlaneWs = None, activeProfile = [], jrpcConn = None,
      jrpcCtxCancel = None, opts = [], has_wireguard = False\<rparr>"

record jrpcHandler =
  deviceToken :: string
  controlPlaneAddr :: string

text \<open>
  The methods of the platform's \<open>WireguardDaemon\<close>.  \<open>can_serve\<close> says whether the build has
  \<open>daemon_linux.go\<close> or the stubs.
\<close>

record 'w wireguard =
  wg_StartDevice :: "('w, unit) stmt"
  wg_UpdateClientConf :: "ClientWgConfig \<Rightarrow> string \<Rightarrow> ('w, unit) prog"
  wg_UpdateServeConf :: "ServeWgConfig \<Rightarrow> ('w, unit) prog"
  wg_AppendPeers :: "wg_peer list \<Rightarrow> ('w, unit) prog"
  wg_Disconnect :: "('w, unit) prog"
  wg_ShutdownDevice :: "('w, unit) prog"
  can_serve :: bool

text \<open>
  The process: the daemon, the WireGuard daemon, the state on disk, and what it has done to the
  outside - the handlers of the connections opened, the answers sent, the connections with a running
  heartbeat, the connections closed, the contexts cancelled.
\<close>

record 'w process =
  rvpn :: RVPNDaemon
  wireguard :: 'w
  state_disk :: disk
  keys_made :: nat
  handlers :: "jrpcHandler list"
  dialled :: "string list"
  sent :: "(nat \<times> rpc_reply) list"
  beating :: "nat list"
  closed :: "nat list"
  cancelled :: "nat list"

definition on_disk :: "(disk, 'a) stmt \<Rightarrow> ('w process, 'a) stmt" where
  "on_disk m p = (case m (state_disk p) of (r, d) \<Rightarrow> (r, p\<lparr>state_disk := d\<rparr>))"

text \<open>A method of \<open>r.wireguardDaemon\<close>, which is nil until \<open>Start\<close> has set it.\<close>

definition on_wg :: "('w, 'a) prog \<Rightarrow> ('w process, 'a) prog" where
  "on_wg m p =
     (if has_wireguard (rvpn p)
      then (case m (wireguard p) of (r, w) \<Rightarrow> (r, p\<lparr>wireguard := w\<rparr>))
      else (Panic, p))"

definition set_rvpn :: "(RVPNDaemon \<Rightarrow> RVPNDaemon) \<Rightarrow> ('w process, unit) prog" where
  "set_rvpn f = modify (\<lambda>p. p\<lparr>rvpn := f (rvpn p)\<rparr>)"

text \<open>\<open>conn.Reply\<close>; its error, on a closed connection, is dropped.\<close>

definition reply :: "nat \<Rightarrow> rpc_reply \<Rightarrow> ('w process, unit) prog" where
  "reply c r = modify (\<lambda>p. if c \<in> set (closed p) then p else p\<lparr>sent := sent p @ [(c, r)]\<rparr>)"

definition beat :: "nat \<Rightarrow> ('w process, unit) prog" where
  "beat c = modify (\<lambda>p. p\<lparr>beating := beating p @ [c]\<rparr>)"

definition next_key_pair :: "'k wgtypes \<Rightarrow> ('w process, string \<times> string \<times> go_error option) prog" where
  "next_key_pair W p = (Return (GenerateKeyPair W (keys_made p)), p\<lparr>keys_made := Suc (keys_made p)\<rparr>)"

section \<open>The requests of the control plane\<close>

text \<open>
  The parameters of a request: absent, which the code dereferences as a nil pointer; well formed; or
  rejected by \<open>json.Unmarshal\<close>, with what it has left in the struct.
\<close>

datatype 'a params = Absent | Parsed 'a | Malformed 'a

datatype request =
    rq_GetDeviceAuth
  | rq_GetClientInformation
  | rq_GetServeInformation
  | rq_ConnectServer "ConnectServerRequest params"
  | rq_ServeVPN "ServeVPNRequest params"
  | rq_AppendVPNPeers "WireGuardPeer list params"
  | rq_unknown string

text \<open>The calls of the control plane, as they arrive.\<close>

fun request_of :: "rpc_call \<Rightarrow> request" where
  "request_of GetDeviceAuth = rq_GetDeviceAuth"
| "request_of GetClientInformation = rq_GetClientInformation"
| "request_of GetServeInformation = rq_GetServeInformation"
| "request_of (ConnectServer r) = rq_ConnectServer (Parsed r)"
| "request_of (ServeVPN r) = rq_ServeVPN (Parsed r)"
| "request_of (AppendVPNPeers ps) = rq_AppendVPNPeers (Parsed ps)"
| "request_of (DeleteVPNPeers ps) = rq_unknown (method_name (DeleteVPNPeers ps))"
| "request_of DeviceHeartbeat = rq_unknown (method_name DeviceHeartbeat)"

text \<open>
  Lines 138 to 144: an error is answered, and the handler goes on with the empty state.
\<close>

definition load_state :: "nat \<Rightarrow> rpc_reply \<Rightarrow> ('w process, RVpnState) prog" where
  "load_state c failure =
     bind (attempt (on_disk GetRVpnState)) (\<lambda>r.
       case r of
         Inr rVPNState \<Rightarrow> ret rVPNState
       | Inl err \<Rightarrow> then_do (reply c failure) (ret empty_RVpnState))"

text \<open>Lines 146 to 166, and likewise 186 to 206.\<close>

definition ensure_keys :: "'k wgtypes \<Rightarrow> nat \<Rightarrow> rpc_reply \<Rightarrow> RVpnState \<Rightarrow> ('w process, RVpnState) prog" where
  "ensure_keys W c failure rVPNState =
     (if st_PublicKey rVPNState = []
      then bind (next_key_pair W) (\<lambda>(privateKey, publicKey, err).
           then_do (if err \<noteq> None then reply c failure else ret ())
           (let rVPNState = rVPNState\<lparr>st_PrivateKey := privateKey, st_PublicKey := publicKey\<rparr>
            in bind (attempt (on_disk (SetRVpnState rVPNState))) (\<lambda>r.
               then_do (case r of Inl err \<Rightarrow> reply c failure | Inr _ \<Rightarrow> ret ())
                 (ret rVPNState))))
      else ret rVPNState)"

text \<open>
  \<open>json.Unmarshal(*req.Params, &x)\<close> with a zero \<open>x\<close>: the error is answered, and the handler goes on
  with what is in \<open>x\<close>.
\<close>

definition unmarshal :: "nat \<Rightarrow> 'a params \<Rightarrow> ('w process, 'a) prog" where
  "unmarshal c params =
     (case params of
        Absent \<Rightarrow> panic
      | Parsed x \<Rightarrow> ret x
      | Malformed x \<Rightarrow> then_do (reply c (SuccessResponse False)) (ret x))"

text \<open>Lines 134 to 173 and 174 to 214.\<close>

definition handle_GetClientInformation :: "'k wgtypes \<Rightarrow> nat \<Rightarrow> ('w process, unit) prog" where
  "handle_GetClientInformation W c =
     (let failure = GetClientInformationResponse False [] in
      bind (load_state c failure) (\<lambda>rVPNState.
      bind (ensure_keys W c failure rVPNState) (\<lambda>rVPNState.
        reply c (GetClientInformationResponse True (st_PublicKey rVPNState)))))"

definition handle_GetServeInformation :: "'k wgtypes \<Rightarrow> nat \<Rightarrow> ('w process, unit) prog" where
  "handle_GetServeInformation W c =
     (let failure = GetServeInformationResponse False [] [] in
      bind (load_state c failure) (\<lambda>rVPNState.
      bind (ensure_keys W c failure rVPNState) (\<lambda>rVPNState.
        reply c (GetServeInformationResponse True (st_PublicKey rVPNState) ''21820''))))"

text \<open>Lines 227 to 233 and 245 to 251: checks whose failure is only answered.\<close>

definition complain_if :: "bool \<Rightarrow> nat \<Rightarrow> ('w process, unit) prog" where
  "complain_if b c = (if b then reply c (SuccessResponse False) else ret ())"

definition user_config :: "RVpnState \<Rightarrow> ConnectServerRequest \<Rightarrow> ClientWgConfig" where
  "user_config rVPNState r =
     \<lparr>ClientPrivateKey = st_PrivateKey rVPNState, cw_ServerPublicKey = ServerPublicKey r,
      cw_ClientIp = ClientIp r, cw_ClientCidr = ClientCidr r, cw_ServerIp = ServerIp r,
      cw_ServerPort = ServerPort r, cw_DnsIp = DnsIp r\<rparr>"

definition handle_ConnectServer ::
  "'w wireguard \<Rightarrow> jrpcHandler \<Rightarrow> nat \<Rightarrow> ConnectServerRequest params \<Rightarrow> ('w process, unit) prog" where
  "handle_ConnectServer G h c params =
     bind (load_state c (SuccessResponse False)) (\<lambda>rVPNState.
     then_do (complain_if (st_PublicKey rVPNState = [] \<or> st_PrivateKey rVPNState = []) c)
     (bind (unmarshal c params) (\<lambda>connectServerRequest.
     then_do (complain_if (ClientPublicKey connectServerRequest \<noteq> st_PublicKey rVPNState) c)
     (then_do (on_wg (wg_UpdateClientConf G (user_config rVPNState connectServerRequest) (controlPlaneAddr h)))
     (then_do (set_rvpn (\<lambda>r. r\<lparr>status := StatusConnected\<rparr>))
     (then_do (reply c (SuccessResponse True))
       (beat c)))))))"

definition wg_peer_of :: "WireGuardPeer \<Rightarrow> wg_peer" where
  "wg_peer_of p = \<lparr>wp_PublicKey = PublicKey p, wp_AllowedIP = AllowedIP p, wp_AllowedCidr = AllowedCidr p\<rparr>"

definition serve_config :: "RVpnState \<Rightarrow> ServeVPNRequest \<Rightarrow> ServeWgConfig" where
  "serve_config rVPNState r =
     \<lparr>PrivateKey = st_PrivateKey rVPNState, ListenPort = 21820, InternalIp = ServerInternalIp r,
      InternalCidr = ServerInternalCidr r, sw_Peers = map wg_peer_of (Peers r)\<rparr>"

text \<open>The stubs of the builds for macOS and Windows.\<close>

definition serveVPNHandler_stub :: "nat \<Rightarrow> ('w process, unit) prog" where
  "serveVPNHandler_stub c = reply c (SuccessResponse False)"

definition appendVPNPeersHandler_stub :: "nat \<Rightarrow> ('w process, unit) prog" where
  "appendVPNPeersHandler_stub c = reply c (SuccessResponse False)"

definition Serve_stub :: "('w process, bool result) prog" where
  "Serve_stub = ret (Inr False)"

lemmas stubs [simp] = serveVPNHandler_stub_def appendVPNPeersHandler_stub_def Serve_stub_def

definition serveVPNHandler :: "'w wireguard \<Rightarrow> nat \<Rightarrow> ServeVPNRequest params \<Rightarrow> ('w process, unit) prog" where
  "serveVPNHandler G c params =
     (if can_serve G
      then bind (load_state c (SuccessResponse False)) (\<lambda>rVPNState.
           then_do (complain_if (st_PublicKey rVPNState = [] \<or> st_PrivateKey rVPNState = []) c)
           (bind (unmarshal c params) (\<lambda>serveVPNRequest.
           then_do (complain_if (sv_ServerPublicKey serveVPNRequest \<noteq> st_PublicKey rVPNState) c)
           (then_do (on_wg (wg_UpdateServeConf G (serve_config rVPNState serveVPNRequest)))
           (then_do (set_rvpn (\<lambda>r. r\<lparr>status := StatusServing\<rparr>))
           (then_do (reply c (SuccessResponse True))
             (beat c)))))))
      else serveVPNHandler_stub c)"

definition appendVPNPeersHandler ::
  "'w wireguard \<Rightarrow> nat \<Rightarrow> WireGuardPeer list params \<Rightarrow> ('w process, unit) prog" where
  "appendVPNPeersHandler G c params =
     (if can_serve G
      then bind (unmarshal c params) (\<lambda>appendVPNPeersRequest.
           then_do (on_wg (wg_AppendPeers G (map wg_peer_of appendVPNPeersRequest)))
             (reply c (SuccessResponse True)))
      else appendVPNPeersHandler_stub c)"

text \<open>An unknown method is logged and never answered.\<close>

fun Handle :: "'k wgtypes \<Rightarrow> 'w wireguard \<Rightarrow> jrpcHandler \<Rightarrow> nat \<Rightarrow> request \<Rightarrow> ('w process, unit) prog" where
  "Handle W G h c rq_GetDeviceAuth = reply c (GetDeviceAuthResponse True (deviceToken h))"
| "Handle W G h c rq_GetClientInformation = handle_GetClientInformation W c"
| "Handle W G h c rq_GetServeInformation = handle_GetServeInformation W c"
| "Handle W G h c (rq_ConnectServer params) = handle_ConnectServer G h c params"
| "Handle W G h c (rq_ServeVPN params) = serveVPNHandler G c params"
| "Handle W G h c (rq_AppendVPNPeers params) = appendVPNPeersHandler G c params"
| "Handle W G h c (rq_unknown m) = ret ()"

text \<open>
  \<open>heartbeatGenerator\<close>: one heartbeat at once, then one per tick until the context is done; a failed
  call is only logged.
\<close>

datatype beat_event = BeatTick | BeatDone

fun beat_loop :: "beat_event list \<Rightarrow> rpc_call list" where
  "beat_loop [] = []"
| "beat_loop (BeatTick # es) = DeviceHeartbeat # beat_loop es"
| "beat_loop (BeatDone # es) = []"

definition heartbeatGenerator :: "beat_event list \<Rightarrow> rpc_call list" where
  "heartbeatGenerator es = DeviceHeartbeat # beat_loop es"

section \<open>The procedures offered to the clients\<close>

text \<open>
  Dialling the control plane: the outcome of the TCP connection, with the text of the remote address,
  and of the WebSocket handshake over it.  The hook stores the remote address of a connection that
  was made.
\<close>

record dial =
  tcp :: "string result"
  handshake :: "unit result"

definition remoteAddressDialHook :: "string result \<Rightarrow> string option \<Rightarrow> unit result \<times> string option" where
  "remoteAddressDialHook conn remoteAddressPtr =
     (case conn of Inl err \<Rightarrow> (Inl err, remoteAddressPtr) | Inr addr \<Rightarrow> (Inr (), Some addr))"

definition websocket_Dial :: "dial \<Rightarrow> unit result \<times> string option" where
  "websocket_Dial d =
     (case remoteAddressDialHook (tcp d) None of
        (Inl err, addr) \<Rightarrow> (Inl err, addr)
      | (Inr _, addr) \<Rightarrow> (handshake d, addr))"

text \<open>\<open>strings.Split(addr, ":")[0]\<close>.\<close>

definition host_part :: "string \<Rightarrow> string" where
  "host_part addr = hd (split_on (CHR '':'') addr)"

text \<open>
  What \<open>Connect\<close> and \<open>Serve\<close> share: on success the new connection replaces the old one in the
  daemon's fields; the old one is neither closed nor cancelled.  The options of the request are not
  used.
\<close>

definition open_channel ::
  "string \<Rightarrow> string \<Rightarrow> string \<Rightarrow> dial \<Rightarrow> ('w process, bool result) prog" where
  "open_channel websocketURL profile token d =
     then_do (modify (\<lambda>p. p\<lparr>dialled := dialled p @ [websocketURL]\<rparr>))
     (case websocket_Dial d of
        (Inl err, _) \<Rightarrow> ret (Inr False)
      | (Inr _, None) \<Rightarrow> panic
      | (Inr _, Some controlPlaneRemoteAddr) \<Rightarrow>
          bind (asks (\<lambda>p. length (handlers p))) (\<lambda>c.
          then_do (set_rvpn (\<lambda>r. r\<lparr>activeControlPlaneWs := Some c, activeProfile := profile\<rparr>))
          (then_do (modify (\<lambda>p. p\<lparr>handlers := handlers p @
              [\<lparr>deviceToken = token, controlPlaneAddr = host_part controlPlaneRemoteAddr\<rparr>]\<rparr>))
          (then_do (set_rvpn (\<lambda>r. r\<lparr>jrpcConn := Some c, jrpcCtxCancel := Some c\<rparr>))
            (ret (Inr True))))))"

definition Connect :: "ConnectRequest \<Rightarrow> dial \<Rightarrow> ('w process, bool result) prog" where
  "Connect args d =
     open_channel (cr_ControlPlaneWS args @ ''/api/v1/target/'' @ cr_Profile args @ ''/connect'')
       (cr_Profile args) (cr_DeviceToken args) d"

definition Serve :: "'w wireguard \<Rightarrow> ServeRequest \<Rightarrow> dial \<Rightarrow> ('w process, bool result) prog" where
  "Serve G args d =
     (if can_serve G
      then open_channel (sr_ControlPlaneWS args @ ''/api/v1/target/'' @ sr_Profile args @ ''/serve'')
             (sr_Profile args) (sr_DeviceToken args) d
      else Serve_stub)"

text \<open>\<open>Close\<close> and the cancel function panic on nil; closing twice returns an error that is dropped.\<close>

definition close_conn :: "('w process, unit) prog" where
  "close_conn =
     bind (asks (\<lambda>p. jrpcConn (rvpn p))) (\<lambda>conn.
       case conn of None \<Rightarrow> panic | Some c \<Rightarrow> modify (\<lambda>p. p\<lparr>closed := closed p @ [c]\<rparr>))"

definition cancel_ctx :: "('w process, unit) prog" where
  "cancel_ctx =
     bind (asks (\<lambda>p. jrpcCtxCancel (rvpn p))) (\<lambda>ctx.
       case ctx of None \<Rightarrow> panic | Some c \<Rightarrow> modify (\<lambda>p. p\<lparr>cancelled := cancelled p @ [c]\<rparr>))"

definition Disconnect_rpc :: "'w wireguard \<Rightarrow> ('w process, bool result) prog" where
  "Disconnect_rpc G =
     then_do (on_wg (wg_Disconnect G))
     (then_do close_conn
     (then_do cancel_ctx
     (then_do (set_rvpn (\<lambda>r. r\<lparr>status := StatusDisconnected\<rparr>))
       (ret (Inr True)))))"

definition GetState :: "('w process, RVpnState result) prog" where
  "GetState = attempt (on_disk GetRVpnState)"

definition SetState :: "RVpnState \<Rightarrow> ('w process, bool result) prog" where
  "SetState args =
     bind (attempt (on_disk (SetRVpnState args))) (\<lambda>r.
       case r of Inl err \<Rightarrow> ret (Inl err) | Inr _ \<Rightarrow> ret (Inr True))"

definition Status :: "('w process, RVPNStatus result) prog" where
  "Status = asks (\<lambda>p. Inr (status (rvpn p)))"

definition Ping :: "('w process, bool result) prog" where
  "Ping = ret (Inr True)"

section \<open>The life of the daemon\<close>

datatype daemon_event =
    EvGetState
  | EvSetState RVpnState
  | EvStatus
  | EvConnect ConnectRequest dial
  | EvServe ServeRequest dial
  | EvDisconnect
  | EvPing
  | EvRequest nat request

text \<open>
  One event while the daemon runs.  A request arrives on a connection that was opened and is not
  closed; on any other there is nobody to read it.
\<close>

fun daemon_step :: "'k wgtypes \<Rightarrow> 'w wireguard \<Rightarrow> daemon_event \<Rightarrow> ('w process, unit) prog" where
  "daemon_step W G EvGetState = then_do GetState (ret ())"
| "daemon_step W G (EvSetState s) = then_do (SetState s) (ret ())"
| "daemon_step W G EvStatus = then_do Status (ret ())"
| "daemon_step W G (EvConnect args d) = then_do (Connect args d) (ret ())"
| "daemon_step W G (EvServe args d) = then_do (Serve G args d) (ret ())"
| "daemon_step W G EvDisconnect = then_do (Disconnect_rpc G) (ret ())"
| "daemon_step W G EvPing = then_do Ping (ret ())"
| "daemon_step W G (EvRequest c req) =
     bind (asks (\<lambda>p. (handlers p, closed p))) (\<lambda>(hs, gone).
       if c < length hs \<and> c \<notin> set gone then Handle W G (hs ! c) c req else ret ())"

text \<open>
  \<open>Start\<close>: up to the RPC server, whose address is a constant and whose listener may fail; then the
  events until the process is told to stop, by a signal, \<open>Stop\<close> or the device; then the shutdown.
\<close>

definition start_up :: "'w wireguard \<Rightarrow> unit result \<Rightarrow> ('w process, unit) prog" where
  "start_up G listener =
     then_do (must (on_disk InitRVPNState))
     (then_do (set_rvpn (\<lambda>r. r\<lparr>has_wireguard := True\<rparr>))
     (then_do (on_wg (must (wg_StartDevice G)))
       (case listener of Inl err \<Rightarrow> log_fatal | Inr _ \<Rightarrow> ret ())))"

definition Start :: "'k wgtypes \<Rightarrow> 'w wireguard \<Rightarrow> unit result \<Rightarrow> daemon_event list \<Rightarrow> ('w process, unit) prog" where
  "Start W G listener es =
     then_do (start_up G listener)
     (then_do (each (daemon_step W G) es)
       (on_wg (wg_ShutdownDevice G)))"

definition new_process :: "'w \<Rightarrow> disk \<Rightarrow> 'w process" where
  "new_process w d =
     \<lparr>rvpn = NewRVPNDaemon, wireguard = w, state_disk = d, keys_made = 0, handlers = [], dialled = [],
      sent = [], beating = [], closed = [], cancelled = []\<rparr>"

end
