(* ===== verification/Rvpn_Daemon_Props.thy ===== *)
theory Rvpn_Daemon_Props
  imports Rvpn_Daemon
begin

text \<open>
  What the rVPN daemon does: the key it reports and the key it holds, the requests of the control
  plane on every branch, the channel to the control plane, and the invariant of its whole life.
\<close>

section \<open>Single steps\<close>

lemma reply_run [simp]:
  "reply c r p = (Return (), if c \<in> set (closed p) then p else p\<lparr>sent := sent p @ [(c, r)]\<rparr>)"
  by (simp add: reply_def modify_def)

lemma load_state_run:
  "disk_sound (state_disk p) \<Longrightarrow> load_state c f p = (Return (the (state_file (state_disk p))), p)"
  by (simp add: load_state_def on_disk_def GetRVpnState_run prog_run)

lemma save_state_run:
  "disk_sound (state_disk p) \<Longrightarrow>
     on_disk (SetRVpnState s) p = (Inr (), p\<lparr>state_disk := (state_disk p)\<lparr>state_file := Some s\<rparr>\<rparr>)"
  by (simp add: on_disk_def SetRVpnState_run)

lemma complain_if_run:
  "c \<notin> set (closed p) \<Longrightarrow>
     complain_if b c p = (Return (), p\<lparr>sent := sent p @ (if b then [(c, SuccessResponse False)] else [])\<rparr>)"
  by (simp add: complain_if_def ret_def)

section \<open>The key of the device\<close>

text \<open>The keys a process holds: what is on its disk.\<close>

definition held :: "'w process \<Rightarrow> RVpnState" where
  "held p = the (state_file (state_disk p))"

lemma ensure_keys_run:
  assumes "disk_sound (state_disk p)"
    and "GeneratePrivateKey W (keys_made p) = Inr k" and "PublicKey_String W k \<noteq> []"
  shows "\<exists>p'. ensure_keys W c f (held p) p = (Return (held p'), p') \<and> disk_sound (state_disk p') \<and>
    st_PublicKey (held p') \<noteq> [] \<and> ControlPlaneAuth (held p') = ControlPlaneAuth (held p) \<and>
    sent p' = sent p \<and> closed p' = closed p \<and> (st_PublicKey (held p) \<noteq> [] \<longrightarrow> p' = p)"
proof (cases "st_PublicKey (held p) = []")
  case True
  then show ?thesis
    using assms by (simp add: ensure_keys_def next_key_pair_def GenerateKeyPair_def prog_run Let_def
        on_disk_def SetRVpnState_run held_def)
next
  case False
  then show ?thesis using assms(1) by (simp add: ensure_keys_def ret_def)
qed

lemma get_client_information_run:
  assumes "disk_sound (state_disk p)" and "c \<notin> set (closed p)"
    and "GeneratePrivateKey W (keys_made p) = Inr k" and "PublicKey_String W k \<noteq> []"
  shows "\<exists>p'. Handle W G h c rq_GetClientInformation p = (Return (), p') \<and> disk_sound (state_disk p') \<and>
    sent p' = sent p @ [(c, GetClientInformationResponse True (st_PublicKey (held p')))] \<and>
    st_PublicKey (held p') \<noteq> [] \<and> ControlPlaneAuth (held p') = ControlPlaneAuth (held p) \<and>
    closed p' = closed p \<and> (st_PublicKey (held p) \<noteq> [] \<longrightarrow> held p' = held p)"
proof -
  let ?f = "GetClientInformationResponse False []"
  obtain q where "ensure_keys W c ?f (held p) p = (Return (held q), q)" and q: "disk_sound (state_disk q)"
    "st_PublicKey (held q) \<noteq> []" "ControlPlaneAuth (held q) = ControlPlaneAuth (held p)"
    "sent q = sent p" "closed q = closed p" "st_PublicKey (held p) \<noteq> [] \<longrightarrow> q = p"
    using ensure_keys_run [OF assms(1,3,4)] by blast
  moreover have "load_state c ?f p = (Return (held p), p)"
    using load_state_run [OF assms(1)] by (simp add: held_def)
  ultimately have "Handle W G h c rq_GetClientInformation p =
      (Return (), q\<lparr>sent := sent p @ [(c, GetClientInformationResponse True (st_PublicKey (held q)))]\<rparr>)"
    using assms(2) by (simp add: handle_GetClientInformation_def Let_def bind_step)
  then show ?thesis using q by (auto simp: held_def)
qed

text \<open>
  C32: Asked for the client information, a daemon whose disk works answers once, with the public key
  that is then on its disk; a key is made only when there was none, and the token is kept.  Asked
  again, it answers the same key.
\<close>

theorem reported_key_is_held:
  assumes "disk_sound (state_disk p)" and "c \<notin> set (closed p)"
    and "\<And>n. \<exists>k. GeneratePrivateKey W n = Inr k \<and> PublicKey_String W k \<noteq> []"
  shows "\<exists>p1 p2. Handle W G h c rq_GetClientInformation p = (Return (), p1) \<and>
    Handle W G h c rq_GetClientInformation p1 = (Return (), p2) \<and>
    held p2 = held p1 \<and> st_PublicKey (held p1) \<noteq> [] \<and> disk_sound (state_disk p2) \<and>
    ControlPlaneAuth (held p1) = ControlPlaneAuth (held p) \<and>
    (st_PublicKey (held p) \<noteq> [] \<longrightarrow> held p1 = held p) \<and>
    sent p2 = sent p @ replicate 2 (c, GetClientInformationResponse True (st_PublicKey (held p1)))"
proof -
  obtain k1 where k1: "GeneratePrivateKey W (keys_made p) = Inr k1" "PublicKey_String W k1 \<noteq> []"
    using assms(3) by blast
  obtain p1 where p1: "Handle W G h c rq_GetClientInformation p = (Return (), p1)" "disk_sound (state_disk p1)"
    "sent p1 = sent p @ [(c, GetClientInformationResponse True (st_PublicKey (held p1)))]"
    "st_PublicKey (held p1) \<noteq> []" "ControlPlaneAuth (held p1) = ControlPlaneAuth (held p)"
    "closed p1 = closed p" "st_PublicKey (held p) \<noteq> [] \<longrightarrow> held p1 = held p"
    using get_client_information_run [OF assms(1,2) k1] by blast
  have c: "c \<notin> set (closed p1)" using assms(2) p1(6) by simp
  obtain k2 where k2: "GeneratePrivateKey W (keys_made p1) = Inr k2" "PublicKey_String W k2 \<noteq> []"
    using assms(3) by blast
  obtain p2 where "Handle W G h c rq_GetClientInformation p1 = (Return (), p2)" "disk_sound (state_disk p2)"
    "sent p2 = sent p1 @ [(c, GetClientInformationResponse True (st_PublicKey (held p2)))]" "held p2 = held p1"
    using get_client_information_run [OF p1(2) c k2] p1(4) by blast
  then show ?thesis using p1 by (intro exI [of _ p1] exI [of _ p2]) (simp add: numeral_2_eq_2)
qed

text \<open>
  When reading the state fails, the daemon answers twice, first that it has failed and then a new
  key, and it has overwritten the state on disk: the stored token and the old keys are gone.
\<close>

theorem read_error_wipes_state:
  assumes "dir_exists (state_disk p)" and "faults (state_disk p) = [True]" and "c \<notin> set (closed p)"
    and "GeneratePrivateKey W (keys_made p) = Inr k"
  shows "\<exists>p'. Handle W G h c rq_GetClientInformation p = (Return (), p') \<and>
    sent p' = sent p @ [(c, GetClientInformationResponse False []),
                        (c, GetClientInformationResponse True (PublicKey_String W k))] \<and>
    state_file (state_disk p') = Some \<lparr>ControlPlaneAuth = [], st_PrivateKey = key_String W k,
      st_PublicKey = PublicKey_String W k, ActiveProfile = []\<rparr>"
proof -
  let ?f = "GetClientInformationResponse False []"
  let ?p1 = "p\<lparr>state_disk := (state_disk p)\<lparr>faults := []\<rparr>, sent := sent p @ [(c, ?f)]\<rparr>"
  have read: "load_state c ?f p = (Return empty_RVpnState, ?p1)"
    using assms(2,3) by (simp add: load_state_def on_disk_def GetRVpnState_def getRVpnStatePath_def
        os_ReadFile_def syscall_def prog_run)
  show ?thesis
    using assms
    by (simp add: handle_GetClientInformation_def Let_def read ensure_keys_def next_key_pair_def
        GenerateKeyPair_def empty_RVpnState_def on_disk_def SetRVpnState_def getRVpnStatePath_def os_OpenTrunc_def
        bufio_Write_def bufio_Flush_def drop_error_def syscall_def prog_run)
qed

section \<open>Being told to connect\<close>

lemma connect_server_run:
  assumes "disk_sound (state_disk p)" and "c \<notin> set (closed p)" and "has_wireguard (rvpn p)"
    and "wg_UpdateClientConf G (user_config (held p) r) (controlPlaneAddr h) (wireguard p) = (Return (), w)"
  shows "Handle W G h c (rq_ConnectServer (Parsed r)) p = (Return (),
    p\<lparr>rvpn := (rvpn p)\<lparr>status := StatusConnected\<rparr>, wireguard := w,
      sent := sent p @
        (if st_PublicKey (held p) = [] \<or> st_PrivateKey (held p) = [] then [(c, SuccessResponse False)] else []) @
        (if ClientPublicKey r \<noteq> st_PublicKey (held p) then [(c, SuccessResponse False)] else []) @
        [(c, SuccessResponse True)],
      beating := beating p @ [c]\<rparr>)"
proof -
  let ?bad = "st_PublicKey (held p) = [] \<or> st_PrivateKey (held p) = []"
  have "load_state c (SuccessResponse False) p = (Return (held p), p)"
    using load_state_run [OF assms(1)] by (simp add: held_def)
  then show ?thesis
    using assms(2-4)
    by (simp add: handle_ConnectServer_def bind_step then_do_step complain_if_run unmarshal_def ret_def
        on_wg_def set_rvpn_def modify_def beat_def then_do_def bind_def)
qed

text \<open>
  A daemon with keys, told to connect with the key it has reported, configures the WireGuard
  daemon with its private key and exactly what it was told, is then connected, answers once and with
  success, and starts a heartbeat on that connection.
\<close>

theorem connect_server_in_sync:
  assumes "disk_sound (state_disk p)" and "c \<notin> set (closed p)" and "has_wireguard (rvpn p)"
    and "st_PublicKey (held p) \<noteq> []" and "st_PrivateKey (held p) \<noteq> []"
    and "ClientPublicKey r = st_PublicKey (held p)"
    and "wg_UpdateClientConf G (user_config (held p) r) (controlPlaneAddr h) (wireguard p) = (Return (), w)"
  shows "Handle W G h c (rq_ConnectServer (Parsed r)) p = (Return (),
    p\<lparr>rvpn := (rvpn p)\<lparr>status := StatusConnected\<rparr>, wireguard := w,
      sent := sent p @ [(c, SuccessResponse True)], beating := beating p @ [c]\<rparr>)"
  using connect_server_run [OF assms(1-3,7)] assms(4-6) by simp

text \<open>
  Told to connect with a key that is not its own, the daemon complains but does it all the same:
  it answers failure, and then configures the device, becomes connected and answers success.
\<close>

theorem key_mismatch_still_connects:
  assumes "disk_sound (state_disk p)" and "c \<notin> set (closed p)" and "has_wireguard (rvpn p)"
    and "st_PublicKey (held p) \<noteq> []" and "st_PrivateKey (held p) \<noteq> []"
    and "ClientPublicKey r \<noteq> st_PublicKey (held p)"
    and "wg_UpdateClientConf G (user_config (held p) r) (controlPlaneAddr h) (wireguard p) = (Return (), w)"
  shows "\<exists>p'. Handle W G h c (rq_ConnectServer (Parsed r)) p = (Return (), p') \<and> wireguard p' = w \<and>
    status (rvpn p') = StatusConnected \<and>
    sent p' = sent p @ [(c, SuccessResponse False), (c, SuccessResponse True)]"
  using connect_server_run [OF assms(1-3,7)] assms(4-6) by simp

section \<open>The channel to the control plane\<close>

lemma open_channel_run:
  assumes "tcp d = Inr addr" and "handshake d = Inr ()"
  shows "open_channel url profile token d p = (Return (Inr True),
    p\<lparr>rvpn := (rvpn p)\<lparr>activeControlPlaneWs := Some (length (handlers p)), activeProfile := profile,
        jrpcConn := Some (length (handlers p)), jrpcCtxCancel := Some (length (handlers p))\<rparr>,
      handlers := handlers p @ [\<lparr>deviceToken = token, controlPlaneAddr = host_part addr\<rparr>],
      dialled := dialled p @ [url]\<rparr>)"
  using assms
  by (simp add: open_channel_def websocket_Dial_def remoteAddressDialHook_def set_rvpn_def prog_run)

text \<open>
  A dial that fails is not an error to the caller: \<open>Connect\<close> returns normally with the reply
  false, and the daemon is as before - it is still connected to whatever it was connected to.
\<close>

theorem failed_dial_is_no_error:
  assumes "tcp d = Inl e \<or> handshake d = Inl e"
  shows "\<exists>url. Connect args d p = (Return (Inr False), p\<lparr>dialled := dialled p @ [url]\<rparr>)"
  using assms
  by (auto simp: Connect_def open_channel_def websocket_Dial_def remoteAddressDialHook_def prog_run
      split: sum.splits)

text \<open>
  Connecting a second time abandons the first channel: a later disconnection closes only the
  second, and the first connection still serves the control plane - asked for the device's token, the
  daemon hands it out.
\<close>

theorem reconnect_leaks_channel:
  assumes "tcp d1 = Inr a1" "handshake d1 = Inr ()" "tcp d2 = Inr a2" "handshake d2 = Inr ()"
    and "has_wireguard (rvpn p)" and "set (closed p) \<subseteq> {..<length (handlers p)}"
    and "wg_Disconnect G (wireguard p) = (Return (), w)"
  shows "\<exists>p1 p2 p3 p4 c. Connect args1 d1 p = (Return (Inr True), p1) \<and> jrpcConn (rvpn p1) = Some c \<and>
    Connect args2 d2 p1 = (Return (Inr True), p2) \<and> Disconnect_rpc G p2 = (Return (Inr True), p3) \<and>
    status (rvpn p3) = StatusDisconnected \<and> c \<notin> set (closed p3) \<and>
    daemon_step W G (EvRequest c rq_GetDeviceAuth) p3 = (Return (), p4) \<and>
    sent p4 = sent p3 @ [(c, GetDeviceAuthResponse True (cr_DeviceToken args1))]"
proof -
  let ?c = "length (handlers p)"
  let ?p1 = "snd (Connect args1 d1 p)" and ?p2 = "snd (Connect args2 d2 (snd (Connect args1 d1 p)))"
  let ?p3 = "snd (Disconnect_rpc G ?p2)"
  note run = Connect_def open_channel_run [OF assms(1,2)] open_channel_run [OF assms(3,4)] Disconnect_rpc_def
    on_wg_def close_conn_def cancel_ctx_def set_rvpn_def prog_run
  have 1: "Connect args1 d1 p = (Return (Inr True), ?p1)" "jrpcConn (rvpn ?p1) = Some ?c"
    by (simp_all add: run)
  have 2: "Connect args2 d2 ?p1 = (Return (Inr True), ?p2)" by (simp add: run)
  have 3: "Disconnect_rpc G ?p2 = (Return (Inr True), ?p3)" "status (rvpn ?p3) = StatusDisconnected"
    "closed ?p3 = closed p @ [Suc ?c]"
    "handlers ?p3 ! ?c = \<lparr>deviceToken = cr_DeviceToken args1, controlPlaneAddr = host_part a1\<rparr>"
    "?c < length (handlers ?p3)"
    using assms(5,7) by (simp_all add: run nth_append)
  have 4: "?c \<notin> set (closed ?p3)" using 3(3) assms(6) by auto
  then have "daemon_step W G (EvRequest ?c rq_GetDeviceAuth) ?p3 = (Return (),
      ?p3\<lparr>sent := sent ?p3 @ [(?c, GetDeviceAuthResponse True (cr_DeviceToken args1))]\<rparr>)"
    using 3(4,5) by (simp add: bind_def asks_def)
  with 1 2 3(1,2) 4 show ?thesis by (intro exI conjI) (assumption | rule refl | simp)+
qed

text \<open>
  A daemon that has no channel does not survive a disconnection: whatever the WireGuard daemon
  does, the handler never returns, and when it returns the process panics on the nil connection.
\<close>

theorem disconnect_without_channel_dies:
  assumes "jrpcConn (rvpn p) = None"
  shows "fst (Disconnect_rpc G p) \<noteq> Return r \<and>
    (has_wireguard (rvpn p) \<and> wg_Disconnect G (wireguard p) = (Return (), w) \<longrightarrow>
       fst (Disconnect_rpc G p) = Panic)"
  using assms
  by (auto simp: Disconnect_rpc_def on_wg_def close_conn_def prog_run split: prod.splits exec.splits)

section \<open>The whole life\<close>

text \<open>
  What holds of the daemon between any two events: the connection, its context and its WebSocket are
  one; closed connections, heartbeats and answers belong to connections that were opened; a daemon
  that is connected or serving has a channel; and a token has been sent only on a connection that was
  opened with it.
\<close>

definition daemon_inv :: "'w process \<Rightarrow> bool" where
  "daemon_inv p \<longleftrightarrow>
     jrpcCtxCancel (rvpn p) = jrpcConn (rvpn p) \<and> activeControlPlaneWs (rvpn p) = jrpcConn (rvpn p) \<and>
     (\<forall>c. jrpcConn (rvpn p) = Some c \<longrightarrow> c < length (handlers p)) \<and>
     (handlers p \<noteq> [] \<longleftrightarrow> jrpcConn (rvpn p) \<noteq> None) \<and>
     (status (rvpn p) \<noteq> StatusDisconnected \<longrightarrow> jrpcConn (rvpn p) \<noteq> None) \<and>
     set (closed p) \<union> set (beating p) \<subseteq> {..<length (handlers p)} \<and>
     (\<forall>(c, r) \<in> set (sent p). c < length (handlers p) \<and>
        (DeviceToken r = [] \<or> DeviceToken r = deviceToken (handlers p ! c)))"

text \<open>While a request of connection \<open>c\<close> is handled, there is a channel.\<close>

definition serving :: "nat \<Rightarrow> jrpcHandler \<Rightarrow> 'w process \<Rightarrow> bool" where
  "serving c h p \<longleftrightarrow> daemon_inv p \<and> c < length (handlers p) \<and> handlers p ! c = h \<and> jrpcConn (rvpn p) \<noteq> None"

lemma keeps_reply [keeps_intros]:
  "DeviceToken r = [] \<or> DeviceToken r = deviceToken h \<Longrightarrow> keeps (serving c h) (reply c r)"
  by (auto simp: reply_def serving_def daemon_inv_def intro!: keeps_modify)

lemma keeps_on_disk [keeps_intros]: "keeps (serving c h) (on_disk m)" "keeps daemon_inv (on_disk m)"
  by (auto simp: keeps_def on_disk_def serving_def daemon_inv_def split: prod.splits)

lemma keeps_on_wg [keeps_intros]: "keeps (serving c h) (on_wg m)" "keeps daemon_inv (on_wg m)"
  by (auto simp: keeps_def on_wg_def serving_def daemon_inv_def split: prod.splits)

lemma keeps_next_key_pair [keeps_intros]: "keeps (serving c h) (next_key_pair W)"
  by (simp add: keeps_def next_key_pair_def serving_def daemon_inv_def)

lemma keeps_set_status [keeps_intros]: "keeps (serving c h) (set_rvpn (\<lambda>r. r\<lparr>status := x\<rparr>))"
  unfolding set_rvpn_def by (intro keeps_intros) (auto simp: serving_def daemon_inv_def)

lemma keeps_beat [keeps_intros]: "keeps (serving c h) (beat c)"
  unfolding beat_def by (intro keeps_intros) (auto simp: serving_def daemon_inv_def)

lemma no_token [simp]:
  "DeviceToken (SuccessResponse b) = []" "DeviceToken (GetClientInformationResponse b k) = []"
  "DeviceToken (GetServeInformationResponse b k q) = []" "DeviceToken (GetDeviceAuthResponse b t) = t"
  by (simp_all add: SuccessResponse_def GetClientInformationResponse_def GetServeInformationResponse_def
      GetDeviceAuthResponse_def)

lemma keeps_load_state [keeps_intros]: "DeviceToken f = [] \<Longrightarrow> keeps (serving c h) (load_state c f)"
  unfolding load_state_def by (intro keeps_intros) simp

lemma keeps_ensure_keys [keeps_intros]: "DeviceToken f = [] \<Longrightarrow> keeps (serving c h) (ensure_keys W c f s)"
  unfolding ensure_keys_def Let_def by (intro keeps_intros) simp_all

lemma keeps_complain_if [keeps_intros]: "keeps (serving c h) (complain_if b c)"
  unfolding complain_if_def by (intro keeps_intros) simp

lemma keeps_unmarshal [keeps_intros]: "keeps (serving c h) (unmarshal c x)"
  unfolding unmarshal_def by (cases x) (auto intro!: keeps_intros)

lemma keeps_Handle: "keeps (serving c h) (Handle W G h c req)"
  by (cases req)
    (auto simp: handle_GetClientInformation_def handle_GetServeInformation_def handle_ConnectServer_def
      serveVPNHandler_def appendVPNPeersHandler_def Let_def intro!: keeps_intros)

lemma keeps_open_channel: "keeps daemon_inv (open_channel url profile token d)"
proof (rule keepsI)
  fix p r p' assume inv: "daemon_inv p" and run: "open_channel url profile token d p = (r, p')"
  show "daemon_inv p'"
  proof (cases "\<exists>addr. tcp d = Inr addr \<and> handshake d = Inr ()")
    case True
    then show ?thesis
      using run open_channel_run [of d _ url profile token p] inv
      by (force simp: daemon_inv_def nth_append less_Suc_eq)
  next
    case False
    then have "p' = p\<lparr>dialled := dialled p @ [url]\<rparr>"
      using run by (auto simp: open_channel_def websocket_Dial_def remoteAddressDialHook_def prog_run
          split: sum.splits)
    then show ?thesis using inv by (simp add: daemon_inv_def)
  qed
qed

lemma keeps_hang_up [keeps_intros]: "keeps daemon_inv close_conn" "keeps daemon_inv cancel_ctx"
  by (rule keepsI; auto simp: close_conn_def cancel_ctx_def prog_run daemon_inv_def split: option.splits)+

lemma keeps_Disconnect_rpc: "keeps daemon_inv (Disconnect_rpc G)"
  unfolding Disconnect_rpc_def set_rvpn_def by (intro keeps_intros) (simp add: daemon_inv_def)

lemma keeps_daemon_step: "keeps daemon_inv (daemon_step W G e)"
proof (cases e)
  case (EvRequest c req)
  show ?thesis
  proof (rule keepsI)
    fix p r p' assume inv: "daemon_inv p" and run: "daemon_step W G e p = (r, p')"
    show "daemon_inv p'"
    proof (cases "c < length (handlers p) \<and> c \<notin> set (closed p)")
      case True
      then have "Handle W G (handlers p ! c) c req p = (r, p')"
        using run EvRequest by (simp add: bind_def asks_def)
      moreover have "serving c (handlers p ! c) p"
        using True inv by (auto simp: serving_def daemon_inv_def)
      ultimately have "serving c (handlers p ! c) p'" using keepsD [OF keeps_Handle] by blast
      then show ?thesis by (simp add: serving_def)
    next
      case False
      then have "p' = p" using run EvRequest by (auto simp: bind_def asks_def ret_def)
      then show ?thesis using inv by simp
    qed
  qed
qed (auto simp: GetState_def SetState_def Status_def Ping_def Connect_def Serve_def
    intro!: keeps_intros keeps_open_channel keeps_Disconnect_rpc)

interpretation rv: stepper "\<lambda>e p. snd (daemon_step W G e p)" daemon_inv for W G
  by unfold_locales (use keeps_daemon_step in \<open>auto simp: keeps_def\<close>)

lemma start_up_inv:
  assumes "start_up G l (new_process w d) = (Return (), p)"
  shows "daemon_inv p \<and> status (rvpn p) = StatusDisconnected \<and> has_wireguard (rvpn p)"
  using assms
  by (auto simp: start_up_def on_disk_def on_wg_def set_rvpn_def new_process_def NewRVPNDaemon_def daemon_inv_def
      returned split: prod.splits sum.splits if_splits)

text \<open>
  Whatever the clients and the control planes do, a started daemon that is connected or serving
  has a channel; every answer it has sent, every heartbeat and every closing belongs to a connection
  it opened; and the token of a device has been sent only on connections opened with that token.
\<close>

theorem daemon_consistent:
  assumes "start_up G l (new_process w d) = (Return (), p0)" and "each (daemon_step W G) es p0 = (Return (), p)"
  shows "(status (rvpn p) \<noteq> StatusDisconnected \<longrightarrow>
      (\<exists>c < length (handlers p). jrpcConn (rvpn p) = Some c \<and> jrpcCtxCancel (rvpn p) = Some c)) \<and>
    set (closed p) \<union> set (beating p) \<subseteq> {..<length (handlers p)} \<and>
    (\<forall>(c, r) \<in> set (sent p). c < length (handlers p) \<and>
       (DeviceToken r = [] \<or> DeviceToken r = deviceToken (handlers p ! c)))"
proof -
  have "daemon_inv (fold (\<lambda>e p. snd (daemon_step W G e p)) es p0)"
    using start_up_inv [OF assms(1)] rv.run_inv by blast
  then have "daemon_inv p" using each_fold [OF assms(2)] by simp
  then show ?thesis unfolding daemon_inv_def by (intro conjI) auto
qed

end
