(* ===== verification/Wg_Host.thy ===== *)
theory Wg_Host
  imports Wg_Config
begin

text \<open>
  A WireGuard daemon and the system below it: the daemon's own fields, the state of the system, of any
  type, and the log of the changes the daemon has asked the system for, each with whether it succeeded.
  The three platforms instantiate the type of the fields and the type of the changes.
\<close>

section \<open>The state and its primitives\<close>

record ('d, 'op, 'o) wg_host =
  wgd :: 'd
  host_os :: 'o
  ops :: "('op \<times> bool) list"

text \<open>A question to the system, and a change that is logged.\<close>

definition query :: "('o, 'a) stmt \<Rightarrow> (('d, 'op, 'o) wg_host, 'a) stmt" where
  "query m h = (case m (host_os h) of (r, s) \<Rightarrow> (r, h\<lparr>host_os := s\<rparr>))"

definition call :: "'op \<Rightarrow> ('o, 'a) stmt \<Rightarrow> (('d, 'op, 'o) wg_host, 'a) stmt" where
  "call op m h =
     (case m (host_os h) of
        (r, s) \<Rightarrow> (r, h\<lparr>host_os := s, ops := ops h @ [(op, case r of Inl _ \<Rightarrow> False | Inr _ \<Rightarrow> True)]\<rparr>))"

definition set_wgd :: "('d \<Rightarrow> 'd) \<Rightarrow> (('d, 'op, 'o) wg_host, unit) prog" where
  "set_wgd f = modify (\<lambda>h. h\<lparr>wgd := f (wgd h)\<rparr>)"

definition set_wgd_stmt :: "('d \<Rightarrow> 'd) \<Rightarrow> (('d, 'op, 'o) wg_host, unit) stmt" where
  "set_wgd_stmt f h = (Inr (), h\<lparr>wgd := f (wgd h)\<rparr>)"

text \<open>\<open>ConfigureDevice\<close>: an error \<open>not exist\<close> is only printed, any other one is fatal.\<close>

definition configure_device :: "'op \<Rightarrow> ('o, unit) stmt \<Rightarrow> (('d, 'op, 'o) wg_host, unit) prog" where
  "configure_device op m =
     bind (attempt (call op m)) (\<lambda>r.
       case r of
         Inr _ \<Rightarrow> ret ()
       | Inl e \<Rightarrow> if e = OsNotExist then ret () else log_fatal)"

section \<open>The log of the primitives\<close>

text \<open>What happens between two states, when the daemon's own fields stay.\<close>

definition only_ops :: "('d, 'op, 'o) wg_host \<Rightarrow> ('d, 'op, 'o) wg_host \<Rightarrow> ('op \<times> bool) list \<Rightarrow> bool" where
  "only_ops h h' xs \<longleftrightarrow> ops h' = ops h @ xs \<and> wgd h' = wgd h"

lemma only_ops_Nil [simp]: "only_ops h h []"
  by (simp add: only_ops_def)

lemma only_ops_trans: "only_ops h h' xs \<Longrightarrow> only_ops h' h'' ys \<Longrightarrow> only_ops h h'' (xs @ ys)"
  by (simp add: only_ops_def)

lemma query_ops: "query m h = (r, h') \<Longrightarrow> only_ops h h' []"
  by (auto simp: query_def only_ops_def split: prod.splits)

lemma call_ops: "call op m h = (r, h') \<Longrightarrow> only_ops h h' [(op, case r of Inl _ \<Rightarrow> False | Inr _ \<Rightarrow> True)]"
  by (auto simp: call_def only_ops_def split: prod.splits)

lemma call_Inr: "call op m h = (Inr x, h') \<Longrightarrow> only_ops h h' [(op, True)]"
  by (drule call_ops) simp

lemma each_must_ops:
  "each (\<lambda>x. must (call (f x) (m x))) xs h = (Return y, h') \<Longrightarrow>
     only_ops h h' (map (\<lambda>x. (f x, True)) xs)"
proof (induction xs arbitrary: h)
  case (Cons x xs)
  then obtain u h1 where "call (f x) (m x) h = (Inr u, h1)"
    and "each (\<lambda>x. must (call (f x) (m x))) xs h1 = (Return y, h')"
    by (auto simp: returned)
  then have "only_ops h h1 [(f x, True)]" "only_ops h1 h' (map (\<lambda>x. (f x, True)) xs)"
    using Cons.IH by (auto dest: call_Inr)
  then show ?case by (auto dest: only_ops_trans)
qed (simp add: returned)

lemma each_check_ops:
  "each_check (\<lambda>x. call (f x) (m x)) xs h = (Inr y, h') \<Longrightarrow>
     only_ops h h' (map (\<lambda>x. (f x, True)) xs)"
proof (induction xs arbitrary: h)
  case (Cons x xs)
  then obtain u h1 where "call (f x) (m x) h = (Inr u, h1)"
    and "each_check (\<lambda>x. call (f x) (m x)) xs h1 = (Inr y, h')"
    by (auto simp: and_then_Inr)
  then have "only_ops h h1 [(f x, True)]" "only_ops h1 h' (map (\<lambda>x. (f x, True)) xs)"
    using Cons.IH by (auto dest: call_Inr)
  then show ?case by (auto dest: only_ops_trans)
qed (simp add: ok_def)

text \<open>
  \<open>only_asks P m\<close>: however \<open>m\<close> ends, it has only asked for changes in \<open>P\<close> and has left the
  daemon's fields alone.
\<close>

definition only_asks :: "('op \<Rightarrow> bool) \<Rightarrow> (('d, 'op, 'o) wg_host \<Rightarrow> 'r \<times> ('d, 'op, 'o) wg_host) \<Rightarrow> bool" where
  "only_asks P m \<longleftrightarrow>
     (\<forall>h r h'. m h = (r, h') \<longrightarrow> (\<exists>xs. only_ops h h' xs \<and> (\<forall>x \<in> set xs. P (fst x))))"

lemma only_asksI:
  "(\<And>h r h'. m h = (r, h') \<Longrightarrow> \<exists>xs. only_ops h h' xs \<and> (\<forall>x \<in> set xs. P (fst x))) \<Longrightarrow> only_asks P m"
  by (simp add: only_asks_def)

lemma only_asksD:
  "only_asks P m \<Longrightarrow> m h = (r, h') \<Longrightarrow> \<exists>xs. only_ops h h' xs \<and> (\<forall>x \<in> set xs. P (fst x))"
  by (simp add: only_asks_def)

lemma only_asks_chain:
  assumes "only_ops h h1 xs" and "\<forall>x \<in> set xs. P (fst x)"
    and "\<exists>ys. only_ops h1 h2 ys \<and> (\<forall>y \<in> set ys. P (fst y))"
  shows "\<exists>zs. only_ops h h2 zs \<and> (\<forall>z \<in> set zs. P (fst z))"
proof -
  obtain ys where "only_ops h1 h2 ys" "\<forall>y \<in> set ys. P (fst y)" using assms(3) by blast
  then show ?thesis using assms(1,2) by (intro exI [of _ "xs @ ys"]) (auto dest: only_ops_trans)
qed

named_theorems asks_intros \<open>what a body may ask for\<close>

lemma only_asks_done [asks_intros]:
  "only_asks P (ok x)" "only_asks P (fail e)" "only_asks P (ret y)" "only_asks P panic"
  "only_asks P log_fatal" "only_asks P (asks f)"
  by (auto intro!: only_asksI exI [of _ "[]"]
      simp: ok_def fail_def ret_def panic_def log_fatal_def asks_def)

lemma only_asks_query [asks_intros]: "only_asks P (query m)"
  by (rule only_asksI) (use query_ops in fastforce)

lemma only_asks_call [asks_intros]: "P op \<Longrightarrow> only_asks P (call op m)"
  by (rule only_asksI) (use call_ops in fastforce)

lemma only_asks_lifts [asks_intros]:
  assumes "only_asks P m"
  shows "only_asks P (attempt m)" "only_asks P (must m)" "only_asks P (warn m)"
  by (rule only_asksI, use only_asksD [OF assms] in
      \<open>auto simp: attempt_def must_def warn_def split: prod.splits sum.splits\<close>)+

lemma only_asks_and_then [asks_intros]:
  assumes "only_asks P m" and "\<And>x. only_asks P (f x)"
  shows "only_asks P (and_then m f)"
proof (rule only_asksI)
  fix h r h'
  assume run: "and_then m f h = (r, h')"
  obtain q h1 where q: "m h = (q, h1)" by fastforce
  obtain xs where xs: "only_ops h h1 xs" "\<forall>x \<in> set xs. P (fst x)"
    using only_asksD [OF assms(1) q] by blast
  show "\<exists>xs. only_ops h h' xs \<and> (\<forall>x \<in> set xs. P (fst x))"
    using run q xs only_asks_chain [OF xs] only_asksD [OF assms(2)]
    by (cases q) (auto simp: and_then_def)
qed

lemma only_asks_check [asks_intros]:
  assumes "only_asks P m" and "\<And>x. only_asks P (f x)"
  shows "only_asks P (check m f)"
proof (rule only_asksI)
  fix h r h'
  assume run: "check m f h = (r, h')"
  obtain q h1 where q: "m h = (q, h1)" by fastforce
  obtain xs where xs: "only_ops h h1 xs" "\<forall>x \<in> set xs. P (fst x)"
    using only_asksD [OF assms(1) q] by blast
  show "\<exists>xs. only_ops h h' xs \<and> (\<forall>x \<in> set xs. P (fst x))"
    using run q xs only_asks_chain [OF xs] only_asksD [OF assms(2)]
    by (cases q) (auto simp: check_def)
qed

lemma only_asks_bind [asks_intros]:
  assumes "only_asks P m" and "\<And>x. only_asks P (f x)"
  shows "only_asks P (bind m f)"
proof (rule only_asksI)
  fix h r h'
  assume run: "bind m f h = (r, h')"
  obtain q h1 where q: "m h = (q, h1)" by fastforce
  obtain xs where xs: "only_ops h h1 xs" "\<forall>x \<in> set xs. P (fst x)"
    using only_asksD [OF assms(1) q] by blast
  show "\<exists>xs. only_ops h h' xs \<and> (\<forall>x \<in> set xs. P (fst x))"
    using run q xs only_asks_chain [OF xs] only_asksD [OF assms(2)]
    by (cases q) (auto simp: bind_def)
qed

lemma only_asks_then_do [asks_intros]:
  "only_asks P m \<Longrightarrow> only_asks P n \<Longrightarrow> only_asks P (then_do m n)"
  unfolding then_do_def by (rule only_asks_bind)

lemma only_asks_each [asks_intros]: "(\<And>x. x \<in> set xs \<Longrightarrow> only_asks P (f x)) \<Longrightarrow> only_asks P (each f xs)"
  by (induction xs) (auto intro: asks_intros)

lemma only_asks_each_check [asks_intros]:
  "(\<And>x. x \<in> set xs \<Longrightarrow> only_asks P (f x)) \<Longrightarrow> only_asks P (each_check f xs)"
  by (induction xs) (auto intro: asks_intros)

lemma only_asks_cases [asks_intros]:
  "(\<And>e. only_asks P (f e)) \<Longrightarrow> (\<And>y. only_asks P (g y)) \<Longrightarrow> only_asks P (case_sum f g r)"
  "only_asks P m \<Longrightarrow> (\<And>x. only_asks P (k x)) \<Longrightarrow> only_asks P (case_option m k q)"
  "only_asks P m \<Longrightarrow> only_asks P n \<Longrightarrow> only_asks P (if b then m else n)"
  "(\<And>x y. only_asks P (j x y)) \<Longrightarrow> only_asks P (case_prod j z)"
  by (auto split: sum.split option.split prod.split)

lemma each_warn_ops:
  "each (\<lambda>x. warn (call (f x) (m x))) xs h = (Return y, h') \<Longrightarrow>
     \<exists>bs. length bs = length xs \<and> only_ops h h' (zip (map f xs) bs)"
proof (induction xs arbitrary: h)
  case (Cons x xs)
  then obtain r h1 where c: "call (f x) (m x) h = (r, h1)"
    and e: "each (\<lambda>x. warn (call (f x) (m x))) xs h1 = (Return y, h')"
    by (auto simp: returned)
  obtain bs where "length bs = length xs" "only_ops h1 h' (zip (map f xs) bs)"
    using Cons.IH [OF e] by blast
  then show ?case
    using only_ops_trans [OF call_ops [OF c]]
    by (intro exI [of _ "(case r of Inl _ \<Rightarrow> False | Inr _ \<Rightarrow> True) # bs"]) simp
qed (simp add: returned)

text \<open>The changes asked for between two states of a run.\<close>

definition new_ops :: "('d, 'op, 'o) wg_host \<Rightarrow> ('d, 'op, 'o) wg_host \<Rightarrow> ('op \<times> bool) list" where
  "new_ops h h' = drop (length (ops h)) (ops h')"

lemma new_ops_append: "ops h' = ops h @ xs \<Longrightarrow> new_ops h h' = xs"
  by (simp add: new_ops_def)

lemma each_check_any:
  assumes "each_check (\<lambda>x. call (f x) (m x)) xs h = (r, h')"
  shows "\<exists>ys. only_ops h h' ys"
proof -
  have "only_asks (\<lambda>_. True) (each_check (\<lambda>x. call (f x) (m x)) xs)"
    by (intro asks_intros) simp
  from only_asksD [OF this assms] show ?thesis by blast
qed

lemma each_check_succeeds:
  "each_check (\<lambda>x. call (f x) (m x)) xs h = (r, h') \<Longrightarrow> \<forall>x \<in> set (new_ops h h'). snd x \<Longrightarrow>
     r = Inr () \<and> only_ops h h' (map (\<lambda>x. (f x, True)) xs)"
proof (induction xs arbitrary: h)
  case (Cons x xs)
  obtain r1 h1 where c: "call (f x) (m x) h = (r1, h1)" by fastforce
  note o1 = call_ops [OF c]
  show ?case
  proof (cases r1)
    case (Inl e)
    then show ?thesis using Cons.prems c o1 by (auto simp: and_then_def new_ops_def only_ops_def)
  next
    case (Inr u)
    then have e: "each_check (\<lambda>x. call (f x) (m x)) xs h1 = (r, h')"
      using Cons.prems(1) c by (simp add: and_then_def)
    obtain ys where ys: "only_ops h1 h' ys"
      using each_check_any [OF e] by blast
    have "only_ops h h1 [(f x, True)]" using o1 Inr by simp
    moreover have "\<forall>x \<in> set (new_ops h1 h'). snd x"
      using Cons.prems(2) o1 ys by (auto simp: new_ops_def only_ops_def)
    ultimately show ?thesis using Cons.IH [OF e] by (auto dest: only_ops_trans)
  qed
qed (simp add: ok_def)

lemma configure_device_ops:
  assumes "configure_device op m h = (Return u, h')"
  shows "\<exists>b. only_ops h h' [(op, b)]"
proof -
  obtain r h1 where c: "call op m h = (r, h1)"
    and k: "(case r of Inl e \<Rightarrow> if e = OsNotExist then ret () else log_fatal | Inr _ \<Rightarrow> ret ()) h1 =
      (Return u, h')"
    using assms unfolding configure_device_def by (auto simp only: bind_Return attempt_Return)
  have "h1 = h'" using k by (cases r) (auto simp: returned split: if_splits)
  then show ?thesis using call_ops [OF c] by blast
qed

section \<open>Fields that stay\<close>

text \<open>A field of the daemon's state has a value; bodies that do not set it keep that.\<close>

definition field :: "('d \<Rightarrow> 'v) \<Rightarrow> 'v \<Rightarrow> ('d, 'op, 'o) wg_host \<Rightarrow> bool" where
  "field F v h \<longleftrightarrow> F (wgd h) = v"

lemma field_calls [keeps_intros]:
  "keeps (field F v) (query m)" "keeps (field F v) (call op n)" "keeps (field F v) (configure_device op n)"
  by (auto simp: keeps_def field_def query_def call_def configure_device_def prog_run
      split: prod.splits sum.splits)

lemma field_sets [keeps_intros]:
  "(\<And>d. F (f d) = F d) \<Longrightarrow> keeps (field F v) (set_wgd f)"
  "(\<And>d. F (f d) = F d) \<Longrightarrow> keeps (field F v) (set_wgd_stmt f)"
  by (auto simp: keeps_def field_def set_wgd_def set_wgd_stmt_def modify_def)

lemma field_kept:
  assumes "\<And>v. keeps (field F v) m" and "m h = (r, h')"
  shows "F (wgd h') = F (wgd h)"
  using keepsD [OF assms(1) _ assms(2)] by (simp add: field_def)

end
