(* ===== verification/Wg_Linux.thy ===== *)
theory Wg_Linux
  imports Wg_Host
begin

text \<open>
  The WireGuard daemon on Linux (\<open>daemon/wg/daemon_linux.go\<close>, \<open>daemon/wg/network_util_linux.go\<close>).
  The kernel and the libraries in front of it (netlink, wgctrl, iptables, the TUN device) are not part
  of the repository: they are the record \<open>linux_os\<close>, an argument of every definition, over a state
  of any type.  The daemon's state keeps, beside its own fields, the log of the changes it has asked
  the system for, each with whether it succeeded; the lemmas are about this log, and hold for every
  system.
\<close>

section \<open>The system\<close>

record link =
  link_Name :: string
  link_Index :: int

text \<open>\<open>netlink.Route\<close>: no destination is nil, the default route; no gateway is the nil \<open>net.IP\<close>.\<close>

record route =
  LinkIndex :: int
  Dst :: "prefix option"
  Gw :: "ip4 option"
  Table :: int
  Priority :: int

record rule =
  rule_Priority :: int
  rule_Src :: ip4
  rule_Table :: int

datatype family = FAMILY_ALL | FAMILY_V4

datatype ipt_rule = ForwardAccept string | MasqueradeOut string

record 'o linux_os =
  LinkByName :: "string \<Rightarrow> ('o, link) stmt"
  LinkSetUp :: "link \<Rightarrow> ('o, unit) stmt"
  LinkList :: "('o, link list) stmt"
  RouteList :: "link \<Rightarrow> ('o, route list) stmt"
  RouteAdd :: "route \<Rightarrow> ('o, unit) stmt"
  RouteDel :: "route \<Rightarrow> ('o, unit) stmt"
  RuleAdd :: "rule \<Rightarrow> ('o, unit) stmt"
  RuleDel :: "rule \<Rightarrow> ('o, unit) stmt"
  AddrList :: "link \<Rightarrow> family \<Rightarrow> ('o, prefix list) stmt"
  AddrDel :: "link \<Rightarrow> prefix \<Rightarrow> ('o, unit) stmt"
  AddrAdd :: "link \<Rightarrow> prefix \<Rightarrow> ('o, unit) stmt"
  CreateDevice :: "string \<Rightarrow> int \<Rightarrow> ('o, unit) stmt"
  DeviceUp :: "('o, unit) stmt"
  DeviceDown :: "('o, unit) stmt"
  DeviceClose :: "('o, unit) stmt"
  UapiListen :: "string \<Rightarrow> ('o, unit) stmt"
  UapiClose :: "('o, unit) stmt"
  WgctrlNew :: "('o, unit) stmt"
  WgctrlDevices :: "('o, unit) stmt"
  ConfigureDevice :: "string \<Rightarrow> wg_config \<Rightarrow> ('o, unit) stmt"
  IptablesNew :: "('o, unit) stmt"
  IptablesAppend :: "ipt_rule \<Rightarrow> ('o, unit) stmt"
  IptablesDelete :: "ipt_rule \<Rightarrow> ('o, unit) stmt"
  ParseKey :: "string \<Rightarrow> wg_key result"

section \<open>The daemon's state\<close>

text \<open>\<open>has_device\<close> says that \<open>Device\<close> and \<open>Uapi\<close> are set; until then they are nil.\<close>

record WireguardDaemon =
  has_device :: bool
  DefaultIFaceLink :: "link option"
  ServerIP :: "prefix option"
  ControlPlaneIP :: "prefix option"
  InterfaceName :: string
  appendedRoutes :: "route list"
  appendedSrcRules :: "rule list"
  appendedSrcRoutes :: "route list"
  vpnServerMode :: bool

definition NewWireguardDaemon :: WireguardDaemon where
  "NewWireguardDaemon =
     \<lparr>has_device = False, DefaultIFaceLink = None, ServerIP = None, ControlPlaneIP = None,
      InterfaceName = [], appendedRoutes = [], appendedSrcRules = [], appendedSrcRoutes = [],
      vpnServerMode = False\<rparr>"

datatype os_op =
    OpLinkSetUp link
  | OpRouteAdd route
  | OpRouteDel route
  | OpRuleAdd rule
  | OpRuleDel rule
  | OpAddrDel link prefix
  | OpAddrAdd link prefix
  | OpCreateDevice string int
  | OpDeviceUp
  | OpDeviceDown
  | OpDeviceClose
  | OpUapiListen string
  | OpUapiClose
  | OpConfigure string wg_config
  | OpIptAppend ipt_rule
  | OpIptDelete ipt_rule

type_synonym 'o host = "(WireguardDaemon, os_op, 'o) wg_host"

text \<open>A method call on \<open>d.Device\<close> or \<open>d.Uapi\<close>, which panics on nil.\<close>

definition on_device :: "('o host, 'a) prog \<Rightarrow> ('o host, 'a) prog" where
  "on_device m = bind (asks (\<lambda>h. has_device (wgd h))) (\<lambda>b. if b then m else panic)"

section \<open>Helpers of network\_util\_linux.go\<close>

text \<open>
  \<open>netlink.ParseAddr\<close> fails where \<open>ParseCIDR\<close> does, but keeps the host bits; its error is dropped and
  \<open>AddrAdd\<close> dereferences the nil address.
\<close>

definition add_addr :: "'o linux_os \<Rightarrow> link \<Rightarrow> string \<Rightarrow> ('o host, unit result) prog" where
  "add_addr K l ipAddressPrefix =
     (case parse_prefix ipAddressPrefix of
        Inl _ \<Rightarrow> panic
      | Inr addr \<Rightarrow>
          bind (attempt (call (OpAddrAdd l addr) (AddrAdd K l addr)))
            (\<lambda>r. case r of
                   Inr _ \<Rightarrow> attempt (call (OpLinkSetUp l) (LinkSetUp K l))
                 | Inl e \<Rightarrow>
                     if e = OsExists then attempt (call (OpLinkSetUp l) (LinkSetUp K l))
                     else ret (Inl e)))"

definition assignInterfaceAddr :: "'o linux_os \<Rightarrow> string \<Rightarrow> string \<Rightarrow> ('o host, unit result) prog" where
  "assignInterfaceAddr K ifaceName ipAddressPrefix =
     check (query (LinkByName K ifaceName)) (\<lambda>wgInterfaceLink.
     check (query (AddrList K wgInterfaceLink FAMILY_ALL)) (\<lambda>addrList.
     check (each_check (\<lambda>a. call (OpAddrDel wgInterfaceLink a) (AddrDel K wgInterfaceLink a)) addrList) (\<lambda>_.
       add_addr K wgInterfaceLink ipAddressPrefix)))"

text \<open>The loops over the routes of all links; \<open>maxInt\<close> is \<open>math.MaxInt\<close> on a 64-bit machine.\<close>

definition maxInt :: int where
  "maxInt = 9223372036854775807"

text \<open>The best route so far: its link, its gateway, its metric.\<close>

type_synonym best = "(link \<times> ip4 option) option \<times> int"

definition better_route :: "link \<Rightarrow> route \<Rightarrow> best \<Rightarrow> best" where
  "better_route l r b =
     (if Dst r = None \<and> Priority r < snd b then (Some (l, Gw r), Priority r) else b)"

fun scan_links :: "'o linux_os \<Rightarrow> link list \<Rightarrow> best \<Rightarrow> ('o host, best) stmt" where
  "scan_links K [] b = ok b"
| "scan_links K (l # ls) b =
     and_then (query (RouteList K l)) (\<lambda>rs. scan_links K ls (fold (better_route l) rs b))"

definition findDefaultInterface :: "'o linux_os \<Rightarrow> ('o host, link \<times> ip4 option) stmt" where
  "findDefaultInterface K =
     and_then (query (LinkList K)) (\<lambda>linkList.
     and_then (scan_links K linkList (None, maxInt)) (\<lambda>(found, _).
       case found of None \<Rightarrow> fail NoDefaultInterface | Some x \<Rightarrow> ok x))"

definition IpSourceRouteTableBaseIdx :: int where
  "IpSourceRouteTableBaseIdx = 130"

definition everywhere :: prefix where
  "everywhere = \<lparr>pfx_addr = 0, pfx_bits = 0\<rparr>"

definition source_rule :: "nat \<Rightarrow> prefix \<Rightarrow> rule" where
  "source_rule i ifaceAddr =
     \<lparr>rule_Priority = 1, rule_Src = pfx_addr ifaceAddr, rule_Table = IpSourceRouteTableBaseIdx + int i\<rparr>"

definition source_route :: "link \<Rightarrow> ip4 option \<Rightarrow> nat \<Rightarrow> route" where
  "source_route iface gateway i =
     \<lparr>LinkIndex = link_Index iface, Dst = Some everywhere, Gw = gateway,
      Table = IpSourceRouteTableBaseIdx + int i, Priority = 50\<rparr>"

text \<open>The fields are set once all rules, respectively all routes, have gone in.\<close>

definition enableSourceRouting :: "'o linux_os \<Rightarrow> link \<Rightarrow> ip4 option \<Rightarrow> ('o host, unit) stmt" where
  "enableSourceRouting K sourceRouteIFace sourceRouteGateway =
     and_then (query (AddrList K sourceRouteIFace FAMILY_V4)) (\<lambda>addrList.
       let sourceRoutingRules = map (\<lambda>(i, a). source_rule i a) (enumerate 0 addrList);
           sourceRoutingRoutes =
             map (\<lambda>(i, a). source_route sourceRouteIFace sourceRouteGateway i) (enumerate 0 addrList)
       in and_then (each_check (\<lambda>r. call (OpRuleAdd r) (RuleAdd K r)) sourceRoutingRules) (\<lambda>_.
          and_then (set_wgd_stmt (\<lambda>d. d\<lparr>appendedSrcRules := sourceRoutingRules\<rparr>)) (\<lambda>_.
          and_then (each_check (\<lambda>r. call (OpRouteAdd r) (RouteAdd K r)) sourceRoutingRoutes) (\<lambda>_.
            set_wgd_stmt (\<lambda>d. d\<lparr>appendedSrcRoutes := sourceRoutingRoutes\<rparr>)))))"

definition stopSourceRouting :: "'o linux_os \<Rightarrow> ('o host, unit) stmt" where
  "stopSourceRouting K h =
     and_then (each_check (\<lambda>r. call (OpRouteDel r) (RouteDel K r)) (appendedSrcRoutes (wgd h))) (\<lambda>_.
       each_check (\<lambda>r. call (OpRuleDel r) (RuleDel K r)) (appendedSrcRules (wgd h))) h"

text \<open>\<open>d.DefaultIFaceLink.Attrs()\<close> panics when the link is nil.\<close>

definition enableForwarding :: "'o linux_os \<Rightarrow> ('o host, unit result) prog" where
  "enableForwarding K h =
     check (query (IptablesNew K)) (\<lambda>_.
     check (call (OpIptAppend (ForwardAccept (InterfaceName (wgd h))))
              (IptablesAppend K (ForwardAccept (InterfaceName (wgd h))))) (\<lambda>_.
       case DefaultIFaceLink (wgd h) of
         None \<Rightarrow> panic
       | Some l \<Rightarrow>
           attempt (call (OpIptAppend (MasqueradeOut (link_Name l)))
                      (IptablesAppend K (MasqueradeOut (link_Name l)))))) h"

definition disableForwarding :: "'o linux_os \<Rightarrow> ('o host, unit result) prog" where
  "disableForwarding K h =
     check (query (IptablesNew K)) (\<lambda>_.
     check (call (OpIptDelete (ForwardAccept (InterfaceName (wgd h))))
              (IptablesDelete K (ForwardAccept (InterfaceName (wgd h))))) (\<lambda>_.
       case DefaultIFaceLink (wgd h) of
         None \<Rightarrow> panic
       | Some l \<Rightarrow>
           attempt (call (OpIptDelete (MasqueradeOut (link_Name l)))
                      (IptablesDelete K (MasqueradeOut (link_Name l)))))) h"

section \<open>StartDevice\<close>

text \<open>
  \<open>CreateDevice\<close> stands for \<open>tun.CreateTUN\<close> and \<open>device.NewDevice\<close>, \<open>UapiListen\<close> for opening the
  socket and listening on it.  The fields are set only at the end.
\<close>

definition StartDevice :: "'o linux_os \<Rightarrow> ('o host, unit) stmt" where
  "StartDevice K =
     and_then (call (OpCreateDevice ''rvpn0'' 1420) (CreateDevice K ''rvpn0'' 1420)) (\<lambda>_.
     and_then (call OpDeviceUp (DeviceUp K)) (\<lambda>_.
     and_then (call (OpUapiListen ''rvpn0'') (UapiListen K ''rvpn0'')) (\<lambda>_.
       set_wgd_stmt (\<lambda>d. d\<lparr>has_device := True, InterfaceName := ''rvpn0''\<rparr>))))"

section \<open>UpdateClientConf\<close>

text \<open>Lines 111 to 124: bring the interface and the device up.\<close>

definition bring_up :: "'o linux_os \<Rightarrow> string \<Rightarrow> ('o host, link) prog" where
  "bring_up K name =
     bind (must (query (LinkByName K name))) (\<lambda>interfaceLink.
     then_do (must (call (OpLinkSetUp interfaceLink) (LinkSetUp K interfaceLink)))
     (then_do (on_device (must (call OpDeviceUp (DeviceUp K))))
       (ret interfaceLink)))"

text \<open>Lines 126 to 139: parse and store the addresses of the server and of the control plane.\<close>

definition parse_ips :: "string \<Rightarrow> string \<Rightarrow> ('o host, unit) prog" where
  "parse_ips serverIp controlPlaneAddr =
     bind (parse_host serverIp) (\<lambda>s.
     then_do (set_wgd (\<lambda>d. d\<lparr>ServerIP := Some s\<rparr>))
     (bind (parse_host controlPlaneAddr) (\<lambda>c.
        set_wgd (\<lambda>d. d\<lparr>ControlPlaneIP := Some c\<rparr>))))"

text \<open>Lines 152 to 182: a route for one address on the default interface, past the tunnel.\<close>

definition host_route :: "link \<Rightarrow> ip4 option \<Rightarrow> prefix \<Rightarrow> route" where
  "host_route iface gateway net =
     \<lparr>LinkIndex = link_Index iface, Dst = Some net, Gw = gateway, Table = 0, Priority = 0\<rparr>"

definition add_host_route :: "'o linux_os \<Rightarrow> link \<Rightarrow> ip4 option \<Rightarrow> prefix option \<Rightarrow> ('o host, unit) prog" where
  "add_host_route K iface gateway ip =
     (case parse_cidr (prefix_String ip) of
        Inl _ \<Rightarrow> log_fatal
      | Inr parsedIPNet \<Rightarrow>
          (let r = host_route iface gateway parsedIPNet
           in must (call (OpRouteAdd r) (RouteAdd K r))))"

text \<open>Lines 147 to 189: only the first time; a changed default interface is left to a TODO.\<close>

definition exclude_hosts :: "'o linux_os \<Rightarrow> link \<Rightarrow> ip4 option \<Rightarrow> ('o host, unit) prog" where
  "exclude_hosts K currDefaultIFace currDefaultGateway =
     bind (asks wgd) (\<lambda>d.
       if DefaultIFaceLink d = None
       then then_do (set_wgd (\<lambda>d. d\<lparr>DefaultIFaceLink := Some currDefaultIFace\<rparr>))
            (then_do (add_host_route K currDefaultIFace currDefaultGateway (ServerIP d))
                     (add_host_route K currDefaultIFace currDefaultGateway (ControlPlaneIP d)))
       else ret ())"

text \<open>Lines 191 to 201.\<close>

definition flush_routes :: "'o linux_os \<Rightarrow> link \<Rightarrow> ('o host, unit) prog" where
  "flush_routes K interfaceLink =
     bind (must (query (RouteList K interfaceLink)))
       (each (\<lambda>r. must (call (OpRouteDel r) (RouteDel K r))))"

text \<open>Lines 216 to 276, up to the configuration: open wgctrl, list the devices (for printing).\<close>

definition open_wgctrl :: "'o linux_os \<Rightarrow> ('o host, unit) prog" where
  "open_wgctrl K = then_do (must (query (WgctrlNew K))) (must (query (WgctrlDevices K)))"

definition configure :: "'o linux_os \<Rightarrow> wg_config \<Rightarrow> ('o host, unit) prog" where
  "configure K conf =
     bind (asks (\<lambda>h. InterfaceName (wgd h))) (\<lambda>name.
       configure_device (OpConfigure name conf) (ConfigureDevice K name conf))"

definition must_key :: "'o linux_os \<Rightarrow> string \<Rightarrow> ('s, wg_key) prog" where
  "must_key K s = (case ParseKey K s of Inl _ \<Rightarrow> log_fatal | Inr k \<Rightarrow> ret k)"

text \<open>Lines 284 to 309: the two halves of IPv4 go through the tunnel.\<close>

definition half :: "ip4 \<Rightarrow> prefix" where
  "half a = \<lparr>pfx_addr = a, pfx_bits = 1\<rparr>"

definition tunnel_route :: "link \<Rightarrow> prefix \<Rightarrow> route" where
  "tunnel_route interfaceLink net =
     \<lparr>LinkIndex = link_Index interfaceLink, Dst = Some net, Gw = None, Table = 0, Priority = 0\<rparr>"

definition tunnel_routes :: "link \<Rightarrow> route list" where
  "tunnel_routes interfaceLink =
     [tunnel_route interfaceLink (half 0), tunnel_route interfaceLink (half 2147483648)]"

definition add_tunnel_routes :: "'o linux_os \<Rightarrow> link \<Rightarrow> ('o host, unit) prog" where
  "add_tunnel_routes K interfaceLink =
     then_do (each (\<lambda>r. must (call (OpRouteAdd r) (RouteAdd K r))) (tunnel_routes interfaceLink))
       (set_wgd (\<lambda>d. d\<lparr>appendedRoutes := tunnel_routes interfaceLink\<rparr>))"

definition UpdateClientConf :: "'o linux_os \<Rightarrow> ClientWgConfig \<Rightarrow> string \<Rightarrow> ('o host, unit) prog" where
  "UpdateClientConf K wgConf controlPlaneAddr =
     bind (asks (\<lambda>h. InterfaceName (wgd h))) (\<lambda>name.
     bind (bring_up K name) (\<lambda>interfaceLink.
     then_do (parse_ips (cw_ServerIp wgConf) controlPlaneAddr)
     (bind (must (findDefaultInterface K)) (\<lambda>(currDefaultIFace, currDefaultGateway).
     then_do (exclude_hosts K currDefaultIFace currDefaultGateway)
     (then_do (flush_routes K interfaceLink)
     (then_do (must (enableSourceRouting K currDefaultIFace currDefaultGateway))
     (then_do (assignInterfaceAddr K name (cw_ClientIp wgConf @ cw_ClientCidr wgConf))
     (then_do (open_wgctrl K)
     (bind (must_key K (ClientPrivateKey wgConf)) (\<lambda>pri.
     bind (must_key K (cw_ServerPublicKey wgConf)) (\<lambda>pub.
     then_do (configure K (client_wg_config pri pub wgConf))
     (then_do (add_tunnel_routes K interfaceLink)
       (set_wgd (\<lambda>d. d\<lparr>vpnServerMode := False\<rparr>))))))))))))))"

section \<open>UpdateServeConf and AppendPeers\<close>

text \<open>A key that does not parse is logged, and the peer gets the zero key.\<close>

definition serve_peer :: "'o linux_os \<Rightarrow> bool \<Rightarrow> wg_peer \<Rightarrow> peer_config" where
  "serve_peer K replaceAllowedIPs clientPeer =
     \<lparr>pc_PublicKey = (case ParseKey K (wp_PublicKey clientPeer) of Inl _ \<Rightarrow> ZeroKey | Inr k \<Rightarrow> k),
      pc_Endpoint = None, pc_Keepalive = None, pc_ReplaceAllowedIPs = replaceAllowedIPs,
      pc_AllowedIPs = [(parse_ip (wp_AllowedIP clientPeer), 32)]\<rparr>"

definition serve_wg_config :: "'o linux_os \<Rightarrow> wg_key \<Rightarrow> ServeWgConfig \<Rightarrow> wg_config" where
  "serve_wg_config K pri wgConf =
     \<lparr>wc_PrivateKey = Some pri, wc_ListenPort = Some (ListenPort wgConf), wc_ReplacePeers = True,
      wc_Peers = map (serve_peer K True) (sw_Peers wgConf)\<rparr>"

definition append_wg_config :: "'o linux_os \<Rightarrow> wg_peer list \<Rightarrow> wg_config" where
  "append_wg_config K toAppendPeers =
     \<lparr>wc_PrivateKey = None, wc_ListenPort = None, wc_ReplacePeers = False,
      wc_Peers = map (serve_peer K False) toAppendPeers\<rparr>"

text \<open>Lines 340 to 350: the default interface is remembered the first time.\<close>

definition note_interface :: "link \<Rightarrow> ('o host, unit) prog" where
  "note_interface currDefaultIFace =
     bind (asks wgd) (\<lambda>d.
       if DefaultIFaceLink d = None
       then set_wgd (\<lambda>d. d\<lparr>DefaultIFaceLink := Some currDefaultIFace\<rparr>) else ret ())"

definition UpdateServeConf :: "'o linux_os \<Rightarrow> ServeWgConfig \<Rightarrow> ('o host, unit) prog" where
  "UpdateServeConf K wgConf =
     bind (bring_up K ''rvpn0'') (\<lambda>interfaceLink.
     bind (must (findDefaultInterface K)) (\<lambda>(currDefaultIFace, _).
     then_do (note_interface currDefaultIFace)
     (bind (asks (\<lambda>h. InterfaceName (wgd h))) (\<lambda>name.
     then_do (assignInterfaceAddr K name (InternalIp wgConf @ InternalCidr wgConf))
     (then_do (open_wgctrl K)
     (bind (must_key K (PrivateKey wgConf)) (\<lambda>pri.
     then_do (configure K (serve_wg_config K pri wgConf))
     (then_do (enableForwarding K)
       (set_wgd (\<lambda>d. d\<lparr>vpnServerMode := True\<rparr>))))))))))"

definition AppendPeers :: "'o linux_os \<Rightarrow> wg_peer list \<Rightarrow> ('o host, unit) prog" where
  "AppendPeers K toAppendPeers =
     then_do (must (query (WgctrlNew K))) (configure K (append_wg_config K toAppendPeers))"

section \<open>Disconnect and ShutdownDevice\<close>

definition delete_appended :: "'o linux_os \<Rightarrow> ('o host, unit) prog" where
  "delete_appended K =
     bind (asks (\<lambda>h. appendedRoutes (wgd h))) (each (\<lambda>r. warn (call (OpRouteDel r) (RouteDel K r))))"

definition stop_forwarding :: "'o linux_os \<Rightarrow> ('o host, unit) prog" where
  "stop_forwarding K =
     bind (asks (\<lambda>h. vpnServerMode (wgd h))) (\<lambda>b.
       if b then then_do (disableForwarding K) (ret ()) else ret ())"

definition Disconnect :: "'o linux_os \<Rightarrow> ('o host, unit) prog" where
  "Disconnect K =
     then_do (on_device (must (call OpDeviceDown (DeviceDown K))))
     (then_do (stop_forwarding K)
     (then_do (delete_appended K)
     (then_do (set_wgd (\<lambda>d. d\<lparr>appendedRoutes := []\<rparr>))
       (warn (stopSourceRouting K)))))"

text \<open>The route that is deleted has no gateway; \<open>DefaultIFaceLink\<close> may be nil here.\<close>

definition delete_host_route :: "'o linux_os \<Rightarrow> prefix option \<Rightarrow> ('o host, unit) prog" where
  "delete_host_route K ip =
     (case parse_cidr (prefix_String ip) of
        Inl _ \<Rightarrow> log_fatal
      | Inr parsedIPNet \<Rightarrow>
          bind (asks (\<lambda>h. DefaultIFaceLink (wgd h))) (\<lambda>l.
            case l of
              None \<Rightarrow> panic
            | Some iface \<Rightarrow>
                (let r = host_route iface None parsedIPNet
                 in must (call (OpRouteDel r) (RouteDel K r)))))"

definition ShutdownDevice :: "'o linux_os \<Rightarrow> ('o host, unit) prog" where
  "ShutdownDevice K =
     then_do (on_device (warn (call OpUapiClose (UapiClose K))))
     (then_do (on_device (warn (call OpDeviceClose (DeviceClose K))))
     (bind (asks (\<lambda>h. ServerIP (wgd h))) (\<lambda>serverIP.
     then_do (delete_host_route K serverIP)
     (bind (asks (\<lambda>h. ControlPlaneIP (wgd h))) (\<lambda>controlPlaneIP.
     then_do (delete_host_route K controlPlaneIP)
     (then_do (stop_forwarding K)
     (then_do (delete_appended K)
       (warn (stopSourceRouting K)))))))))"

end
