(* ===== verification/Wg_Linux_Props.thy ===== *)
theory Wg_Linux_Props
  imports Wg_Linux
begin

text \<open>
  What the Linux WireGuard daemon asks the system for: the exact log of a successful connection, what
  a disconnection takes back, the configuration of a server, and what is left behind.
\<close>

section \<open>The log of the steps of a connection\<close>

lemma findDefaultInterface_asks: "only_asks P (findDefaultInterface K)"
proof -
  have "only_asks P (scan_links K ls b)" for ls b
  proof (induction ls arbitrary: b)
    case (Cons l ls)
    show ?case unfolding scan_links.simps by (intro asks_intros Cons.IH)
  qed (simp add: asks_intros)
  then show ?thesis unfolding findDefaultInterface_def by (intro asks_intros) auto
qed

lemma findDefaultInterface_ops:
  assumes "findDefaultInterface K h = (r, h')"
  shows "only_ops h h' []"
proof -
  from only_asksD [OF findDefaultInterface_asks [of "\<lambda>_. False" K] assms]
  obtain xs where "only_ops h h' xs \<and> (\<forall>x \<in> set xs. False)" ..
  moreover from this have "xs = []" by (metis last_in_set)
  ultimately show ?thesis by simp
qed

lemma bring_up_ops:
  assumes "bring_up K name h = (Return l, h')"
  shows "only_ops h h' [(OpLinkSetUp l, True), (OpDeviceUp, True)]"
  using assms
  by (auto simp: bring_up_def on_device_def returned only_ops_def dest!: query_ops call_Inr)

text \<open>The address is set by deleting the old ones; nothing else is touched.\<close>

definition address_op :: "os_op \<Rightarrow> bool" where
  "address_op op =
     (case op of OpAddrDel _ _ \<Rightarrow> True | OpAddrAdd _ _ \<Rightarrow> True | OpLinkSetUp _ \<Rightarrow> True | _ \<Rightarrow> False)"

lemma assignInterfaceAddr_asks: "only_asks address_op (assignInterfaceAddr K name s)"
  unfolding assignInterfaceAddr_def add_addr_def
  by (intro asks_intros) (auto simp: address_op_def)

text \<open>Source routing that has gone well: all rules, then all routes, and both are remembered.\<close>

lemma enableSourceRouting_ops:
  assumes "enableSourceRouting K l gw h = (Inr u, h')"
  shows "\<exists>rules routes.
    ops h' = ops h @ map (\<lambda>r. (OpRuleAdd r, True)) rules @ map (\<lambda>r. (OpRouteAdd r, True)) routes \<and>
    wgd h' = (wgd h)\<lparr>appendedSrcRules := rules, appendedSrcRoutes := routes\<rparr> \<and>
    (\<forall>r \<in> set routes. Dst r = Some everywhere \<and> IpSourceRouteTableBaseIdx \<le> Table r)"
proof -
  obtain addrs h1 where q: "query (AddrList K l FAMILY_V4) h = (Inr addrs, h1)"
    using assms by (auto simp: enableSourceRouting_def and_then_Inr)
  let ?rules = "map (\<lambda>(i, a). source_rule i a) (enumerate 0 addrs)"
  let ?routes = "map (\<lambda>(i, a). source_route l gw i) (enumerate 0 addrs)"
  obtain h2 h3 where
    a: "each_check (\<lambda>r. call (OpRuleAdd r) (RuleAdd K r)) ?rules h1 = (Inr (), h2)" and
    b: "each_check (\<lambda>r. call (OpRouteAdd r) (RouteAdd K r)) ?routes
          (h2\<lparr>wgd := (wgd h2)\<lparr>appendedSrcRules := ?rules\<rparr>\<rparr>) = (Inr (), h3)" and
    c: "h' = h3\<lparr>wgd := (wgd h3)\<lparr>appendedSrcRoutes := ?routes\<rparr>\<rparr>"
    using assms q
    by (auto simp: enableSourceRouting_def and_then_Inr set_wgd_stmt_def Let_def)
  have "Dst r = Some everywhere \<and> IpSourceRouteTableBaseIdx \<le> Table r" if "r \<in> set ?routes" for r
    using that by (auto simp: source_route_def)
  then show ?thesis
    using query_ops [OF q] each_check_ops [OF a] each_check_ops [OF b] c
    by (intro exI [of _ ?rules] exI [of _ ?routes]) (simp add: only_ops_def)
qed

lemma exclude_hosts_ops:
  assumes "exclude_hosts K l gw h = (Return u, h')"
  shows "(DefaultIFaceLink (wgd h) = None \<longrightarrow>
      (\<exists>s c. parse_cidr (prefix_String (ServerIP (wgd h))) = Inr s \<and>
             parse_cidr (prefix_String (ControlPlaneIP (wgd h))) = Inr c \<and>
         ops h' = ops h @ [(OpRouteAdd (host_route l gw s), True), (OpRouteAdd (host_route l gw c), True)] \<and>
         wgd h' = (wgd h)\<lparr>DefaultIFaceLink := Some l\<rparr>)) \<and>
    (DefaultIFaceLink (wgd h) \<noteq> None \<longrightarrow> h' = h)"
  using assms
  by (auto simp: exclude_hosts_def add_host_route_def set_wgd_def returned only_ops_def Let_def
      dest!: call_Inr split: sum.splits)

lemma parse_ips_ops:
  assumes "parse_ips sip cip h = (Return u, h')"
  shows "\<exists>s c. parse_prefix (sip @ ''/32'') = Inr s \<and> parse_prefix (cip @ ''/32'') = Inr c \<and>
    pfx_bits s = 32 \<and> pfx_bits c = 32 \<and> ops h' = ops h \<and>
    wgd h' = (wgd h)\<lparr>ServerIP := Some s, ControlPlaneIP := Some c\<rparr>"
  using assms
  by (auto simp: parse_ips_def parse_host_def set_wgd_def returned parse_host_bits split: sum.splits)

lemma flush_routes_ops:
  assumes "flush_routes K l h = (Return u, h')"
  shows "\<exists>rs. only_ops h h' (map (\<lambda>r. (OpRouteDel r, True)) rs)"
  using assms by (auto simp: flush_routes_def returned only_ops_def dest!: query_ops each_must_ops)

lemma open_wgctrl_ops: "open_wgctrl K h = (Return u, h') \<Longrightarrow> only_ops h h' []"
  by (auto simp: open_wgctrl_def returned only_ops_def dest!: query_ops)

lemma configure_ops:
  assumes "configure K conf h = (Return u, h')"
  shows "\<exists>b. only_ops h h' [(OpConfigure (InterfaceName (wgd h)) conf, b)]"
  using assms configure_device_ops by (auto simp: configure_def bind_Return asks_Return)

lemma must_key_Return [returned]: "must_key K s h = (Return k, h') \<longleftrightarrow> ParseKey K s = Inr k \<and> h' = h"
  by (auto simp: must_key_def returned split: sum.splits)

lemma add_tunnel_routes_ops:
  assumes "add_tunnel_routes K l h = (Return u, h')"
  shows "ops h' = ops h @ map (\<lambda>r. (OpRouteAdd r, True)) (tunnel_routes l) \<and>
    wgd h' = (wgd h)\<lparr>appendedRoutes := tunnel_routes l\<rparr>"
  using assms
  by (auto simp: add_tunnel_routes_def set_wgd_def returned only_ops_def simp del: each.simps
      dest!: each_must_ops)

section \<open>A client's connection\<close>

lemma UpdateClientConf_steps:
  assumes "UpdateClientConf K conf cp h = (Return u, h')"
  obtains l iface gw pri pub r u1 u2 u3 u4 u5 u6 u7 h1 h2 h3 h4 h5 h6 h7 h8 h9 h10 where
    "bring_up K (InterfaceName (wgd h)) h = (Return l, h1)"
    "parse_ips (cw_ServerIp conf) cp h1 = (Return u1, h2)"
    "findDefaultInterface K h2 = (Inr (iface, gw), h3)"
    "exclude_hosts K iface gw h3 = (Return u2, h4)"
    "flush_routes K l h4 = (Return u3, h5)"
    "enableSourceRouting K iface gw h5 = (Inr u4, h6)"
    "assignInterfaceAddr K (InterfaceName (wgd h)) (cw_ClientIp conf @ cw_ClientCidr conf) h6 = (Return r, h7)"
    "open_wgctrl K h7 = (Return u5, h8)"
    "ParseKey K (ClientPrivateKey conf) = Inr pri" "ParseKey K (cw_ServerPublicKey conf) = Inr pub"
    "configure K (client_wg_config pri pub conf) h8 = (Return u6, h9)"
    "add_tunnel_routes K l h9 = (Return u7, h10)"
    "h' = h10\<lparr>wgd := (wgd h10)\<lparr>vpnServerMode := False\<rparr>\<rparr>"
  using assms unfolding UpdateClientConf_def set_wgd_def
  by (simp only: bind_Return then_do_Return asks_Return must_Return must_key_Return modify_Return)
    (auto simp: bind_Return then_do_Return must_Return must_key_Return modify_Return)

lemma client_connection_log:
  assumes "UpdateClientConf K conf cp h = (Return u, h')"
  shows "\<exists>l iface gw s c flushed rules routes addr pri pub b.
    parse_prefix (cw_ServerIp conf @ ''/32'') = Inr s \<and> parse_prefix (cp @ ''/32'') = Inr c \<and>
    ParseKey K (ClientPrivateKey conf) = Inr pri \<and> ParseKey K (cw_ServerPublicKey conf) = Inr pub \<and>
    ops h' = ops h @ [(OpLinkSetUp l, True), (OpDeviceUp, True)] @
      (if DefaultIFaceLink (wgd h) = None
       then [(OpRouteAdd (host_route iface gw s), True), (OpRouteAdd (host_route iface gw c), True)]
       else []) @
      map (\<lambda>r. (OpRouteDel r, True)) flushed @
      map (\<lambda>r. (OpRuleAdd r, True)) rules @ map (\<lambda>r. (OpRouteAdd r, True)) routes @ addr @
      [(OpConfigure (InterfaceName (wgd h)) (client_wg_config pri pub conf), b),
       (OpRouteAdd (tunnel_route l (half 0)), True), (OpRouteAdd (tunnel_route l (half 2147483648)), True)] \<and>
    (\<forall>x \<in> set addr. address_op (fst x)) \<and>
    (\<forall>r \<in> set routes. Dst r = Some everywhere \<and> IpSourceRouteTableBaseIdx \<le> Table r) \<and>
    wgd h' = (wgd h)\<lparr>DefaultIFaceLink := Some (case DefaultIFaceLink (wgd h) of None \<Rightarrow> iface | Some i \<Rightarrow> i),
      ServerIP := Some s, ControlPlaneIP := Some c, appendedRoutes := tunnel_routes l,
      appendedSrcRules := rules, appendedSrcRoutes := routes, vpnServerMode := False\<rparr>"
  using assms
proof (rule UpdateClientConf_steps)
  fix l iface gw pri pub r u1 u2 u3 u4 u5 u6 u7 h1 h2 h3 h4 h5 h6 h7 h8 h9 h10
  assume
    s1: "bring_up K (InterfaceName (wgd h)) h = (Return l, h1)" and
    s2: "parse_ips (cw_ServerIp conf) cp h1 = (Return u1, h2)" and
    s3: "findDefaultInterface K h2 = (Inr (iface, gw), h3)" and
    s4: "exclude_hosts K iface gw h3 = (Return u2, h4)" and
    s5: "flush_routes K l h4 = (Return u3, h5)" and
    s6: "enableSourceRouting K iface gw h5 = (Inr u4, h6)" and
    s7: "assignInterfaceAddr K (InterfaceName (wgd h)) (cw_ClientIp conf @ cw_ClientCidr conf) h6
          = (Return r, h7)" and
    s8: "open_wgctrl K h7 = (Return u5, h8)" and
    keys: "ParseKey K (ClientPrivateKey conf) = Inr pri" "ParseKey K (cw_ServerPublicKey conf) = Inr pub" and
    s9: "configure K (client_wg_config pri pub conf) h8 = (Return u6, h9)" and
    s10: "add_tunnel_routes K l h9 = (Return u7, h10)" and
    h': "h' = h10\<lparr>wgd := (wgd h10)\<lparr>vpnServerMode := False\<rparr>\<rparr>"
  note o1 = bring_up_ops [OF s1] and o3 = findDefaultInterface_ops [OF s3]
  obtain s c where o2: "parse_prefix (cw_ServerIp conf @ ''/32'') = Inr s"
    "parse_prefix (cp @ ''/32'') = Inr c" "pfx_bits s = 32" "pfx_bits c = 32" "ops h2 = ops h1"
    "wgd h2 = (wgd h1)\<lparr>ServerIP := Some s, ControlPlaneIP := Some c\<rparr>"
    using parse_ips_ops [OF s2] by blast
  have w3: "wgd h3 = (wgd h)\<lparr>ServerIP := Some s, ControlPlaneIP := Some c\<rparr>"
    and p3: "ops h3 = ops h @ [(OpLinkSetUp l, True), (OpDeviceUp, True)]"
    using o1 o2 o3 by (simp_all add: only_ops_def)
  have w4: "wgd h4 = (wgd h)\<lparr>ServerIP := Some s, ControlPlaneIP := Some c,
      DefaultIFaceLink := Some (case DefaultIFaceLink (wgd h) of None \<Rightarrow> iface | Some i \<Rightarrow> i)\<rparr>"
    and p4: "ops h4 = ops h3 @ (if DefaultIFaceLink (wgd h) = None
       then [(OpRouteAdd (host_route iface gw s), True), (OpRouteAdd (host_route iface gw c), True)] else [])"
    using exclude_hosts_ops [OF s4] w3 o2(3,4) by (cases "DefaultIFaceLink (wgd h)"; simp)+
  obtain flushed where o5: "only_ops h4 h5 (map (\<lambda>r. (OpRouteDel r, True)) flushed)"
    using flush_routes_ops [OF s5] by blast
  obtain rules routes where o6:
    "ops h6 = ops h5 @ map (\<lambda>r. (OpRuleAdd r, True)) rules @ map (\<lambda>r. (OpRouteAdd r, True)) routes"
    "wgd h6 = (wgd h5)\<lparr>appendedSrcRules := rules, appendedSrcRoutes := routes\<rparr>"
    "\<forall>r \<in> set routes. Dst r = Some everywhere \<and> IpSourceRouteTableBaseIdx \<le> Table r"
    using enableSourceRouting_ops [OF s6] by blast
  obtain addr where o7: "only_ops h6 h7 addr" "\<forall>x \<in> set addr. address_op (fst x)"
    using only_asksD [OF assignInterfaceAddr_asks s7] by blast
  note o8 = open_wgctrl_ops [OF s8]
  obtain b where o9: "only_ops h8 h9 [(OpConfigure (InterfaceName (wgd h8)) (client_wg_config pri pub conf), b)]"
    using configure_ops [OF s9] by blast
  note o10 = add_tunnel_routes_ops [OF s10]
  have n: "InterfaceName (wgd h8) = InterfaceName (wgd h)"
    using o5 o6(2) o7(1) o8 w4 by (simp add: only_ops_def)
  have w: "wgd h' = (wgd h)\<lparr>DefaultIFaceLink := Some (case DefaultIFaceLink (wgd h) of None \<Rightarrow> iface | Some i \<Rightarrow> i),
      ServerIP := Some s, ControlPlaneIP := Some c, appendedRoutes := tunnel_routes l,
      appendedSrcRules := rules, appendedSrcRoutes := routes, vpnServerMode := False\<rparr>"
    using o5 o6(2) o7(1) o8 o9 o10 w4 h' by (simp add: only_ops_def)
  have p: "ops h' = ops h @ [(OpLinkSetUp l, True), (OpDeviceUp, True)] @
      (if DefaultIFaceLink (wgd h) = None
       then [(OpRouteAdd (host_route iface gw s), True), (OpRouteAdd (host_route iface gw c), True)]
       else []) @
      map (\<lambda>r. (OpRouteDel r, True)) flushed @
      map (\<lambda>r. (OpRuleAdd r, True)) rules @ map (\<lambda>r. (OpRouteAdd r, True)) routes @ addr @
      [(OpConfigure (InterfaceName (wgd h)) (client_wg_config pri pub conf), b),
       (OpRouteAdd (tunnel_route l (half 0)), True), (OpRouteAdd (tunnel_route l (half 2147483648)), True)]"
    using p3 p4 o5 o6(1) o7(1) o8 o9 o10 h' n by (simp add: only_ops_def tunnel_routes_def)
  show ?thesis
    by (intro exI conjI) (rule o2(1) o2(2) keys p o7(2) o6(3) w)+
qed

text \<open>
  A first connection that succeeds asks the system for exactly this, in this order: the
  interface and the device up; the routes to the server and to the control plane past the tunnel;
  the routes of the interface flushed; the source rules and routes, in tables of their own; the
  address; the configuration with the server as the only peer; and only then the two routes that
  send all of IPv4 into the tunnel.  So the session that issued the command is never cut off by the
  tunnel.
\<close>

theorem first_connection_log:
  assumes "UpdateClientConf K conf cp h = (Return u, h')" and "DefaultIFaceLink (wgd h) = None"
  shows "\<exists>l iface gw s c flushed rules routes addr pri pub b.
    parse_prefix (cw_ServerIp conf @ ''/32'') = Inr s \<and> parse_prefix (cp @ ''/32'') = Inr c \<and>
    ParseKey K (ClientPrivateKey conf) = Inr pri \<and> ParseKey K (cw_ServerPublicKey conf) = Inr pub \<and>
    new_ops h h' = [(OpLinkSetUp l, True), (OpDeviceUp, True),
       (OpRouteAdd (host_route iface gw s), True), (OpRouteAdd (host_route iface gw c), True)] @
      map (\<lambda>r. (OpRouteDel r, True)) flushed @
      map (\<lambda>r. (OpRuleAdd r, True)) rules @ map (\<lambda>r. (OpRouteAdd r, True)) routes @ addr @
      [(OpConfigure (InterfaceName (wgd h)) (client_wg_config pri pub conf), b),
       (OpRouteAdd (tunnel_route l (half 0)), True), (OpRouteAdd (tunnel_route l (half 2147483648)), True)] \<and>
    (\<forall>x \<in> set addr. address_op (fst x)) \<and>
    (\<forall>r \<in> set routes. Dst r = Some everywhere \<and> IpSourceRouteTableBaseIdx \<le> Table r)"
  using client_connection_log [OF assms(1)] unfolding new_ops_def assms(2)
  by (elim exE conjE, intro exI conjI) (assumption | simp)+

lemma connection_route_adds:
  assumes "UpdateClientConf K conf cp h = (Return u, h')" and "(OpRouteAdd r, b) \<in> set (new_ops h h')"
  shows "(DefaultIFaceLink (wgd h) = None \<and>
      (\<exists>iface gw n. r = host_route iface gw n \<and> (ServerIP (wgd h') = Some n \<or> ControlPlaneIP (wgd h') = Some n))) \<or>
    r \<in> set (appendedSrcRoutes (wgd h')) \<and> Dst r = Some everywhere \<or>
    r \<in> set (appendedRoutes (wgd h')) \<and> Dst r \<in> {Some (half 0), Some (half 2147483648)}"
proof -
  obtain l iface gw s c flushed rules routes addr pri pub b' where
    log: "ops h' = ops h @ [(OpLinkSetUp l, True), (OpDeviceUp, True)] @
      (if DefaultIFaceLink (wgd h) = None
       then [(OpRouteAdd (host_route iface gw s), True), (OpRouteAdd (host_route iface gw c), True)]
       else []) @
      map (\<lambda>r. (OpRouteDel r, True)) flushed @
      map (\<lambda>r. (OpRuleAdd r, True)) rules @ map (\<lambda>r. (OpRouteAdd r, True)) routes @ addr @
      [(OpConfigure (InterfaceName (wgd h)) (client_wg_config pri pub conf), b'),
       (OpRouteAdd (tunnel_route l (half 0)), True), (OpRouteAdd (tunnel_route l (half 2147483648)), True)]"
    and addr: "\<forall>x \<in> set addr. address_op (fst x)"
    and routes: "\<forall>r \<in> set routes. Dst r = Some everywhere \<and> IpSourceRouteTableBaseIdx \<le> Table r"
    and w: "wgd h' = (wgd h)\<lparr>DefaultIFaceLink := Some (case DefaultIFaceLink (wgd h) of None \<Rightarrow> iface | Some i \<Rightarrow> i),
      ServerIP := Some s, ControlPlaneIP := Some c, appendedRoutes := tunnel_routes l,
      appendedSrcRules := rules, appendedSrcRoutes := routes, vpnServerMode := False\<rparr>"
    using client_connection_log [OF assms(1)] by blast
  have "(OpRouteAdd r, b) \<notin> set addr" using addr by (auto simp: address_op_def)
  then show ?thesis
    using assms(2) routes unfolding new_ops_append [OF log] w
    by (auto simp: tunnel_routes_def tunnel_route_def split: if_splits)
qed

lemma connection_rule_adds:
  assumes "UpdateClientConf K conf cp h = (Return u, h')" and "(OpRuleAdd r, b) \<in> set (new_ops h h')"
  shows "r \<in> set (appendedSrcRules (wgd h'))"
  using client_connection_log [OF assms(1)]
proof (elim exE conjE)
  fix l iface gw s c flushed rules routes addr pri pub b'
  assume log: "ops h' = ops h @ [(OpLinkSetUp l, True), (OpDeviceUp, True)] @
      (if DefaultIFaceLink (wgd h) = None
       then [(OpRouteAdd (host_route iface gw s), True), (OpRouteAdd (host_route iface gw c), True)]
       else []) @
      map (\<lambda>r. (OpRouteDel r, True)) flushed @
      map (\<lambda>r. (OpRuleAdd r, True)) rules @ map (\<lambda>r. (OpRouteAdd r, True)) routes @ addr @
      [(OpConfigure (InterfaceName (wgd h)) (client_wg_config pri pub conf), b'),
       (OpRouteAdd (tunnel_route l (half 0)), True), (OpRouteAdd (tunnel_route l (half 2147483648)), True)]"
    and addr: "\<forall>x \<in> set addr. address_op (fst x)"
    and w: "wgd h' = (wgd h)\<lparr>DefaultIFaceLink := Some (case DefaultIFaceLink (wgd h) of None \<Rightarrow> iface | Some i \<Rightarrow> i),
      ServerIP := Some s, ControlPlaneIP := Some c, appendedRoutes := tunnel_routes l,
      appendedSrcRules := rules, appendedSrcRoutes := routes, vpnServerMode := False\<rparr>"
  have "(OpRuleAdd r, b) \<notin> set addr" using addr by (auto simp: address_op_def)
  then show ?thesis
    using assms(2) unfolding new_ops_append [OF log] w by (auto split: if_splits)
qed

text \<open>
  On any later connection the daemon adds no route to the server or to the control plane, even
  when it is told another server: the only routes it adds are the source routes and the two tunnel
  halves.  So the packets to the new server would be sent into the tunnel they carry.
\<close>

theorem later_connection_no_host_route:
  assumes "UpdateClientConf K conf cp h = (Return u, h')" and "DefaultIFaceLink (wgd h) = Some i"
    and "(OpRouteAdd r, b) \<in> set (new_ops h h')"
  shows "Dst r \<in> {Some everywhere, Some (half 0), Some (half 2147483648)} \<and>
    (\<exists>s. parse_prefix (cw_ServerIp conf @ ''/32'') = Inr s \<and> ServerIP (wgd h') = Some s \<and> Dst r \<noteq> Some s)"
proof -
  obtain s where s: "parse_prefix (cw_ServerIp conf @ ''/32'') = Inr s" "ServerIP (wgd h') = Some s"
    using client_connection_log [OF assms(1)] by auto
  then have "pfx_bits s = 32" using parse_host_bits by blast
  moreover have "Dst r \<in> {Some everywhere, Some (half 0), Some (half 2147483648)}"
    using connection_route_adds [OF assms(1,3)] assms(2) by auto
  ultimately show ?thesis using s by (auto simp: everywhere_def half_def)
qed

section \<open>Disconnecting\<close>

lemma stopSourceRouting_succeeds:
  assumes "stopSourceRouting K h = (r, h')" and "\<forall>x \<in> set (new_ops h h'). snd x"
  shows "only_ops h h' (map (\<lambda>r. (OpRouteDel r, True)) (appendedSrcRoutes (wgd h)) @
    map (\<lambda>r. (OpRuleDel r, True)) (appendedSrcRules (wgd h)))"
proof -
  let ?routes = "each_check (\<lambda>r. call (OpRouteDel r) (RouteDel K r)) (appendedSrcRoutes (wgd h))"
  let ?rules = "each_check (\<lambda>r. call (OpRuleDel r) (RuleDel K r)) (appendedSrcRules (wgd h))"
  obtain r1 h1 where a: "?routes h = (r1, h1)" by fastforce
  obtain ys where ys: "only_ops h h1 ys"
    using each_check_any [OF a] by blast
  have end_: "\<exists>zs. only_ops h1 h' zs"
  proof (cases r1)
    case (Inl e)
    then show ?thesis
      using assms(1) a by (intro exI [of _ "[]"]) (auto simp: stopSourceRouting_def and_then_def)
  next
    case (Inr u)
    then have "?rules h1 = (r, h')" using assms(1) a by (simp add: stopSourceRouting_def and_then_def)
    then show ?thesis by (rule each_check_any)
  qed
  then have ok1: "\<forall>x \<in> set (new_ops h h1). snd x" and ok2: "\<forall>x \<in> set (new_ops h1 h'). snd x"
    using assms(2) ys by (auto simp: new_ops_def only_ops_def)
  have r1: "r1 = Inr ()" and o1: "only_ops h h1 (map (\<lambda>r. (OpRouteDel r, True)) (appendedSrcRoutes (wgd h)))"
    using each_check_succeeds [OF a ok1] by simp_all
  then have b: "?rules h1 = (r, h')" using assms(1) a by (simp add: stopSourceRouting_def and_then_def)
  show ?thesis using only_ops_trans [OF o1] each_check_succeeds [OF b ok2] by blast
qed

lemma stopSourceRouting_any:
  assumes "stopSourceRouting K h = (r, h')"
  shows "\<exists>zs. only_ops h h' zs"
proof -
  have "only_asks (\<lambda>_. True)
      (and_then (each_check (\<lambda>r. call (OpRouteDel r) (RouteDel K r)) (appendedSrcRoutes (wgd h))) (\<lambda>_.
         each_check (\<lambda>r. call (OpRuleDel r) (RuleDel K r)) (appendedSrcRules (wgd h))))"
    by (intro asks_intros) simp_all
  from only_asksD [OF this assms [unfolded stopSourceRouting_def]] show ?thesis by blast
qed

lemma delete_appended_ops:
  assumes "delete_appended K h = (Return u, h')"
  shows "\<exists>bs. length bs = length (appendedRoutes (wgd h)) \<and>
    only_ops h h' (zip (map OpRouteDel (appendedRoutes (wgd h))) bs)"
  using assms each_warn_ops by (auto simp: delete_appended_def returned)

lemma zip_all_True:
  "length bs = length xs \<Longrightarrow> \<forall>x \<in> set (zip (map f xs) bs). snd x \<Longrightarrow> zip (map f xs) bs = map (\<lambda>x. (f x, True)) xs"
  by (induction bs xs rule: list_induct2) auto

text \<open>What a disconnection has done when everything it has asked for has succeeded.\<close>

lemma disconnect_ops:
  assumes "Disconnect K h1 = (Return v, h2)" and "\<not> vpnServerMode (wgd h1)" and "\<forall>x \<in> set (new_ops h1 h2). snd x"
  shows "new_ops h1 h2 = (OpDeviceDown, True) # map (\<lambda>r. (OpRouteDel r, True)) (appendedRoutes (wgd h1)) @
      map (\<lambda>r. (OpRouteDel r, True)) (appendedSrcRoutes (wgd h1)) @
      map (\<lambda>r. (OpRuleDel r, True)) (appendedSrcRules (wgd h1))"
    and "appendedRoutes (wgd h2) = []"
proof -
  obtain u1 k1 where d: "call OpDeviceDown (DeviceDown K) h1 = (Inr u1, k1)" and dev: "has_device (wgd h1)"
    and rest: "then_do (stop_forwarding K) (then_do (delete_appended K)
      (then_do (set_wgd (\<lambda>d. d\<lparr>appendedRoutes := []\<rparr>)) (warn (stopSourceRouting K)))) k1 = (Return v, h2)"
    using assms(1) by (auto simp: Disconnect_def on_device_def returned)
  have o1: "only_ops h1 k1 [(OpDeviceDown, True)]" using d by (rule call_Inr)
  then have w1: "wgd k1 = wgd h1" by (simp add: only_ops_def)
  obtain u2 k2 r where a: "delete_appended K k1 = (Return u2, k2)"
    and b: "stopSourceRouting K (k2\<lparr>wgd := (wgd k2)\<lparr>appendedRoutes := []\<rparr>\<rparr>) = (r, h2)"
    using rest assms(2) by (auto simp: stop_forwarding_def set_wgd_def returned w1)
  let ?k3 = "k2\<lparr>wgd := (wgd k2)\<lparr>appendedRoutes := []\<rparr>\<rparr>"
  obtain bs where bs: "length bs = length (appendedRoutes (wgd h1))"
    and o2: "only_ops k1 k2 (zip (map OpRouteDel (appendedRoutes (wgd h1))) bs)"
    using delete_appended_ops [OF a] w1 by auto
  have w2: "wgd k2 = wgd h1" using o2 w1 by (simp add: only_ops_def)
  obtain zs where zs: "only_ops ?k3 h2 zs" using stopSourceRouting_any [OF b] by blast
  have new: "new_ops h1 h2 =
      (OpDeviceDown, True) # zip (map OpRouteDel (appendedRoutes (wgd h1))) bs @ zs"
    using o1 o2 zs by (simp add: new_ops_def only_ops_def)
  have "\<forall>x \<in> set (new_ops ?k3 h2). snd x"
    using assms(3) zs unfolding new by (simp add: new_ops_def only_ops_def)
  from stopSourceRouting_succeeds [OF b this]
  have zs': "zs = map (\<lambda>r. (OpRouteDel r, True)) (appendedSrcRoutes (wgd h1)) @
      map (\<lambda>r. (OpRuleDel r, True)) (appendedSrcRules (wgd h1))"
    using zs w2 by (simp add: only_ops_def)
  have "\<forall>x \<in> set (zip (map OpRouteDel (appendedRoutes (wgd h1))) bs). snd x"
    using assms(3) unfolding new by simp
  from zip_all_True [OF bs this] show "new_ops h1 h2 = (OpDeviceDown, True) #
      map (\<lambda>r. (OpRouteDel r, True)) (appendedRoutes (wgd h1)) @
      map (\<lambda>r. (OpRouteDel r, True)) (appendedSrcRoutes (wgd h1)) @
      map (\<lambda>r. (OpRuleDel r, True)) (appendedSrcRules (wgd h1))"
    by (simp add: new zs')
  show "appendedRoutes (wgd h2) = []" using zs w2 by (simp add: only_ops_def)
qed

text \<open>
  C9: When every request of a disconnection succeeds, it takes back what the connection has added:
  both tunnel routes, every source route and every source rule are deleted.  Only the two routes
  past the tunnel stay, until the daemon shuts down.
\<close>

theorem connect_disconnect_balanced:
  assumes "UpdateClientConf K conf cp h = (Return u, h1)" and "Disconnect K h1 = (Return v, h2)"
    and "\<forall>x \<in> set (new_ops h1 h2). snd x"
  shows "(\<forall>r. (OpRouteAdd r, True) \<in> set (new_ops h h1) \<longrightarrow>
      (OpRouteDel r, True) \<in> set (new_ops h1 h2) \<or>
      (\<exists>iface gw n. r = host_route iface gw n \<and>
         (ServerIP (wgd h1) = Some n \<or> ControlPlaneIP (wgd h1) = Some n))) \<and>
    (\<forall>r. (OpRuleAdd r, True) \<in> set (new_ops h h1) \<longrightarrow> (OpRuleDel r, True) \<in> set (new_ops h1 h2)) \<and>
    appendedRoutes (wgd h2) = []"
proof -
  have "\<not> vpnServerMode (wgd h1)" using client_connection_log [OF assms(1)] by auto
  note ops = disconnect_ops [OF assms(2) this assms(3)]
  have "(OpRouteDel r, True) \<in> set (new_ops h1 h2)"
    if "r \<in> set (appendedRoutes (wgd h1)) \<or> r \<in> set (appendedSrcRoutes (wgd h1))" for r
    using that by (auto simp: ops(1))
  moreover have "(OpRuleDel r, True) \<in> set (new_ops h1 h2)" if "(OpRuleAdd r, True) \<in> set (new_ops h h1)" for r
    using that connection_rule_adds [OF assms(1)] by (simp add: ops(1))
  ultimately show ?thesis using connection_route_adds [OF assms(1)] ops(2) by blast
qed

section \<open>Serving\<close>

definition forwarding :: "string \<Rightarrow> link \<Rightarrow> ipt_rule list" where
  "forwarding name l = [ForwardAccept name, MasqueradeOut (link_Name l)]"

lemma enableForwarding_ops:
  assumes "enableForwarding K h = (Return r, h')" and "DefaultIFaceLink (wgd h) = Some l"
  shows "wgd h' = wgd h \<and>
    (r = Inr () \<longrightarrow> ops h' = ops h @ map (\<lambda>x. (OpIptAppend x, True)) (forwarding (InterfaceName (wgd h)) l)) \<and>
    (\<exists>xs. ops h' = ops h @ xs \<and> fst ` set xs \<subseteq> OpIptAppend ` set (forwarding (InterfaceName (wgd h)) l))"
proof -
  let ?f = "ForwardAccept (InterfaceName (wgd h))" and ?m = "MasqueradeOut (link_Name l)"
  obtain r1 h1 where q: "query (IptablesNew K) h = (r1, h1)" by fastforce
  obtain r2 h2 where c: "call (OpIptAppend ?f) (IptablesAppend K ?f) h1 = (r2, h2)" by fastforce
  obtain r3 h3 where d: "call (OpIptAppend ?m) (IptablesAppend K ?m) h2 = (r3, h3)" by fastforce
  show ?thesis
    using assms q c d query_ops [OF q] call_ops [OF c] call_ops [OF d]
    by (cases r1; cases r2; cases r3)
      (auto simp: enableForwarding_def check_def attempt_def only_ops_def forwarding_def)
qed

lemma disableForwarding_ops:
  assumes "disableForwarding K h = (Return r, h')" and "DefaultIFaceLink (wgd h) = Some l"
  shows "wgd h' = wgd h \<and>
    (r = Inr () \<longrightarrow> ops h' = ops h @ map (\<lambda>x. (OpIptDelete x, True)) (forwarding (InterfaceName (wgd h)) l)) \<and>
    (\<exists>xs. ops h' = ops h @ xs)"
proof -
  let ?f = "ForwardAccept (InterfaceName (wgd h))" and ?m = "MasqueradeOut (link_Name l)"
  obtain r1 h1 where q: "query (IptablesNew K) h = (r1, h1)" by fastforce
  obtain r2 h2 where c: "call (OpIptDelete ?f) (IptablesDelete K ?f) h1 = (r2, h2)" by fastforce
  obtain r3 h3 where d: "call (OpIptDelete ?m) (IptablesDelete K ?m) h2 = (r3, h3)" by fastforce
  show ?thesis
    using assms q c d query_ops [OF q] call_ops [OF c] call_ops [OF d]
    by (cases r1; cases r2; cases r3)
      (auto simp: disableForwarding_def check_def attempt_def only_ops_def forwarding_def)
qed

lemma note_interface_ops:
  assumes "note_interface iface h = (Return u, h')"
  shows "ops h' = ops h \<and> wgd h' = (wgd h)\<lparr>DefaultIFaceLink :=
    Some (case DefaultIFaceLink (wgd h) of None \<Rightarrow> iface | Some i \<Rightarrow> i)\<rparr>"
  using assms by (auto simp: note_interface_def set_wgd_def returned)

lemma serve_log':
  assumes "UpdateServeConf K conf h = (Return u, h')"
  shows "\<exists>l iface addr pri b xs.
    ParseKey K (PrivateKey conf) = Inr pri \<and>
    new_ops h h' = [(OpLinkSetUp l, True), (OpDeviceUp, True)] @ addr @
      [(OpConfigure (InterfaceName (wgd h)) (serve_wg_config K pri conf), b)] @ xs \<and>
    (\<forall>x \<in> set addr. address_op (fst x)) \<and>
    DefaultIFaceLink (wgd h') = Some iface \<and>
    fst ` set xs \<subseteq> OpIptAppend ` set (forwarding (InterfaceName (wgd h)) iface) \<and>
    vpnServerMode (wgd h') \<and> ServerIP (wgd h') = ServerIP (wgd h) \<and>
    InterfaceName (wgd h') = InterfaceName (wgd h) \<and> has_device (wgd h') = has_device (wgd h) \<and>
    map pc_AllowedIPs (wc_Peers (serve_wg_config K pri conf)) =
      map (\<lambda>p. [(parse_ip (wp_AllowedIP p), 32)]) (sw_Peers conf)"
proof -
  obtain l h1 iface gw h2 u3 h3 r h4 u5 h5 pri u6 h6 r7 h7 where
    s1: "bring_up K ''rvpn0'' h = (Return l, h1)" and
    s2: "findDefaultInterface K h1 = (Inr (iface, gw), h2)" and
    s3: "note_interface iface h2 = (Return u3, h3)" and
    s4: "assignInterfaceAddr K (InterfaceName (wgd h3)) (InternalIp conf @ InternalCidr conf) h3 = (Return r, h4)" and
    s5: "open_wgctrl K h4 = (Return u5, h5)" and
    key: "ParseKey K (PrivateKey conf) = Inr pri" and
    s6: "configure K (serve_wg_config K pri conf) h5 = (Return u6, h6)" and
    s7: "enableForwarding K h6 = (Return r7, h7)" and
    h': "h' = h7\<lparr>wgd := (wgd h7)\<lparr>vpnServerMode := True\<rparr>\<rparr>"
    using assms unfolding UpdateServeConf_def set_wgd_def
    by (simp only: bind_Return then_do_Return asks_Return must_Return must_key_Return modify_Return)
      (auto simp: bind_Return then_do_Return must_Return must_key_Return modify_Return asks_Return)
  note o3 = note_interface_ops [OF s3]
  obtain addr where o4: "only_ops h3 h4 addr" "\<forall>x \<in> set addr. address_op (fst x)"
    using only_asksD [OF assignInterfaceAddr_asks s4] by blast
  obtain b where o6: "only_ops h5 h6 [(OpConfigure (InterfaceName (wgd h5)) (serve_wg_config K pri conf), b)]"
    using configure_ops [OF s6] by blast
  note o = bring_up_ops [OF s1] findDefaultInterface_ops [OF s2] open_wgctrl_ops [OF s5]
  let ?i = "case DefaultIFaceLink (wgd h) of None \<Rightarrow> iface | Some i \<Rightarrow> i"
  have w6: "wgd h6 = (wgd h)\<lparr>DefaultIFaceLink := Some ?i\<rparr>"
    and p6: "ops h6 = ops h @ [(OpLinkSetUp l, True), (OpDeviceUp, True)] @ addr @
      [(OpConfigure (InterfaceName (wgd h)) (serve_wg_config K pri conf), b)]"
    using o o3 o4(1) o6 by (simp_all add: only_ops_def)
  have "DefaultIFaceLink (wgd h6) = Some ?i" using w6 by simp
  from enableForwarding_ops [OF s7 this] obtain xs where xs: "ops h7 = ops h6 @ xs"
    "fst ` set xs \<subseteq> OpIptAppend ` set (forwarding (InterfaceName (wgd h)) ?i)" and w7: "wgd h7 = wgd h6"
    using w6 by auto
  have new: "new_ops h h' = [(OpLinkSetUp l, True), (OpDeviceUp, True)] @ addr @
      [(OpConfigure (InterfaceName (wgd h)) (serve_wg_config K pri conf), b)] @ xs"
    using p6 xs(1) h' by (simp add: new_ops_def)
  show ?thesis
    by (intro exI conjI) (rule key new o4(2) xs(2) | simp add: h' w7 w6 serve_wg_config_def serve_peer_def o_def)+
qed

lemma UpdateServeConf_keeps:
  assumes "UpdateServeConf K conf h = (Return u, h')"
  shows "ServerIP (wgd h') = ServerIP (wgd h) \<and> InterfaceName (wgd h') = InterfaceName (wgd h) \<and>
    has_device (wgd h') = has_device (wgd h)"
  using serve_log' [OF assms] by blast

text \<open>
  A daemon that has been told to serve has brought its interface up, given the device exactly
  one peer per connection it was told, each allowed its one address only, and has asked for
  forwarding after that; it remembers the default interface and that it serves.  A failed forwarding
  is only logged.
\<close>

theorem serve_log:
  assumes "UpdateServeConf K conf h = (Return u, h')"
  shows "\<exists>l iface addr pri b xs.
    ParseKey K (PrivateKey conf) = Inr pri \<and>
    new_ops h h' = [(OpLinkSetUp l, True), (OpDeviceUp, True)] @ addr @
      [(OpConfigure (InterfaceName (wgd h)) (serve_wg_config K pri conf), b)] @ xs \<and>
    (\<forall>x \<in> set addr. address_op (fst x)) \<and>
    DefaultIFaceLink (wgd h') = Some iface \<and>
    fst ` set xs \<subseteq> OpIptAppend ` set (forwarding (InterfaceName (wgd h)) iface) \<and>
    vpnServerMode (wgd h') \<and> ServerIP (wgd h') = ServerIP (wgd h) \<and>
    map pc_AllowedIPs (wc_Peers (serve_wg_config K pri conf)) =
      map (\<lambda>p. [(parse_ip (wp_AllowedIP p), 32)]) (sw_Peers conf)"
  using serve_log' [OF assms] by (elim exE conjE, intro exI conjI) assumption+

text \<open>The system has iptables.\<close>

definition has_iptables :: "'o linux_os \<Rightarrow> bool" where
  "has_iptables K \<longleftrightarrow> (\<forall>s. \<exists>s'. IptablesNew K s = (Inr (), s'))"

lemma disableForwarding_succeeds:
  assumes "has_iptables K" and "DefaultIFaceLink (wgd h) = Some l"
    and "disableForwarding K h = (Return r, h')" and "\<forall>xs. ops h' = ops h @ xs \<longrightarrow> (\<forall>x \<in> set xs. snd x)"
  shows "only_ops h h' (map (\<lambda>x. (OpIptDelete x, True)) (forwarding (InterfaceName (wgd h)) l))"
proof -
  let ?f = "ForwardAccept (InterfaceName (wgd h))" and ?m = "MasqueradeOut (link_Name l)"
  obtain s' where "IptablesNew K (host_os h) = (Inr (), s')" using assms(1) by (auto simp: has_iptables_def)
  then obtain h1 where q: "query (IptablesNew K) h = (Inr (), h1)" by (simp add: query_def)
  obtain r2 h2 where c: "call (OpIptDelete ?f) (IptablesDelete K ?f) h1 = (r2, h2)" by fastforce
  obtain r3 h3 where d: "call (OpIptDelete ?m) (IptablesDelete K ?m) h2 = (r3, h3)" by fastforce
  note o = query_ops [OF q] call_ops [OF c] call_ops [OF d]
  show ?thesis
  proof (cases r2)
    case (Inl e)
    then have "ops h' = ops h @ [(OpIptDelete ?f, False)]"
      using assms(2,3) q c o by (auto simp: disableForwarding_def check_def only_ops_def)
    then show ?thesis using assms(4) by auto
  next
    case (Inr u)
    then have "h' = h3" using assms(2,3) q c d by (auto simp: disableForwarding_def check_def attempt_def)
    then have "ops h' = ops h @ [(OpIptDelete ?f, True), (OpIptDelete ?m, case r3 of Inl _ \<Rightarrow> False | Inr _ \<Rightarrow> True)]"
      and "wgd h' = wgd h"
      using o Inr by (auto simp: only_ops_def)
    moreover from this have "case r3 of Inl _ \<Rightarrow> False | Inr _ \<Rightarrow> True" using assms(4) by auto
    ultimately show ?thesis by (simp add: only_ops_def forwarding_def)
  qed
qed

text \<open>
  When every request of a disconnection succeeds, a serving daemon deletes every forwarding rule
  it has added.  But it does not leave the serving mode: a second disconnection would ask for the
  same deletions again.
\<close>

theorem serve_disconnect_balanced:
  assumes "has_iptables K" and "UpdateServeConf K conf h = (Return u, h1)"
    and "Disconnect K h1 = (Return v, h2)" and "\<forall>x \<in> set (new_ops h1 h2). snd x"
  shows "(\<forall>x b. (OpIptAppend x, b) \<in> set (new_ops h h1) \<longrightarrow> (OpIptDelete x, True) \<in> set (new_ops h1 h2)) \<and>
    vpnServerMode (wgd h2)"
proof -
  obtain l iface addr pri b xs where
    new: "new_ops h h1 = [(OpLinkSetUp l, True), (OpDeviceUp, True)] @ addr @
      [(OpConfigure (InterfaceName (wgd h)) (serve_wg_config K pri conf), b)] @ xs" and
    addr: "\<forall>x \<in> set addr. address_op (fst x)" and
    iface: "DefaultIFaceLink (wgd h1) = Some iface" and
    xs: "fst ` set xs \<subseteq> OpIptAppend ` set (forwarding (InterfaceName (wgd h)) iface)" and
    mode: "vpnServerMode (wgd h1)"
    using serve_log' [OF assms(2)] by (elim exE conjE) (rule that, assumption+)
  have name: "InterfaceName (wgd h1) = InterfaceName (wgd h)" using UpdateServeConf_keeps [OF assms(2)] by simp
  obtain u1 k1 where d: "call OpDeviceDown (DeviceDown K) h1 = (Inr u1, k1)" and dev: "has_device (wgd h1)"
    and rest: "then_do (stop_forwarding K) (then_do (delete_appended K)
      (then_do (set_wgd (\<lambda>d. d\<lparr>appendedRoutes := []\<rparr>)) (warn (stopSourceRouting K)))) k1 = (Return v, h2)"
    using assms(3) by (auto simp: Disconnect_def on_device_def returned)
  have o1: "only_ops h1 k1 [(OpDeviceDown, True)]" using d by (rule call_Inr)
  then have w1: "wgd k1 = wgd h1" by (simp add: only_ops_def)
  obtain r k2 u3 k3 q where f: "disableForwarding K k1 = (Return r, k2)"
    and a: "delete_appended K k2 = (Return u3, k3)"
    and st: "stopSourceRouting K (k3\<lparr>wgd := (wgd k3)\<lparr>appendedRoutes := []\<rparr>\<rparr>) = (q, h2)"
    using rest mode by (auto simp: stop_forwarding_def set_wgd_def returned w1)
  have if1: "DefaultIFaceLink (wgd k1) = Some iface" using iface w1 by simp
  obtain ys where ys: "ops k2 = ops k1 @ ys" "wgd k2 = wgd k1"
    using disableForwarding_ops [OF f if1] by blast
  obtain zs where zs: "only_ops k2 k3 zs" using delete_appended_ops [OF a] by blast
  obtain vs where vs: "only_ops (k3\<lparr>wgd := (wgd k3)\<lparr>appendedRoutes := []\<rparr>\<rparr>) h2 vs"
    using stopSourceRouting_any [OF st] by blast
  have all: "new_ops h1 h2 = (OpDeviceDown, True) # ys @ zs @ vs"
    using o1 ys(1) zs vs by (simp add: new_ops_def only_ops_def)
  have "\<forall>xs. ops k2 = ops k1 @ xs \<longrightarrow> (\<forall>x \<in> set xs. snd x)" using assms(4) ys(1) unfolding all by auto
  from disableForwarding_succeeds [OF assms(1) if1 f this]
  have ys': "ys = map (\<lambda>x. (OpIptDelete x, True)) (forwarding (InterfaceName (wgd h)) iface)"
    using ys(1) w1 name by (simp add: only_ops_def)
  have "x \<in> set (forwarding (InterfaceName (wgd h)) iface)" if "(OpIptAppend x, b') \<in> set (new_ops h h1)" for x b'
    using that addr xs unfolding new by (force simp: address_op_def)
  moreover have "vpnServerMode (wgd h2)" using zs vs ys(2) w1 mode by (simp add: only_ops_def)
  ultimately show ?thesis unfolding all ys' by auto
qed

text \<open>
  A daemon that has only served - it has been started and told to serve, and has never
  connected as a client - dies in its shutdown: the server address it removes is the zero prefix,
  whose text does not parse, and \<open>log.Fatalf\<close> ends the process before the forwarding rules are
  deleted.
\<close>

theorem shutdown_after_serving_leaks:
  assumes "wgd h0 = NewWireguardDaemon" and "StartDevice K h0 = (Inr u, h1)"
    and "UpdateServeConf K conf h1 = (Return v, h2)"
  shows "\<exists>h3. ShutdownDevice K h2 = (Fatal, h3) \<and> (\<forall>x b. (OpIptDelete x, b) \<notin> set (new_ops h2 h3))"
proof -
  have w1: "ServerIP (wgd h1) = None" "has_device (wgd h1)"
    using assms(1,2)
    by (auto simp: StartDevice_def and_then_Inr set_wgd_stmt_def NewWireguardDaemon_def only_ops_def
        dest!: call_Inr)
  have w2: "ServerIP (wgd h2) = None" "has_device (wgd h2)"
    using UpdateServeConf_keeps [OF assms(3)] w1 by simp_all
  obtain r3 h3 where a: "call OpUapiClose (UapiClose K) h2 = (r3, h3)" by fastforce
  note o3 = call_ops [OF a]
  obtain r4 h4 where b: "call OpDeviceClose (DeviceClose K) h3 = (r4, h4)" by fastforce
  note o4 = call_ops [OF b]
  have w34: "wgd h3 = wgd h2" "wgd h4 = wgd h2" using o3 o4 by (simp_all add: only_ops_def)
  have "ShutdownDevice K h2 = (Fatal, h4)"
    using a b w2
    by (simp add: ShutdownDevice_def on_device_def then_do_def bind_def asks_def warn_def w34
        delete_host_route_def log_fatal_def)
  moreover have "(OpIptDelete x, b) \<notin> set (new_ops h2 h4)" for x b
    using o3 o4 by (auto simp: new_ops_def only_ops_def)
  ultimately show ?thesis by blast
qed

section \<open>The default interface\<close>

text \<open>The routes of all links, in the order the loops see them.\<close>

definition link_routes :: "(link \<Rightarrow> route list) \<Rightarrow> link list \<Rightarrow> (link \<times> route) list" where
  "link_routes rt ls = concat (map (\<lambda>l. map (Pair l) (rt l)) ls)"

lemma scan_links_fold:
  assumes "\<forall>l \<in> set ls. RouteList K l (host_os h) = (Inr (rt l), host_os h)"
  shows "scan_links K ls b h = (Inr (fold (\<lambda>(l, r). better_route l r) (link_routes rt ls) b), h)"
  using assms
proof (induction ls arbitrary: b)
  case (Cons l ls)
  have "query (RouteList K l) h = (Inr (rt l), h)" using Cons.prems by (simp add: query_def)
  moreover have "fold (\<lambda>(l, r). better_route l r) (map (Pair l) (rt l)) b = fold (better_route l) (rt l) b"
    by (simp add: fold_map o_def)
  ultimately show ?case
    using Cons by (simp add: and_then_def link_routes_def)
qed (simp add: ok_def link_routes_def)

lemma fold_better_route:
  assumes "fold (\<lambda>(l, r). better_route l r) ps (None, maxInt) = (found, m)"
  shows "(\<forall>(l, r) \<in> set ps. Dst r = None \<longrightarrow> m \<le> Priority r) \<and> m \<le> maxInt \<and>
    (case found of None \<Rightarrow> m = maxInt
     | Some (l, gw) \<Rightarrow> \<exists>r. (l, r) \<in> set ps \<and> Dst r = None \<and> gw = Gw r \<and> m = Priority r)"
  using assms
proof (induction ps arbitrary: found m rule: rev_induct)
  case (snoc p ps)
  obtain found0 m0 where 0: "fold (\<lambda>(l, r). better_route l r) ps (None, maxInt) = (found0, m0)"
    by fastforce
  note IH = snoc.IH [OF 0]
  obtain l r where p: "p = (l, r)" by fastforce
  have step: "(found, m) = better_route l r (found0, m0)" using snoc.prems 0 p by simp
  show ?case
  proof (cases "Dst r = None \<and> Priority r < m0")
    case True
    then have "found = Some (l, Gw r)" "m = Priority r" using step by (simp_all add: better_route_def)
    then show ?thesis using IH True p by (auto split: prod.splits)
  next
    case False
    then have "found = found0" "m = m0" using step by (auto simp: better_route_def split: if_splits)
    then show ?thesis using IH False p by (auto split: option.splits prod.splits) 
  qed
qed auto

text \<open>
  C28: The default interface is that of a default route with the least metric of all default routes
  of the system, and its gateway is that route's; there is no answer only when no default route has
  a metric below the largest integer.
\<close>

theorem default_interface_least:
  assumes "LinkList K (host_os h) = (Inr ls, host_os h)"
    and "\<forall>l \<in> set ls. RouteList K l (host_os h) = (Inr (rt l), host_os h)"
  shows "case findDefaultInterface K h of
      (Inr (l, gw), h') \<Rightarrow> h' = h \<and>
        (\<exists>r. l \<in> set ls \<and> r \<in> set (rt l) \<and> Dst r = None \<and> gw = Gw r \<and>
          (\<forall>l' \<in> set ls. \<forall>r' \<in> set (rt l'). Dst r' = None \<longrightarrow> Priority r \<le> Priority r'))
    | (Inl e, h') \<Rightarrow> h' = h \<and> e = NoDefaultInterface \<and>
        (\<forall>l' \<in> set ls. \<forall>r' \<in> set (rt l'). Dst r' = None \<longrightarrow> maxInt \<le> Priority r')"
proof -
  obtain found m where f: "fold (\<lambda>(l, r). better_route l r) (link_routes rt ls) (None, maxInt) = (found, m)"
    by fastforce
  have run: "findDefaultInterface K h = (case found of None \<Rightarrow> (Inl NoDefaultInterface, h) | Some x \<Rightarrow> (Inr x, h))"
    using assms(1) scan_links_fold [OF assms(2)] f
    by (simp add: findDefaultInterface_def query_def and_then_def fail_def ok_def split: option.split)
  have in_routes: "(l, r) \<in> set (link_routes rt ls) \<longleftrightarrow> l \<in> set ls \<and> r \<in> set (rt l)" for l r
    by (auto simp: link_routes_def)
  have all: "m \<le> Priority r" if "l \<in> set ls" "r \<in> set (rt l)" "Dst r = None" for l r
  proof -
    have "(l, r) \<in> set (link_routes rt ls)" using that in_routes by blast
    then have "case (l, r) of (l, r) \<Rightarrow> Dst r = None \<longrightarrow> m \<le> Priority r"
      using fold_better_route [OF f] by (elim conjE bspec)
    then show ?thesis using that by simp
  qed
  show ?thesis
  proof (cases found)
    case None
    then show ?thesis using fold_better_route [OF f] all by (auto simp: run)
  next
    case (Some x)
    then obtain l gw where x: "x = (l, gw)" by fastforce
    then obtain r where "l \<in> set ls" "r \<in> set (rt l)" "Dst r = None" "gw = Gw r" "m = Priority r"
      using fold_better_route [OF f] Some in_routes by auto
    then show ?thesis using Some x all by (auto simp: run intro!: exI [of _ r])
  qed
qed

section \<open>Fields that stay\<close>

lemma field_on_device [keeps_intros]: "keeps (field F v) m \<Longrightarrow> keeps (field F v) (on_device m)"
  unfolding on_device_def by (intro keeps_intros)

lemma field_stmt [keeps_intros]:
  "keeps (field F v) m \<Longrightarrow> (\<And>x. keeps (field F v) (f x)) \<Longrightarrow> keeps (field F v) (and_then m f)"
  by (rule keeps_and_then)

lemma field_default_interface [keeps_intros]: "keeps (field F v) (findDefaultInterface K)"
proof -
  have "keeps (field F v) (scan_links K ls b)" for ls b
  proof (induction ls arbitrary: b)
    case (Cons l ls)
    show ?case unfolding scan_links.simps by (intro keeps_intros Cons.IH)
  qed simp
  then show ?thesis
    unfolding findDefaultInterface_def by (intro keeps_intros) (auto split: option.split)
qed

lemma field_forwarding [keeps_intros]:
  "keeps (field F v) (enableForwarding K)" "keeps (field F v) (disableForwarding K)"
  by (rule keepsI; auto simp: enableForwarding_def disableForwarding_def check_def query_def call_def
      attempt_def panic_def field_def split: prod.splits sum.splits option.splits)+

lemma field_stopSourceRouting [keeps_intros]: "keeps (field F v) (stopSourceRouting K)"
proof (rule keepsI)
  fix h r h' assume "field F v h" and run: "stopSourceRouting K h = (r, h')"
  have "keeps (field F v) (and_then (each_check (\<lambda>r. call (OpRouteDel r) (RouteDel K r)) (appendedSrcRoutes (wgd h)))
      (\<lambda>_. each_check (\<lambda>r. call (OpRuleDel r) (RuleDel K r)) (appendedSrcRules (wgd h))))"
    by (intro keeps_intros)
  from keepsD [OF this \<open>field F v h\<close> run [unfolded stopSourceRouting_def]] show "field F v h'" .
qed

text \<open>The four operations beside a client's connection; the conditions say which fields they set.\<close>

lemma linux_fields:
  "(\<And>d x y. F (d\<lparr>has_device := x, InterfaceName := y\<rparr>) = F d) \<Longrightarrow> keeps (field F v) (StartDevice K)"
  "(\<And>d x. F (d\<lparr>DefaultIFaceLink := x\<rparr>) = F d) \<Longrightarrow> (\<And>d x. F (d\<lparr>vpnServerMode := x\<rparr>) = F d) \<Longrightarrow>
     keeps (field F v) (UpdateServeConf K conf)"
  "keeps (field F v) (AppendPeers K ps)"
  "(\<And>d x. F (d\<lparr>appendedRoutes := x\<rparr>) = F d) \<Longrightarrow> keeps (field F v) (Disconnect K)"
  unfolding StartDevice_def UpdateServeConf_def AppendPeers_def Disconnect_def bring_up_def note_interface_def
    assignInterfaceAddr_def add_addr_def open_wgctrl_def must_key_def configure_def stop_forwarding_def
    delete_appended_def
  by (intro keeps_intros; (simp | (rule sum.split [THEN iffD2], auto intro!: keeps_intros))?)+

section \<open>A small system\<close>

text \<open>
  A system in which every request succeeds, with one interface besides the tunnel and one default
  route, to apply the theorems on: it is started, connected twice, left, and made to serve.
\<close>

definition lab_default :: route where
  "lab_default = \<lparr>LinkIndex = 2, Dst = None, Gw = Some 3232235777, Table = 254, Priority = 100\<rparr>"

definition lab :: "unit linux_os" where
  "lab =
     \<lparr>LinkByName = (\<lambda>n. ok \<lparr>link_Name = n, link_Index = 5\<rparr>), LinkSetUp = (\<lambda>_. ok ()),
      LinkList = ok [\<lparr>link_Name = ''eth0'', link_Index = 2\<rparr>],
      RouteList = (\<lambda>l. ok (if link_Index l = 2 then [lab_default] else [])),
      RouteAdd = (\<lambda>_. ok ()), RouteDel = (\<lambda>_. ok ()), RuleAdd = (\<lambda>_. ok ()), RuleDel = (\<lambda>_. ok ()),
      AddrList = (\<lambda>l _. ok (if link_Index l = 2 then [\<lparr>pfx_addr = 3232235786, pfx_bits = 24\<rparr>] else [])),
      AddrDel = (\<lambda>_ _. ok ()), AddrAdd = (\<lambda>_ _. ok ()),
      CreateDevice = (\<lambda>_ _. ok ()), DeviceUp = ok (), DeviceDown = ok (), DeviceClose = ok (),
      UapiListen = (\<lambda>_. ok ()), UapiClose = ok (), WgctrlNew = ok (), WgctrlDevices = ok (),
      ConfigureDevice = (\<lambda>_ _. ok ()), IptablesNew = ok (), IptablesAppend = (\<lambda>_. ok ()),
      IptablesDelete = (\<lambda>_. ok ()), ParseKey = (\<lambda>s. Inr (Key s))\<rparr>"

definition lab_host :: "unit host" where
  "lab_host = \<lparr>wgd = NewWireguardDaemon, host_os = (), ops = []\<rparr>"

definition lab_started :: "unit host" where
  "lab_started = snd (StartDevice lab lab_host)"

definition lab_client :: ClientWgConfig where
  "lab_client =
     \<lparr>ClientPrivateKey = ''k1'', cw_ServerPublicKey = ''k2'', cw_ClientIp = ''10.8.0.2'',
      cw_ClientCidr = ''/24'', cw_ServerIp = ''9.9.9.9'', cw_ServerPort = 51820, cw_DnsIp = []\<rparr>"

definition lab_serve :: ServeWgConfig where
  "lab_serve =
     \<lparr>PrivateKey = ''k2'', ListenPort = 51820, InternalIp = ''10.8.0.1'', InternalCidr = ''/24'',
      sw_Peers = [\<lparr>wp_PublicKey = ''k1'', wp_AllowedIP = ''10.8.0.2'', wp_AllowedCidr = ''/32''\<rparr>]\<rparr>"

definition lab_connected :: "unit host" where
  "lab_connected = snd (UpdateClientConf lab lab_client ''1.2.3.4'' lab_started)"

definition lab_serving :: "unit host" where
  "lab_serving = snd (UpdateServeConf lab lab_serve lab_started)"

lemma lab_prefixes [simp]:
  "parse_prefix ''9.9.9.9/32'' = Inr \<lparr>pfx_addr = 151587081, pfx_bits = 32\<rparr>"
  "parse_prefix ''1.2.3.4/32'' = Inr \<lparr>pfx_addr = 16909060, pfx_bits = 32\<rparr>"
  "parse_prefix ''10.8.0.2/24'' = Inr \<lparr>pfx_addr = 168296450, pfx_bits = 24\<rparr>"
  "parse_prefix ''10.8.0.1/24'' = Inr \<lparr>pfx_addr = 168296449, pfx_bits = 24\<rparr>"
  by (rule parse_prefix_of_text, code_simp, simp)+

lemmas lab_eval = lab_def lab_default_def lab_host_def lab_client_def lab_serve_def NewWireguardDaemon_def

lemmas prog_eval = prog_run query_def call_def set_wgd_def set_wgd_stmt_def on_device_def
  configure_device_def

lemma lab_started_eq:
  "StartDevice lab lab_host = (Inr (), lab_started)"
  "DefaultIFaceLink (wgd lab_started) = None" "ServerIP (wgd lab_started) = None"
  "has_device (wgd lab_started)" "InterfaceName (wgd lab_started) = ''rvpn0''"
  "appendedRoutes (wgd lab_started) = []" "appendedSrcRoutes (wgd lab_started) = []"
  "appendedSrcRules (wgd lab_started) = []"
  by (simp_all add: lab_started_def StartDevice_def prog_eval lab_eval)

lemma lab_connects: "UpdateClientConf lab lab_client ''1.2.3.4'' lab_started = (Return (), lab_connected)"
  unfolding lab_connected_def
  by (simp add: lab_started_eq UpdateClientConf_def bring_up_def parse_ips_def parse_host_def
      findDefaultInterface_def better_route_def maxInt_def exclude_hosts_def add_host_route_def Let_def
      flush_routes_def enableSourceRouting_def assignInterfaceAddr_def add_addr_def open_wgctrl_def
      must_key_def configure_def add_tunnel_routes_def tunnel_routes_def prog_eval lab_eval)

lemma lab_serves: "UpdateServeConf lab lab_serve lab_started = (Return (), lab_serving)"
  unfolding lab_serving_def
  by (simp add: lab_started_eq UpdateServeConf_def bring_up_def note_interface_def
      findDefaultInterface_def better_route_def maxInt_def Let_def
      assignInterfaceAddr_def add_addr_def open_wgctrl_def
      must_key_def configure_def enableForwarding_def prog_eval lab_eval)

definition lab_later :: "unit host" where
  "lab_later = snd (UpdateClientConf lab lab_client ''1.2.3.4'' lab_connected)"

definition lab_left :: "unit host" where
  "lab_left = snd (Disconnect lab lab_connected)"

definition lab_stopped :: "unit host" where
  "lab_stopped = snd (Disconnect lab lab_serving)"

lemmas client_eval = UpdateClientConf_def bring_up_def parse_ips_def parse_host_def
  findDefaultInterface_def better_route_def maxInt_def exclude_hosts_def add_host_route_def Let_def
  flush_routes_def enableSourceRouting_def assignInterfaceAddr_def add_addr_def open_wgctrl_def
  must_key_def configure_def add_tunnel_routes_def tunnel_routes_def prog_eval lab_eval

lemma lab_connected_eq:
  "DefaultIFaceLink (wgd lab_connected) = Some \<lparr>link_Name = ''eth0'', link_Index = 2\<rparr>"
  "has_device (wgd lab_connected)" "InterfaceName (wgd lab_connected) = ''rvpn0''"
  by (simp_all add: lab_connected_def lab_started_eq client_eval)

lemma lab_later_connects: "UpdateClientConf lab lab_client ''1.2.3.4'' lab_connected = (Return (), lab_later)"
  unfolding lab_later_def by (simp add: lab_connected_eq client_eval)

lemma lab_leaves: "Disconnect lab lab_connected = (Return (), lab_left)"
  unfolding lab_left_def
  by (simp add: lab_connected_def lab_started_eq client_eval Disconnect_def stop_forwarding_def
      delete_appended_def stopSourceRouting_def)

lemma lab_leaves_ok: "\<forall>x \<in> set (new_ops lab_connected lab_left). snd x"
  unfolding lab_left_def
  by (simp add: new_ops_def lab_connected_def lab_started_eq client_eval Disconnect_def stop_forwarding_def
      delete_appended_def stopSourceRouting_def)

lemma lab_stops:
  "Disconnect lab lab_serving = (Return (), lab_stopped)"
  "\<forall>x \<in> set (new_ops lab_serving lab_stopped). snd x"
  unfolding lab_stopped_def
  by (simp_all add: new_ops_def lab_serving_def lab_started_eq UpdateServeConf_def bring_up_def
      note_interface_def findDefaultInterface_def better_route_def maxInt_def Let_def
      assignInterfaceAddr_def add_addr_def open_wgctrl_def must_key_def configure_def
      enableForwarding_def disableForwarding_def prog_eval lab_eval Disconnect_def stop_forwarding_def
      delete_appended_def stopSourceRouting_def)

theorem first_connection_log_witness:
  "UpdateClientConf lab lab_client ''1.2.3.4'' lab_started = (Return (), lab_connected) \<and>
   DefaultIFaceLink (wgd lab_started) = None \<and>
   (\<exists>l r1 r2 rest. new_ops lab_started lab_connected =
      (OpLinkSetUp l, True) # (OpDeviceUp, True) # (OpRouteAdd r1, True) # (OpRouteAdd r2, True) # rest)"
  using first_connection_log [OF lab_connects lab_started_eq(2)] lab_connects lab_started_eq(2) by auto

theorem later_connection_no_host_route_witness:
  "UpdateClientConf lab lab_client ''1.2.3.4'' lab_connected = (Return (), lab_later) \<and>
   (let r = tunnel_route \<lparr>link_Name = ''rvpn0'', link_Index = 5\<rparr> (half 0) in
      (OpRouteAdd r, True) \<in> set (new_ops lab_connected lab_later) \<and>
      Dst r \<in> {Some everywhere, Some (half 0), Some (half 2147483648)})"
proof -
  let ?r = "tunnel_route \<lparr>link_Name = ''rvpn0'', link_Index = 5\<rparr> (half 0)"
  have "(OpRouteAdd ?r, True) \<in> set (new_ops lab_connected lab_later)"
    unfolding lab_later_def by (simp add: new_ops_def lab_connected_eq client_eval)
  then show ?thesis
    using later_connection_no_host_route [OF lab_later_connects lab_connected_eq(1), of ?r True]
      lab_later_connects by (simp add: Let_def)
qed

theorem connect_disconnect_balanced_witness:
  "UpdateClientConf lab lab_client ''1.2.3.4'' lab_started = (Return (), lab_connected) \<and>
   Disconnect lab lab_connected = (Return (), lab_left) \<and>
   list_all snd (new_ops lab_connected lab_left) \<and> appendedRoutes (wgd lab_left) = []"
  unfolding list_all_iff using connect_disconnect_balanced [OF lab_connects lab_leaves lab_leaves_ok]
    lab_connects lab_leaves lab_leaves_ok by blast

theorem serve_log_witness:
  "UpdateServeConf lab lab_serve lab_started = (Return (), lab_serving) \<and> vpnServerMode (wgd lab_serving)"
  using serve_log [OF lab_serves] lab_serves by (elim exE conjE, intro conjI) assumption+

theorem serve_disconnect_balanced_witness:
  "has_iptables lab \<and> UpdateServeConf lab lab_serve lab_started = (Return (), lab_serving) \<and>
   Disconnect lab lab_serving = (Return (), lab_stopped) \<and>
   list_all snd (new_ops lab_serving lab_stopped) \<and> vpnServerMode (wgd lab_stopped)"
proof -
  have "has_iptables lab" by (simp add: has_iptables_def lab_def ok_def)
  then show ?thesis
    unfolding list_all_iff using serve_disconnect_balanced [OF _ lab_serves lab_stops] lab_serves lab_stops by blast
qed

theorem shutdown_after_serving_leaks_witness:
  "wgd lab_host = NewWireguardDaemon \<and> StartDevice lab lab_host = (Inr (), lab_started) \<and>
   UpdateServeConf lab lab_serve lab_started = (Return (), lab_serving) \<and>
   (\<exists>h3. ShutdownDevice lab lab_serving = (Fatal, h3))"
proof -
  have "wgd lab_host = NewWireguardDaemon" by (simp add: lab_host_def)
  then show ?thesis
    using shutdown_after_serving_leaks [OF _ lab_started_eq(1) lab_serves] lab_serves lab_started_eq(1)
    by blast
qed

theorem default_interface_least_witness:
  "LinkList lab (host_os lab_host) = (Inr [\<lparr>link_Name = ''eth0'', link_Index = 2\<rparr>], host_os lab_host) \<and>
   (\<exists>l gw. findDefaultInterface lab lab_host = (Inr (l, gw), lab_host))"
proof -
  let ?ls = "[\<lparr>link_Name = ''eth0'', link_Index = 2\<rparr>]"
  have a: "LinkList lab (host_os lab_host) = (Inr ?ls, host_os lab_host)"
    by (simp add: lab_def ok_def)
  have b: "\<forall>l \<in> set ?ls. RouteList lab l (host_os lab_host) = (Inr [lab_default], host_os lab_host)"
    by (simp add: lab_def ok_def)
  show ?thesis
    using a default_interface_least [OF a b]
    by (cases "findDefaultInterface lab lab_host"; cases "fst (findDefaultInterface lab lab_host)")
      (auto simp: lab_default_def maxInt_def)
qed

end
