(* ===== verification/Rvpn_Linux.thy ===== *)
theory Rvpn_Linux
  imports Rvpn_Daemon_Props Wg_Linux_Props
begin

text \<open>
  The rVPN daemon over the Linux WireGuard daemon: what a connected daemon has done to the system, how
  the shutdown of a daemon that has never connected ends, and what an IPv6 control plane does to it.
  The small system of \<open>Wg_Linux_Props\<close> is also the one on which the properties of
  \<open>Rvpn_Daemon_Props\<close> are applied.
\<close>

definition linux_wireguard :: "'o linux_os \<Rightarrow> 'o host wireguard" where
  "linux_wireguard K =
     \<lparr>wg_StartDevice = StartDevice K, wg_UpdateClientConf = UpdateClientConf K,
      wg_UpdateServeConf = UpdateServeConf K, wg_AppendPeers = AppendPeers K,
      wg_Disconnect = Disconnect K, wg_ShutdownDevice = ShutdownDevice K, can_serve = True\<rparr>"

section \<open>A connected daemon\<close>

lemma connect_server_returned:
  assumes "disk_sound (state_disk p)" and "Handle W G h c (rq_ConnectServer (Parsed r)) p = (Return (), p')"
  shows "\<exists>w. wg_UpdateClientConf G (user_config (held p) r) (controlPlaneAddr h) (wireguard p) = (Return (), w) \<and>
    has_wireguard (rvpn p) \<and> wireguard p' = w \<and> status (rvpn p') = StatusConnected"
proof -
  have load: "load_state c (SuccessResponse False) p = (Return (held p), p)"
    using load_state_run [OF assms(1)] by (simp add: held_def)
  obtain u1 p1 u2 p2 u3 p3 u4 p4 u5 p5 where
    1: "complain_if (st_PublicKey (held p) = [] \<or> st_PrivateKey (held p) = []) c p = (Return u1, p1)" and
    2: "complain_if (ClientPublicKey r \<noteq> st_PublicKey (held p)) c p1 = (Return u2, p2)" and
    3: "on_wg (wg_UpdateClientConf G (user_config (held p) r) (controlPlaneAddr h)) p2 = (Return u3, p3)" and
    4: "set_rvpn (\<lambda>r. r\<lparr>status := StatusConnected\<rparr>) p3 = (Return u4, p4)" and
    5: "reply c (SuccessResponse True) p4 = (Return u5, p5)" and
    6: "beat c p5 = (Return (), p')"
    using assms(2) unfolding Handle.simps handle_ConnectServer_def unmarshal_def params.case
      bind_step [where m = "load_state c (SuccessResponse False)", OF load]
    by (simp only: then_do_Return bind_Return ret_Return) blast
  have same: "wireguard p1 = wireguard p" "rvpn p1 = rvpn p" "wireguard p2 = wireguard p" "rvpn p2 = rvpn p"
    using 1 2 by (auto simp: complain_if_def ret_def split: if_splits)
  then show ?thesis
    using 3 4 5 6
    by (auto simp: on_wg_def set_rvpn_def beat_def modify_def split: if_splits prod.splits)
qed


section \<open>The shutdown of a daemon that has never connected\<close>

text \<open>Everything but a client's connection leaves the stored server address alone.\<close>

abbreviation no_server :: "'o host \<Rightarrow> bool" where
  "no_server \<equiv> field ServerIP None"

text \<open>The same of the process around it.\<close>

definition serverless :: "'o host process \<Rightarrow> bool" where
  "serverless p \<longleftrightarrow> no_server (wireguard p)"

lemma serverless_steps [keeps_intros]:
  "keeps serverless (reply c r)" "keeps serverless (on_disk m)" "keeps serverless (next_key_pair W)"
  "keeps serverless (set_rvpn f)" "keeps serverless (beat c)" "keeps serverless close_conn"
  "keeps serverless cancel_ctx"
  by (auto simp: keeps_def serverless_def reply_def on_disk_def next_key_pair_def set_rvpn_def modify_def beat_def
      close_conn_def cancel_ctx_def prog_run split: prod.splits option.splits)

lemma serverless_on_wg [keeps_intros]: "keeps no_server m \<Longrightarrow> keeps serverless (on_wg m)"
  by (auto simp: keeps_def serverless_def on_wg_def split: prod.splits)

lemma serverless_parts [keeps_intros]:
  "keeps serverless (load_state c f)" "keeps serverless (ensure_keys W c f s)"
  "keeps serverless (complain_if b c)"
  unfolding load_state_def ensure_keys_def complain_if_def Let_def by (intro keeps_intros)+

lemma serverless_unmarshal [keeps_intros]: "keeps serverless (unmarshal c x)"
  by (cases x) (auto simp: unmarshal_def intro!: keeps_intros)

lemma serverless_Handle:
  "\<forall>params. req \<noteq> rq_ConnectServer params \<Longrightarrow> keeps serverless (Handle W (linux_wireguard K) h c req)"
  by (cases req)
    (auto simp: handle_GetClientInformation_def handle_GetServeInformation_def serveVPNHandler_def
      appendVPNPeersHandler_def linux_wireguard_def Let_def intro!: keeps_intros linux_fields)

lemma serverless_open_channel: "keeps serverless (open_channel url profile token d)"
  unfolding open_channel_def
  by (intro keeps_intros) (auto simp: serverless_def split: option.split intro!: keeps_intros)

lemma serverless_daemon_step:
  assumes "\<forall>c params. e \<noteq> EvRequest c (rq_ConnectServer params)"
  shows "keeps serverless (daemon_step W (linux_wireguard K) e)"
proof (cases e)
  case (EvRequest c req)
  then have "keeps serverless (Handle W (linux_wireguard K) h c req)" for h
    using assms serverless_Handle by blast
  then show ?thesis using EvRequest by (auto intro!: keeps_intros)
qed (auto simp: GetState_def SetState_def Status_def Ping_def Connect_def Serve_def Disconnect_rpc_def
    linux_wireguard_def intro!: keeps_intros serverless_open_channel linux_fields)

lemma shutdown_without_server: "no_server h \<Longrightarrow> ShutdownDevice K h \<noteq> (Return u, h')"
proof
  assume none: "no_server h" and run: "ShutdownDevice K h = (Return u, h')"
  obtain r1 h1 r2 h2 where c1: "call OpUapiClose (UapiClose K) h = (r1, h1)"
    and c2: "call OpDeviceClose (DeviceClose K) h1 = (r2, h2)"
    and d: "\<exists>u h3. delete_host_route K (ServerIP (wgd h2)) h2 = (Return u, h3)"
    using run by (auto simp: ShutdownDevice_def on_device_def returned)
  have "ServerIP (wgd h2) = None"
    using none call_ops [OF c1] call_ops [OF c2] by (simp add: field_def only_ops_def)
  with d show False by (simp add: delete_host_route_def log_fatal_def)
qed

text \<open>
  A daemon that is started on a fresh system and is never told to connect as a client - one that
  idles, or only serves - cannot be stopped in order: its shutdown never gets past the route to a
  server address it does not have, so the process ends in \<open>log.Fatalf\<close> or a panic.
\<close>

theorem never_connected_never_stops_in_order:
  assumes "wgd h = NewWireguardDaemon" and "\<forall>e \<in> set es. \<forall>c params. e \<noteq> EvRequest c (rq_ConnectServer params)"
  shows "fst (Start W (linux_wireguard K) l es (new_process h d)) \<noteq> Return ()"
proof
  assume "fst (Start W (linux_wireguard K) l es (new_process h d)) = Return ()"
  then obtain p where "Start W (linux_wireguard K) l es (new_process h d) = (Return (), p)"
    by (metis prod.collapse)
  then obtain u0 p0 u1 p1 where up: "start_up (linux_wireguard K) l (new_process h d) = (Return u0, p0)"
    and run: "each (daemon_step W (linux_wireguard K)) es p0 = (Return u1, p1)"
    and stop: "on_wg (ShutdownDevice K) p1 = (Return (), p)"
    unfolding Start_def by (simp only: then_do_Return) (auto simp: linux_wireguard_def)
  have s0: "serverless (new_process h d)"
    using assms(1) by (simp add: serverless_def field_def new_process_def NewWireguardDaemon_def)
  have k1: "keeps serverless (start_up (linux_wireguard K) l)"
    unfolding start_up_def linux_wireguard_def
    by (intro keeps_intros) (simp_all add: keeps_intros linux_fields)
  have k2: "keeps serverless (each (daemon_step W (linux_wireguard K)) es)"
    using assms(2) by (intro keeps_intros serverless_daemon_step) auto
  have "serverless p1" by (rule keepsD [OF k2 keepsD [OF k1 s0 up] run])
  then have "no_server (wireguard p1)" by (simp add: serverless_def)
  then show False using stop shutdown_without_server by (auto simp: on_wg_def split: if_splits prod.splits)
qed

section \<open>An IPv6 control plane\<close>

lemma split_on_hd: "x \<noteq> c \<Longrightarrow> hd (split_on c (x # xs)) = x # hd (split_on c xs)"
  by (cases "split_on c xs") simp_all

lemma bracket_no_ip4: "parse_ip4 (CHR ''['' # s) = Inl ParseError"
proof -
  obtain w ws where s: "split_on (CHR ''.'') s = w # ws" by (cases "split_on (CHR ''.'') s") simp_all
  then have "split_on (CHR ''.'') (CHR ''['' # s) = (CHR ''['' # w) # ws" by simp
  moreover have "parse_octet (CHR ''['' # w) = None"
    by (simp add: parse_octet_def all_digits_def is_digit_def)
  ultimately show ?thesis by (simp add: parse_ip4_def)
qed

lemma bracket_no_host: "\<exists>e. parse_prefix (CHR ''['' # s @ ''/32'') = Inl e"
  using before_last_host [of "CHR ''['' # s"] bracket_no_ip4 [of s] by (simp add: parse_prefix_def)

text \<open>
  A daemon that reaches its control plane over IPv6, whose remote address reads \<open>[...]:port\<close>, does
  not survive being told to connect: the part before the first colon is taken for the address, does
  not parse, and \<open>log.Fatalf\<close> ends the daemon.  No such request ever returns.
\<close>

theorem ipv6_control_plane_kills_daemon:
  assumes "tcp d = Inr (CHR ''['' # s)" and "Connect args d p = (Return (Inr True), p1)"
    and "jrpcConn (rvpn p1) = Some c"
  shows "Handle W (linux_wireguard K) (handlers p1 ! c) c (rq_ConnectServer params) p2 \<noteq> (Return (), p3)"
proof
  assume run: "Handle W (linux_wireguard K) (handlers p1 ! c) c (rq_ConnectServer params) p2 = (Return (), p3)"
  have "handshake d = Inr ()"
    using assms(1,2) by (cases "handshake d")
      (auto simp: Connect_def open_channel_def websocket_Dial_def remoteAddressDialHook_def prog_run)
  then have h: "controlPlaneAddr (handlers p1 ! c) = CHR ''['' # hd (split_on (CHR '':'') s)"
    using assms by (auto simp: Connect_def open_channel_run host_part_def split: list.split)
  obtain conf w u w' where "UpdateClientConf K conf (controlPlaneAddr (handlers p1 ! c)) w = (Return u, w')"
    using run
    by (auto simp: handle_ConnectServer_def returned on_wg_def linux_wireguard_def split: if_splits prod.splits)
  from client_connection_log [OF this] show False
    using bracket_no_host [of "hd (split_on (CHR '':'') s)"] by (auto simp: h)
qed

section \<open>A daemon on the small system\<close>

definition lab_keys :: "nat wgtypes" where
  "lab_keys =
     \<lparr>GeneratePrivateKey = Inr, key_String = (\<lambda>n. CHR ''k'' # nat_text n),
      PublicKey_String = (\<lambda>n. CHR ''p'' # nat_text n)\<rparr>"

definition lab_state :: RVpnState where
  "lab_state =
     \<lparr>ControlPlaneAuth = ''login'', st_PrivateKey = ''k1'', st_PublicKey = ''p1'', ActiveProfile = []\<rparr>"

definition lab_disk :: "RVpnState \<Rightarrow> disk" where
  "lab_disk s = \<lparr>dir_exists = True, state_file = Some s, faults = []\<rparr>"

definition lab_dial :: "string \<Rightarrow> dial" where
  "lab_dial addr = \<lparr>tcp = Inr addr, handshake = Inr ()\<rparr>"

definition lab_args :: ConnectRequest where
  "lab_args = \<lparr>cr_Profile = ''t'', cr_DeviceToken = ''tok'', cr_ControlPlaneWS = ''ws'', cr_Opts = []\<rparr>"

text \<open>A running daemon with the state \<open>s\<close> on its disk and one connection, to 1.2.3.4.\<close>

definition lab_daemon :: "RVpnState \<Rightarrow> unit host process" where
  "lab_daemon s = snd (start_up (linux_wireguard lab) (Inr ()) (new_process lab_host (lab_disk s)))"

definition lab_running :: "RVpnState \<Rightarrow> unit host process" where
  "lab_running s = snd (Connect lab_args (lab_dial ''1.2.3.4:443'') (lab_daemon s))"

definition lab_handler :: jrpcHandler where
  "lab_handler = \<lparr>deviceToken = ''tok'', controlPlaneAddr = ''1.2.3.4''\<rparr>"

definition lab_request :: "string \<Rightarrow> ConnectServerRequest" where
  "lab_request pubkey =
     \<lparr>ServerPublicKey = ''k2'', ClientPublicKey = pubkey, ClientIp = ''10.8.0.2'', ClientCidr = ''/24'',
      ServerIp = ''9.9.9.9'', ServerPort = 51820, DnsIp = []\<rparr>"

lemma lab_disk_sound [simp]: "disk_sound (lab_disk s)"
  by (simp add: disk_sound_def lab_disk_def)

lemma lab_init: "InitRVPNState (lab_disk s) = (Inr (), lab_disk s)"
  by (simp add: InitRVPNState_def getRVpnStatePath_def stat_dir_missing_def stat_file_missing_def syscall_def
      lab_disk_def and_then_def ok_def)

lemma lab_daemon_eq:
  "start_up (linux_wireguard lab) (Inr ()) (new_process lab_host (lab_disk s)) = (Return (), lab_daemon s)"
  "lab_daemon s = (new_process lab_started (lab_disk s))\<lparr>rvpn := NewRVPNDaemon\<lparr>has_wireguard := True\<rparr>\<rparr>"
  using lab_started_eq(1)
  by (simp_all add: lab_daemon_def start_up_def on_disk_def on_wg_def set_rvpn_def new_process_def lab_init
      linux_wireguard_def NewRVPNDaemon_def prog_run)

lemma lab_running_eq:
  "Connect lab_args (lab_dial ''1.2.3.4:443'') (lab_daemon s) = (Return (Inr True), lab_running s)"
  "state_disk (lab_running s) = lab_disk s" "wireguard (lab_running s) = lab_started"
  "closed (lab_running s) = []" "sent (lab_running s) = []" "beating (lab_running s) = []" "has_wireguard (rvpn (lab_running s))"
  "keys_made (lab_running s) = 0" "handlers (lab_running s) = [lab_handler]" "held (lab_running s) = s"
  by (simp_all add: lab_running_def Connect_def open_channel_run lab_dial_def lab_args_def lab_daemon_eq(2)
      new_process_def NewRVPNDaemon_def lab_handler_def host_part_def held_def lab_disk_def)

lemma lab_client_config: "user_config lab_state (lab_request k) = lab_client"
  by (simp add: user_config_def lab_state_def lab_request_def lab_client_def)

lemma lab_update:
  "wg_UpdateClientConf (linux_wireguard lab) (user_config (held (lab_running lab_state)) (lab_request k))
     (controlPlaneAddr lab_handler) (wireguard (lab_running lab_state)) = (Return (), lab_connected)"
  using lab_connects by (simp add: lab_running_eq lab_client_config lab_handler_def linux_wireguard_def)

theorem reported_key_is_held_witness:
  "\<exists>p1 p2. Handle lab_keys (linux_wireguard lab) lab_handler 0 rq_GetClientInformation
       (lab_running empty_RVpnState) = (Return (), p1) \<and>
     Handle lab_keys (linux_wireguard lab) lab_handler 0 rq_GetClientInformation p1 = (Return (), p2) \<and>
     st_PublicKey (held p1) \<noteq> [] \<and> held p2 = held p1"
proof -
  have "\<exists>k. GeneratePrivateKey lab_keys n = Inr k \<and> PublicKey_String lab_keys k \<noteq> []" for n
    by (simp add: lab_keys_def)
  from reported_key_is_held [of "lab_running empty_RVpnState" 0 lab_keys "linux_wireguard lab" lab_handler,
      OF _ _ this]
  show ?thesis by (auto simp: lab_running_eq)
qed

theorem read_error_wipes_state_witness:
  "let p = (lab_running lab_state)\<lparr>state_disk := (lab_disk lab_state)\<lparr>faults := [True]\<rparr>\<rparr> in
   ControlPlaneAuth (held p) = ''login'' \<and>
   (\<exists>p'. Handle lab_keys (linux_wireguard lab) lab_handler 0 rq_GetClientInformation p = (Return (), p') \<and>
      ControlPlaneAuth (held p') = [] \<and> st_PrivateKey (held p') = ''k0'')"
proof -
  let ?p = "(lab_running lab_state)\<lparr>state_disk := (lab_disk lab_state)\<lparr>faults := [True]\<rparr>\<rparr>"
  have "key_String lab_keys 0 = ''k0''" by (simp add: lab_keys_def nat_text.simps digit_def) code_simp
  moreover have "ControlPlaneAuth (held ?p) = ''login''" by (simp add: held_def lab_disk_def lab_state_def)
  ultimately show ?thesis
    using read_error_wipes_state [of ?p 0 lab_keys 0 "linux_wireguard lab" lab_handler]
    by (auto simp: Let_def lab_running_eq lab_disk_def held_def) (auto simp: lab_keys_def)
qed

theorem connect_server_in_sync_witness:
  "\<exists>p'. Handle lab_keys (linux_wireguard lab) lab_handler 0 (rq_ConnectServer (Parsed (lab_request ''p1'')))
       (lab_running lab_state) = (Return (), p') \<and>
     status (rvpn p') = StatusConnected \<and> sent p' = [(0, SuccessResponse True)] \<and> beating p' = [0]"
  by (intro exI conjI, rule connect_server_in_sync [OF _ _ _ _ _ _ lab_update])
    (simp_all add: lab_running_eq, simp_all add: lab_state_def lab_request_def)

theorem key_mismatch_still_connects_witness:
  "\<exists>p'. Handle lab_keys (linux_wireguard lab) lab_handler 0 (rq_ConnectServer (Parsed (lab_request ''other'')))
       (lab_running lab_state) = (Return (), p') \<and> status (rvpn p') = StatusConnected \<and>
     sent p' = [(0, SuccessResponse False), (0, SuccessResponse True)]"
proof -
  have "ClientPublicKey (lab_request ''other'') \<noteq> st_PublicKey lab_state" "st_PublicKey lab_state \<noteq> []"
    "st_PrivateKey lab_state \<noteq> []"
    by (simp_all add: lab_state_def lab_request_def)
  then show ?thesis
    using key_mismatch_still_connects [OF _ _ _ _ _ _ lab_update, of 0 "''other''" lab_keys]
    by (auto simp: lab_running_eq)
qed

theorem failed_dial_is_no_error_witness:
  "let d = \<lparr>tcp = Inl OsError, handshake = Inr ()\<rparr> in
   tcp d = Inl OsError \<and> (\<exists>p'. Connect lab_args d (lab_running lab_state) = (Return (Inr False), p'))"
  using failed_dial_is_no_error [of "\<lparr>tcp = Inl OsError, handshake = Inr ()\<rparr>" OsError lab_args "lab_running lab_state"]
  by (auto simp: Let_def)

definition lab_idle_left :: "unit host" where
  "lab_idle_left = snd (Disconnect lab lab_started)"

lemma lab_not_serving: "\<not> vpnServerMode (wgd lab_started)"
  by (simp add: lab_started_def StartDevice_def prog_eval lab_eval)

lemma lab_idle_leaves: "Disconnect lab lab_started = (Return (), lab_idle_left)"
  unfolding lab_idle_left_def
  by (simp add: prog_eval lab_eval lab_started_eq lab_not_serving Disconnect_def stop_forwarding_def
      delete_appended_def stopSourceRouting_def)

theorem reconnect_leaks_channel_witness:
  "\<exists>p1 p2 p3 p4 c. Connect lab_args (lab_dial ''1.2.3.4:443'') (lab_daemon lab_state) = (Return (Inr True), p1) \<and>
    Connect lab_args (lab_dial ''5.6.7.8:443'') p1 = (Return (Inr True), p2) \<and>
    Disconnect_rpc (linux_wireguard lab) p2 = (Return (Inr True), p3) \<and>
    daemon_step lab_keys (linux_wireguard lab) (EvRequest c rq_GetDeviceAuth) p3 = (Return (), p4) \<and>
    sent p4 = sent p3 @ [(c, GetDeviceAuthResponse True ''tok'')]"
proof -
  have "wg_Disconnect (linux_wireguard lab) (wireguard (lab_daemon lab_state)) = (Return (), lab_idle_left)"
    using lab_idle_leaves by (simp add: lab_daemon_eq(2) new_process_def linux_wireguard_def)
  moreover have "has_wireguard (rvpn (lab_daemon lab_state))" "closed (lab_daemon lab_state) = []"
    by (simp_all add: lab_daemon_eq(2) new_process_def)
  ultimately show ?thesis
    using reconnect_leaks_channel [of "lab_dial ''1.2.3.4:443''" "''1.2.3.4:443''" "lab_dial ''5.6.7.8:443''"
        "''5.6.7.8:443''" "lab_daemon lab_state" "linux_wireguard lab" lab_idle_left lab_args lab_args lab_keys]
    by (simp add: lab_dial_def) (simp add: lab_args_def, blast)
qed

theorem disconnect_without_channel_dies_witness:
  "jrpcConn (rvpn (lab_daemon lab_state)) = None \<and>
   fst (Disconnect_rpc (linux_wireguard lab) (lab_daemon lab_state)) = Panic"
proof -
  have "jrpcConn (rvpn (lab_daemon lab_state)) = None" "has_wireguard (rvpn (lab_daemon lab_state))"
    "wireguard (lab_daemon lab_state) = lab_started"
    by (simp_all add: lab_daemon_eq(2) new_process_def NewRVPNDaemon_def)
  then show ?thesis
    using disconnect_without_channel_dies [of "lab_daemon lab_state" "linux_wireguard lab" _ lab_idle_left]
      lab_idle_leaves by (simp add: linux_wireguard_def)
qed

theorem daemon_consistent_witness:
  "start_up (linux_wireguard lab) (Inr ()) (new_process lab_host (lab_disk lab_state)) = (Return (), lab_daemon lab_state) \<and>
   each (daemon_step lab_keys (linux_wireguard lab)) [EvConnect lab_args (lab_dial ''1.2.3.4:443'')]
     (lab_daemon lab_state) = (Return (), lab_running lab_state) \<and>
   set (closed (lab_running lab_state)) \<union> set (beating (lab_running lab_state)) \<subseteq>
     {..<length (handlers (lab_running lab_state))}"
proof -
  have "each (daemon_step lab_keys (linux_wireguard lab)) [EvConnect lab_args (lab_dial ''1.2.3.4:443'')]
     (lab_daemon lab_state) = (Return (), lab_running lab_state)"
    using lab_running_eq(1) by (simp add: prog_run)
  then show ?thesis using daemon_consistent [OF lab_daemon_eq(1)] lab_daemon_eq(1) by blast
qed


theorem never_connected_never_stops_in_order_witness:
  "wgd lab_host = NewWireguardDaemon \<and>
   fst (Start lab_keys (linux_wireguard lab) (Inr ()) [] (new_process lab_host (lab_disk lab_state))) \<noteq> Return ()"
  using never_connected_never_stops_in_order [of lab_host "[]"] by (simp add: lab_host_def)

theorem ipv6_control_plane_kills_daemon_witness:
  "let d = lab_dial ''[::1]:443''; p1 = snd (Connect lab_args d (lab_daemon lab_state)) in
   tcp d = Inr ''[::1]:443'' \<and> Connect lab_args d (lab_daemon lab_state) = (Return (Inr True), p1) \<and>
   jrpcConn (rvpn p1) = Some 0 \<and>
   Handle lab_keys (linux_wireguard lab) (handlers p1 ! 0) 0 (rq_ConnectServer (Parsed (lab_request ''p1''))) p1
     \<noteq> (Return (), p1)"
proof -
  let ?d = "lab_dial ''[::1]:443''"
  have t: "tcp ?d = Inr (CHR ''['' # ''::1]:443'')" "handshake ?d = Inr ()" by (simp_all add: lab_dial_def)
  have c: "Connect lab_args ?d (lab_daemon lab_state) = (Return (Inr True), snd (Connect lab_args ?d (lab_daemon lab_state)))"
    "jrpcConn (rvpn (snd (Connect lab_args ?d (lab_daemon lab_state)))) = Some 0"
    by (simp_all add: Connect_def open_channel_run [OF t] lab_daemon_eq(2) new_process_def)
  show ?thesis
    unfolding Let_def using ipv6_control_plane_kills_daemon [OF t(1) c] c t(1) by blast
qed

end
