(* ===== verification/End_To_End.thy ===== *)
theory End_To_End
  imports Connect_Props Rvpn_Linux
begin

text \<open>
  The control plane and the daemons together: a device's daemon answers the calls of the session that
  serves it, and the calls the session makes are handed to the daemons they go to.
\<close>

text \<open>A daemon with a channel \<open>c\<close> opened with the token of \<open>h\<close>, keys whole or absent, and a working disk.\<close>

definition ready :: "nat \<Rightarrow> 'w process \<Rightarrow> bool" where
  "ready c p \<longleftrightarrow> disk_sound (state_disk p) \<and> c \<notin> set (closed p) \<and> has_wireguard (rvpn p) \<and>
     (st_PublicKey (held p) \<noteq> [] \<longrightarrow> st_PrivateKey (held p) \<noteq> [])"

lemma get_client_information_ready:
  assumes "ready c p" and "GeneratePrivateKey W (keys_made p) = Inr k"
    and "PublicKey_String W k \<noteq> []" "key_String W k \<noteq> []"
  shows "\<exists>p'. Handle W G h c rq_GetClientInformation p = (Return (), p') \<and> ready c p' \<and>
    process.sent p' = process.sent p @ [(c, GetClientInformationResponse True (st_PublicKey (held p')))] \<and>
    st_PublicKey (held p') \<noteq> [] \<and> wireguard p' = wireguard p"
proof -
  have sound: "disk_sound (state_disk p)" and c: "c \<notin> set (closed p)" and wg: "has_wireguard (rvpn p)"
    and keys: "st_PublicKey (held p) \<noteq> [] \<longrightarrow> st_PrivateKey (held p) \<noteq> []"
    using assms(1) by (simp_all add: ready_def)
  let ?f = "GetClientInformationResponse False []"
  have load: "load_state c ?f p = (Return (held p), p)"
    using load_state_run [OF sound] by (simp add: held_def)
  show ?thesis
  proof (cases "st_PublicKey (held p) = []")
    case True
    then show ?thesis
      using sound c wg assms(2-4) load
      by (simp add: handle_GetClientInformation_def Let_def bind_def ensure_keys_def next_key_pair_def
          GenerateKeyPair_def then_do_def ret_def attempt_def on_disk_def SetRVpnState_run ready_def held_def)
  next
    case False
    then show ?thesis
      using sound c wg keys load
      by (simp add: handle_GetClientInformation_def Let_def bind_def ensure_keys_def ret_def ready_def held_def)
  qed
qed

lemma daemon_answers:
  assumes "ready c p" and "\<And>n. \<exists>k. GeneratePrivateKey W n = Inr k \<and> PublicKey_String W k \<noteq> [] \<and> key_String W k \<noteq> []"
  shows "\<exists>p1 p2. Handle W G h c (request_of GetDeviceAuth) p = (Return (), p1) \<and>
    process.sent p1 = process.sent p @ [(c, GetDeviceAuthResponse True (deviceToken h))] \<and>
    Handle W G h c (request_of GetClientInformation) p1 = (Return (), p2) \<and>
    process.sent p2 = process.sent p1 @ [(c, GetClientInformationResponse True (st_PublicKey (held p2)))] \<and>
    ready c p2 \<and> st_PublicKey (held p2) \<noteq> [] \<and> wireguard p2 = wireguard p"
proof -
  let ?p1 = "p\<lparr>process.sent := process.sent p @ [(c, GetDeviceAuthResponse True (deviceToken h))]\<rparr>"
  have 1: "Handle W G h c (request_of GetDeviceAuth) p = (Return (), ?p1)"
    using assms(1) by (simp add: ready_def)
  have r1: "ready c ?p1" using assms(1) by (simp add: ready_def held_def)
  obtain k where k: "GeneratePrivateKey W (keys_made ?p1) = Inr k" "PublicKey_String W k \<noteq> []" "key_String W k \<noteq> []"
    using assms(2) by blast
  obtain p2 where "Handle W G h c rq_GetClientInformation ?p1 = (Return (), p2)" "ready c p2"
    "process.sent p2 = process.sent ?p1 @ [(c, GetClientInformationResponse True (st_PublicKey (held p2)))]"
    "st_PublicKey (held p2) \<noteq> []" "wireguard p2 = wireguard ?p1"
    using get_client_information_ready [OF r1 k] by blast
  with 1 show ?thesis by (intro exI [of _ ?p1] exI [of _ p2]) simp
qed

lemma server_takes_peers:
  assumes "ready c q" and "can_serve G" and "wg_AppendPeers G (map wg_peer_of ps) (wireguard q) = (Return (), vq)"
  shows "Handle W G h c (request_of (AppendVPNPeers ps)) q =
    (Return (), q\<lparr>wireguard := vq, process.sent := process.sent q @ [(c, SuccessResponse True)]\<rparr>)"
  using assms by (simp add: ready_def appendVPNPeersHandler_def unmarshal_def on_wg_def prog_run)

lemma daemon_connects:
  assumes "ready c p" and "st_PublicKey (held p) \<noteq> []" and "ClientPublicKey r = st_PublicKey (held p)"
    and "wg_UpdateClientConf G (user_config (held p) r) (controlPlaneAddr h) (wireguard p) = (Return (), vp)"
  shows "\<exists>p'. Handle W G h c (request_of (ConnectServer r)) p = (Return (), p') \<and>
    process.sent p' = process.sent p @ [(c, SuccessResponse True)] \<and> status (rvpn p') = StatusConnected \<and>
    wireguard p' = vp \<and> held p' = held p"
proof -
  have ready: "disk_sound (state_disk p)" "c \<notin> set (closed p)" "has_wireguard (rvpn p)" "st_PrivateKey (held p) \<noteq> []"
    using assms(1,2) by (simp_all add: ready_def)
  show ?thesis using connect_server_run [OF ready(1-3) assms(4)] ready(4) assms(2,3) by (simp add: held_def)
qed

text \<open>
  C1: A device connects for the first time: its daemon answers the session's two questions, the
  session ends up waiting, and what it has sent is carried out without complaint on both sides.  The
  server's daemon is given, as a peer, exactly the public key the device holds and the address the
  device is then told to use; the device is connected, under its own private key, with the server's
  key and address as the control plane has them.
\<close>

theorem first_connection_end_to_end:
  fixes p :: "'v process" and q :: "'w process"
  assumes "answers (db w) = []" and "ValidateDeviceToken J key (deviceToken h) = Return (Inr dev)"
    and "filter (\<lambda>r. t_name r = target) (targets (db w)) = [t]"
    and "targetServerAlive (Some t) (connMan w)" and "getVPNServerConn target (connMan w) = Some srv"
    and "parse_prefix (networkIp t @ networkCidr t) = Inr net"
    and "card (target_ips target (db w)) < pfx_last net - unat (pfx_addr net)"
    and "\<forall>r \<in> set (connections (db w)). \<not> (c_target r = target \<and> c_deviceId r = dev)"
    and "u \<notin> c_id ` set (connections (db w))"
    and "atoi (serverPublicVpnPort t) = Inr port"
    and "ready c p"
    and "\<forall>conf v. cw_ServerIp conf = serverPublicIp t \<and> cw_ClientIp conf = ip4_text v \<and>
      cw_ClientCidr conf = networkCidr t \<longrightarrow>
      (\<exists>vp. wg_UpdateClientConf G conf (controlPlaneAddr h) (wireguard p) = (Return (), vp))"
    and "ready c' q" and "can_serve G'" and "\<And>ps. \<exists>vq. wg_AppendPeers G' ps (wireguard q) = (Return (), vq)"
    and "\<And>n. \<exists>k. GeneratePrivateKey W n = Inr k \<and> PublicKey_String W k \<noteq> [] \<and> key_String W k \<noteq> []"
  shows "\<exists>p1 p2 p3 q1 w' v1 peer r auth info.
    Handle W G h c (request_of GetDeviceAuth) p = (Return (), p1) \<and> process.sent p1 = process.sent p @ [(c, auth)] \<and>
    Handle W G h c (request_of GetClientInformation) p1 = (Return (), p2) \<and>
    process.sent p2 = process.sent p1 @ [(c, info)] \<and>
    clientConnect_body J key target me (Inr auth) (Inr info) u now w = (CWait now, w') \<and>
    world.sent w' = world.sent w @ [(me, GetClientInformation), (srv, AppendVPNPeers [peer]), (me, ConnectServer r)] \<and>
    Handle W G' h' c' (request_of (AppendVPNPeers [peer])) q = (Return (), q1) \<and>
    process.sent q1 = process.sent q @ [(c', SuccessResponse True)] \<and>
    wg_AppendPeers G' [wg_peer_of peer] (wireguard q) = (Return (), wireguard q1) \<and>
    Handle W G h c (request_of (ConnectServer r)) p2 = (Return (), p3) \<and>
    process.sent p3 = process.sent p2 @ [(c, SuccessResponse True)] \<and> status (rvpn p3) = StatusConnected \<and>
    wg_UpdateClientConf G v1 (controlPlaneAddr h) (wireguard p) = (Return (), wireguard p3) \<and>
    PublicKey peer = st_PublicKey (held p3) \<and> st_PublicKey (held p3) \<noteq> [] \<and>
    ClientPrivateKey v1 = st_PrivateKey (held p3) \<and>
    AllowedIP peer = cw_ClientIp v1 \<and> cw_ServerPublicKey v1 = serverPubkey t \<and>
    cw_ServerIp v1 = serverPublicIp t \<and> cw_ServerPort v1 = port"
proof -
  let ?auth = "GetDeviceAuthResponse True (deviceToken h)"
  obtain p1 p2 where 1: "Handle W G h c (request_of GetDeviceAuth) p = (Return (), p1)"
      "process.sent p1 = process.sent p @ [(c, ?auth)]"
    and 2: "Handle W G h c (request_of GetClientInformation) p1 = (Return (), p2)"
      "process.sent p2 = process.sent p1 @ [(c, GetClientInformationResponse True (st_PublicKey (held p2)))]"
    and r2: "ready c p2" "st_PublicKey (held p2) \<noteq> []" and w2: "wireguard p2 = wireguard p"
    using daemon_answers [OF assms(11,16), of G h] by blast
  let ?info = "GetClientInformationResponse True (st_PublicKey (held p2))"
  have tok: "ValidateDeviceToken J key (DeviceToken ?auth) = Return (Inr dev)" using assms(2) by simp
  obtain v cn w' where body: "clientConnect_body J key target me (Inr ?auth) (Inr ?info) u now w = (CWait now, w')"
    and cn: "cn = \<lparr>c_id = u, c_target = target, c_deviceId = dev, c_pubkey = re_PublicKey ?info,
         clientIp = ip4_text v, clientCidr = networkCidr t\<rparr>"
    and sent: "world.sent w' = world.sent w @ [(me, GetClientInformation), (srv, AppendVPNPeers [peer_of cn]),
                        (me, ConnectServer (connect_request t cn port))]"
    using connect_first_run [OF assms(1) tok assms(3-10), of me ?info now]
    by (elim exE conjE) (rule that, assumption+)
  let ?r = "connect_request t cn port" and ?peer = "peer_of cn"
  obtain vq where vq: "wg_AppendPeers G' [wg_peer_of ?peer] (wireguard q) = (Return (), vq)"
    using assms(15) by blast
  have q: "Handle W G' h' c' (request_of (AppendVPNPeers [?peer])) q =
      (Return (), q\<lparr>wireguard := vq, process.sent := process.sent q @ [(c', SuccessResponse True)]\<rparr>)"
    using server_takes_peers [OF assms(13,14), of "[?peer]"] vq by simp
  obtain vp where vp: "wg_UpdateClientConf G (user_config (held p2) ?r) (controlPlaneAddr h) (wireguard p2) = (Return (), vp)"
    using assms(12) [rule_format, of "user_config (held p2) ?r" v] cn w2
    by (auto simp: user_config_def connect_request_def)
  obtain p3 where 3: "Handle W G h c (request_of (ConnectServer ?r)) p2 = (Return (), p3)"
      "process.sent p3 = process.sent p2 @ [(c, SuccessResponse True)]" "status (rvpn p3) = StatusConnected"
      "wireguard p3 = vp" "held p3 = held p2"
    using daemon_connects [OF r2 _ vp] cn by (auto simp: connect_request_def GetClientInformationResponse_def)
  show ?thesis
    by (rule exI [of _ p1], rule exI [of _ p2], rule exI [of _ p3], rule exI, rule exI [of _ w'],
        rule exI [of _ "user_config (held p2) ?r"], intro exI conjI, rule 1, rule 1, rule 2, rule 2, rule body, rule sent, rule q)
      (use vq vp w2 3 r2 cn in \<open>simp_all add: peer_of_def user_config_def connect_request_def GetClientInformationResponse_def\<close>)
qed

section \<open>The live target and the small system\<close>

lemma live_prefix: "parse_prefix (ip4_text v @ ''/23'') = Inr \<lparr>pfx_addr = v, pfx_bits = 23\<rparr>"
proof -
  have "nat_text 23 = ''23''" by (simp add: nat_text.simps digit_def) code_simp
  then have "prefix_text \<lparr>pfx_addr = v, pfx_bits = 23\<rparr> = ip4_text v @ ''/23''" by (simp add: prefix_text_def)
  then show ?thesis by (rule parse_prefix_of_text) simp
qed

lemma lab_updates:
  assumes "cw_ServerIp conf = ''9.9.9.9''" "cw_ClientIp conf = ip4_text v" "cw_ClientCidr conf = ''/23''"
  shows "\<exists>h. UpdateClientConf lab conf ''1.2.3.4'' lab_started = (Return (), h)"
  using assms by (simp add: lab_started_eq live_prefix client_eval)

lemma lab_appends: "\<exists>h. AppendPeers lab ps lab_started = (Return (), h)"
  by (simp add: AppendPeers_def configure_def prog_eval lab_eval)

definition live_handler :: jrpcHandler where
  "live_handler = \<lparr>deviceToken = ''device:k:d2'', controlPlaneAddr = ''1.2.3.4''\<rparr>"

theorem first_connection_end_to_end_witness:
  "\<exists>p3 q1 r peer. process.sent q1 = [(0, SuccessResponse True)] \<and> status (rvpn p3) = StatusConnected \<and>
    (\<exists>p2. Handle lab_keys (linux_wireguard lab) live_handler 0 (request_of (ConnectServer r)) p2 = (Return (), p3)) \<and>
    Handle lab_keys (linux_wireguard lab) lab_handler 0 (request_of (AppendVPNPeers [peer])) (lab_running lab_state)
      = (Return (), q1) \<and> PublicKey peer = st_PublicKey (held p3)"
proof -
  have p: "parse_prefix (networkIp live_target @ networkCidr live_target) =
      Inr \<lparr>pfx_addr = 168296449, pfx_bits = 23\<rparr>"
    using parse_default_prefix by (simp add: live_target_def)
  have tok: "ValidateDeviceToken colon_jwt ''k'' (deviceToken live_handler) = Return (Inr ''d2'')"
    using live_tokens(2) by (simp add: token_reply_def live_handler_def)
  have ips: "target_ips ''t'' (db live_world) = {''10.8.0.2''}"
  proof -
    have "{c \<in> set (connections (db live_world)). c_target c = ''t''} = {d1_connection}"
      by (simp add: live_world_def d1_connection_def Collect_conv_if)
    then show ?thesis by (simp add: target_ips_def) (simp add: d1_connection_def)
  qed
  have room: "card (target_ips ''t'' (db live_world)) <
      pfx_last \<lparr>pfx_addr = 168296449, pfx_bits = 23\<rparr> - unat (pfx_addr \<lparr>pfx_addr = 168296449, pfx_bits = 23\<rparr>)"
    unfolding ips by (simp add: pfx_last_def pfx_first_def)
  have new: "\<forall>q \<in> set (connections (db live_world)). \<not> (c_target q = ''t'' \<and> c_deviceId q = ''d2'')"
    "''c9'' \<notin> c_id ` set (connections (db live_world))"
    by (simp_all add: live_world_def d1_connection_def)
  have ready: "ready 0 (lab_running lab_state)"
    by (simp add: ready_def lab_running_eq) (simp add: lab_state_def)
  have up: "\<forall>conf v. cw_ServerIp conf = serverPublicIp live_target \<and> cw_ClientIp conf = ip4_text v \<and>
      cw_ClientCidr conf = networkCidr live_target \<longrightarrow>
      (\<exists>vp. wg_UpdateClientConf (linux_wireguard lab) conf (controlPlaneAddr live_handler)
        (wireguard (lab_running lab_state)) = (Return (), vp))"
    using lab_updates
    by (simp add: lab_running_eq linux_wireguard_def live_handler_def live_target_def)
  have app: "\<exists>vq. wg_AppendPeers (linux_wireguard lab) ps (wireguard (lab_running lab_state)) = (Return (), vq)" for ps
    using lab_appends by (simp add: lab_running_eq linux_wireguard_def)
  have keys: "\<exists>k. GeneratePrivateKey lab_keys n = Inr k \<and> PublicKey_String lab_keys k \<noteq> [] \<and> key_String lab_keys k \<noteq> []" for n
    by (simp add: lab_keys_def)
  have serve: "can_serve (linux_wireguard lab)" by (simp add: linux_wireguard_def)
  have s: "process.sent (lab_running lab_state) = []" by (simp add: lab_running_eq)
  note e2e = first_connection_end_to_end [OF live_world_facts(1) tok live_world_facts(2-4) p room new live_port
      ready up ready serve app keys, where me = 5 and now = 100 and h' = lab_handler, unfolded s append_Nil]
  show ?thesis using e2e by (elim exE conjE, intro exI conjI) assumption+
qed

end
