(* ===== verification/Wire_Types.thy ===== *)
theory Wire_Types
  imports Control_Plane_Props End_To_End
begin

text \<open>
  What the messages of the control plane are to the devices: texts on the wire, which the WireGuard
  daemons parse.  The addresses among them always parse, to an address of the network for a device, and to
  the network itself for a server, whatever has happened before.
\<close>

text \<open>A member of the network above the server.\<close>

definition member :: "ip4 \<Rightarrow> bool" where
  "member v \<longleftrightarrow> contains rvpn_net (Some v) \<and> pfx_addr rvpn_net < v"

text \<open>The allowed addresses of a peer as a server's device gets them: one address, and not nil.\<close>

definition typed_peer :: "'o linux_os \<Rightarrow> bool \<Rightarrow> wg_peer \<Rightarrow> bool" where
  "typed_peer K replaceAllowedIPs p \<longleftrightarrow>
     (case pc_AllowedIPs (serve_peer K replaceAllowedIPs p) of [(Some v, n)] \<Rightarrow> n = 32 \<and> member v | _ \<Rightarrow> False)"

definition typed_client :: "ClientWgConfig \<Rightarrow> bool" where
  "typed_client conf \<longleftrightarrow>
     (case parse_prefix (cw_ClientIp conf @ cw_ClientCidr conf) of
        Inl e \<Rightarrow> False | Inr p \<Rightarrow> pfx_bits p = 23 \<and> member (pfx_addr p)) \<and>
     parse_ip (cw_DnsIp conf) \<noteq> None"

definition typed_server :: "'o linux_os \<Rightarrow> ServeWgConfig \<Rightarrow> bool" where
  "typed_server K conf \<longleftrightarrow>
     parse_prefix (InternalIp conf @ InternalCidr conf) = Inr rvpn_net \<and> list_all (typed_peer K True) (sw_Peers conf)"

text \<open>What a device makes of a message, with the state \<open>s\<close> it holds, is well typed.\<close>

fun typed :: "'o linux_os \<Rightarrow> RVpnState \<Rightarrow> rpc_call \<Rightarrow> bool" where
  "typed K s (ConnectServer r) = typed_client (user_config s r)"
| "typed K s (ServeVPN r) = typed_server K (serve_config s r)"
| "typed K s (AppendVPNPeers ps) = list_all (typed_peer K False) (map wg_peer_of ps)"
| "typed K s GetDeviceAuth = True"
| "typed K s GetClientInformation = True"
| "typed K s GetServeInformation = True"
| "typed K s (DeleteVPNPeers ps) = False"
| "typed K s DeviceHeartbeat = False"

lemma net_address_member: "net_address s \<longleftrightarrow> (\<exists>v. s = ip4_text v \<and> member v)"
  by (auto simp: net_address_def member_def)

lemma good_peer_typed: "good_peer J key h target p \<Longrightarrow> typed_peer K b (wg_peer_of p)"
  by (auto simp: good_peer_def net_address_member typed_peer_def serve_peer_def wg_peer_of_def parse_ip_def)

lemma good_request_typed:
  assumes "good_request r"
  shows "typed_client (user_config s r)"
proof -
  have dns: "''1.1.1.1'' = ip4_text 16843009" by code_simp
  show ?thesis
    using assms live_prefix
    by (auto simp: good_request_def net_address_member typed_client_def user_config_def parse_ip_def dns)
qed

lemma good_message_typed:
  assumes "good_message J key h (c, m)"
  shows "typed K s m"
proof (cases m)
  case (ConnectServer r)
  then show ?thesis using assms good_request_typed by simp
next
  case (ServeVPN r)
  have "parse_prefix (''10.8.0.1'' @ ''/23'') = Inr rvpn_net"
    using parse_default_prefix by (simp add: rvpn_net_def)
  then show ?thesis
    using assms ServeVPN good_peer_typed by (fastforce simp: typed_server_def serve_config_def list_all_iff)
next
  case (AppendVPNPeers ps)
  then show ?thesis using assms good_peer_typed by (fastforce simp: list_all_iff)
qed (use assms in simp_all)



end
