(* ===== verification/Go_Json.thy ===== *)
theory Go_Json
  imports Rvpn_Prelude
begin

text \<open>
  The part of \<open>encoding/json\<close> the daemon keeps its state with, on bytes: how \<open>Marshal\<close> writes a text,
  and how \<open>Unmarshal\<close> reads an object whose fields are texts.  Reading is in three parts, as in the
  library: the tokens, the automaton with a stack that accepts a value, and the entries of the object.
\<close>

section \<open>UTF-8\<close>

abbreviation quotation :: char where "quotation \<equiv> CHR 0x22"

abbreviation backslash :: char where "backslash \<equiv> CHR 0x5C"

abbreviation byte :: "char \<Rightarrow> nat" where
  "byte c \<equiv> of_char c"

definition ascii :: "string \<Rightarrow> bool" where
  "ascii s \<longleftrightarrow> list_all (\<lambda>c. byte c < 128) s"

text \<open>The number of bytes of the encoded rune a text begins with; none when the bytes are not one.\<close>

definition continues :: "nat \<Rightarrow> nat \<Rightarrow> char \<Rightarrow> bool" where
  "continues lo hi c \<longleftrightarrow> lo \<le> byte c \<and> byte c \<le> hi"

definition rune_size :: "string \<Rightarrow> nat" where
  "rune_size s =
     (let ok = (\<lambda>i lo hi. i < length s \<and> continues lo hi (s ! i));
          n = (if s = [] then 0 else byte (hd s)) in
      if s = [] then 0
      else if n < 128 then 1
      else if 194 \<le> n \<and> n \<le> 223 then (if ok 1 128 191 then 2 else 0)
      else if n = 224 then (if ok 1 160 191 \<and> ok 2 128 191 then 3 else 0)
      else if n = 237 then (if ok 1 128 159 \<and> ok 2 128 191 then 3 else 0)
      else if 225 \<le> n \<and> n \<le> 239 then (if ok 1 128 191 \<and> ok 2 128 191 then 3 else 0)
      else if n = 240 then (if ok 1 144 191 \<and> ok 2 128 191 \<and> ok 3 128 191 then 4 else 0)
      else if 241 \<le> n \<and> n \<le> 243 then (if ok 1 128 191 \<and> ok 2 128 191 \<and> ok 3 128 191 then 4 else 0)
      else if n = 244 then (if ok 1 128 143 \<and> ok 2 128 191 \<and> ok 3 128 191 then 4 else 0)
      else 0)"

text \<open>\<open>utf8.EncodeRune\<close> of a code point below \<open>0x110000\<close> that is not a surrogate.\<close>

definition encode_rune :: "nat \<Rightarrow> string" where
  "encode_rune r =
     (if r < 128 then [char_of r]
      else if r < 2048 then [char_of (192 + r div 64), char_of (128 + r mod 64)]
      else if r < 65536 then [char_of (224 + r div 4096), char_of (128 + r div 64 mod 64), char_of (128 + r mod 64)]
      else [char_of (240 + r div 262144), char_of (128 + r div 4096 mod 64), char_of (128 + r div 64 mod 64),
            char_of (128 + r mod 64)])"

definition replacement :: nat where "replacement = 65533"

section \<open>Writing a text\<close>

definition hex :: "nat \<Rightarrow> char" where
  "hex n = (if n < 10 then char_of (48 + n) else char_of (87 + n))"

text \<open>
  A byte below 128: printable ones stand for themselves but for the quotation mark, the backslash and the
  three that have a meaning in HTML.
\<close>

definition plain :: "char \<Rightarrow> bool" where
  "plain c \<longleftrightarrow> 32 \<le> byte c \<and> c \<notin> {quotation, backslash, CHR ''<'', CHR ''>'', CHR ''&''}"

definition quote_byte :: "char \<Rightarrow> string" where
  "quote_byte c =
     (if plain c then [c]
      else if c = quotation \<or> c = backslash then [backslash, c]
      else if byte c = 10 then [backslash, CHR ''n'']
      else if byte c = 13 then [backslash, CHR ''r'']
      else if byte c = 9 then [backslash, CHR ''t'']
      else [backslash, CHR ''u'', CHR ''0'', CHR ''0'', hex (byte c div 16), hex (byte c mod 16)])"

definition line_separator :: "nat \<Rightarrow> string" where
  "line_separator i = [char_of (226 :: nat), char_of (128 :: nat), char_of (168 + i)]"

function quote :: "string \<Rightarrow> string" where
  "quote [] = []"
| "quote (c # s) =
     (let k = rune_size (c # s) in
      if byte c < 128 then quote_byte c @ quote s
      else if k = 0 then backslash # ''ufffd'' @ quote s
      else if take k (c # s) = line_separator 0 then backslash # ''u2028'' @ quote (drop (k - 1) s)
      else if take k (c # s) = line_separator 1 then backslash # ''u2029'' @ quote (drop (k - 1) s)
      else take k (c # s) @ quote (drop (k - 1) s))"
  by pat_completeness auto
termination by (relation "measure length") auto

section \<open>Reading a text\<close>

definition is_hex :: "char \<Rightarrow> bool" where
  "is_hex c \<longleftrightarrow> is_digit c \<or> 97 \<le> byte c \<and> byte c \<le> 102 \<or> 65 \<le> byte c \<and> byte c \<le> 70"

definition hex_val :: "char \<Rightarrow> nat" where
  "hex_val c = (if is_digit c then byte c - 48 else if 97 \<le> byte c then byte c - 87 else byte c - 55)"

text \<open>A text up to its closing quotation mark: what is between, still escaped, and what comes after.\<close>

definition prepend :: "string \<Rightarrow> (string \<times> string) option \<Rightarrow> (string \<times> string) option" where
  "prepend w r = map_option (\<lambda>(body, rest). (w @ body, rest)) r"

fun scan_string :: "string \<Rightarrow> (string \<times> string) option" where
  "scan_string [] = None"
| "scan_string (c # s) =
     (if c = quotation then Some ([], s)
      else if c = backslash then
        (case s of
           [] \<Rightarrow> None
         | d # s' \<Rightarrow>
             if d \<in> set ''bfnrt/'' \<or> d = backslash \<or> d = quotation then prepend [c, d] (scan_string s')
             else if d = CHR ''u'' then
               (case s' of
                  h1 # h2 # h3 # h4 # s'' \<Rightarrow>
                    if is_hex h1 \<and> is_hex h2 \<and> is_hex h3 \<and> is_hex h4
                    then prepend [c, d, h1, h2, h3, h4] (scan_string s'') else None
                | _ \<Rightarrow> None)
             else None)
      else if byte c < 32 then None
      else prepend [c] (scan_string s))"

text \<open>\<open>unquoteBytes\<close> of what lies between the marks; two escaped surrogates make one rune, a lone one is replaced.\<close>

definition four_hex :: "char \<Rightarrow> char \<Rightarrow> char \<Rightarrow> char \<Rightarrow> nat" where
  "four_hex h1 h2 h3 h4 = hex_val h1 * 4096 + hex_val h2 * 256 + hex_val h3 * 16 + hex_val h4"

fun next_escape :: "string \<Rightarrow> nat option" where
  "next_escape (b # u # h1 # h2 # h3 # h4 # s) = (if b = backslash \<and> u = CHR ''u'' then Some (four_hex h1 h2 h3 h4) else None)"
| "next_escape s = None"

definition surrogate_pair :: "nat \<Rightarrow> string \<Rightarrow> nat option" where
  "surrogate_pair r s =
     (case next_escape s of
        Some r' \<Rightarrow>
          if 55296 \<le> r \<and> r < 56320 \<and> 56320 \<le> r' \<and> r' < 57344
          then Some ((r - 55296) * 1024 + (r' - 56320) + 65536) else None
      | None \<Rightarrow> None)"

definition unescape :: "char \<Rightarrow> char" where
  "unescape d =
     (if d = CHR ''b'' then char_of (8 :: nat) else if d = CHR ''f'' then char_of (12 :: nat)
      else if d = CHR ''n'' then char_of (10 :: nat) else if d = CHR ''r'' then char_of (13 :: nat)
      else if d = CHR ''t'' then char_of (9 :: nat) else d)"

function unquote :: "string \<Rightarrow> string" where
  "unquote [] = []"
| "unquote (c # s) =
     (if c = backslash then
        (case s of
           [] \<Rightarrow> []
         | d # s' \<Rightarrow>
             if d = CHR ''u'' then
               (case s' of
                  h1 # h2 # h3 # h4 # s'' \<Rightarrow>
                    (let r = four_hex h1 h2 h3 h4 in
                     if 55296 \<le> r \<and> r < 57344 then
                       (case surrogate_pair r s'' of
                          Some r2 \<Rightarrow> encode_rune r2 @ unquote (drop 6 s'')
                        | None \<Rightarrow> encode_rune replacement @ unquote s'')
                     else encode_rune r @ unquote s'')
                | _ \<Rightarrow> [])
             else unescape d # unquote s')
      else if byte c < 128 then c # unquote s
      else if rune_size (c # s) = 0 then encode_rune replacement @ unquote s
      else take (rune_size (c # s)) (c # s) @ unquote (drop (rune_size (c # s) - 1) s))"
  by pat_completeness auto
termination by (relation "measure length") auto

section \<open>Tokens\<close>

datatype token = LBrace | RBrace | LBrack | RBrack | Colon | Comma | Str string | Num string | TrueT | FalseT | NullT

text \<open>A number: an optional sign, an integer without leading zeros, a fraction, an exponent; the rest of the text.\<close>

definition skip_digits :: "string \<Rightarrow> string" where
  "skip_digits s = dropWhile is_digit s"

definition some_digits :: "string \<Rightarrow> string option" where
  "some_digits s = (case s of [] \<Rightarrow> None | c # _ \<Rightarrow> if is_digit c then Some (skip_digits s) else None)"

definition scan_int :: "string \<Rightarrow> string option" where
  "scan_int s = (case s of [] \<Rightarrow> None | c # s' \<Rightarrow> if c = CHR ''0'' then Some s' else some_digits s)"

definition scan_frac :: "string \<Rightarrow> string option" where
  "scan_frac s = (case s of [] \<Rightarrow> Some s | c # s' \<Rightarrow> if c = CHR ''.'' then some_digits s' else Some s)"

definition scan_exp :: "string \<Rightarrow> string option" where
  "scan_exp s =
     (case s of
        [] \<Rightarrow> Some s
      | c # s' \<Rightarrow>
          if c = CHR ''e'' \<or> c = CHR ''E''
          then (case s' of [] \<Rightarrow> None | d # s'' \<Rightarrow> if d = CHR ''+'' \<or> d = CHR ''-'' then some_digits s'' else some_digits s')
          else Some s)"

definition scan_number :: "string \<Rightarrow> string option" where
  "scan_number s =
     Option.bind (scan_int (if s \<noteq> [] \<and> hd s = CHR ''-'' then tl s else s)) (\<lambda>s. Option.bind (scan_frac s) scan_exp)"

definition white :: "char \<Rightarrow> bool" where
  "white c \<longleftrightarrow> byte c \<in> {9, 10, 13, 32}"

definition punctuation :: "char \<Rightarrow> token option" where
  "punctuation c =
     map_of [(CHR ''{'', LBrace), (CHR ''}'', RBrace), (CHR ''['', LBrack), (CHR '']'', RBrack), (CHR '':'', Colon),
       (CHR '','', Comma)] c"

lemma skip_digits_le: "length (skip_digits s) \<le> length s"
  by (simp add: skip_digits_def length_dropWhile_le)

lemma some_digits_less: "some_digits s = Some r \<Longrightarrow> length r < length s"
  by (auto simp: some_digits_def skip_digits_def length_dropWhile_le less_Suc_eq_le split: list.splits if_splits)

lemma scan_number_less: "scan_number s = Some r \<Longrightarrow> length r < length s"
proof -
  have "length r \<le> length t" if "scan_exp t = Some r" for t
    using that by (auto simp: scan_exp_def split: list.splits if_splits dest!: some_digits_less)
  moreover have "length u \<le> length t" if "scan_frac t = Some u" for t u
    using that by (auto simp: scan_frac_def split: list.splits if_splits dest!: some_digits_less)
  moreover have "length u < length t" if "scan_int t = Some u" for t u
    using that by (auto simp: scan_int_def split: list.splits if_splits dest!: some_digits_less)
  ultimately show "scan_number s = Some r \<Longrightarrow> length r < length s"
    by (fastforce simp: scan_number_def bind_eq_Some_conv split: if_splits dest: order.trans)
qed

lemma scan_string_less: "scan_string s = Some (w, r) \<Longrightarrow> length r < length s"
proof (induction s arbitrary: w r rule: length_induct)
  case (1 s)
  then have ih: "length r < length t" if "scan_string t = Some (w, r)" "length t < length s" for t w r
    using that by blast
  show ?case
    by (insert "1.prems", cases s, simp, simp add: prepend_def split: if_splits list.splits, auto, (drule ih, simp, simp)+)
qed

function tokens :: "string \<Rightarrow> token list option" where
  "tokens [] = Some []"
| "tokens (c # s) =
     (if white c then tokens s
      else
        (case punctuation c of
           Some t \<Rightarrow> map_option (Cons t) (tokens s)
         | None \<Rightarrow>
             if c = quotation then
               (case scan_string s of
                  None \<Rightarrow> None
                | Some (w, r) \<Rightarrow> map_option (Cons (Str (unquote w))) (tokens r))
             else if c = CHR ''-'' \<or> is_digit c then
               (case scan_number (c # s) of
                  None \<Rightarrow> None
                | Some r \<Rightarrow> map_option (Cons (Num (take (length (c # s) - length r) (c # s)))) (tokens r))
             else if has_prefix (c # s) ''true'' then map_option (Cons TrueT) (tokens (drop 3 s))
             else if has_prefix (c # s) ''false'' then map_option (Cons FalseT) (tokens (drop 4 s))
             else if has_prefix (c # s) ''null'' then map_option (Cons NullT) (tokens (drop 3 s))
             else None))"
  by pat_completeness auto
termination by (relation "measure length") (auto dest: scan_string_less scan_number_less)

section \<open>The automaton\<close>

datatype parse_state = ParseObjectKey | ParseObjectValue | ParseArrayValue

datatype place = BeginValue | BeginValueOrEmpty | BeginStringOrEmpty | BeginString | EndValue

type_synonym scanner = "place \<times> parse_state list"

definition maxNestingDepth :: nat where "maxNestingDepth = 10000"

definition pushParseState :: "parse_state \<Rightarrow> place \<Rightarrow> parse_state list \<Rightarrow> scanner option" where
  "pushParseState p pl st = (if Suc (length st) \<le> maxNestingDepth then Some (pl, p # st) else None)"

fun begin_value :: "token \<Rightarrow> parse_state list \<Rightarrow> scanner option" where
  "begin_value LBrace st = pushParseState ParseObjectKey BeginStringOrEmpty st"
| "begin_value LBrack st = pushParseState ParseArrayValue BeginValueOrEmpty st"
| "begin_value (Str w) st = Some (EndValue, st)"
| "begin_value (Num w) st = Some (EndValue, st)"
| "begin_value TrueT st = Some (EndValue, st)"
| "begin_value FalseT st = Some (EndValue, st)"
| "begin_value NullT st = Some (EndValue, st)"
| "begin_value t st = None"

fun end_value :: "token \<Rightarrow> parse_state list \<Rightarrow> scanner option" where
  "end_value Colon (ParseObjectKey # st) = Some (BeginValue, ParseObjectValue # st)"
| "end_value Comma (ParseObjectValue # st) = Some (BeginString, ParseObjectKey # st)"
| "end_value RBrace (ParseObjectValue # st) = Some (EndValue, st)"
| "end_value Comma (ParseArrayValue # st) = Some (BeginValue, ParseArrayValue # st)"
| "end_value RBrack (ParseArrayValue # st) = Some (EndValue, st)"
| "end_value t st = None"

fun is_text :: "token \<Rightarrow> bool" where
  "is_text (Str w) = True"
| "is_text t = False"

fun scan_token :: "scanner \<Rightarrow> token \<Rightarrow> scanner option" where
  "scan_token (BeginValue, st) t = begin_value t st"
| "scan_token (BeginValueOrEmpty, st) t = (if t = RBrack then end_value t st else begin_value t st)"
| "scan_token (BeginStringOrEmpty, st) t =
     (if t = RBrace then Some (EndValue, tl st) else if is_text t then Some (EndValue, st) else None)"
| "scan_token (BeginString, st) t = (if is_text t then Some (EndValue, st) else None)"
| "scan_token (EndValue, st) t = end_value t st"

fun accepts :: "scanner \<Rightarrow> token list \<Rightarrow> bool" where
  "accepts sc [] = (sc = (EndValue, []))"
| "accepts sc (t # ts) = (case scan_token sc t of None \<Rightarrow> False | Some sc' \<Rightarrow> accepts sc' ts)"

definition checkValid :: "token list \<Rightarrow> bool" where
  "checkValid ts = accepts (BeginValue, []) ts"

section \<open>What is written is read\<close>

lemma hex_facts:
  assumes "n < 16"
  shows "is_hex (hex n)" "hex_val (hex n) = n"
proof -
  have c: "byte (hex n) = (if n < 10 then 48 + n else 87 + n)" using assms by (simp add: hex_def)
  then show "is_hex (hex n)" using assms by (auto simp: is_hex_def is_digit_def)
  show "hex_val (hex n) = n" using assms c by (auto simp: hex_val_def is_digit_def)
qed

lemma small_hex:
  assumes "byte c < 128"
  shows "byte c div 16 < (16 :: nat)" "four_hex (CHR ''0'') (CHR ''0'') (hex (byte c div 16)) (hex (byte c mod 16)) = byte c"
proof -
  show d: "byte c div 16 < (16 :: nat)" using assms by simp
  have "hex_val (CHR ''0'') = 0" by (simp add: hex_val_def is_digit_def)
  then show "four_hex (CHR ''0'') (CHR ''0'') (hex (byte c div 16)) (hex (byte c mod 16)) = byte c"
    by (simp add: four_hex_def hex_facts [OF d] hex_facts)
qed

lemma scan_quote_byte:
  assumes "byte c < 128"
  shows "scan_string (quote_byte c @ s) = prepend (quote_byte c) (scan_string s)"
proof -
  have "is_hex (CHR ''0'')" by (simp add: is_hex_def is_digit_def)
  then show ?thesis
    by (simp add: quote_byte_def plain_def prepend_def hex_facts small_hex [OF assms])
qed

lemma prepend_prepend [simp]: "prepend a (prepend b r) = prepend (a @ b) r"
  by (cases r) (auto simp: prepend_def)

lemma unquote_quote_byte:
  assumes "byte c < 128"
  shows "unquote (quote_byte c @ s) = c # unquote s"
proof -
  have "encode_rune (byte c) = [c]" using assms by (simp add: encode_rune_def)
  moreover have "c = char_of (10 :: nat)" if "byte c = 10" using that by (metis char_of_char)
  moreover have "c = char_of (13 :: nat)" if "byte c = 13" using that by (metis char_of_char)
  moreover have "c = char_of (9 :: nat)" if "byte c = 9" using that by (metis char_of_char)
  ultimately show ?thesis
    using assms by (auto simp: quote_byte_def plain_def unescape_def small_hex)
qed

text \<open>A text of ASCII characters, written between quotation marks, is one token.\<close>

lemma scan_quote: "ascii s \<Longrightarrow> scan_string (quote s @ quotation # r) = Some (quote s, r)"
proof (induction s)
  case (Cons c s)
  then show ?case by (simp add: ascii_def scan_quote_byte prepend_def)
qed simp

lemma unquote_quote: "ascii s \<Longrightarrow> unquote (quote s) = s"
  by (induction s) (simp_all add: ascii_def unquote_quote_byte)

section \<open>What is cut off is not read\<close>

text \<open>How \<open>Marshal\<close> writes a token; those that end by themselves, which are all but the numbers.\<close>

fun token_text :: "token \<Rightarrow> string" where
  "token_text LBrace = ''{''"
| "token_text RBrace = ''}''"
| "token_text LBrack = ''[''"
| "token_text RBrack = '']''"
| "token_text Colon = '':''"
| "token_text Comma = '',''"
| "token_text (Str s) = quotation # quote s @ [quotation]"
| "token_text (Num w) = w"
| "token_text TrueT = ''true''"
| "token_text FalseT = ''false''"
| "token_text NullT = ''null''"

fun written :: "token \<Rightarrow> bool" where
  "written (Str s) = ascii s"
| "written (Num w) = False"
| "written t = True"

definition text_of :: "token list \<Rightarrow> string" where
  "text_of ts = concat (map token_text ts)"

lemma punctuation_simps [simp]:
  "punctuation (CHR ''{'') = Some LBrace" "punctuation (CHR ''}'') = Some RBrace" "punctuation (CHR '':'') = Some Colon"
  "punctuation (CHR '','') = Some Comma" "punctuation (CHR ''['') = Some LBrack" "punctuation (CHR '']'') = Some RBrack"
  "punctuation quotation = None" "punctuation (CHR ''t'') = None" "punctuation (CHR ''f'') = None" "punctuation (CHR ''n'') = None"
  by (simp_all add: punctuation_def)

lemma white_simps [simp]:
  "\<not> white (CHR ''{'')" "\<not> white (CHR ''}'')" "\<not> white (CHR '':'')" "\<not> white (CHR '','')" "\<not> white quotation"
  "\<not> white (CHR ''['')" "\<not> white (CHR '']'')" "\<not> white (CHR ''t'')" "\<not> white (CHR ''f'')" "\<not> white (CHR ''n'')"
  by (simp_all add: white_def)

lemma letter_simps [simp]: "\<not> is_digit (CHR ''t'')" "\<not> is_digit (CHR ''f'')" "\<not> is_digit (CHR ''n'')"
  by (simp_all add: is_digit_def)

lemma tokens_token: "written t \<Longrightarrow> tokens (token_text t @ r) = map_option (Cons t) (tokens r)"
  by (cases t) (simp_all add: scan_quote unquote_quote)

lemma tokens_text_of: "list_all written ts \<Longrightarrow> tokens (text_of ts) = Some ts"
  by (induction ts) (simp_all add: text_of_def tokens_token)

lemma scan_string_SomeD:
  "scan_string s = Some (w, r) \<Longrightarrow>
     s = quotation # r \<and> w = [] \<or>
     (\<exists>d s' w'. s = backslash # d # s' \<and> (d \<in> set ''bfnrt/'' \<or> d = backslash \<or> d = quotation) \<and>
        scan_string s' = Some (w', r) \<and> w = backslash # d # w') \<or>
     (\<exists>h1 h2 h3 h4 s' w'. s = backslash # CHR ''u'' # h1 # h2 # h3 # h4 # s' \<and>
        is_hex h1 \<and> is_hex h2 \<and> is_hex h3 \<and> is_hex h4 \<and> scan_string s' = Some (w', r) \<and>
        w = backslash # CHR ''u'' # h1 # h2 # h3 # h4 # w') \<or>
     (\<exists>c s' w'. s = c # s' \<and> c \<noteq> quotation \<and> c \<noteq> backslash \<and> 32 \<le> byte c \<and>
        scan_string s' = Some (w', r) \<and> w = c # w')"
  by (cases s) (auto simp: prepend_def split: if_splits list.splits)

lemma scan_string_extend: "scan_string q = Some (w, r) \<Longrightarrow> scan_string (q @ e) = Some (w, r @ e)"
proof (induction q arbitrary: w r rule: length_induct)
  case (1 q)
  then have ih: "scan_string (t @ e) = Some (v, r @ e)" if "scan_string t = Some (v, r)" "length t < length q" for t v
    using that by blast
  from scan_string_SomeD [OF "1.prems"] show ?case
    by (elim disjE exE conjE) (use ih in \<open>auto simp: prepend_def\<close>)
qed

lemma scan_quote_cut:
  assumes "ascii s" and "quote s = q @ r"
  shows "scan_string q = None"
proof (rule ccontr)
  assume "scan_string q \<noteq> None"
  then obtain w t where "scan_string q = Some (w, t)" by auto
  then have "scan_string (q @ r @ [quotation]) = Some (w, t @ r @ [quotation])" by (rule scan_string_extend)
  moreover have "scan_string (q @ r @ [quotation]) = Some (quote s, [])"
    using scan_quote [OF assms(1), of "[]"] assms(2) by simp
  ultimately show False by simp
qed

lemma tokens_cut:
  assumes "written t" and "token_text t = p @ q" and "p \<noteq> []" and "q \<noteq> []"
  shows "tokens p = None"
proof (cases t)
  case (Str s)
  obtain a p' where p: "p = a # p'" using assms(3) by (cases p) auto
  obtain q' y where q: "q = q' @ [y]" using assms(4) by (cases q rule: rev_cases) auto
  have a: "a = quotation" and "quote s = p' @ q'" using assms(2) Str p q by auto
  then show ?thesis using scan_quote_cut [of s p' q'] assms(1) Str by (simp add: p a)
qed (use assms in \<open>auto simp: Cons_eq_append_conv\<close>)

text \<open>A proper prefix of a text is rejected, or it ends between two tokens.\<close>

lemma tokens_prefix:
  assumes "list_all written ts" and "text_of ts = p @ q" and "q \<noteq> []"
  shows "tokens p = None \<or> (\<exists>j < length ts. tokens p = Some (take j ts))"
  using assms
proof (induction ts arbitrary: p)
  case (Cons t ts)
  then have eq: "token_text t @ text_of ts = p @ q" and w: "written t" by (simp_all add: text_of_def)
  show ?case
  proof (cases "length p < length (token_text t)")
    case True
    then obtain r where r: "token_text t = p @ r" "r \<noteq> []"
      using eq by (auto simp: append_eq_append_conv2)
    show ?thesis
    proof (cases "p = []")
      case False
      then show ?thesis using tokens_cut [OF w r(1) _ r(2)] by simp
    qed (auto intro: exI [of _ 0])
  next
    case False
    then obtain p' where p: "p = token_text t @ p'" "text_of ts = p' @ q"
      using eq by (auto simp: append_eq_append_conv2)
    have "tokens p' = None \<or> (\<exists>j < length ts. tokens p' = Some (take j ts))"
      using Cons p(2) by simp
    then show ?thesis
    proof (elim disjE exE conjE)
      fix j assume "j < length ts" "tokens p' = Some (take j ts)"
      then show ?thesis by (intro disjI2 exI [of _ "Suc j"]) (simp add: p(1) tokens_token [OF w])
    qed (simp add: p(1) tokens_token [OF w])
  qed
qed (simp add: text_of_def)

end
