(* ===== verification/Json_Value.thy ===== *)
theory Json_Value
  imports Go_Json
begin

text \<open>
  JSON values: how \<open>encoding/json\<close> writes one, how it builds one from the tokens its automaton has accepted,
  and that what is written is read.
\<close>

section \<open>Values and their text\<close>

datatype json = JNull | JBool bool | JNum string | JStr string | JArr "json list" | JObj "(string \<times> json) list"

fun commas :: "token list list \<Rightarrow> token list" where
  "commas [] = []"
| "commas [ts] = ts"
| "commas (ts # us # uss) = ts @ Comma # commas (us # uss)"

fun json_tokens :: "json \<Rightarrow> token list" where
  "json_tokens JNull = [NullT]"
| "json_tokens (JBool b) = [if b then TrueT else FalseT]"
| "json_tokens (JNum w) = [Num w]"
| "json_tokens (JStr s) = [Str s]"
| "json_tokens (JArr vs) = LBrack # commas (map json_tokens vs) @ [RBrack]"
| "json_tokens (JObj ms) = LBrace # commas (map (\<lambda>(k, v). Str k # Colon # json_tokens v) ms) @ [RBrace]"

definition json_text :: "json \<Rightarrow> string" where
  "json_text v = text_of (json_tokens v)"

text \<open>\<open>strconv.AppendInt\<close> in base ten.\<close>

definition int_text :: "int \<Rightarrow> string" where
  "int_text i = (if i < 0 then CHR ''-'' # nat_text (nat (- i)) else nat_text (nat i))"

section \<open>Building a value\<close>

text \<open>The arrays and objects that are open, the innermost first, an object with the key that waits for its value.\<close>

datatype frame = InObj "(string \<times> json) list" "string option" | InArr "json list"

type_synonym builder = "frame list \<times> json option"

fun put :: "json \<Rightarrow> builder \<Rightarrow> builder" where
  "put v ([], r) = ([], Some v)"
| "put v (InArr vs # st, r) = (InArr (vs @ [v]) # st, r)"
| "put v (InObj ms (Some k) # st, r) = (InObj (ms @ [(k, v)]) None # st, r)"
| "put v (InObj ms None # st, r) = (InObj ms (case v of JStr k \<Rightarrow> Some k | _ \<Rightarrow> None) # st, r)"

fun build_token :: "token \<Rightarrow> builder \<Rightarrow> builder" where
  "build_token LBrace (st, r) = (InObj [] None # st, r)"
| "build_token LBrack (st, r) = (InArr [] # st, r)"
| "build_token RBrace (InObj ms k # st, r) = put (JObj ms) (st, r)"
| "build_token RBrack (InArr vs # st, r) = put (JArr vs) (st, r)"
| "build_token (Str s) b = put (JStr s) b"
| "build_token (Num w) b = put (JNum w) b"
| "build_token TrueT b = put (JBool True) b"
| "build_token FalseT b = put (JBool False) b"
| "build_token NullT b = put JNull b"
| "build_token t b = b"

definition parse_json :: "string \<Rightarrow> json option" where
  "parse_json s =
     (case tokens s of
        None \<Rightarrow> None
      | Some ts \<Rightarrow> if checkValid ts then snd (fold build_token ts ([], None)) else None)"

section \<open>What is written is read\<close>

text \<open>What \<open>Marshal\<close> makes of structs of ASCII texts, integers and lists.\<close>

definition is_int_text :: "string \<Rightarrow> bool" where
  "is_int_text w \<longleftrightarrow> (case atoi w of Inr i \<Rightarrow> w = int_text i | Inl e \<Rightarrow> False)"

fun proper :: "json \<Rightarrow> bool" where
  "proper (JNum w) = is_int_text w"
| "proper (JStr s) = ascii s"
| "proper (JArr vs) = list_all proper vs"
| "proper (JObj ms) = list_all (\<lambda>(k, v). ascii k \<and> proper v) ms"
| "proper v = True"

fun json_depth :: "json \<Rightarrow> nat" where
  "json_depth (JArr vs) = Suc (Max (set (0 # map json_depth vs)))"
| "json_depth (JObj ms) = Suc (Max (set (0 # map (\<lambda>(k, v). json_depth v) ms)))"
| "json_depth v = 0"

text \<open>The builder: a value's tokens put the value.\<close>

fun takes_value :: "frame list \<Rightarrow> bool" where
  "takes_value (InObj ms None # st) = False"
| "takes_value st = True"

lemma fold_commas:
  assumes "\<And>x ys. x \<in> set xs \<Longrightarrow> fold f (blk x) (F ys) = F (ys @ [x])" and "\<And>ys. f Comma (F ys) = F ys"
  shows "fold f (commas (map blk xs)) (F ys) = F (ys @ xs)"
  using assms(1) by (induction xs arbitrary: ys rule: induct_list012) (simp_all add: assms(2))

lemma fold_json_tokens: "takes_value st \<Longrightarrow> fold build_token (json_tokens v) (st, r) = put v (st, r)"
proof (induction v arbitrary: st r rule: json_tokens.induct)
  case (5 vs)
  have "fold build_token (commas (map json_tokens vs)) (InArr [] # st, r) = (InArr ([] @ vs) # st, r)"
    by (rule fold_commas) (simp_all add: "5.IH")
  then show ?case by simp
next
  case (6 ms)
  have "fold build_token (commas (map (\<lambda>(k, v). Str k # Colon # json_tokens v) ms)) (InObj [] None # st, r) =
      (InObj ([] @ ms) None # st, r)"
    by (rule fold_commas [where F = "\<lambda>ms. (InObj ms None # st, r)"]) (auto simp: "6.IH")
  then show ?case by simp
qed simp_all

text \<open>The automaton: a value's tokens are accepted where a value may begin.\<close>

definition begins :: "place \<Rightarrow> bool" where
  "begins p \<longleftrightarrow> p = BeginValue \<or> p = BeginValueOrEmpty"

text \<open>Blocks between commas: each leads from where one may begin to its end, and a comma to the next.\<close>

lemma accepts_commas:
  assumes "\<And>x p rest. x \<in> set xs \<Longrightarrow> P p \<Longrightarrow> accepts (p, st) (blk x @ rest) = accepts (EndValue, st') rest"
    and "\<And>rest. accepts (EndValue, st') (Comma # rest) = accepts (q, st) rest" and "P q" and "P p" and "xs \<noteq> []"
  shows "accepts (p, st) (commas (map blk xs) @ rest) = accepts (EndValue, st') rest"
  using assms(1,4,5) by (induction xs arbitrary: p rule: induct_list012) (simp_all add: assms(2,3) del: accepts.simps)

lemma depth_members:
  "v \<in> set vs \<Longrightarrow> json_depth v < json_depth (JArr vs)"
  "(k, v) \<in> set ms \<Longrightarrow> json_depth v < json_depth (JObj ms)"
  by (auto simp: less_Suc_eq_le intro!: Max_ge rev_image_eqI)

lemma open_array:
  assumes "begins p" "Suc (length st) \<le> maxNestingDepth"
  shows "accepts (p, st) (LBrack # ts) = accepts (BeginValueOrEmpty, ParseArrayValue # st) ts"
  using assms by (auto simp: begins_def pushParseState_def)

lemma open_object:
  assumes "begins p" "Suc (length st) \<le> maxNestingDepth"
  shows "accepts (p, st) (LBrace # ts) = accepts (BeginStringOrEmpty, ParseObjectKey # st) ts"
  using assms by (auto simp: begins_def pushParseState_def)

lemma accepts_json_tokens:
  "begins p \<Longrightarrow> json_depth v + length st \<le> maxNestingDepth \<Longrightarrow>
     accepts (p, st) (json_tokens v @ rest) = accepts (EndValue, st) rest"
proof (induction v arbitrary: p st rest rule: json_tokens.induct)
  case (5 vs)
  have push: "Suc (length st) \<le> maxNestingDepth" using "5.prems"(2) by simp
  show ?case
  proof (cases "vs = []")
    case False
    have "accepts (BeginValueOrEmpty, ParseArrayValue # st) (commas (map json_tokens vs) @ RBrack # rest) =
        accepts (EndValue, ParseArrayValue # st) (RBrack # rest)"
    proof (rule accepts_commas [where P = begins and q = BeginValue])
      fix v p rest assume v: "v \<in> set vs" "begins p"
      then have "json_depth v + length (ParseArrayValue # st) \<le> maxNestingDepth"
        using depth_members(1) [OF v(1)] "5.prems"(2) by (simp del: json_depth.simps)
      then show "accepts (p, ParseArrayValue # st) (json_tokens v @ rest) = accepts (EndValue, ParseArrayValue # st) rest"
        by (rule "5.IH" [OF v])
    qed (simp_all add: begins_def False)
    also have "accepts (EndValue, ParseArrayValue # st) (RBrack # rest) = accepts (EndValue, st) rest" by simp
    finally show ?thesis by (simp add: open_array [OF "5.prems"(1) push] del: accepts.simps)
  qed (use "5.prems"(1) push in \<open>auto simp: begins_def pushParseState_def\<close>)
next
  case (6 ms)
  have push: "Suc (length st) \<le> maxNestingDepth" using "6.prems"(2) by simp
  show ?case
  proof (cases "ms = []")
    case False
    have member: "accepts (BeginValue, ParseObjectValue # st) (json_tokens v @ rest) = accepts (EndValue, ParseObjectValue # st) rest"
      if "(k, v) \<in> set ms" for k v rest
    proof -
      have "json_depth v + length (ParseObjectValue # st) \<le> maxNestingDepth"
        using depth_members(2) [OF that] "6.prems"(2) by (simp del: json_depth.simps)
      then show ?thesis by (intro "6.IH" [OF that refl]) (simp_all add: begins_def)
    qed
    have "accepts (BeginStringOrEmpty, ParseObjectKey # st)
        (commas (map (\<lambda>(k, v). Str k # Colon # json_tokens v) ms) @ RBrace # rest) =
        accepts (EndValue, ParseObjectValue # st) (RBrace # rest)"
    proof (rule accepts_commas [where P = "\<lambda>p. p = BeginStringOrEmpty \<or> p = BeginString" and q = BeginString])
      fix m p rest assume m: "m \<in> set ms" "p = BeginStringOrEmpty \<or> p = BeginString"
      obtain k v where kv: "m = (k, v)" by fastforce
      then show "accepts (p, ParseObjectKey # st) ((case m of (k, v) \<Rightarrow> Str k # Colon # json_tokens v) @ rest) =
          accepts (EndValue, ParseObjectValue # st) rest"
        using member [of k v rest] m by auto
    qed (simp_all add: False)
    also have "accepts (EndValue, ParseObjectValue # st) (RBrace # rest) = accepts (EndValue, st) rest" by simp
    finally show ?thesis by (simp add: open_object [OF "6.prems"(1) push] del: accepts.simps)
  qed (use "6.prems"(1) push in \<open>auto simp: begins_def pushParseState_def\<close>)
qed (auto simp: begins_def)


text \<open>The tokens: a number ends where a comma or a bracket follows.\<close>

definition delimits :: "token list \<Rightarrow> bool" where
  "delimits ts \<longleftrightarrow> ts = [] \<or> hd ts \<in> {Comma, RBrace, RBrack}"

fun spaced :: "token list \<Rightarrow> bool" where
  "spaced [] = True"
| "spaced (Num w # ts) = (is_int_text w \<and> delimits ts \<and> spaced ts)"
| "spaced (t # ts) = (written t \<and> spaced ts)"

lemma spaced_written: "written t \<Longrightarrow> spaced (t # ts) = spaced ts"
  by (cases t) simp_all

lemma dropWhile_digits:
  assumes "list_all is_digit w" and "r = [] \<or> \<not> is_digit (hd r)"
  shows "skip_digits (w @ r) = r"
  using assms by (induction w) (auto simp: skip_digits_def dropWhile_eq_self_iff)

definition stops :: "string \<Rightarrow> bool" where
  "stops r \<longleftrightarrow> r = [] \<or> hd r \<in> {CHR '','', CHR ''}'', CHR '']''}"

lemma stops_facts:
  assumes "stops r"
  shows "r = [] \<or> \<not> is_digit (hd r)" "scan_frac r = Some r" "scan_exp r = Some r"
  using assms by (cases r; auto simp: stops_def is_digit_def scan_frac_def scan_exp_def)+

lemma scan_nat_text:
  assumes "stops r"
  shows "scan_int (nat_text n @ r) = Some r"
proof -
  have zero: "digit 0 = CHR ''0''" by code_simp
  show ?thesis
  proof (cases "n = 0")
    case True
    then show ?thesis using zero by (simp add: nat_text.simps [of 0] scan_int_def)
  next
    case False
    obtain c w where t: "nat_text n = c # w" by (cases "nat_text n") auto
    have "c \<noteq> CHR ''0''" using nat_text_hd [OF False] zero by (simp add: t)
    moreover have "list_all is_digit (c # w)" using nat_text_digits [of _ n] by (auto simp: t list_all_iff)
    ultimately show ?thesis
      using dropWhile_digits [of "c # w" r] stops_facts(1) [OF assms]
      by (simp add: t scan_int_def some_digits_def)
  qed
qed

lemma scan_int_text:
  assumes "stops r"
  shows "scan_number (int_text i @ r) = Some r"
proof -
  have "hd (nat_text n @ r) \<noteq> CHR ''-''" for n
  proof -
    have "is_digit (hd (nat_text n))" by (rule nat_text_digits [of _ n]) simp
    then show ?thesis by (auto simp: is_digit_def hd_append)
  qed
  then show ?thesis
    using scan_nat_text [OF assms] stops_facts [OF assms]
    by (simp add: int_text_def scan_number_def)
qed

lemma int_text_hd:
  assumes "int_text i = c # w"
  shows "c = CHR ''-'' \<or> is_digit c"
proof -
  have "is_digit (hd (nat_text n))" for n by (rule nat_text_digits [of _ n]) simp
  then have "hd (int_text i) = CHR ''-'' \<or> is_digit (hd (int_text i))" by (simp add: int_text_def)
  then show ?thesis by (simp add: assms)
qed

lemma digit_not_white:
  assumes "is_digit c"
  shows "\<not> white c" "punctuation c = None" "c \<noteq> quotation"
proof -
  show "\<not> white c" using assms by (auto simp: is_digit_def white_def)
  show "punctuation c = None"
    using assms by (cases "punctuation c") (auto simp: punctuation_def is_digit_def split: if_splits)
  show "c \<noteq> quotation" using assms by (auto simp: is_digit_def)
qed

lemma tokens_number:
  assumes "is_int_text w" and "stops r"
  shows "tokens (w @ r) = map_option (Cons (Num w)) (tokens r)"
proof -
  obtain i where w: "w = int_text i" using assms(1) by (auto simp: is_int_text_def split: sum.splits)
  then have "w \<noteq> []" by (simp add: int_text_def)
  then obtain c v where c: "w = c # v" by (cases w) auto
  have "scan_number (c # v @ r) = Some r" using scan_int_text [OF assms(2), of i] c [unfolded w] by simp
  moreover have "take (Suc (length (v @ r)) - length r) (c # v @ r) = c # v" by simp
  moreover have "\<not> white (CHR ''-'')" "punctuation (CHR ''-'') = None"
    by (simp_all add: white_def punctuation_def)
  ultimately show ?thesis
    using int_text_hd [OF c [unfolded w]] digit_not_white [of c] by (elim disjE) (simp_all add: c)
qed

lemma stops_text: "delimits ts \<Longrightarrow> stops (text_of ts)"
  by (cases ts) (auto simp: delimits_def stops_def text_of_def)

lemma tokens_spaced: "spaced ts \<Longrightarrow> tokens (text_of ts) = Some ts"
proof (induction ts)
  case (Cons t ts)
  have tx: "text_of (t # ts) = token_text t @ text_of ts" by (simp add: text_of_def)
  show ?case
  proof (cases "written t")
    case True
    then show ?thesis using Cons by (simp add: tx tokens_token spaced_written)
  next
    case False
    then obtain w where "t = Num w" using Cons.prems by (cases t) auto
    then show ?thesis using Cons tx by (simp add: tokens_number stops_text)
  qed
qed (simp add: text_of_def)

lemma delimits_simps [simp]: "delimits []" "delimits (t # ts) = (t \<in> {Comma, RBrace, RBrack})"
  by (simp_all add: delimits_def)

lemma spaced_commas:
  assumes "\<And>x rest. x \<in> set xs \<Longrightarrow> delimits rest \<Longrightarrow> spaced rest \<Longrightarrow> spaced (blk x @ rest)"
    and "delimits rest" and "spaced rest"
  shows "spaced (commas (map blk xs) @ rest)"
  using assms(1) by (induction xs rule: induct_list012) (simp_all add: assms(2,3))

lemma spaced_json_tokens: "proper v \<Longrightarrow> delimits rest \<Longrightarrow> spaced rest \<Longrightarrow> spaced (json_tokens v @ rest)"
proof (induction v arbitrary: rest rule: json_tokens.induct)
  case (5 vs)
  have "spaced (commas (map json_tokens vs) @ RBrack # rest)"
    by (rule spaced_commas) (use 5 in \<open>auto simp: list_all_iff\<close>)
  then show ?case by simp
next
  case (6 ms)
  have "spaced (commas (map (\<lambda>(k, v). Str k # Colon # json_tokens v) ms) @ RBrace # rest)"
    by (rule spaced_commas) (use 6 in \<open>fastforce simp: list_all_iff\<close>)+
  then show ?case by simp
qed simp_all

text \<open>A proper value is read back from its text.\<close>

lemma parse_json_text:
  assumes "proper v" and "json_depth v \<le> maxNestingDepth"
  shows "parse_json (json_text v) = Some v"
proof -
  have "tokens (json_text v) = Some (json_tokens v)"
    using tokens_spaced [of "json_tokens v"] spaced_json_tokens [OF assms(1), of "[]"]
    by (simp add: json_text_def)
  moreover have "checkValid (json_tokens v)"
    using accepts_json_tokens [of BeginValue v "[]" "[]"] assms(2) by (simp add: checkValid_def begins_def)
  ultimately show ?thesis using fold_json_tokens [of "[]" v None] by (simp add: parse_json_def)
qed

section \<open>What is cut off or followed by more is not read\<close>

text \<open>What the automaton accepts it accepts no longer when a token follows.\<close>

lemma accepts_end: "accepts sc ts \<Longrightarrow> \<not> accepts sc (ts @ t # us)"
proof (induction ts arbitrary: sc)
  case Nil
  then show ?case by (cases t) simp_all
qed (fastforce split: option.splits)

lemma json_tokens_valid: "json_depth v \<le> maxNestingDepth \<Longrightarrow> checkValid (json_tokens v)"
  using accepts_json_tokens [of BeginValue v "[]" "[]"] by (simp add: checkValid_def begins_def)

lemma parse_json_cut:
  assumes "list_all written (json_tokens v)" and "json_depth v \<le> maxNestingDepth" and "n < length (json_text v)"
  shows "parse_json (take n (json_text v)) = None"
proof -
  have "text_of (json_tokens v) = take n (json_text v) @ drop n (json_text v)" "drop n (json_text v) \<noteq> []"
    using assms(3) by (simp_all add: json_text_def)
  from tokens_prefix [OF assms(1) this]
  consider "tokens (take n (json_text v)) = None"
    | j where "j < length (json_tokens v)" "tokens (take n (json_text v)) = Some (take j (json_tokens v))" by auto
  then show ?thesis
  proof cases
    case (2 j)
    have "json_tokens v = take j (json_tokens v) @ json_tokens v ! j # drop (Suc j) (json_tokens v)"
      using 2(1) by (rule id_take_nth_drop)
    then have "\<not> checkValid (take j (json_tokens v))"
      using accepts_end [of "(BeginValue, [])" "take j (json_tokens v)"] json_tokens_valid [OF assms(2)]
      unfolding checkValid_def by metis
    then show ?thesis using 2(2) by (simp add: parse_json_def)
  qed (simp add: parse_json_def)
qed

lemma tokens_white: "tokens r = Some [] \<Longrightarrow> list_all white r"
  by (induction r) (auto split: if_splits option.splits prod.splits)

lemma tokens_after: "list_all written ts \<Longrightarrow> tokens (text_of ts @ r) = map_option ((@) ts) (tokens r)"
  by (induction ts) (cases "tokens r"; simp add: text_of_def tokens_token)+

lemma parse_json_followed:
  assumes "list_all written (json_tokens v)" and "json_depth v \<le> maxNestingDepth" and "\<not> list_all white r"
  shows "parse_json (json_text v @ r) = None"
proof (cases "tokens r")
  case None
  then show ?thesis using tokens_after [OF assms(1), of r] by (simp add: parse_json_def json_text_def)
next
  case (Some ts)
  then obtain t us where "ts = t # us" using tokens_white [of r] assms(3) by (cases ts) auto
  then have "\<not> checkValid (json_tokens v @ ts)"
    using accepts_end json_tokens_valid [OF assms(2)] by (simp add: checkValid_def)
  then show ?thesis using tokens_after [OF assms(1), of r] Some by (simp add: parse_json_def json_text_def)
qed

section \<open>A value at the beginning of a stream\<close>

text \<open>
  \<open>json.Decoder\<close> reads as far as the first value goes and leaves the rest.  An object, a list or a text ends
  where a prefix first is a value; where a number or a literal ends does not matter to a caller that wants
  an object.
\<close>

definition first_value :: "string \<Rightarrow> json option" where
  "first_value s =
     Option.bind (find (\<lambda>n. parse_json (take n s) \<noteq> None) [0..<Suc (length s)]) (\<lambda>n. parse_json (take n s))"

lemma find_upt:
  assumes "n < m" and "P n" and "\<And>k. k < n \<Longrightarrow> \<not> P k"
  shows "find P [0..<m] = Some n"
  using assms by (auto simp: find_Some_iff intro!: exI [of _ n])

lemma first_value_text:
  assumes "list_all written (json_tokens v)" and "proper v" and "json_depth v \<le> maxNestingDepth"
  shows "first_value (json_text v @ r) = Some v"
proof -
  let ?n = "length (json_text v)"
  have full: "parse_json (take ?n (json_text v @ r)) = Some v" using parse_json_text [OF assms(2,3)] by simp
  have "find (\<lambda>n. parse_json (take n (json_text v @ r)) \<noteq> None) [0..<Suc (length (json_text v @ r))] = Some ?n"
    by (rule find_upt) (use parse_json_cut [OF assms(1,3)] full in auto)
  then show ?thesis using full by (simp add: first_value_def)
qed

end
