(* ===== verification/Json_Struct.thy ===== *)
theory Json_Struct
  imports Json_Value
begin

text \<open>
  How \<open>json.Unmarshal\<close> stores a value in a struct: field by field, keeping on when a value has the wrong
  type, and reporting that in the end.
\<close>

section \<open>Fields\<close>

text \<open>
  The field a key names: the one with this name, or else one with this name but for the case of its
  letters, where the Kelvin sign is a case of the letter k and the long s one of the letter s.
\<close>

definition lower :: "char \<Rightarrow> nat" where
  "lower c = (if 65 \<le> byte c \<and> byte c \<le> 90 then byte c + 32 else byte c)"

fun equal_fold :: "string \<Rightarrow> string \<Rightarrow> bool" where
  "equal_fold [] ks = (ks = [])"
| "equal_fold (n # ns) [] = False"
| "equal_fold (n # ns) (c # cs) =
     (if byte c < 128 then lower c = lower n \<and> equal_fold ns cs
      else if lower n = 107 then map byte (take 3 (c # cs)) = [226, 132, 170] \<and> equal_fold ns (drop 2 cs)
      else if lower n = 115 then map byte (take 2 (c # cs)) = [197, 191] \<and> equal_fold ns (drop 1 cs)
      else False)"

text \<open>What a field does with a value: the struct afterwards, and whether the value had the right type.\<close>

type_synonym 'r field = "json \<Rightarrow> 'r \<Rightarrow> 'r \<times> bool"

definition find_field :: "(string \<times> 'r field) list \<Rightarrow> string \<Rightarrow> 'r field option" where
  "find_field fields key =
     (case map_of fields key of
        Some f \<Rightarrow> Some f
      | None \<Rightarrow> map_option snd (find (\<lambda>(n, f). equal_fold n key) fields))"

definition text_field :: "(string \<Rightarrow> 'r \<Rightarrow> 'r) \<Rightarrow> 'r field" where
  "text_field upd v r = (case v of JStr w \<Rightarrow> (upd w r, True) | JNull \<Rightarrow> (r, True) | _ \<Rightarrow> (r, False))"

definition bool_field :: "(bool \<Rightarrow> 'r \<Rightarrow> 'r) \<Rightarrow> 'r field" where
  "bool_field upd v r = (case v of JBool b \<Rightarrow> (upd b r, True) | JNull \<Rightarrow> (r, True) | _ \<Rightarrow> (r, False))"

text \<open>An \<open>int\<close>: a number with a fraction, with an exponent or beyond 64 bits is of the wrong type.\<close>

definition int_field :: "(int \<Rightarrow> 'r \<Rightarrow> 'r) \<Rightarrow> 'r field" where
  "int_field upd v r =
     (case v of
        JNum w \<Rightarrow> (case atoi w of Inr i \<Rightarrow> (upd i r, True) | Inl err \<Rightarrow> (r, False))
      | JNull \<Rightarrow> (r, True)
      | _ \<Rightarrow> (r, False))"

text \<open>A pointer to a text, which null sets to nil.\<close>

definition pointer_field :: "(string option \<Rightarrow> 'r \<Rightarrow> 'r) \<Rightarrow> 'r field" where
  "pointer_field upd v r =
     (case v of JStr w \<Rightarrow> (upd (Some w) r, True) | JNull \<Rightarrow> (upd None r, True) | _ \<Rightarrow> (r, False))"

text \<open>A struct into which an object is stored, and a slice of structs, all of them new.\<close>

definition store_members :: "(string \<times> 'r field) list \<Rightarrow> (string \<times> json) list \<Rightarrow> 'r \<Rightarrow> 'r \<times> bool" where
  "store_members fields ms r =
     fold (\<lambda>(key, v) (r, fine).
       case find_field fields key of
         None \<Rightarrow> (r, fine)
       | Some f \<Rightarrow> (case f v r of (r, fine') \<Rightarrow> (r, fine \<and> fine'))) ms (r, True)"

definition struct_value :: "(string \<times> 'r field) list \<Rightarrow> 'r field" where
  "struct_value fields v r =
     (case v of JObj ms \<Rightarrow> store_members fields ms r | JNull \<Rightarrow> (r, True) | _ \<Rightarrow> (r, False))"

definition slice_value :: "(string \<times> 'e field) list \<Rightarrow> 'e \<Rightarrow> json \<Rightarrow> ('e list \<times> bool) option" where
  "slice_value fields zero v =
     (case v of
        JArr vs \<Rightarrow> Some (map (\<lambda>v. fst (struct_value fields v zero)) vs, list_all (\<lambda>v. snd (struct_value fields v zero)) vs)
      | JNull \<Rightarrow> Some ([], True)
      | _ \<Rightarrow> None)"

definition slice_field :: "(string \<times> 'e field) list \<Rightarrow> 'e \<Rightarrow> ('e list \<Rightarrow> 'r \<Rightarrow> 'r) \<Rightarrow> 'r field" where
  "slice_field fields zero upd v r =
     (case slice_value fields zero v of None \<Rightarrow> (r, False) | Some (es, fine) \<Rightarrow> (upd es r, fine))"

text \<open>\<open>json.Unmarshal\<close>: a text that is not JSON stores nothing.\<close>

definition Unmarshal :: "(string \<times> 'r field) list \<Rightarrow> string \<Rightarrow> 'r \<Rightarrow> 'r \<times> bool" where
  "Unmarshal fields data r = (case parse_json data of None \<Rightarrow> (r, False) | Some v \<Rightarrow> struct_value fields v r)"

section \<open>Storing what was written\<close>

lemma field_simps [simp]:
  "text_field upd (JStr w) r = (upd w r, True)" "bool_field updb (JBool b) r = (updb b r, True)"
  "pointer_field updp (JStr w) r = (updp (Some w) r, True)"
  by (simp_all add: text_field_def bool_field_def pointer_field_def)

lemma int_text_range: "- (2 ^ 63) \<le> i \<Longrightarrow> i < 2 ^ 63 \<Longrightarrow> atoi (int_text i) = Inr i"
proof (cases "i < 0")
  case True
  moreover assume "- (2 ^ 63) \<le> i"
  ultimately show ?thesis by (simp add: int_text_def atoi_def Let_def)
next
  case False
  moreover assume "i < 2 ^ 63"
  then have "nat i < 2 ^ 63" by simp
  ultimately show ?thesis using atoi_nat_text [of "nat i"] by (simp add: int_text_def)
qed

lemma int_text_proper: "- (2 ^ 63) \<le> i \<Longrightarrow> i < 2 ^ 63 \<Longrightarrow> is_int_text (int_text i)"
  using int_text_range by (simp add: is_int_text_def)

lemma int_field_text: "- (2 ^ 63) \<le> i \<Longrightarrow> i < 2 ^ 63 \<Longrightarrow> int_field upd (JNum (int_text i)) r = (upd i r, True)"
  using int_text_range by (simp add: int_field_def)

lemma slice_value_map:
  assumes "\<And>e. e \<in> set es \<Longrightarrow> struct_value fields (enc e) zero = (e, True)"
  shows "slice_value fields zero (JArr (map enc es)) = Some (es, True)"
proof -
  have "map (\<lambda>v. fst (struct_value fields v zero)) (map enc es) = es"
    using assms by (induction es) simp_all
  moreover have "list_all (\<lambda>v. snd (struct_value fields v zero)) (map enc es)"
    using assms by (auto simp: list_all_iff)
  ultimately show ?thesis by (simp add: slice_value_def)
qed

lemma store_members_simps [simp]:
  "store_members fields [] r = (r, True)"
  "find_field fields key = Some f \<Longrightarrow> f v r = (r', True) \<Longrightarrow>
     store_members fields ((key, v) # ms) r = store_members fields ms r'"
  by (simp_all add: store_members_def)

lemma find_field_exact [simp]: "map_of fields key = Some f \<Longrightarrow> find_field fields key = Some f"
  by (simp add: find_field_def)

lemma Unmarshal_text:
  assumes "proper v" and "json_depth v \<le> maxNestingDepth"
  shows "Unmarshal fields (json_text v) r = struct_value fields v r"
  by (simp add: Unmarshal_def parse_json_text [OF assms])

end
