(* ===== verification/Http_Json.thy ===== *)
theory Http_Json
  imports Json_Struct Http_Api
begin

text \<open>
  The bodies of the control plane's HTTP answers, and of a registration, as JSON: what \<open>c.JSON\<close> writes of the
  structs in \<open>api.gen.go\<close>, what the clients make of it, and what \<open>BodyParser\<close> makes of a registration.
\<close>

section \<open>The bodies of the HTTP answers\<close>

text \<open>\<open>c.JSON\<close> of the structs in \<open>api.gen.go\<close>, and \<open>SendString\<close>.\<close>

fun body_text :: "body \<Rightarrow> string" where
  "body_text (ErrorBody message) = json_text (JObj [(''error'', JObj [(''message'', JStr message)])])"
| "body_text (TargetsBody ts) = json_text (JArr (map (\<lambda>t. JObj [(''name'', JStr t)]) ts))"
| "body_text (DeviceBody deviceId token) =
     json_text (JObj [(''deviceId'', JStr deviceId), (''deviceToken'', JStr token)])"
| "body_text (TextBody t) = t"

text \<open>The clients: \<open>RegisterDeviceResponse\<close> of \<open>common/data_types.go\<close>, and the slice of target names.\<close>

record RegisterDeviceResponse =
  rd_DeviceId :: string
  rd_DeviceToken :: string

definition register_fields :: "(string \<times> RegisterDeviceResponse field) list" where
  "register_fields =
     [(''deviceId'', text_field (\<lambda>w r. r\<lparr>rd_DeviceId := w\<rparr>)), (''deviceToken'', text_field (\<lambda>w r. r\<lparr>rd_DeviceToken := w\<rparr>))]"

definition decode_registration :: "string \<Rightarrow> string result" where
  "decode_registration data =
     (case Unmarshal register_fields data \<lparr>rd_DeviceId = [], rd_DeviceToken = []\<rparr> of
        (deviceRegistrationResp, fine) \<Rightarrow> if fine then Inr (rd_DeviceToken deviceRegistrationResp) else Inl ParseError)"

definition target_fields :: "(string \<times> string field) list" where
  "target_fields = [(''name'', text_field (\<lambda>w r. w))]"

definition decode_targets :: "string \<Rightarrow> string list result" where
  "decode_targets data =
     (case parse_json data of
        None \<Rightarrow> Inl ParseError
      | Some v \<Rightarrow>
          (case slice_value target_fields [] v of
             Some (profileList, True) \<Rightarrow> Inr profileList
           | _ \<Rightarrow> Inl ParseError))"

text \<open>The control plane reads the body of a registration with a pointer to the hardware id.\<close>

definition decode_register_request :: "string \<Rightarrow> register_body" where
  "decode_register_request data =
     (case Unmarshal [(''hardwareId'', pointer_field (\<lambda>w r. w))] data None of
        (hardwareId, fine) \<Rightarrow> if fine then Inr hardwareId else Inl ParseError)"

text \<open>
  What a body means to the clients.  An error, an object without the field they look for, is an empty
  token.
\<close>

fun unmarshal_registration :: "body \<Rightarrow> string result" where
  "unmarshal_registration (DeviceBody deviceId token) = Inr token"
| "unmarshal_registration (ErrorBody msg) = Inr []"
| "unmarshal_registration (TargetsBody ts) = Inl ParseError"
| "unmarshal_registration (TextBody t) = Inl ParseError"

fun unmarshal_targets :: "body \<Rightarrow> string list result" where
  "unmarshal_targets (TargetsBody ts) = Inr ts"
| "unmarshal_targets (ErrorBody msg) = Inl ParseError"
| "unmarshal_targets (DeviceBody i t) = Inl ParseError"
| "unmarshal_targets (TextBody t) = Inl ParseError"

fun ascii_body :: "body \<Rightarrow> bool" where
  "ascii_body (ErrorBody message) = ascii message"
| "ascii_body (TargetsBody ts) = list_all ascii ts"
| "ascii_body (DeviceBody deviceId token) = (ascii deviceId \<and> ascii token)"
| "ascii_body (TextBody t) = (parse_json t = None)"

lemma ascii_tags [simp]:
  "ascii ''error''" "ascii ''message''" "ascii ''name''" "ascii ''deviceId''" "ascii ''deviceToken''" "ascii ''hardwareId''"
  by (simp_all add: ascii_def)

lemma targets_stored: "slice_value target_fields [] (JArr (map (\<lambda>t. JObj [(''name'', JStr t)]) ts)) = Some (ts, True)"
  by (rule slice_value_map) (simp add: struct_value_def target_fields_def)

text \<open>
  What the clients make of the bytes of an answer is what they make of the value that was sent, on every
  kind of answer, errors and lists included: a registration gives its token, an error an empty one, and
  what is not of the right shape is an error.
\<close>

theorem bodies_received:
  assumes "ascii_body b"
  shows "decode_registration (body_text b) = unmarshal_registration b \<and> decode_targets (body_text b) = unmarshal_targets b"
proof (cases b)
  case (ErrorBody m)
  let ?v = "JObj [(''error'', JObj [(''message'', JStr m)])]"
  have v: "proper ?v" "json_depth ?v \<le> maxNestingDepth" using assms ErrorBody by (simp_all add: maxNestingDepth_def)
  have "equal_fold ''deviceId'' ''error'' = False" "equal_fold ''deviceToken'' ''error'' = False" by (simp_all add: lower_def)
  then show ?thesis using ErrorBody
    by (simp add: decode_registration_def decode_targets_def Unmarshal_text [OF v] parse_json_text [OF v] struct_value_def
        store_members_def find_field_def register_fields_def slice_value_def)
next
  case (TargetsBody ts)
  let ?v = "JArr (map (\<lambda>t. JObj [(''name'', JStr t)]) ts)"
  have "proper ?v" using assms TargetsBody by (auto simp: list_all_iff)
  moreover have "json_depth ?v \<le> 2" by auto
  then have "json_depth ?v \<le> maxNestingDepth" by (simp add: maxNestingDepth_def)
  ultimately have v: "Unmarshal register_fields (json_text ?v) z = struct_value register_fields ?v z"
    "parse_json (json_text ?v) = Some ?v" for z
    by (simp_all only: Unmarshal_text parse_json_text)
  show ?thesis using TargetsBody targets_stored [of ts]
    by (simp add: decode_registration_def decode_targets_def v struct_value_def)
next
  case (DeviceBody i t)
  let ?v = "JObj [(''deviceId'', JStr i), (''deviceToken'', JStr t)]"
  have v: "proper ?v" "json_depth ?v \<le> maxNestingDepth" using assms DeviceBody by (simp_all add: maxNestingDepth_def)
  show ?thesis using DeviceBody
    by (simp add: decode_registration_def decode_targets_def Unmarshal_text [OF v] parse_json_text [OF v] struct_value_def
        register_fields_def slice_value_def)
next
  case (TextBody t)
  then show ?thesis using assms by (simp add: decode_registration_def decode_targets_def Unmarshal_def)
qed


theorem bodies_received_witness:
  "let b = ErrorBody ''target already exists'' in
   ascii_body b \<and> decode_registration (body_text b) = Inr [] \<and> decode_targets (body_text b) = Inl ParseError"
proof -
  have b: "ascii_body (ErrorBody ''target already exists'')" by (simp add: ascii_def)
  from bodies_received [OF b] b show ?thesis by (simp add: Let_def)
qed

text \<open>The only text the control plane sends is no JSON.\<close>

lemma created_text: "ascii_body (TextBody ''successfully created target'')"
proof -
  have "punctuation (CHR ''s'') = None" "\<not> white (CHR ''s'')" "\<not> is_digit (CHR ''s'')"
    by (simp_all add: punctuation_def white_def is_digit_def)
  then show ?thesis by (simp add: parse_json_def)
qed

section \<open>The body of a registration\<close>

text \<open>A machine id is put between the quotation marks as it is: it must have nothing to escape.\<close>

definition clean :: "string \<Rightarrow> bool" where
  "clean s \<longleftrightarrow> list_all (\<lambda>c. 32 \<le> byte c \<and> byte c < 128 \<and> c \<noteq> quotation \<and> c \<noteq> backslash) s"

definition registration_text :: "string \<Rightarrow> string" where
  "registration_text machineId = ''{'' @ [quotation] @ ''hardwareId'' @ [quotation] @ '':'' @ [quotation] @ machineId @ [quotation] @ ''}''"

lemma scan_clean: "clean s \<Longrightarrow> scan_string (s @ quotation # r) = Some (s, r)"
  by (induction s) (simp_all add: clean_def prepend_def)

lemma unquote_clean: "clean s \<Longrightarrow> unquote s = s"
  by (induction s) (simp_all add: clean_def)

lemma registration_read:
  assumes "clean machineId"
  shows "decode_register_request (registration_text machineId) = Inr (Some machineId)"
proof -
  have key: "clean ''hardwareId''" by (simp add: clean_def)
  have "tokens (registration_text machineId) = Some (json_tokens (JObj [(''hardwareId'', JStr machineId)]))"
    using scan_clean [OF key] unquote_clean [OF key] scan_clean [OF assms] unquote_clean [OF assms]
    by (simp add: registration_text_def)
  then have "parse_json (registration_text machineId) = Some (JObj [(''hardwareId'', JStr machineId)])"
    by (simp add: parse_json_def checkValid_def pushParseState_def maxNestingDepth_def)
  then show ?thesis by (simp add: decode_register_request_def Unmarshal_def struct_value_def)
qed

end
