(* ===== verification/Client_Cli.thy ===== *)
theory Client_Cli
  imports Rvpn_Daemon_Props Http_Json
begin

text \<open>
  The command line client (\<open>cmd/client/client.go\<close>, \<open>client_linux.go\<close>, \<open>client_darwin.go\<close>,
  \<open>client_windows.go\<close>, \<open>state.go\<close>, \<open>help.go\<close>, \<open>main.go\<close>): each command talks to the daemon over
  net/rpc and to the control plane over HTTP.  The state holds the daemon's process, whether it still
  runs, what was printed and which HTTP requests were sent; \<open>os.Exit(1)\<close> is the outcome \<open>Fatal\<close>.
\<close>

section \<open>The daemon and the control plane, seen from a client\<close>

record http_request =
  rq_method :: string
  rq_url :: string
  rq_authorization :: string
  rq_body :: string

record 'w cli =
  proc :: "'w process"
  running :: bool
  printed :: "string list"
  http_log :: "http_request list"

text \<open>
  What the client cannot know: the machine's id, whether \<open>http.NewRequest\<close> takes a URL, the answer of the
  control plane to a request (a status, and the bytes of the body unless reading them fails), how the
  daemon's dial will go, and the texts of the errors of the libraries.
\<close>

record outside =
  machine_ID :: "string result"
  http_NewRequest :: "http_request \<Rightarrow> unit result"
  http_Do :: "http_request \<Rightarrow> (nat \<times> string result) result"
  dialling :: dial
  error_text :: "go_error \<Rightarrow> string"

definition rpc_Dial :: "('w cli, unit) stmt" where
  "rpc_Dial s = (if running s then Inr () else Inl RpcError, s)"

text \<open>
  A call runs the procedure in the daemon.  net/rpc does not recover: a procedure that panics or exits
  takes the daemon with it, and the caller sees the connection end.
\<close>

definition rpc_Call :: "('w process, 'a result) prog \<Rightarrow> ('w cli, 'a) stmt" where
  "rpc_Call m s =
     (if running s
      then (case m (proc s) of
              (Return r, p) \<Rightarrow> (r, s\<lparr>proc := p\<rparr>)
            | (_, p) \<Rightarrow> (Inl RpcError, s\<lparr>proc := p, running := False\<rparr>))
      else (Inl RpcError, s))"

definition http_send :: "outside \<Rightarrow> http_request \<Rightarrow> ('w cli, nat \<times> string result) stmt" where
  "http_send X req s = (http_Do X req, s\<lparr>http_log := http_log s @ [req]\<rparr>)"

definition println :: "string \<Rightarrow> ('w cli, unit) prog" where
  "println msg = modify (\<lambda>s. s\<lparr>printed := printed s @ [msg]\<rparr>)"

definition die :: "string \<Rightarrow> ('w cli, 'a) prog" where
  "die msg = then_do (println msg) log_fatal"

text \<open>
  The idiom \<open>if err != nil { fmt.Println(msg, err); os.Exit(1) }\<close>; some of the commands leave out the
  error, some print it with \<open>fmt.Printf("...: %v", err)\<close>.
\<close>

definition or_exit :: "(go_error \<Rightarrow> string) \<Rightarrow> ('w cli, 'a) stmt \<Rightarrow> ('w cli, 'a) prog" where
  "or_exit msg m = bind (attempt m) (\<lambda>r. case r of Inl err \<Rightarrow> die (msg err) | Inr x \<Rightarrow> ret x)"

definition plain :: "string \<Rightarrow> go_error \<Rightarrow> string" where
  "plain msg err = msg"

definition with_err :: "outside \<Rightarrow> string \<Rightarrow> go_error \<Rightarrow> string" where
  "with_err X msg err = msg @ '' '' @ error_text X err"

definition colon_err :: "outside \<Rightarrow> string \<Rightarrow> go_error \<Rightarrow> string" where
  "colon_err X msg err = msg @ '': '' @ error_text X err"

definition result_of :: "'a result \<Rightarrow> ('w cli, 'a) stmt" where
  "result_of r s = (r, s)"

section \<open>state.go\<close>

definition GetRVpnState_rpc :: "('w cli, RVpnState) stmt" where
  "GetRVpnState_rpc = rpc_Call GetState"

definition SetRVpnState_rpc :: "RVpnState \<Rightarrow> ('w cli, unit) stmt" where
  "SetRVpnState_rpc rVPNState =
     and_then (rpc_Call (SetState rVPNState)) (\<lambda>rVPNSetStateSuccess.
       if rVPNSetStateSuccess then ok () else fail FileError)"

section \<open>client.go\<close>

definition RVPN_CONTROL_PLANE :: string where
  "RVPN_CONTROL_PLANE = ''http://rvpn.jimmyli.us''"

definition RVPN_CONTROL_PLANE_WS :: string where
  "RVPN_CONTROL_PLANE_WS = ''ws://rvpn.jimmyli.us''"

definition RVPN_VERSION :: string where
  "RVPN_VERSION = ''0.0.1''"

definition getControlPanelAuthToken :: "outside \<Rightarrow> ('w cli, string) prog" where
  "getControlPanelAuthToken X =
     bind (or_exit (colon_err X ''failed to get rVPN state'') GetRVpnState_rpc) (\<lambda>rVPNState.
       ret (ControlPlaneAuth rVPNState))"

definition ControlPanelAuthLogin :: "outside \<Rightarrow> string \<Rightarrow> ('w cli, unit) prog" where
  "ControlPanelAuthLogin X token =
     bind (or_exit (with_err X ''failed to connect to rVPN daemon'') rpc_Dial) (\<lambda>_.
     bind (or_exit (colon_err X ''failed to get rVPN state'') GetRVpnState_rpc) (\<lambda>rVPNState.
     bind (or_exit (plain ''failed to save rVPN state'') (SetRVpnState_rpc (rVPNState\<lparr>ControlPlaneAuth := token\<rparr>))) (\<lambda>_.
       println ''successfully set rVPN login token!'')))"

text \<open>
  The registration of the device, the same code in \<open>ClientConnectProfile\<close> (lines 76 to 129) and in
  \<open>ClientServeProfile\<close>.  Only the status 401 is looked at: any other answer is unmarshalled, and a JSON
  object without the field, such as an error message, leaves the token empty.
\<close>

definition register_request :: "string \<Rightarrow> string \<Rightarrow> string \<Rightarrow> http_request" where
  "register_request profile machineId token =
     \<lparr>rq_method = ''POST'', rq_url = RVPN_CONTROL_PLANE @ ''/api/v1/target/'' @ profile @ ''/register_device'',
      rq_authorization = ''Bearer '' @ token,
      rq_body = registration_text machineId\<rparr>"

definition register_device :: "outside \<Rightarrow> string \<Rightarrow> ('w cli, string) prog" where
  "register_device X profile =
     bind (getControlPanelAuthToken X) (\<lambda>controlPanelAuthToken.
     if controlPanelAuthToken = []
     then die ''not logged into rVPN, login first using \"rvpn login [token]\"'' else
     bind (or_exit (with_err X ''failed to get machine id'') (result_of (machine_ID X))) (\<lambda>machineId.
     let req = register_request profile machineId controlPanelAuthToken in
     bind (or_exit (with_err X ''register device request failed'') (result_of (http_NewRequest X req))) (\<lambda>_.
     bind (or_exit (with_err X ''failed to send device registration request'') (http_send X req)) (\<lambda>(statusCode, content).
     if statusCode = 401
     then die ''invalid rVPN login token, please check target / login token and try again'' else
     bind (or_exit (with_err X ''failed to read device registration response'') (result_of content)) (\<lambda>bytes.
       or_exit (with_err X ''failed to unmarshal device registration response'')
         (result_of (decode_registration bytes)))))))"

definition connect_args :: "string \<Rightarrow> string \<Rightarrow> string list \<Rightarrow> ConnectRequest" where
  "connect_args profile token clientOpts =
     \<lparr>cr_Profile = profile, cr_DeviceToken = token, cr_ControlPlaneWS = RVPN_CONTROL_PLANE_WS, cr_Opts = clientOpts\<rparr>"

definition serve_args :: "string \<Rightarrow> string \<Rightarrow> ServeRequest" where
  "serve_args profile token =
     \<lparr>sr_Profile = profile, sr_DeviceToken = token, sr_ControlPlaneWS = RVPN_CONTROL_PLANE_WS\<rparr>"

text \<open>The reply of \<open>Connect\<close>, whether the connection was made, is not looked at.\<close>

definition ClientConnectProfile :: "outside \<Rightarrow> string \<Rightarrow> string list \<Rightarrow> ('w cli, unit) prog" where
  "ClientConnectProfile X profile clientOpts =
     bind (or_exit (with_err X ''failed to connect to rVPN daemon'') rpc_Dial) (\<lambda>_.
     bind (or_exit (with_err X ''failed to get rVPN status'') (rpc_Call Status)) (\<lambda>connectionStatus.
     if connectionStatus \<noteq> StatusDisconnected
     then die ''device is already connected to a rVPN target, disconnect and try again'' else
     bind (register_device X profile) (\<lambda>deviceToken.
     bind (or_exit (colon_err X ''failed to connect rVPN target'')
       (rpc_Call (Connect (connect_args profile deviceToken clientOpts) (dialling X)))) (\<lambda>connectionSuccess.
       println (''rVPN successfully connected to profile '' @ profile)))))"

definition ClientDisconnectProfile :: "'w wireguard \<Rightarrow> outside \<Rightarrow> ('w cli, unit) prog" where
  "ClientDisconnectProfile G X =
     bind (or_exit (with_err X ''failed to connect to rVPN daemon'') rpc_Dial) (\<lambda>_.
     bind (or_exit (with_err X ''failed to get rVPN status'') (rpc_Call Status)) (\<lambda>connectionStatus.
     if connectionStatus = StatusDisconnected
     then die ''device is not connected to a rVPN target, disconnect and try again'' else
     bind (or_exit (with_err X ''failed to disconnect from rVPN connection'') (rpc_Call (Disconnect_rpc G))) (\<lambda>disconnectSuccess.
       println ''successfully disconnected rVPN'')))"

text \<open>The last branch of the code, an unknown status, is not a value of the type.\<close>

fun status_text :: "RVPNStatus \<Rightarrow> string" where
  "status_text StatusConnected = ''rVPN is currently connected to a profile''"
| "status_text StatusDisconnected = ''rVPN is not currently connected to a profile''"
| "status_text StatusServing = ''rVPN is currently serving as a target VPN server''"

definition ClientStatus :: "outside \<Rightarrow> ('w cli, unit) prog" where
  "ClientStatus X =
     bind (or_exit (plain ''failed to connect to rVPN daemon'') rpc_Dial) (\<lambda>_.
     bind (or_exit (with_err X ''failed to get status from rVPN daemon'') (rpc_Call Status)) (\<lambda>rVPNState.
       println (status_text rVPNState)))"

definition list_request :: "string \<Rightarrow> http_request" where
  "list_request token =
     \<lparr>rq_method = ''GET'', rq_url = RVPN_CONTROL_PLANE @ ''/api/v1/target/'',
      rq_authorization = ''Bearer '' @ token, rq_body = []\<rparr>"

definition ListTargetProfiles :: "outside \<Rightarrow> ('w cli, unit) prog" where
  "ListTargetProfiles X =
     bind (or_exit (plain ''failed to connect to rVPN daemon'') rpc_Dial) (\<lambda>_.
     bind (or_exit (plain ''failed to get rVPN state'') GetRVpnState_rpc) (\<lambda>rVPNState.
     let controlPanelAuthToken = ControlPlaneAuth rVPNState; req = list_request controlPanelAuthToken in
     if controlPanelAuthToken = [] then die ''not logged into rVPN, login first\"'' else
     bind (or_exit (plain ''failed to create request to list targets'') (result_of (http_NewRequest X req))) (\<lambda>_.
     bind (or_exit (plain ''failed to send request to list targets'') (http_send X req)) (\<lambda>(statusCode, content).
     if statusCode = 401
     then die ''invalid rVPN login token, please check target / login token and try again'' else
     bind (or_exit (with_err X ''failed to read user targets response: %w'') (result_of content)) (\<lambda>bytes.
     bind (or_exit (plain ''failed to read message from control plane'')
       (result_of (decode_targets bytes))) (\<lambda>profileList.
     then_do (println ''available rVPN target profiles:'')
       (each println profileList)))))))"

definition EnsureDaemonStarted :: "('w cli, unit) prog" where
  "EnsureDaemonStarted =
     (let msg = ''failed to connect to rVPN daemon, ensure the rvpn service is running'' in
      bind (or_exit (plain msg) rpc_Dial) (\<lambda>_.
      bind (or_exit (plain msg) (rpc_Call Ping)) (\<lambda>pingStatus.
        if \<not> pingStatus then die msg else ret ())))"

section \<open>client\_linux.go, client\_darwin.go, client\_windows.go\<close>

definition ClientServeProfile :: "'w wireguard \<Rightarrow> outside \<Rightarrow> string \<Rightarrow> ('w cli, unit) prog" where
  "ClientServeProfile G X profile =
     bind (or_exit (plain ''failed to connect to rVPN daemon'') rpc_Dial) (\<lambda>_.
     bind (or_exit (with_err X ''failed to connect rVPN target'') (rpc_Call Status)) (\<lambda>connectionStatus.
     if connectionStatus \<noteq> StatusDisconnected
     then die ''device is already connected to a rVPN target, disconnect and try again'' else
     bind (register_device X profile) (\<lambda>deviceToken.
     bind (or_exit (colon_err X ''failed to serve rVPN target'')
       (rpc_Call (Serve G (serve_args profile deviceToken) (dialling X)))) (\<lambda>connectionSuccess.
       println (''rVPN successfully serving as target VPN server for profile '' @ profile)))))"

definition ClientServeProfile_darwin :: "string \<Rightarrow> ('w cli, unit) prog" where
  "ClientServeProfile_darwin profile =
     println ''ERROR: darwin rVPN client is not supported to serve as a VPN server''"

definition ClientServeProfile_windows :: "string \<Rightarrow> ('w cli, unit) prog" where
  "ClientServeProfile_windows profile =
     println ''ERROR: windows rVPN client is not supported to serve as a VPN server''"

section \<open>help.go and main.go\<close>

text \<open>The texts are raw strings: lines, some of them with a tab in front.\<close>

definition tabbed :: "string \<Rightarrow> string" where
  "tabbed s = CHR 0x09 # s"

definition raw_text :: "string list \<Rightarrow> string" where
  "raw_text ls = concat (map (\<lambda>l. l @ [CHR 0x0A]) ls)"

definition helpMsg :: string where
  "helpMsg = raw_text
     [''Usage: rvpn <command> [arguments]'',
      [],
      ''Available commands are:'',
      [],
      tabbed ''login      - login and authenticate client'',
      tabbed ''ls         - list available rVPN profiles'',
      tabbed ''status     - show current status of rVPN'',
      tabbed ''connect    - connect to a rVPN profile'',
      tabbed ''serve      - serve as a rVPN target server'',
      tabbed ''disconnect - disconnect current rVPN profile'',
      tabbed ''daemon     - start the rVPN daemon (windows only)'',
      tabbed ''version    - display rVPN version'',
      [],
      ''Use \"rvpn help <command>\" for more information about a command'']"

definition connectHelpMsg :: string where
  "connectHelpMsg = raw_text
     [''Usage: rvpn connect [profile]'',
      [],
      ''Available flags are:'',
      [],
      ''Advanced flags (only use if you know what you are doing!):'',
      tabbed ''--subnets - comma separated list of subnets to connect to (will override served subnets)'']"

definition serveHelpMsg :: string where
  "serveHelpMsg = raw_text
     [''Usage: rvpn serve [profile]'',
      [],
      ''Available flags are:'',
      tabbed ''--subnets - comma separated list of subnets to serve; by default will be all traffic'']"

definition displayHelp :: "('w cli, unit) prog" where
  "displayHelp = println helpMsg"

definition displayCmdHelp :: "string \<Rightarrow> ('w cli, unit) prog" where
  "displayCmdHelp command =
     (if command = ''connect'' then println connectHelpMsg
      else if command = ''serve'' then println serveHelpMsg
      else println ''Unknown command, run 'rvpn help' for help'')"

definition arg :: "nat \<Rightarrow> string list \<Rightarrow> string" where
  "arg i args = (if i < length args then args ! i else [])"

text \<open>
  \<open>main\<close> after the flags have been parsed: \<open>args\<close> are the remaining arguments, \<open>subnets\<close> the value of
  the flag.  The platform gives how to serve and how to start the daemon; the latter gets the path of
  the executable, and without one \<open>main\<close> returns.
\<close>

definition cli_main ::
  "'w wireguard \<Rightarrow> outside \<Rightarrow> (string \<Rightarrow> ('w cli, unit) prog) \<Rightarrow> (string \<Rightarrow> ('w cli, unit) prog) \<Rightarrow>
   string result \<Rightarrow> string list \<Rightarrow> string list \<Rightarrow> ('w cli, unit) prog" where
  "cli_main G X serveProfile startDaemon executable subnets args =
     (let command = arg 0 args; operand = arg 1 args in
      if command = [] then println ''missing required argument, run 'rvpn help' for help''
      else if command = ''help''
      then (if operand \<noteq> [] then displayCmdHelp operand else displayHelp)
      else if command = ''login''
      then (if operand = [] then println ''missing required token, rvpn login [token]''
            else then_do EnsureDaemonStarted (ControlPanelAuthLogin X operand))
      else if command = ''list'' then then_do EnsureDaemonStarted (ListTargetProfiles X)
      else if command = ''connect''
      then (if operand \<noteq> [] then then_do EnsureDaemonStarted (ClientConnectProfile X operand subnets)
            else println ''missing required profile, rvpn connect [profile]'')
      else if command = ''serve''
      then (if operand \<noteq> [] then then_do EnsureDaemonStarted (serveProfile operand)
            else println ''missing required profile, rvpn serve [profile]'')
      else if command = ''disconnect'' then then_do EnsureDaemonStarted (ClientDisconnectProfile G X)
      else if command = ''status'' then then_do EnsureDaemonStarted (ClientStatus X)
      else if command = ''daemon''
      then (case executable of Inl err \<Rightarrow> ret () | Inr exePath \<Rightarrow> startDaemon exePath)
      else if command = ''version'' then println (''rVPN version: '' @ RVPN_VERSION)
      else println ''command not found, run 'rvpn help' for help'')"

end
