(* ===== verification/Client_Gui.thy ===== *)
theory Client_Gui
  imports Client_Cli
begin

text \<open>
  The bindings of the GUI (\<open>cmd/client_gui/app.go\<close>): the same talk with the daemon and the control plane
  as the command line's, over the same state, but every method returns, and an error goes into the
  \<open>WrappedReturn\<close> instead of ending the process.  The relation \<open>mirrors\<close> says that a method of the GUI and
  a command of the command line are the same but for that.
\<close>

section \<open>app.go\<close>

record WrappedReturn =
  Success :: bool
  Data :: string
  Error :: string

definition wrappedError :: "string \<Rightarrow> WrappedReturn" where
  "wrappedError err = \<lparr>Success = False, Data = [], Error = err\<rparr>"

definition wrappedSuccess :: "string \<Rightarrow> WrappedReturn" where
  "wrappedSuccess text = \<lparr>Success = True, Data = text, Error = []\<rparr>"

text \<open>The idiom \<open>if err != nil { return wrappedError(fmt.Errorf("...: %w", err)) }\<close>.\<close>

definition or_wrapped ::
  "outside \<Rightarrow> string \<Rightarrow> ('w cli, 'a) stmt \<Rightarrow> ('a \<Rightarrow> ('w cli, WrappedReturn) prog) \<Rightarrow> ('w cli, WrappedReturn) prog" where
  "or_wrapped X msg m k =
     bind (attempt m) (\<lambda>r. case r of Inl err \<Rightarrow> ret (wrappedError (colon_err X msg err)) | Inr x \<Rightarrow> k x)"

definition gui_GetRVpnState :: "('w cli, RVpnState) stmt" where
  "gui_GetRVpnState = rpc_Call GetState"

definition gui_SetRVpnState :: "RVpnState \<Rightarrow> ('w cli, unit) stmt" where
  "gui_SetRVpnState rVPNState =
     and_then (rpc_Call (SetState rVPNState)) (\<lambda>rVPNSetStateSuccess.
       if rVPNSetStateSuccess then ok () else fail FileError)"

definition App_GetControlPlaneAuth :: "outside \<Rightarrow> ('w cli, WrappedReturn) prog" where
  "App_GetControlPlaneAuth X =
     or_wrapped X ''failed to connect to rVPN daemon'' rpc_Dial (\<lambda>_.
     or_wrapped X ''failed to get rPVN state'' gui_GetRVpnState (\<lambda>rVPNState.
       ret (wrappedSuccess (ControlPlaneAuth rVPNState))))"

definition App_Login :: "outside \<Rightarrow> string \<Rightarrow> ('w cli, WrappedReturn) prog" where
  "App_Login X token =
     or_wrapped X ''failed to connect to rVPN daemon'' rpc_Dial (\<lambda>_.
     or_wrapped X ''failed to get rVPN state'' gui_GetRVpnState (\<lambda>rVPNState.
     or_wrapped X ''failed to set rVPN state'' (gui_SetRVpnState (rVPNState\<lparr>ControlPlaneAuth := token\<rparr>)) (\<lambda>_.
       ret (wrappedSuccess ''successfully logged into rVPN!''))))"

definition App_Logout :: "outside \<Rightarrow> ('w cli, WrappedReturn) prog" where
  "App_Logout X =
     or_wrapped X ''failed to connect to rVPN daemon'' rpc_Dial (\<lambda>_.
     or_wrapped X ''failed to get rVPN state'' gui_GetRVpnState (\<lambda>rVPNState.
     or_wrapped X ''failed to set rVPN state'' (gui_SetRVpnState (rVPNState\<lparr>ControlPlaneAuth := []\<rparr>)) (\<lambda>_.
       ret (wrappedSuccess ''successfully logged out of rVPN!''))))"

text \<open>The body of the answer is handed on as it is.\<close>

definition App_ListTargets :: "outside \<Rightarrow> ('w cli, WrappedReturn) prog" where
  "App_ListTargets X =
     or_wrapped X ''failed to connect to rVPN daemon'' rpc_Dial (\<lambda>_.
     or_wrapped X ''failed to get rVPN state'' gui_GetRVpnState (\<lambda>rVPNState.
     let controlPanelAuthToken = ControlPlaneAuth rVPNState; req = list_request controlPanelAuthToken in
     if controlPanelAuthToken = [] then ret (wrappedError ''not logged into rVPN, login first\"'') else
     or_wrapped X ''list target profiles request failed'' (result_of (http_NewRequest X req)) (\<lambda>_.
     or_wrapped X ''failed to send list target profiles request'' (http_send X req) (\<lambda>(statusCode, content).
     if statusCode = 401
     then ret (wrappedError ''invalid rVPN login token, please check target / login token and try again'') else
     or_wrapped X ''failed to read user targets response'' (result_of content) (\<lambda>bytes.
       ret (wrappedSuccess bytes))))))"

definition App_Connect :: "outside \<Rightarrow> string \<Rightarrow> string list \<Rightarrow> ('w cli, WrappedReturn) prog" where
  "App_Connect X profile clientOpts =
     or_wrapped X ''failed to connect to rVPN daemon'' rpc_Dial (\<lambda>_.
     or_wrapped X ''failed to get rVPN status'' (rpc_Call Status) (\<lambda>connectionStatus.
     if connectionStatus \<noteq> StatusDisconnected
     then ret (wrappedError ''device is already connected to a rVPN target, disconnect and try again'') else
     or_wrapped X ''failed to get rVPN state'' gui_GetRVpnState (\<lambda>rVPNState.
     let controlPanelAuthToken = ControlPlaneAuth rVPNState in
     if controlPanelAuthToken = [] then ret (wrappedError ''not logged into rVPN, login first\"'') else
     or_wrapped X ''failed to get machine id'' (result_of (machine_ID X)) (\<lambda>machineId.
     let req = register_request profile machineId controlPanelAuthToken in
     or_wrapped X ''register device request failed'' (result_of (http_NewRequest X req)) (\<lambda>_.
     or_wrapped X ''failed to send device registration request'' (http_send X req) (\<lambda>(statusCode, content).
     if statusCode = 401
     then ret (wrappedError ''invalid rVPN login token, please check target / login token and try again'') else
     or_wrapped X ''failed to read device registration response'' (result_of content) (\<lambda>bytes.
     or_wrapped X ''failed to unmarshal device registration response''
       (result_of (decode_registration bytes)) (\<lambda>deviceToken.
     or_wrapped X ''failed to connect rVPN target''
       (rpc_Call (Connect (connect_args profile deviceToken clientOpts) (dialling X))) (\<lambda>connectionSuccess.
       ret (wrappedSuccess ''successfully connected to rVPN target''))))))))))"

definition App_Disconnect :: "'w wireguard \<Rightarrow> outside \<Rightarrow> ('w cli, WrappedReturn) prog" where
  "App_Disconnect G X =
     or_wrapped X ''failed to connect to rVPN daemon'' rpc_Dial (\<lambda>_.
     or_wrapped X ''failed to get rVPN status'' (rpc_Call Status) (\<lambda>connectionStatus.
     if connectionStatus = StatusDisconnected
     then ret (wrappedError ''device is not connected to a rVPN target, disconnect and try again'') else
     or_wrapped X ''failed to disconnect from rVPN connection'' (rpc_Call (Disconnect_rpc G)) (\<lambda>disconnectSuccess.
       ret (wrappedSuccess ''successfully disconnected from rVPN''))))"

text \<open>As in the command line, the branch for an unknown status has no value of the type.\<close>

fun wrapped_status :: "RVPNStatus \<Rightarrow> WrappedReturn" where
  "wrapped_status StatusConnected = wrappedSuccess ''rVPN is currently connected to a profile''"
| "wrapped_status StatusDisconnected = wrappedSuccess ''rVPN is not currently connected to a profile''"
| "wrapped_status StatusServing = wrappedSuccess ''rVPN is currently serving as a target VPN server''"

definition App_Status :: "outside \<Rightarrow> ('w cli, WrappedReturn) prog" where
  "App_Status X =
     or_wrapped X ''failed to connect to rVPN daemon'' rpc_Dial (\<lambda>_.
     or_wrapped X ''failed to get status from rVPN daemon'' (rpc_Call Status) (\<lambda>rVPNState.
       ret (wrapped_status rVPNState)))"

definition App_Version :: string where
  "App_Version = ''0.0.1''"

text \<open>
  \<open>startup\<close>: the path of the executable may not be known; else the daemon's service is started with the
  command line client beside it.  \<open>filepath.Dir\<close>, which depends on the system, is an argument.
\<close>

definition App_startup ::
  "(string \<Rightarrow> string) \<Rightarrow> (string \<Rightarrow> ('s, unit) prog) \<Rightarrow> string result \<Rightarrow> ('s, unit) prog" where
  "App_startup filepath_Dir startDaemon executable =
     (case executable of
        Inl err \<Rightarrow> ret ()
      | Inr exePath \<Rightarrow> startDaemon (path_Join (filepath_Dir exePath) ''rvpnc.exe''))"

section \<open>The GUI and the command line\<close>

text \<open>
  \<open>mirrors g c\<close>: from any state the method returns, it succeeds exactly when the command is not ended
  by \<open>os.Exit\<close>, and both leave the same state but for what the command has printed.
\<close>

definition unprinted :: "'w cli \<Rightarrow> 'w cli" where
  "unprinted s = s\<lparr>printed := []\<rparr>"

definition mirrors :: "('w cli, WrappedReturn) prog \<Rightarrow> ('w cli, unit) prog \<Rightarrow> bool" where
  "mirrors g c \<longleftrightarrow> (\<forall>s. \<exists>w s1 r s2. g s = (Return w, s1) \<and> c s = (r, s2) \<and>
     r = (if Success w then Return () else Fatal) \<and> unprinted s1 = unprinted s2)"

named_theorems mirrors_intros \<open>methods that mirror commands\<close>

lemma die_run: "die msg s = (Fatal, s\<lparr>printed := printed s @ [msg]\<rparr>)"
  by (simp add: die_def println_def prog_run)

lemma mirrors_done [mirrors_intros]:
  "mirrors (ret (wrappedError e)) (die msg)"
  "mirrors (ret (wrappedSuccess d)) (println msg)"
  by (simp_all add: mirrors_def die_run wrappedError_def wrappedSuccess_def unprinted_def println_def
      ret_def modify_def)

lemma mirrors_call [mirrors_intros]:
  assumes "\<And>x. mirrors (k x) (k' x)"
  shows "mirrors (or_wrapped X msg m k) (bind (or_exit f m) k')"
  unfolding mirrors_def
proof (intro allI)
  fix s
  obtain r s1 where m: "m s = (r, s1)" by fastforce
  show "\<exists>w s1 r s2. or_wrapped X msg m k s = (Return w, s1) \<and> bind (or_exit f m) k' s = (r, s2) \<and>
      r = (if Success w then Return () else Fatal) \<and> unprinted s1 = unprinted s2"
  proof (cases r)
    case (Inl e)
    with m show ?thesis
      by (simp add: or_wrapped_def or_exit_def bind_def attempt_def die_run ret_def wrappedError_def unprinted_def)
  next
    case (Inr x)
    have "or_wrapped X msg m k s = k x s1" "bind (or_exit f m) k' s = k' x s1"
      using m Inr by (simp_all add: or_wrapped_def or_exit_def bind_def attempt_def ret_def)
    then show ?thesis using assms [of x] unfolding mirrors_def by simp
  qed
qed

lemma mirrors_cases [mirrors_intros]:
  "(b \<Longrightarrow> mirrors g c) \<Longrightarrow> (\<not> b \<Longrightarrow> mirrors g' c') \<Longrightarrow> mirrors (if b then g else g') (if b then c else c')"
  "(\<And>x y. mirrors (h x y) (d x y)) \<Longrightarrow> mirrors (case_prod h z) (case_prod d z)"
  by (auto split: prod.split)

text \<open>The registration of the command line, brought into the shape of the GUI's.\<close>

lemma bind_assoc: "bind (bind m f) g = bind m (\<lambda>x. bind (f x) g)"
  by (rule ext) (simp add: bind_def split: prod.split exec.split)

lemma bind_die: "bind (die msg) k = die msg"
  by (rule ext) (simp add: bind_def die_run)

lemma bind_if: "bind (if b then m else n) k = (if b then bind m k else bind n k)"
  by simp

lemma bind_prod: "bind (case z of (x, y) \<Rightarrow> f x y) k = (case z of (x, y) \<Rightarrow> bind (f x y) k)"
  by (simp split: prod.split)

lemma bind_ret: "bind (ret x) k = k x"
  by (rule ext) (simp add: bind_def ret_def)

lemma bind_let: "bind (let x = v in f x) k = (let x = v in bind (f x) k)"
  by (simp add: Let_def)

lemmas prog_normal = bind_assoc bind_die bind_if bind_prod bind_ret bind_let

text \<open>
  C10: \<open>Connect\<close>, \<open>Login\<close>, \<open>Disconnect\<close> and \<open>Status\<close> of the GUI do exactly what the commands connect, login,
  disconnect and status do: from any state of the daemon and for any outside they send the same
  requests and leave the daemon in the same state, and the GUI reports success exactly when the
  command does not exit with an error.
\<close>

theorem gui_is_cli:
  "mirrors (App_Connect X profile clientOpts) (ClientConnectProfile X profile clientOpts) \<and>
   mirrors (App_Login X token) (ControlPanelAuthLogin X token) \<and>
   mirrors (App_Disconnect G X) (ClientDisconnectProfile G X) \<and>
   mirrors (App_Status X) (ClientStatus X)"
proof (intro conjI)
  have "mirrors (ret (wrapped_status st)) (println (status_text st))" for st :: RVPNStatus
    by (cases st) (simp_all add: mirrors_intros)
  then show "mirrors (App_Status X) (ClientStatus X)"
    unfolding App_Status_def ClientStatus_def by (intro mirrors_intros)
  show "mirrors (App_Connect X profile clientOpts) (ClientConnectProfile X profile clientOpts)"
    unfolding App_Connect_def ClientConnectProfile_def register_device_def getControlPanelAuthToken_def
      prog_normal gui_GetRVpnState_def GetRVpnState_rpc_def Let_def
    by (intro mirrors_intros)
  show "mirrors (App_Login X token) (ControlPanelAuthLogin X token)"
    unfolding App_Login_def ControlPanelAuthLogin_def gui_GetRVpnState_def GetRVpnState_rpc_def
      gui_SetRVpnState_def SetRVpnState_rpc_def
    by (intro mirrors_intros)
  show "mirrors (App_Disconnect G X) (ClientDisconnectProfile G X)"
    unfolding App_Disconnect_def ClientDisconnectProfile_def by (intro mirrors_intros)
qed

end
