(* ===== verification/Client_Props.thy ===== *)
theory Client_Props
  imports Client_Gui Rvpn_Linux
begin

text \<open>
  What the clients can rely on and what they cannot: the status check that makes a disconnection safe,
  the token that is stored and read back, the successes that are reported without one, and a command
  line without a daemon.
\<close>

section \<open>Calls that succeed\<close>

lemma rpc_Dial_run: "running s \<Longrightarrow> rpc_Dial s = (Inr (), s)"
  by (simp add: rpc_Dial_def)

lemma rpc_Call_run: "running s \<Longrightarrow> m (proc s) = (Return r, p) \<Longrightarrow> rpc_Call m s = (r, s\<lparr>proc := p\<rparr>)"
  by (simp add: rpc_Call_def)

lemma status_run: "running s \<Longrightarrow> rpc_Call Status s = (Inr (status (rvpn (proc s))), s)"
  by (simp add: rpc_Call_run Status_def asks_def)

lemma get_state_run:
  "running s \<Longrightarrow> disk_sound (state_disk (proc s)) \<Longrightarrow> rpc_Call GetState s = (Inr (held (proc s)), s)"
  by (simp add: rpc_Call_run GetState_def attempt_def on_disk_def GetRVpnState_run held_def)

lemma set_state_run:
  "running s \<Longrightarrow> disk_sound (state_disk (proc s)) \<Longrightarrow>
     rpc_Call (SetState st) s =
       (Inr True, s\<lparr>proc := (proc s)\<lparr>state_disk := (state_disk (proc s))\<lparr>state_file := Some st\<rparr>\<rparr>\<rparr>)"
  by (simp add: rpc_Call_run SetState_def save_state_run prog_run)

lemma or_exit_step: "m s = (Inr x, s') \<Longrightarrow> bind (or_exit f m) k s = k x s'"
  by (simp add: or_exit_def bind_def attempt_def ret_def)

lemma or_wrapped_step: "m s = (Inr x, s') \<Longrightarrow> or_wrapped X msg m k s = k x s'"
  by (simp add: or_wrapped_def bind_def attempt_def)

lemma println_run: "println msg s = (Return (), s\<lparr>printed := printed s @ [msg]\<rparr>)"
  by (simp add: println_def modify_def)

section \<open>Disconnecting\<close>

lemma disconnect_run:
  assumes "has_wireguard (rvpn p)" and "wg_Disconnect G (wireguard p) = (Return (), w)"
    and "jrpcConn (rvpn p) = Some c" and "jrpcCtxCancel (rvpn p) = Some c"
  shows "Disconnect_rpc G p = (Return (Inr True),
    p\<lparr>wireguard := w, closed := closed p @ [c], cancelled := cancelled p @ [c],
      rvpn := (rvpn p)\<lparr>status := StatusDisconnected\<rparr>\<rparr>)"
  using assms
  by (simp add: Disconnect_rpc_def on_wg_def close_conn_def cancel_ctx_def set_rvpn_def prog_run)


section \<open>Logging in\<close>

text \<open>
  A token that was stored is the one every later request is made with: after login the GUI reads it
  back, and the keys of the device and its active profile are untouched; after a logout it reads the
  empty token.
\<close>

theorem login_roundtrip:
  assumes "running s" and "disk_sound (state_disk (proc s))"
  shows "\<exists>s1 s2. ControlPanelAuthLogin X token s = (Return (), s1) \<and>
    App_GetControlPlaneAuth X s1 = (Return (wrappedSuccess token), s1) \<and>
    held (proc s1) = (held (proc s))\<lparr>ControlPlaneAuth := token\<rparr> \<and>
    App_Logout X s1 = (Return (wrappedSuccess ''successfully logged out of rVPN!''), s2) \<and>
    App_GetControlPlaneAuth X s2 = (Return (wrappedSuccess []), s2) \<and>
    held (proc s2) = (held (proc s))\<lparr>ControlPlaneAuth := []\<rparr>"
proof -
  have set: "SetRVpnState_rpc st t = (Inr (), t\<lparr>proc := (proc t)\<lparr>state_disk := (state_disk (proc t))\<lparr>state_file := Some st\<rparr>\<rparr>\<rparr>)"
    "gui_SetRVpnState st t = SetRVpnState_rpc st t"
    if "running t" "disk_sound (state_disk (proc t))" for st and t :: "'a cli"
    using that by (simp_all add: SetRVpnState_rpc_def gui_SetRVpnState_def and_then_def set_state_run ok_def)
  have auth: "App_GetControlPlaneAuth X t = (Return (wrappedSuccess (ControlPlaneAuth (held (proc t)))), t)"
    if "running t" "disk_sound (state_disk (proc t))" for t :: "'a cli"
    using that by (simp add: App_GetControlPlaneAuth_def gui_GetRVpnState_def or_wrapped_step [OF rpc_Dial_run]
        or_wrapped_step [OF get_state_run] ret_def)
  have sound: "disk_sound (d\<lparr>state_file := Some st\<rparr>)" if "disk_sound d" for d st
    using that by (auto simp: disk_sound_def)
  let ?put = "\<lambda>tok t. t\<lparr>proc := (proc t)\<lparr>state_disk := (state_disk (proc t))
      \<lparr>state_file := Some ((held (proc t))\<lparr>ControlPlaneAuth := tok\<rparr>)\<rparr>\<rparr>\<rparr>"
  let ?s1 = "(?put token s)\<lparr>printed := printed s @ [''successfully set rVPN login token!'']\<rparr>"
  have 1: "ControlPanelAuthLogin X token s = (Return (), ?s1)"
    using assms by (simp add: ControlPanelAuthLogin_def GetRVpnState_rpc_def or_exit_step [OF rpc_Dial_run]
        or_exit_step [OF get_state_run] or_exit_step [OF set(1)] println_run)
  have r1: "running ?s1" "disk_sound (state_disk (proc ?s1))" using assms sound by simp_all
  have 2: "App_Logout X ?s1 = (Return (wrappedSuccess ''successfully logged out of rVPN!''), ?put [] ?s1)"
    using r1 by (simp add: App_Logout_def gui_GetRVpnState_def or_wrapped_step [OF rpc_Dial_run]
        or_wrapped_step [OF get_state_run] set(2) or_wrapped_step [where m = "gui_SetRVpnState _", OF trans [OF set(2) set(1)]] ret_def)
  have r2: "running (?put [] ?s1)" "disk_sound (state_disk (proc (?put [] ?s1)))" using assms sound by simp_all
  show ?thesis
    using 1 2 auth [OF r1] auth [OF r2] by (intro exI conjI) (assumption | simp add: held_def)+
qed

section \<open>Connecting\<close>

text \<open>Everything up to the call of the daemon, when nothing on the way fails.\<close>

lemma client_connect_run:
  assumes "running s" and "status (rvpn (proc s)) = StatusDisconnected" and "disk_sound (state_disk (proc s))"
    and "ControlPlaneAuth (held (proc s)) \<noteq> []" and "machine_ID X = Inr machineId"
    and "req = register_request profile machineId (ControlPlaneAuth (held (proc s)))"
    and "http_NewRequest X req = Inr ()" and "http_Do X req = Inr (statusCode, Inr bytes)" and "statusCode \<noteq> 401"
    and "decode_registration bytes = Inr token"
    and "Connect (connect_args profile token clientOpts) (dialling X) (proc s) = (Return (Inr b), p)"
  shows "ClientConnectProfile X profile clientOpts s =
    (Return (), s\<lparr>proc := p, http_log := http_log s @ [req],
       printed := printed s @ [''rVPN successfully connected to profile '' @ profile]\<rparr>)"
proof -
  have r: "result_of (Inr x) t = (Inr x, t)" for x and t :: "'a cli" by (simp add: result_of_def)
  have h: "http_send X req s = (Inr (statusCode, Inr bytes), s\<lparr>http_log := http_log s @ [req]\<rparr>)"
    using assms(8) by (simp add: http_send_def)
  have call: "rpc_Call (Connect (connect_args profile token clientOpts) (dialling X)) (s\<lparr>http_log := http_log s @ [req]\<rparr>) =
      (Inr b, s\<lparr>http_log := http_log s @ [req], proc := p\<rparr>)"
    using assms(1,11) by (simp add: rpc_Call_run)
  show ?thesis
    unfolding ClientConnectProfile_def register_device_def getControlPanelAuthToken_def prog_normal GetRVpnState_rpc_def
    using assms(1-5,7,9,10)
    by (simp add: or_exit_step [OF rpc_Dial_run] or_exit_step [OF status_run] or_exit_step [OF get_state_run]
        Let_def assms(6) [symmetric] or_exit_step r h call println_run)
qed

text \<open>
  A dial that fails is reported as a success: the daemon answers false without an error, the answer
  is not looked at, and the command prints that it has connected while the daemon is as it was.
\<close>

theorem failed_dial_reported_as_success:
  assumes "running s" and "status (rvpn (proc s)) = StatusDisconnected" and "disk_sound (state_disk (proc s))"
    and "ControlPlaneAuth (held (proc s)) \<noteq> []" and "machine_ID X = Inr machineId"
    and "req = register_request profile machineId (ControlPlaneAuth (held (proc s)))"
    and "http_NewRequest X req = Inr ()" and "http_Do X req = Inr (statusCode, Inr bytes)" and "statusCode \<noteq> 401"
    and "decode_registration bytes = Inr token"
    and "tcp (dialling X) = Inl e \<or> handshake (dialling X) = Inl e"
  shows "\<exists>s'. ClientConnectProfile X profile clientOpts s = (Return (), s') \<and>
    printed s' = printed s @ [''rVPN successfully connected to profile '' @ profile] \<and>
    rvpn (proc s') = rvpn (proc s) \<and> handlers (proc s') = handlers (proc s)"
proof -
  obtain url where "Connect (connect_args profile token clientOpts) (dialling X) (proc s) =
      (Return (Inr False), (proc s)\<lparr>dialled := dialled (proc s) @ [url]\<rparr>)"
    using failed_dial_is_no_error [OF assms(11)] by blast
  from client_connect_run [OF assms(1-10) this] show ?thesis by simp
qed

text \<open>
  A registration that the control plane refuses with anything but 401 goes through: the error
  message unmarshals to an empty token, and the daemon opens a channel on which it will identify
  itself with that.
\<close>

theorem refused_registration_still_connects:
  assumes "running s" and "status (rvpn (proc s)) = StatusDisconnected" and "disk_sound (state_disk (proc s))"
    and "ControlPlaneAuth (held (proc s)) \<noteq> []" and "machine_ID X = Inr machineId"
    and "req = register_request profile machineId (ControlPlaneAuth (held (proc s)))"
    and "http_NewRequest X req = Inr ()" and "http_Do X req = Inr (statusCode, Inr bytes)" and "statusCode \<noteq> 401"
    and "bytes = body_text (ErrorBody msg)" and "ascii msg"
    and "tcp (dialling X) = Inr addr" and "handshake (dialling X) = Inr ()"
  shows "\<exists>s'. ClientConnectProfile X profile clientOpts s = (Return (), s') \<and>
    handlers (proc s') = handlers (proc s) @ [\<lparr>deviceToken = [], controlPlaneAddr = host_part addr\<rparr>]"
proof -
  have t: "decode_registration bytes = Inr []" using bodies_received [of "ErrorBody msg"] assms(10,11) by simp
  from client_connect_run [OF assms(1-9) t, unfolded Connect_def, OF open_channel_run [OF assms(12,13)]]
  show ?thesis by (simp add: connect_args_def)
qed

text \<open>
  C11: The client, the control plane and the daemon agree on who connects: when the stored token was
  signed for a user and the control plane, from the bytes of the client's request, registers a device and
  sends the bytes of its answer, the daemon ends up with a channel on which it identifies itself with a token that the control plane validates to
  a device on record for that user and that machine, and the user may use the target.
\<close>

theorem connects_as_registered_device:
  assumes "running s" and "status (rvpn (proc s)) = StatusDisconnected" and "disk_sound (state_disk (proc s))"
    and "ControlPlaneAuth (held (proc s)) \<noteq> []" and "machine_ID X = Inr machineId"
    and "req = register_request profile machineId (ControlPlaneAuth (held (proc s)))"
    and "http_NewRequest X req = Inr ()" and "tcp (dialling X) = Inr addr" and "handshake (dialling X) = Inr ()"
    and "jwt_correct J" and "SignUserToken J key who = Inr (ControlPlaneAuth (held (proc s)))"
    and "uuid \<notin> d_deviceId ` set (devices d)"
    and "serve_api J key (Some (rq_authorization req))
        (PostRegisterDevice profile (decode_register_request (rq_body req)) uuid) d =
      (Return (Response 200 (DeviceBody i token)), d')"
    and "http_Do X req = Inr (200, Inr (body_text (DeviceBody i token)))"
    and "clean machineId" and "ascii i" and "ascii token"
  shows "\<exists>s' h. ClientConnectProfile X profile clientOpts s = (Return (), s') \<and>
    handlers (proc s') = handlers (proc s) @ [h] \<and> jrpcConn (rvpn (proc s')) = Some (length (handlers (proc s))) \<and>
    ValidateDeviceToken J key (deviceToken h) = Return (Inr i) \<and> may_use d who profile \<and>
    (\<exists>q \<in> set (devices d'). d_principal q = who \<and> d_hardwareId q = machineId \<and> d_deviceId q = i)"
proof -
  have "rq_authorization req = ''Bearer '' @ ControlPlaneAuth (held (proc s))"
    by (simp add: assms(6) register_request_def)
  then have "AuthUserMiddleware J key (Some (rq_authorization req)) = Return (Some who)"
    using user_token_authenticates [OF assms(10,11)] by simp
  moreover have "decode_register_request (rq_body req) = Inr (Some machineId)"
    using registration_read [OF assms(15)] by (simp add: assms(6) register_request_def)
  ultimately have "registerDevice J key uuid (Some who) profile (Inr (Some machineId)) d =
      (Return (Response 200 (DeviceBody i token)), d')"
    using assms(13) by (simp add: serve_api_def)
  note reg = registered_device [OF this assms(12)]
  then have tok: "ValidateDeviceToken J key token = Return (Inr i)"
    using device_token_validates [OF assms(10)] by blast
  have t: "decode_registration (body_text (DeviceBody i token)) = Inr token"
    using bodies_received [of "DeviceBody i token"] assms(16,17) by simp
  have "(200::nat) \<noteq> 401" by simp
  from client_connect_run [OF assms(1-7,14) this t, unfolded Connect_def, OF open_channel_run [OF assms(8,9)]]
  show ?thesis using reg tok by (simp add: connect_args_def)
qed

section \<open>A command line without a daemon\<close>

lemma no_daemon: "\<not> running s \<Longrightarrow> rpc_Dial s = (Inl RpcError, s)"
  by (simp add: rpc_Dial_def)

lemma ensure_without_daemon:
  "\<not> running s \<Longrightarrow> then_do EnsureDaemonStarted m s =
     (Fatal, s\<lparr>printed := printed s @ [''failed to connect to rVPN daemon, ensure the rvpn service is running'']\<rparr>)"
  by (simp add: then_do_def EnsureDaemonStarted_def Let_def bind_def or_exit_def attempt_def no_daemon die_run plain_def)

text \<open>
  Without a daemon no command that needs one gets further than the check: it prints one line and
  exits, and no request is sent.
\<close>

theorem cli_needs_daemon:
  assumes "\<not> running s"
    and "arg 0 args \<in> {''list'', ''disconnect'', ''status''} \<or>
         arg 0 args \<in> {''login'', ''connect'', ''serve''} \<and> arg 1 args \<noteq> []"
  shows "cli_main G X serveProfile startDaemon executable subnets args s =
    (Fatal, s\<lparr>printed := printed s @ [''failed to connect to rVPN daemon, ensure the rvpn service is running'']\<rparr>)"
  using assms(2) by (auto simp: cli_main_def Let_def ensure_without_daemon [OF assms(1)])

text \<open>The help offers a command that \<open>main\<close> does not know; the command it means is \<open>list\<close>.\<close>

theorem help_offers_unknown_command:
  "(\<exists>before after. helpMsg = before @ tabbed ''ls         - list available rVPN profiles'' @ after) \<and>
   cli_main G X serveProfile startDaemon executable subnets [''ls''] s =
     (Return (), s\<lparr>printed := printed s @ [''command not found, run 'rvpn help' for help'']\<rparr>)"
proof -
  have "helpMsg = raw_text [''Usage: rvpn <command> [arguments]'', [], ''Available commands are:'', [],
      tabbed ''login      - login and authenticate client''] @
      tabbed ''ls         - list available rVPN profiles'' @ [CHR 0x0A] @ drop 147 helpMsg"
    by (simp add: helpMsg_def raw_text_def tabbed_def)
  then have "\<exists>before after. helpMsg = before @ tabbed ''ls         - list available rVPN profiles'' @ after" by blast
  then show ?thesis by (simp add: cli_main_def arg_def println_run)
qed

section \<open>The small system\<close>

definition lab_session :: "'w process \<Rightarrow> 'w cli" where
  "lab_session p = \<lparr>proc = p, running = True, printed = [], http_log = []\<rparr>"

text \<open>An outside that answers every request with a status and a body.\<close>

definition lab_outside :: "nat \<Rightarrow> body \<Rightarrow> dial \<Rightarrow> outside" where
  "lab_outside statusCode b d =
     \<lparr>machine_ID = Inr ''hw'', http_NewRequest = (\<lambda>req. Inr ()), http_Do = (\<lambda>req. Inr (statusCode, Inr (body_text b))),
      dialling = d, error_text = (\<lambda>err. ''error'')\<rparr>"

text \<open>A daemon that is connected, and one that is logged in with the given token and idle.\<close>

definition lab_tunnelled :: "unit host process" where
  "lab_tunnelled = (lab_running lab_state)\<lparr>wireguard := lab_connected,
     rvpn := (rvpn (lab_running lab_state))\<lparr>status := StatusConnected\<rparr>\<rparr>"

definition lab_idle :: "string \<Rightarrow> unit host cli" where
  "lab_idle token = lab_session (lab_daemon (lab_state\<lparr>ControlPlaneAuth := token\<rparr>))"

lemma lab_idle_eq:
  "running (lab_idle token)" "status (rvpn (proc (lab_idle token))) = StatusDisconnected"
  "disk_sound (state_disk (proc (lab_idle token)))" "held (proc (lab_idle token)) = lab_state\<lparr>ControlPlaneAuth := token\<rparr>"
  "ControlPlaneAuth (held (proc (lab_idle token))) = token" "printed (lab_idle token) = []"
  "handlers (proc (lab_idle token)) = []"
  by (simp_all add: lab_idle_def lab_session_def lab_daemon_eq(2) new_process_def NewRVPNDaemon_def held_def disk_sound_def lab_disk_def)

lemma lab_outside_eq:
  "machine_ID (lab_outside st b d) = Inr ''hw''" "http_NewRequest (lab_outside st b d) req = Inr ()"
  "http_Do (lab_outside st b d) req = Inr (st, Inr (body_text b))"
  "dialling (lab_outside st b d) = d"
  by (simp_all add: lab_outside_def)


theorem login_roundtrip_witness:
  "\<exists>s1 s2. ControlPanelAuthLogin (lab_outside 200 (ErrorBody []) (lab_dial [])) ''new'' (lab_idle ''old'') = (Return (), s1) \<and>
    App_GetControlPlaneAuth (lab_outside 200 (ErrorBody []) (lab_dial [])) s1 = (Return (wrappedSuccess ''new''), s1) \<and>
    App_Logout (lab_outside 200 (ErrorBody []) (lab_dial [])) s1
      = (Return (wrappedSuccess ''successfully logged out of rVPN!''), s2) \<and>
    held (proc s2) = lab_state\<lparr>ControlPlaneAuth := []\<rparr>"
  using login_roundtrip [OF lab_idle_eq(1,3), of "lab_outside 200 (ErrorBody []) (lab_dial [])" "''new''" "''old''"]
  by (auto simp: lab_idle_eq)

theorem failed_dial_reported_as_success_witness:
  "\<exists>s'. ClientConnectProfile (lab_outside 200 (DeviceBody ''u1'' ''tok'') \<lparr>tcp = Inl OsError, handshake = Inr ()\<rparr>)
      ''t'' [] (lab_idle ''login'') = (Return (), s') \<and>
    printed s' = [''rVPN successfully connected to profile t''] \<and> status (rvpn (proc s')) = StatusDisconnected"
proof -
  let ?X = "lab_outside 200 (DeviceBody ''u1'' ''tok'') \<lparr>tcp = Inl OsError, handshake = Inr ()\<rparr>"
  have t: "decode_registration (body_text (DeviceBody ''u1'' ''tok'')) = Inr ''tok''"
    using bodies_received [of "DeviceBody ''u1'' ''tok''"] by (simp add: ascii_def)
  have auth: "ControlPlaneAuth (held (proc (lab_idle ''login''))) \<noteq> []" by (simp add: lab_idle_eq)
  have "(200 :: nat) \<noteq> 401" "tcp (dialling ?X) = Inl OsError \<or> handshake (dialling ?X) = Inl OsError"
    by (simp_all add: lab_outside_eq)
  from failed_dial_reported_as_success [where X = ?X,
      OF lab_idle_eq(1-3) auth lab_outside_eq(1) refl lab_outside_eq(2,3) this(1) t this(2), of "''t''" "[]"]
  show ?thesis by (auto simp: lab_idle_eq)
qed

theorem refused_registration_still_connects_witness:
  "\<exists>s'. ClientConnectProfile (lab_outside 500 (ErrorBody ''something went wrong'') (lab_dial ''1.2.3.4:443''))
      ''t'' [] (lab_idle ''login'') = (Return (), s') \<and>
    map deviceToken (handlers (proc s')) = [[]]"
proof -
  let ?X = "lab_outside 500 (ErrorBody ''something went wrong'') (lab_dial ''1.2.3.4:443'')"
  have auth: "ControlPlaneAuth (held (proc (lab_idle ''login''))) \<noteq> []" by (simp add: lab_idle_eq)
  have "(500 :: nat) \<noteq> 401" "ascii ''something went wrong''"
    "tcp (dialling ?X) = Inr ''1.2.3.4:443''" "handshake (dialling ?X) = Inr ()"
    by (simp_all add: lab_outside_eq lab_dial_def ascii_def)
  from refused_registration_still_connects [where X = ?X,
      OF lab_idle_eq(1-3) auth lab_outside_eq(1) refl lab_outside_eq(2,3) this(1) refl this(2-4), of "''t''" "[]"]
  show ?thesis by (auto simp: lab_idle_eq)
qed

theorem connects_as_registered_device_witness:
  "\<exists>s' h. ClientConnectProfile (lab_outside 200 (DeviceBody ''u1'' ''device:k:u1'') (lab_dial ''1.2.3.4:443''))
      ''a'' [] (lab_idle ''user:k:alice'') = (Return (), s') \<and> handlers (proc s') = [h] \<and>
    ValidateDeviceToken colon_jwt ''k'' (deviceToken h) = Return (Inr ''u1'') \<and> may_use alice_db ''alice'' ''a''"
proof -
  let ?req = "register_request ''a'' ''hw'' ''user:k:alice''"
  have a: "rq_authorization ?req = ''Bearer user:k:alice''" by (simp add: register_request_def)
  have hw: "clean ''hw''" by (simp add: clean_def)
  have b: "decode_register_request (rq_body ?req) = Inr (Some ''hw'')"
    using registration_read [OF hw] by (simp add: register_request_def)
  have texts: "ascii ''u1''" "ascii ''device:k:u1''" by (simp_all add: ascii_def)
  have "fst (serve_api colon_jwt ''k'' (Some ''Bearer user:k:alice'') (PostRegisterDevice ''a'' (Inr (Some ''hw'')) ''u1'') alice_db)
      = Return (Response 200 (DeviceBody ''u1'' ''device:k:u1''))"
    by code_simp
  then obtain d' where d: "serve_api colon_jwt ''k'' (Some (rq_authorization ?req))
      (PostRegisterDevice ''a'' (decode_register_request (rq_body ?req)) ''u1'') alice_db =
      (Return (Response 200 (DeviceBody ''u1'' ''device:k:u1'')), d')"
    unfolding a b by (metis prod.collapse)
  have u: "SignUserToken colon_jwt ''k'' ''alice'' = Inr (ControlPlaneAuth (held (proc (lab_idle ''user:k:alice''))))"
    unfolding lab_idle_eq by code_simp
  have n: "''u1'' \<notin> d_deviceId ` set (devices alice_db)" by (simp add: alice_db_def)
  have dial: "tcp (dialling (lab_outside st b (lab_dial ''1.2.3.4:443''))) = Inr ''1.2.3.4:443''"
    "handshake (dialling (lab_outside st b (lab_dial ''1.2.3.4:443''))) = Inr ()" for st b
    by (simp_all add: lab_outside_eq lab_dial_def)
  have t: "ControlPlaneAuth (held (proc (lab_idle ''user:k:alice''))) \<noteq> []" by (simp add: lab_idle_eq)
  have req: "?req = register_request ''a'' ''hw'' (ControlPlaneAuth (held (proc (lab_idle ''user:k:alice''))))"
    by (simp add: lab_idle_eq)
  from connects_as_registered_device [OF lab_idle_eq(1-3) t lab_outside_eq(1) req lab_outside_eq(2) dial
      colon_jwt_correct u n d lab_outside_eq(3) hw texts, of "[]"]
  show ?thesis by (auto simp: lab_idle_eq)
qed

theorem cli_needs_daemon_witness:
  "cli_main (linux_wireguard lab) (lab_outside 200 (ErrorBody []) (lab_dial [])) (\<lambda>profile. ret ()) (\<lambda>path. ret ()) (Inr ''rvpn'') []
     [''connect'', ''t''] ((lab_idle ''login'')\<lparr>running := False\<rparr>) =
   (Fatal, (lab_idle ''login'')\<lparr>running := False,
      printed := [''failed to connect to rVPN daemon, ensure the rvpn service is running'']\<rparr>)"
  using cli_needs_daemon [of "(lab_idle ''login'')\<lparr>running := False\<rparr>" "[''connect'', ''t'']"]
  by (simp add: arg_def lab_idle_eq)

end
