(* ===== verification/Wg_Windows.thy ===== *)
theory Wg_Windows
  imports Wg_Host
begin

text \<open>
  The WireGuard daemon on Windows (\<open>daemon/wg/daemon_windows.go\<close>,
  \<open>daemon/wg/network_util_windows.go\<close>).  The IP helper API, wgctrl and the TUN device are the record
  \<open>windows_os\<close>.  Metrics are 32-bit words, whose sum wraps as it does in the code.
\<close>

section \<open>The system\<close>

type_synonym luid = nat

record adapter =
  FriendlyName :: string
  LUID :: luid

record forward_row =
  PrefixLength :: nat
  InterfaceLUID :: luid
  row_Metric :: "32 word"
  row_NextHop :: addr

record route_data =
  Destination :: prefix
  rd_NextHop :: addr
  rd_Metric :: "32 word"

record 'o windows_os =
  GetAdaptersAddresses :: "('o, adapter list) stmt"
  GetIPForwardTable2 :: "('o, forward_row list) stmt"
  Interface_is_up :: "luid \<Rightarrow> ('o, bool) stmt"
  IPInterface :: "luid \<Rightarrow> ('o, 32 word) stmt"
  SetMTU :: "luid \<Rightarrow> int \<Rightarrow> ('o, unit) stmt"
  AddRoute :: "luid \<Rightarrow> prefix option \<Rightarrow> addr \<Rightarrow> 32 word \<Rightarrow> ('o, unit) stmt"
  DeleteRoute :: "luid \<Rightarrow> prefix option \<Rightarrow> addr \<Rightarrow> ('o, unit) stmt"
  SetIPAddresses :: "luid \<Rightarrow> prefix list \<Rightarrow> ('o, unit) stmt"
  SetDNS :: "luid \<Rightarrow> ip4 list \<Rightarrow> ('o, unit) stmt"
  wt_CreateTUN :: "string \<Rightarrow> int \<Rightarrow> ('o, unit) stmt"
  wt_Name :: "('o, string) stmt"
  wt_DeviceUp :: "('o, unit) stmt"
  wt_DeviceDown :: "('o, unit) stmt"
  wt_DeviceClose :: "('o, unit) stmt"
  wt_UapiListen :: "string \<Rightarrow> ('o, unit) stmt"
  wt_UapiClose :: "('o, unit) stmt"
  wt_WgctrlNew :: "('o, unit) stmt"
  wt_WgctrlDevices :: "('o, unit) stmt"
  wt_ConfigureDevice :: "string \<Rightarrow> wg_config \<Rightarrow> ('o, unit) stmt"
  wt_ParseKey :: "string \<Rightarrow> wg_key result"

section \<open>The daemon's state\<close>

record WireguardDaemon =
  has_device :: bool
  Adapter :: "adapter option"
  DefaultAdapter :: "adapter option"
  DefaultGateway :: addr
  ServerIP :: "prefix option"
  ControlPlaneIP :: "prefix option"
  InterfaceName :: string
  prevRoutes :: "route_data list"

definition NewWireguardDaemon :: WireguardDaemon where
  "NewWireguardDaemon =
     \<lparr>has_device = False, Adapter = None, DefaultAdapter = None, DefaultGateway = None, ServerIP = None,
      ControlPlaneIP = None, InterfaceName = [], prevRoutes = []\<rparr>"

datatype win_op =
    WinCreateTUN string int
  | WinSetMTU luid int
  | WinDeviceUp
  | WinDeviceDown
  | WinDeviceClose
  | WinUapiListen string
  | WinUapiClose
  | WinAddRoute luid "prefix option" addr "32 word"
  | WinDeleteRoute luid "prefix option" addr
  | WinSetIP luid "prefix list"
  | WinSetDNS luid "ip4 list"
  | WinConfigure string wg_config

type_synonym 'o win_host = "(WireguardDaemon, win_op, 'o) wg_host"

definition on_device :: "('o win_host, 'a) prog \<Rightarrow> ('o win_host, 'a) prog" where
  "on_device m = bind (asks (\<lambda>h. has_device (wgd h))) (\<lambda>b. if b then m else panic)"

text \<open>\<open>d.Adapter.LUID\<close>, which panics when the adapter is nil.\<close>

definition with_adapter :: "(WireguardDaemon \<Rightarrow> adapter option) \<Rightarrow> (luid \<Rightarrow> ('o win_host, 'a) prog) \<Rightarrow> ('o win_host, 'a) prog" where
  "with_adapter f m = bind (asks (\<lambda>h. f (wgd h))) (\<lambda>a. case a of None \<Rightarrow> panic | Some a \<Rightarrow> m (LUID a))"

section \<open>findDefaultLUID\<close>

text \<open>The lowest metric so far, with its interface and its gateway; a failed question skips the row.\<close>

type_synonym lowest = "32 word \<times> luid \<times> addr"

definition scan_row :: "'o windows_os \<Rightarrow> luid \<Rightarrow> forward_row \<Rightarrow> lowest \<Rightarrow> ('o win_host, lowest) stmt" where
  "scan_row K ourLUID r best h =
     (if PrefixLength r \<noteq> 0 \<or> InterfaceLUID r = ourLUID then (Inr best, h)
      else case query (Interface_is_up K (InterfaceLUID r)) h of
             (Inl err, h) \<Rightarrow> (Inr best, h)
           | (Inr up, h) \<Rightarrow>
               if \<not> up then (Inr best, h)
               else (case query (IPInterface K (InterfaceLUID r)) h of
                       (Inl err, h) \<Rightarrow> (Inr best, h)
                     | (Inr metric, h) \<Rightarrow>
                         (if row_Metric r + metric < fst best
                          then (Inr (row_Metric r + metric, InterfaceLUID r, row_NextHop r), h)
                          else (Inr best, h))))"

fun scan_rows :: "'o windows_os \<Rightarrow> luid \<Rightarrow> forward_row list \<Rightarrow> lowest \<Rightarrow> ('o win_host, lowest) stmt" where
  "scan_rows K ourLUID [] best = ok best"
| "scan_rows K ourLUID (r # rs) best =
     and_then (scan_row K ourLUID r best) (\<lambda>best. scan_rows K ourLUID rs best)"

text \<open>The error at the end is the one of the table, which is nil: no default route is no error.\<close>

definition findDefaultLUID :: "'o windows_os \<Rightarrow> luid \<Rightarrow> ('o win_host, luid \<times> addr) stmt" where
  "findDefaultLUID K ourLUID =
     and_then (query (GetIPForwardTable2 K)) (\<lambda>r.
     and_then (scan_rows K ourLUID r (- 1, 0, None)) (\<lambda>(_, luid, gatewayIP).
       ok (luid, gatewayIP)))"

section \<open>StartDevice\<close>

text \<open>The last adapter with the name; \<open>last_such\<close> is the loop that does not break.\<close>

definition last_such :: "('a \<Rightarrow> bool) \<Rightarrow> 'a list \<Rightarrow> 'a option" where
  "last_such P xs = fold (\<lambda>x found. if P x then Some x else found) xs None"

text \<open>\<open>tun.Name\<close>, whose error is only logged, leaving the empty name.\<close>

definition tun_name :: "'o windows_os \<Rightarrow> ('o win_host, string) stmt" where
  "tun_name K h = (case query (wt_Name K) h of (Inl err, h) \<Rightarrow> (Inr [], h) | (Inr n, h) \<Rightarrow> (Inr n, h))"

definition StartDevice :: "'o windows_os \<Rightarrow> ('o win_host, unit) stmt" where
  "StartDevice K =
     and_then (call (WinCreateTUN ''rvpn0'' 1420) (wt_CreateTUN K ''rvpn0'' 1420)) (\<lambda>_.
     and_then (tun_name K) (\<lambda>interfaceName.
     and_then (query (GetAdaptersAddresses K)) (\<lambda>out.
       case last_such (\<lambda>a. FriendlyName a = interfaceName) out of
         None \<Rightarrow> fail OsError
       | Some adapter \<Rightarrow>
           and_then (set_wgd_stmt (\<lambda>d. d\<lparr>Adapter := Some adapter\<rparr>)) (\<lambda>_.
           and_then (query (IPInterface K (LUID adapter))) (\<lambda>_.
           and_then (drop_error (call (WinSetMTU (LUID adapter) 1420) (SetMTU K (LUID adapter) 1420))) (\<lambda>_.
           and_then (call WinDeviceUp (wt_DeviceUp K)) (\<lambda>_.
           and_then (call (WinUapiListen interfaceName) (wt_UapiListen K interfaceName)) (\<lambda>_.
             set_wgd_stmt (\<lambda>d. d\<lparr>has_device := True, InterfaceName := interfaceName\<rparr>)))))))))"

section \<open>UpdateClientConf\<close>

text \<open>Lines 153 to 166.\<close>

definition parse_ips :: "string \<Rightarrow> string \<Rightarrow> ('o win_host, unit) prog" where
  "parse_ips serverIp controlPlaneAddr =
     bind (parse_host serverIp) (\<lambda>s.
     then_do (set_wgd (\<lambda>d. d\<lparr>ServerIP := Some s\<rparr>))
     (bind (parse_host controlPlaneAddr) (\<lambda>c.
        set_wgd (\<lambda>d. d\<lparr>ControlPlaneIP := Some c\<rparr>))))"

text \<open>A route on the default adapter; its error is dropped.\<close>

definition add_host_route :: "'o windows_os \<Rightarrow> luid \<Rightarrow> addr \<Rightarrow> prefix option \<Rightarrow> ('o win_host, unit) prog" where
  "add_host_route K l gatewayIP ip = warn (call (WinAddRoute l ip gatewayIP 0) (AddRoute K l ip gatewayIP 0))"

text \<open>Lines 187 to 204: only the first time; a changed default adapter is left to a TODO.\<close>

definition exclude_hosts :: "'o windows_os \<Rightarrow> adapter option \<Rightarrow> addr \<Rightarrow> ('o win_host, unit) prog" where
  "exclude_hosts K currDefaultAdapter gatewayIP =
     bind (asks wgd) (\<lambda>d.
       if DefaultAdapter d = None
       then then_do (set_wgd (\<lambda>d. d\<lparr>DefaultAdapter := currDefaultAdapter\<rparr>))
            (then_do (with_adapter DefaultAdapter (\<lambda>l. add_host_route K l gatewayIP (ServerIP d)))
            (then_do (with_adapter DefaultAdapter (\<lambda>l. add_host_route K l gatewayIP (ControlPlaneIP d)))
              (set_wgd (\<lambda>d. d\<lparr>DefaultGateway := gatewayIP\<rparr>))))
       else ret ())"

definition must_parse_prefix :: "string \<Rightarrow> ('s, prefix) prog" where
  "must_parse_prefix s = (case parse_prefix s of Inl _ \<Rightarrow> panic | Inr p \<Rightarrow> ret p)"

definition all_traffic :: route_data where
  "all_traffic = \<lparr>Destination = \<lparr>pfx_addr = 0, pfx_bits = 0\<rparr>, rd_NextHop = Some 0, rd_Metric = 0\<rparr>"

definition delete_route :: "'o windows_os \<Rightarrow> luid \<Rightarrow> route_data \<Rightarrow> ('o win_host, unit) stmt" where
  "delete_route K l r =
     call (WinDeleteRoute l (Some (Destination r)) (rd_NextHop r)) (DeleteRoute K l (Some (Destination r)) (rd_NextHop r))"

definition add_route :: "'o windows_os \<Rightarrow> luid \<Rightarrow> route_data \<Rightarrow> ('o win_host, unit) stmt" where
  "add_route K l r =
     call (WinAddRoute l (Some (Destination r)) (rd_NextHop r) (rd_Metric r))
       (AddRoute K l (Some (Destination r)) (rd_NextHop r) (rd_Metric r))"

text \<open>Lines 216 to 232: the routes of the last connection go, the new one comes.\<close>

definition replace_routes :: "'o windows_os \<Rightarrow> ('o win_host, unit) prog" where
  "replace_routes K =
     bind (asks (\<lambda>h. prevRoutes (wgd h))) (\<lambda>old.
     then_do (each (\<lambda>r. with_adapter Adapter (\<lambda>l. must (delete_route K l r))) old)
     (then_do (each (\<lambda>r. with_adapter Adapter (\<lambda>l. must (add_route K l r))) [all_traffic])
       (set_wgd (\<lambda>d. d\<lparr>prevRoutes := [all_traffic]\<rparr>))))"

definition open_wgctrl :: "'o windows_os \<Rightarrow> ('o win_host, unit) prog" where
  "open_wgctrl K = then_do (must (query (wt_WgctrlNew K))) (must (query (wt_WgctrlDevices K)))"

definition must_key :: "'o windows_os \<Rightarrow> string \<Rightarrow> ('s, wg_key) prog" where
  "must_key K s = (case wt_ParseKey K s of Inl _ \<Rightarrow> log_fatal | Inr k \<Rightarrow> ret k)"

definition configure :: "'o windows_os \<Rightarrow> wg_config \<Rightarrow> ('o win_host, unit) prog" where
  "configure K conf =
     bind (asks (\<lambda>h. InterfaceName (wgd h))) (\<lambda>name.
       configure_device (WinConfigure name conf) (wt_ConfigureDevice K name conf))"

text \<open>\<open>netip.MustParseAddr("1.1.1.1")\<close>.\<close>

definition tunnel_dns :: ip4 where
  "tunnel_dns = 16843009"

definition UpdateClientConf :: "'o windows_os \<Rightarrow> ClientWgConfig \<Rightarrow> string \<Rightarrow> ('o win_host, unit) prog" where
  "UpdateClientConf K wgConf controlPlaneAddr =
     then_do (on_device (must (call WinDeviceUp (wt_DeviceUp K))))
     (then_do (parse_ips (cw_ServerIp wgConf) controlPlaneAddr)
     (bind (with_adapter Adapter (\<lambda>l. must (findDefaultLUID K l))) (\<lambda>(currDefaultInterface, gatewayIP).
     bind (must (query (GetAdaptersAddresses K))) (\<lambda>out.
     then_do (exclude_hosts K (last_such (\<lambda>a. LUID a = currDefaultInterface) out) gatewayIP)
     (bind (must_parse_prefix (cw_ClientIp wgConf @ cw_ClientCidr wgConf)) (\<lambda>interfaceIP.
     then_do (replace_routes K)
     (then_do (with_adapter Adapter (\<lambda>l. must (call (WinSetIP l [interfaceIP]) (SetIPAddresses K l [interfaceIP]))))
     (then_do (with_adapter Adapter (\<lambda>l. must (call (WinSetDNS l [tunnel_dns]) (SetDNS K l [tunnel_dns]))))
     (then_do (open_wgctrl K)
     (bind (must_key K (ClientPrivateKey wgConf)) (\<lambda>pri.
     bind (must_key K (cw_ServerPublicKey wgConf)) (\<lambda>pub.
       configure K (client_wg_config pri pub wgConf)))))))))))))"

section \<open>Disconnect and ShutdownDevice\<close>

definition Disconnect :: "'o windows_os \<Rightarrow> ('o win_host, unit) prog" where
  "Disconnect K =
     then_do (on_device (must (call WinDeviceDown (wt_DeviceDown K))))
     (then_do (bind (asks (\<lambda>h. prevRoutes (wgd h)))
         (each (\<lambda>r. with_adapter Adapter (\<lambda>l. warn (delete_route K l r)))))
       (set_wgd (\<lambda>d. d\<lparr>prevRoutes := []\<rparr>)))"

definition delete_host_route ::
  "'o windows_os \<Rightarrow> (WireguardDaemon \<Rightarrow> prefix option) \<Rightarrow> ('o win_host, unit) prog" where
  "delete_host_route K ip =
     bind (asks wgd) (\<lambda>d.
       with_adapter DefaultAdapter (\<lambda>l.
         warn (call (WinDeleteRoute l (ip d) (DefaultGateway d)) (DeleteRoute K l (ip d) (DefaultGateway d)))))"

definition ShutdownDevice :: "'o windows_os \<Rightarrow> ('o win_host, unit) prog" where
  "ShutdownDevice K =
     then_do (on_device (warn (call WinUapiClose (wt_UapiClose K))))
     (then_do (on_device (warn (call WinDeviceClose (wt_DeviceClose K))))
     (then_do (delete_host_route K ServerIP)
       (delete_host_route K ControlPlaneIP)))"

end
