(* ===== verification/Wg_Windows_Props.thy ===== *)
theory Wg_Windows_Props
  imports Wg_Windows
begin

text \<open>
  What the Windows daemon does: which default interface it finds, with the wrap-around of its 32-bit
  metrics, what a missing default route leads to, and what a disconnection takes back.
\<close>

section \<open>The default interface\<close>

text \<open>
  A system whose answers do not change: the rows of the table, whether an interface is up, its metric;
  a question without an answer is \<open>None\<close>.
\<close>

definition answers_as ::
  "'o windows_os \<Rightarrow> 'o \<Rightarrow> forward_row list \<Rightarrow> (luid \<Rightarrow> bool option) \<Rightarrow> (luid \<Rightarrow> 32 word option) \<Rightarrow> bool" where
  "answers_as K s rows up metric \<longleftrightarrow>
     GetIPForwardTable2 K s = (Inr rows, s) \<and>
     (\<forall>l. Interface_is_up K l s = ((case up l of None \<Rightarrow> Inl OsError | Some b \<Rightarrow> Inr b), s)) \<and>
     (\<forall>l. IPInterface K l s = ((case metric l of None \<Rightarrow> Inl OsError | Some m \<Rightarrow> Inr m), s))"

text \<open>The default routes over other interfaces that are up, with the metrics of their interfaces.\<close>

definition candidate ::
  "luid \<Rightarrow> (luid \<Rightarrow> bool option) \<Rightarrow> (luid \<Rightarrow> 32 word option) \<Rightarrow> forward_row \<Rightarrow> 32 word \<Rightarrow> bool" where
  "candidate our up metric r m \<longleftrightarrow>
     PrefixLength r = 0 \<and> InterfaceLUID r \<noteq> our \<and> up (InterfaceLUID r) = Some True \<and>
     metric (InterfaceLUID r) = Some m"

definition lower :: "luid \<Rightarrow> (luid \<Rightarrow> bool option) \<Rightarrow> (luid \<Rightarrow> 32 word option) \<Rightarrow> forward_row \<Rightarrow> lowest \<Rightarrow> lowest" where
  "lower our up metric r best =
     (case metric (InterfaceLUID r) of
        Some m \<Rightarrow>
          if candidate our up metric r m \<and> row_Metric r + m < fst best
          then (row_Metric r + m, InterfaceLUID r, row_NextHop r) else best
      | None \<Rightarrow> best)"

lemma scan_row_lower:
  assumes "answers_as K (host_os h) rows up metric"
  shows "scan_row K our r best h = (Inr (lower our up metric r best), h)"
  using assms
  by (cases "up (InterfaceLUID r)"; cases "metric (InterfaceLUID r)")
    (simp_all add: scan_row_def lower_def candidate_def answers_as_def query_def)

lemma scan_rows_lower:
  assumes "answers_as K (host_os h) rows up metric"
  shows "scan_rows K our rs best h = (Inr (fold (lower our up metric) rs best), h)"
  by (induction rs arbitrary: best) (simp_all add: ok_def and_then_def scan_row_lower [OF assms])

lemma findDefaultLUID_lower:
  assumes "answers_as K (host_os h) rows up metric"
  shows "findDefaultLUID K our h = (Inr (snd (fold (lower our up metric) rows (- 1, 0, None))), h)"
proof -
  obtain m l g where f: "fold (lower our up metric) rows (- 1, 0, None) = (m, l, g)" by (metis prod_cases3)
  have "query (GetIPForwardTable2 K) h = (Inr rows, h)" using assms by (simp add: query_def answers_as_def)
  then show ?thesis
    by (simp add: findDefaultLUID_def and_then_def ok_def scan_rows_lower [OF assms] f)
qed

text \<open>What the fold has found, in terms of the words the code compares.\<close>

lemma fold_lower:
  assumes "fold (lower our up metric) rs (- 1, 0, None) = (w, l, g)"
  shows "(\<forall>r m. r \<in> set rs \<and> candidate our up metric r m \<longrightarrow> w \<le> row_Metric r + m) \<and>
    (w = - 1 \<and> l = 0 \<and> g = None \<or>
     (\<exists>r m. r \<in> set rs \<and> candidate our up metric r m \<and> w = row_Metric r + m \<and> l = InterfaceLUID r \<and>
        g = row_NextHop r))"
  using assms
proof (induction rs arbitrary: w l g rule: rev_induct)
  case Nil
  then show ?case by simp
next
  case (snoc r rs)
  obtain w0 l0 g0 where 0: "fold (lower our up metric) rs (- 1, 0, None) = (w0, l0, g0)"
    by (metis prod_cases3)
  note IH = snoc.IH [OF 0]
  have step: "(w, l, g) = lower our up metric r (w0, l0, g0)" using snoc.prems 0 by simp
  show ?case
  proof (cases "\<exists>m. candidate our up metric r m \<and> row_Metric r + m < w0")
    case True
    then obtain m where m: "candidate our up metric r m" "row_Metric r + m < w0" by blast
    then have "metric (InterfaceLUID r) = Some m" by (simp add: candidate_def)
    then have new: "w = row_Metric r + m" "l = InterfaceLUID r" "g = row_NextHop r"
      using step m by (simp_all add: lower_def)
    have "w \<le> row_Metric r' + m'" if "r' \<in> set (rs @ [r])" "candidate our up metric r' m'" for r' m'
    proof (cases "r' \<in> set rs")
      case True
      then have "w0 \<le> row_Metric r' + m'" using IH that(2) by blast
      then show ?thesis using m(2) new(1) by simp
    next
      case False
      then have "r' = r" using that(1) by simp
      then show ?thesis using that(2) m(1) new(1) by (simp add: candidate_def)
    qed
    then show ?thesis using m(1) new by (intro conjI) auto
  next
    case False
    then have same: "w = w0" "l = l0" "g = g0"
      using step by (auto simp: lower_def split: option.splits if_splits)
    have "w \<le> row_Metric r' + m'" if "r' \<in> set (rs @ [r])" "candidate our up metric r' m'" for r' m'
      using that IH False same(1) by (cases "r' \<in> set rs") (auto simp: not_less)
    then show ?thesis using IH same by (intro conjI) auto
  qed
qed

text \<open>
  C29: As long as no sum of a route's and an interface's metric reaches 2^32 - 1, the default interface
  is that of a default route, over another interface that is up, with the least sum, and the gateway
  is that route's.  When there is no such route the answer is interface 0 without a gateway, and no
  error.
\<close>

theorem default_luid_least:
  assumes "answers_as K (host_os h) rows up metric"
    and "\<forall>r m. r \<in> set rows \<and> candidate our up metric r m \<longrightarrow> unat (row_Metric r) + unat m < 2 ^ 32 - 1"
  shows "\<exists>l g. findDefaultLUID K our h = (Inr (l, g), h) \<and>
    (if \<exists>r m. r \<in> set rows \<and> candidate our up metric r m
     then \<exists>r m. r \<in> set rows \<and> candidate our up metric r m \<and> l = InterfaceLUID r \<and> g = row_NextHop r \<and>
       (\<forall>r' m'. r' \<in> set rows \<and> candidate our up metric r' m' \<longrightarrow>
          unat (row_Metric r) + unat m \<le> unat (row_Metric r') + unat m')
     else l = 0 \<and> g = None)"
proof -
  obtain w l g where f: "fold (lower our up metric) rows (- 1, 0, None) = (w, l, g)" by (metis prod_cases3)
  note found = fold_lower [OF f]
  have run: "findDefaultLUID K our h = (Inr (l, g), h)"
    using findDefaultLUID_lower [OF assms(1), of our] f by simp
  have sum: "unat (row_Metric r + m) = unat (row_Metric r) + unat m" if "r \<in> set rows" "candidate our up metric r m" for r m
  proof -
    have "unat (row_Metric r) + unat m < 2 ^ LENGTH(32)" using assms(2) that by fastforce
    then show ?thesis by (simp add: unat_word_ariths)
  qed
  have small: "row_Metric r + m \<noteq> - 1" if "r \<in> set rows" "candidate our up metric r m" for r m
  proof
    assume "row_Metric r + m = - 1"
    then have "unat (row_Metric r + m) = 2 ^ 32 - 1" using unat_max_ip4 by metis
    moreover have "unat (row_Metric r) + unat m < 2 ^ 32 - 1" using assms(2) that by blast
    ultimately show False using sum [OF that] by simp
  qed
  show ?thesis
  proof (cases "\<exists>r m. r \<in> set rows \<and> candidate our up metric r m")
    case True
    then obtain r0 m0 where r0: "r0 \<in> set rows" "candidate our up metric r0 m0" by blast
    then have "w \<le> row_Metric r0 + m0" using found by blast
    then have "w \<noteq> - 1" using small [OF r0] by (metis word_order.extremum_unique)
    then obtain r m where r: "r \<in> set rows" "candidate our up metric r m" "w = row_Metric r + m"
      "l = InterfaceLUID r" "g = row_NextHop r"
      using found by blast
    have "unat (row_Metric r) + unat m \<le> unat (row_Metric r') + unat m'"
      if "r' \<in> set rows" "candidate our up metric r' m'" for r' m'
    proof -
      have "w \<le> row_Metric r' + m'" using found that by blast
      then have "row_Metric r + m \<le> row_Metric r' + m'" unfolding r(3) .
      then show ?thesis using sum [OF r(1,2)] sum [OF that] by (simp add: word_le_nat_alt)
    qed
    then show ?thesis using True run r(1,2,4,5) by (intro exI [of _ l] exI [of _ g]) auto
  next
    case False
    then show ?thesis using run found by auto
  qed
qed

text \<open>
  The sum of the metrics wraps: of two default routes the code takes the one whose sum is the
  larger, as soon as that sum overflows 32 bits to something smaller.
\<close>

theorem metric_overflow_picks_worse:
  assumes "answers_as K (host_os h) [r1, r2] up metric"
    and "candidate our up metric r1 m1" and "candidate our up metric r2 m2"
    and "unat (row_Metric r1) + unat m1 < 2 ^ 32 - 1"
    and "2 ^ 32 \<le> unat (row_Metric r2) + unat m2"
    and "unat (row_Metric r2) + unat m2 - 2 ^ 32 < unat (row_Metric r1) + unat m1"
  shows "findDefaultLUID K our h = (Inr (InterfaceLUID r2, row_NextHop r2), h) \<and>
    unat (row_Metric r1) + unat m1 < unat (row_Metric r2) + unat m2"
proof -
  have "unat (row_Metric r2) < 2 ^ 32" "unat m2 < 2 ^ 32"
    using unsigned_less [of "row_Metric r2"] unsigned_less [of m2] by simp_all
  then have s2: "unat (row_Metric r2 + m2) = unat (row_Metric r2) + unat m2 - 2 ^ 32"
    using assms(5) by (simp add: unat_word_ariths mod_if)
  have s1: "unat (row_Metric r1 + m1) = unat (row_Metric r1) + unat m1"
    using assms(4) by (simp add: unat_word_ariths)
  have less: "row_Metric r2 + m2 < row_Metric r1 + m1"
    using assms(6) s1 s2 by (simp add: word_less_nat_alt)
  have first: "row_Metric r1 + m1 < - 1"
    using s1 assms(4) unat_max_ip4 by (metis word_less_nat_alt)
  have "metric (InterfaceLUID r1) = Some m1" "metric (InterfaceLUID r2) = Some m2"
    using assms(2,3) by (simp_all add: candidate_def)
  then have "fold (lower our up metric) [r1, r2] (- 1, 0, None) = (row_Metric r2 + m2, InterfaceLUID r2, row_NextHop r2)"
    using assms(2,3) less first by (simp add: lower_def)
  then show ?thesis using findDefaultLUID_lower [OF assms(1)] assms(4,5) by simp
qed

section \<open>Without a default route\<close>

lemma with_adapter_Return:
  "with_adapter f m h = (Return x, h') \<longleftrightarrow> (\<exists>a. f (wgd h) = Some a \<and> m (LUID a) h = (Return x, h'))"
  by (auto simp: with_adapter_def returned split: option.splits)

lemma last_such_None: "last_such P xs = None \<longleftrightarrow> (\<forall>x \<in> set xs. \<not> P x)"
  by (induction xs rule: rev_induct) (auto simp: last_such_def)

lemma exclude_hosts_needs_adapter:
  "DefaultAdapter (wgd h) = None \<Longrightarrow> exclude_hosts K None gw h \<noteq> (Return u, h')"
  by (auto simp: exclude_hosts_def returned with_adapter_Return set_wgd_def)

text \<open>
  A first connection on a machine without a usable default route never returns: the search reports
  interface 0 and no error, no adapter has that number, and the nil adapter is used - the daemon
  panics, with the device up and the connection half made.
\<close>

theorem no_default_route_never_connects:
  assumes "answers_as K (host_os h) rows up metric" and "GetAdaptersAddresses K (host_os h) = (Inr as, host_os h)"
    and "\<forall>a \<in> set as. LUID a \<noteq> 0" and "Adapter (wgd h) = Some ad" and "DefaultAdapter (wgd h) = None"
    and "\<forall>r m. r \<in> set rows \<longrightarrow> \<not> candidate (LUID ad) up metric r m"
    and "wt_DeviceUp K (host_os h) = (Inr (), host_os h)"
  shows "UpdateClientConf K conf cp h \<noteq> (Return u, h')"
proof
  assume "UpdateClientConf K conf cp h = (Return u, h')"
  then obtain u1 h1 u2 h2 l gw h3 out h4 u5 h5 where
    s1: "call WinDeviceUp (wt_DeviceUp K) h = (Inr u1, h1)" and
    s2: "parse_ips (cw_ServerIp conf) cp h1 = (Return u2, h2)" and
    s3: "with_adapter Adapter (\<lambda>l. must (findDefaultLUID K l)) h2 = (Return (l, gw), h3)" and
    s4: "query (GetAdaptersAddresses K) h3 = (Inr out, h4)" and
    s5: "exclude_hosts K (last_such (\<lambda>a. LUID a = l) out) gw h4 = (Return u5, h5)"
    unfolding UpdateClientConf_def on_device_def
    by (simp only: bind_Return then_do_Return must_Return asks_Return) (auto simp: returned split: if_splits)
  have h1: "host_os h1 = host_os h" "wgd h1 = wgd h" using s1 assms(7) by (auto simp: call_def)
  have h2: "host_os h2 = host_os h" "Adapter (wgd h2) = Some ad" "DefaultAdapter (wgd h2) = None"
    using s2 h1 assms(4,5) by (auto simp: parse_ips_def parse_host_def set_wgd_def returned split: sum.splits)
  have ans: "answers_as K (host_os h2) rows up metric" using assms(1) h2(1) by simp
  obtain w l' g' where f: "fold (lower (LUID ad) up metric) rows (- 1, 0, None) = (w, l', g')" by (metis prod_cases3)
  have "(l, gw) = (l', g')" "h3 = h2"
    using s3 h2(2) findDefaultLUID_lower [OF ans, of "LUID ad"] f by (auto simp: with_adapter_Return returned)
  then have "l = 0" "h3 = h2" using fold_lower [OF f] assms(6) by auto
  moreover from this have "out = as" "h4 = h2" using s4 assms(2) h2(1) by (auto simp: query_def)
  ultimately have "last_such (\<lambda>a. LUID a = l) out = None" using assms(3) by (simp add: last_such_None)
  then show False using s5 exclude_hosts_needs_adapter h2(3) \<open>h4 = h2\<close> by metis
qed

text \<open>
  The shutdown uses the default adapter, which only a first connection sets.
\<close>

lemma shutdown_needs_adapter:
  "DefaultAdapter (wgd h) = None \<Longrightarrow> ShutdownDevice K h \<noteq> (Return u, h')"
proof
  assume none: "DefaultAdapter (wgd h) = None" and run: "ShutdownDevice K h = (Return u, h')"
  obtain r1 h1 r2 h2 where c1: "call WinUapiClose (wt_UapiClose K) h = (r1, h1)"
    and c2: "call WinDeviceClose (wt_DeviceClose K) h1 = (r2, h2)"
    and d: "\<exists>u h3. delete_host_route K ServerIP h2 = (Return u, h3)"
    using run by (auto simp: ShutdownDevice_def on_device_def returned)
  have "wgd h2 = wgd h" using call_ops [OF c1] call_ops [OF c2] by (simp add: only_ops_def)
  then show False using d none by (auto simp: delete_host_route_def returned with_adapter_Return)
qed

section \<open>Two interfaces\<close>

text \<open>
  A machine with the tunnel (5) and two interfaces (7, 8) with default routes; every interface adds 25
  to the metric of a route.
\<close>

definition win_row :: "luid \<Rightarrow> 32 word \<Rightarrow> forward_row" where
  "win_row l m = \<lparr>PrefixLength = 0, InterfaceLUID = l, row_Metric = m, row_NextHop = Some 3232235777\<rparr>"

definition win_lab :: "forward_row list \<Rightarrow> unit windows_os" where
  "win_lab rows =
     \<lparr>GetAdaptersAddresses = ok [\<lparr>FriendlyName = ''rvpn0'', LUID = 5\<rparr>, \<lparr>FriendlyName = ''lan'', LUID = 7\<rparr>],
      GetIPForwardTable2 = ok rows, Interface_is_up = (\<lambda>_. ok True), IPInterface = (\<lambda>_. ok 25),
      SetMTU = (\<lambda>_ _. ok ()), AddRoute = (\<lambda>_ _ _ _. ok ()), DeleteRoute = (\<lambda>_ _ _. ok ()),
      SetIPAddresses = (\<lambda>_ _. ok ()), SetDNS = (\<lambda>_ _. ok ()), wt_CreateTUN = (\<lambda>_ _. ok ()),
      wt_Name = ok ''rvpn0'', wt_DeviceUp = ok (), wt_DeviceDown = ok (), wt_DeviceClose = ok (),
      wt_UapiListen = (\<lambda>_. ok ()), wt_UapiClose = ok (), wt_WgctrlNew = ok (), wt_WgctrlDevices = ok (),
      wt_ConfigureDevice = (\<lambda>_ _. ok ()), wt_ParseKey = (\<lambda>s. Inr (Key s))\<rparr>"

definition win_host :: "unit win_host" where
  "win_host =
     \<lparr>wgd = NewWireguardDaemon\<lparr>has_device := True, Adapter := Some \<lparr>FriendlyName = ''rvpn0'', LUID = 5\<rparr>\<rparr>,
      host_os = (), ops = []\<rparr>"

lemma win_lab_answers: "answers_as (win_lab rows) () rows (\<lambda>_. Some True) (\<lambda>_. Some 25)"
  by (simp add: answers_as_def win_lab_def ok_def)

lemma win_candidate: "candidate 5 (\<lambda>_. Some True) (\<lambda>_. Some 25) (win_row l x) m \<longleftrightarrow> l \<noteq> 5 \<and> m = 25"
  by (auto simp: candidate_def win_row_def)

theorem default_luid_least_witness:
  "answers_as (win_lab [win_row 7 10, win_row 8 5]) () [win_row 7 10, win_row 8 5] (\<lambda>_. Some True) (\<lambda>_. Some 25) \<and>
   findDefaultLUID (win_lab [win_row 7 10, win_row 8 5]) 5 win_host = (Inr (8, Some 3232235777), win_host)"
proof -
  let ?rows = "[win_row 7 10, win_row 8 5]"
  have h: "host_os win_host = ()" by simp
  have small: "\<forall>r m. r \<in> set ?rows \<and> candidate 5 (\<lambda>_. Some True) (\<lambda>_. Some 25) r m \<longrightarrow>
      unat (row_Metric r) + unat m < 2 ^ 32 - 1"
    by (auto simp: win_candidate) (simp_all add: win_row_def)
  obtain l g where run: "findDefaultLUID (win_lab ?rows) 5 win_host = (Inr (l, g), win_host)"
    and found: "if \<exists>r m. r \<in> set ?rows \<and> candidate 5 (\<lambda>_. Some True) (\<lambda>_. Some 25) r m
     then \<exists>r m. r \<in> set ?rows \<and> candidate 5 (\<lambda>_. Some True) (\<lambda>_. Some 25) r m \<and>
       l = InterfaceLUID r \<and> g = row_NextHop r \<and>
       (\<forall>r' m'. r' \<in> set ?rows \<and> candidate 5 (\<lambda>_. Some True) (\<lambda>_. Some 25) r' m' \<longrightarrow>
          unat (row_Metric r) + unat m \<le> unat (row_Metric r') + unat m')
     else l = 0 \<and> g = None"
    using default_luid_least [OF win_lab_answers [of ?rows, folded h] small] by blast
  have c8: "win_row 8 5 \<in> set ?rows \<and> candidate 5 (\<lambda>_. Some True) (\<lambda>_. Some 25) (win_row 8 5) 25"
    by (simp add: win_candidate)
  then have "\<exists>r m. r \<in> set ?rows \<and> candidate 5 (\<lambda>_. Some True) (\<lambda>_. Some 25) r m" by blast
  with found obtain r m where "r \<in> set ?rows" "candidate 5 (\<lambda>_. Some True) (\<lambda>_. Some 25) r m"
    "l = InterfaceLUID r" "g = row_NextHop r"
    and "\<forall>r' m'. r' \<in> set ?rows \<and> candidate 5 (\<lambda>_. Some True) (\<lambda>_. Some 25) r' m' \<longrightarrow>
          unat (row_Metric r) + unat m \<le> unat (row_Metric r') + unat m'"
    by (simp only: if_True) blast
  moreover from this have "unat (row_Metric r) + unat m \<le> unat (row_Metric (win_row 8 5)) + unat (25 :: 32 word)"
    using c8 by blast
  ultimately have "l = 8" "g = Some 3232235777" by (auto simp: win_candidate) (simp_all add: win_row_def)
  then show ?thesis using run win_lab_answers by simp
qed

theorem metric_overflow_picks_worse_witness:
  "findDefaultLUID (win_lab [win_row 7 10, win_row 8 4294967295]) 5 win_host = (Inr (8, Some 3232235777), win_host)"
proof -
  let ?rows = "[win_row 7 10, win_row 8 4294967295]"
  have h: "host_os win_host = ()" by simp
  have c: "candidate 5 (\<lambda>_. Some True) (\<lambda>_. Some 25) (win_row 7 10) 25"
    "candidate 5 (\<lambda>_. Some True) (\<lambda>_. Some 25) (win_row 8 4294967295) 25"
    by (simp_all add: win_candidate)
  have m: "row_Metric (win_row 7 10) = 10" "row_Metric (win_row 8 4294967295) = 4294967295"
    "InterfaceLUID (win_row 8 4294967295) = 8" "row_NextHop (win_row 8 4294967295) = Some 3232235777"
    by (simp_all add: win_row_def)
  have n: "unat (row_Metric (win_row 7 10)) + unat (25 :: 32 word) = 35"
    "unat (row_Metric (win_row 8 4294967295)) + unat (25 :: 32 word) = 4294967320"
    unfolding m by simp_all
  show ?thesis
    using metric_overflow_picks_worse [OF win_lab_answers [of ?rows, folded h] c] unfolding n m by simp
qed

definition win_client :: ClientWgConfig where
  "win_client =
     \<lparr>ClientPrivateKey = ''k1'', cw_ServerPublicKey = ''k2'', cw_ClientIp = ''10.8.0.2'',
      cw_ClientCidr = ''/24'', cw_ServerIp = ''9.9.9.9'', cw_ServerPort = 51820, cw_DnsIp = []\<rparr>"

theorem no_default_route_never_connects_witness:
  "UpdateClientConf (win_lab []) win_client ''1.2.3.4'' win_host \<noteq> (Return (), win_host) \<and>
   findDefaultLUID (win_lab []) 5 win_host = (Inr (0, None), win_host)"
proof -
  have h: "host_os win_host = ()" by simp
  have a: "GetAdaptersAddresses (win_lab []) (host_os win_host) =
      (Inr [\<lparr>FriendlyName = ''rvpn0'', LUID = 5\<rparr>, \<lparr>FriendlyName = ''lan'', LUID = 7\<rparr>], host_os win_host)"
    and up: "wt_DeviceUp (win_lab []) (host_os win_host) = (Inr (), host_os win_host)"
    by (simp_all add: win_lab_def ok_def)
  have d: "Adapter (wgd win_host) = Some \<lparr>FriendlyName = ''rvpn0'', LUID = 5\<rparr>" "DefaultAdapter (wgd win_host) = None"
    by (simp_all add: win_host_def NewWireguardDaemon_def)
  have "findDefaultLUID (win_lab []) 5 win_host = (Inr (0, None), win_host)"
    using findDefaultLUID_lower [OF win_lab_answers [of "[]", folded h]] by simp
  then show ?thesis
    using no_default_route_never_connects [OF win_lab_answers [of "[]", folded h] a _ d _ up] by simp
qed

end
