(* ===== verification/Wg_Darwin.thy ===== *)
theory Wg_Darwin
  imports Wg_Host
begin

text \<open>
  The WireGuard daemon on macOS (\<open>daemon/wg/daemon_darwin.go\<close>, \<open>daemon/wg/network_util_darwin.go\<close>),
  which works by running \<open>ifconfig\<close>, \<open>route\<close> and \<open>netstat\<close>.  Running a command is the parameter
  \<open>exec_Command\<close>, which answers its combined output; the text of \<open>netstat\<close> is read here as the code
  reads it.
\<close>

section \<open>Text\<close>

text \<open>
  \<open>strings.TrimSpace\<close> and the white-space class of the expression, on ASCII text; the latter has no vertical tab.
\<close>

definition is_space :: "char \<Rightarrow> bool" where
  "is_space c \<longleftrightarrow> (of_char c :: nat) \<in> {9, 10, 11, 12, 13, 32}"

definition is_re_space :: "char \<Rightarrow> bool" where
  "is_re_space c \<longleftrightarrow> (of_char c :: nat) \<in> {9, 10, 12, 13, 32}"

definition trim_space :: "string \<Rightarrow> string" where
  "trim_space s = rev (dropWhile is_space (rev (dropWhile is_space s)))"

text \<open>
  \<open>Split(s, n)\<close> of the expression for one or more white-space characters: at most \<open>n\<close> pieces, the last of which is what is left.
\<close>

fun re_split :: "nat \<Rightarrow> string \<Rightarrow> string list" where
  "re_split 0 s = []"
| "re_split (Suc 0) s = [s]"
| "re_split (Suc (Suc n)) s =
     (case dropWhile (\<lambda>c. \<not> is_re_space c) s of
        [] \<Rightarrow> [s]
      | c # cs \<Rightarrow> takeWhile (\<lambda>c. \<not> is_re_space c) s # re_split (Suc n) (dropWhile is_re_space (c # cs)))"

section \<open>The system\<close>

record 'o darwin_os =
  exec_Command :: "string list \<Rightarrow> ('o, string) stmt"
  dw_CreateTUN :: "string \<Rightarrow> int \<Rightarrow> ('o, unit) stmt"
  dw_DeviceUp :: "('o, unit) stmt"
  dw_DeviceDown :: "('o, unit) stmt"
  dw_DeviceClose :: "('o, unit) stmt"
  dw_UapiOpen :: "string \<Rightarrow> ('o, unit) stmt"
  dw_UapiListen :: "string \<Rightarrow> ('o, unit) stmt"
  dw_UapiClose :: "('o, unit) stmt"
  dw_WgctrlNew :: "('o, unit) stmt"
  dw_WgctrlDevices :: "('o, unit) stmt"
  dw_ConfigureDevice :: "string \<Rightarrow> wg_config \<Rightarrow> ('o, unit) stmt"
  dw_ParseKey :: "string \<Rightarrow> wg_key result"

record routeInfo =
  ipAddressPrefix :: string
  interfaceName :: string

record WireguardDaemon =
  has_device :: bool
  DefaultIFaceName :: string
  DefaultGatewayIP :: string
  ServerIP :: "prefix option"
  ControlPlaneIP :: "prefix option"
  InterfaceName :: string
  appendedRoutes :: "routeInfo list"

definition NewWireguardDaemon :: WireguardDaemon where
  "NewWireguardDaemon =
     \<lparr>has_device = False, DefaultIFaceName = [], DefaultGatewayIP = [], ServerIP = None, ControlPlaneIP = None,
      InterfaceName = [], appendedRoutes = []\<rparr>"

datatype darwin_op =
    Run_command "string list"
  | DwCreateTUN string int
  | DwDeviceUp
  | DwDeviceDown
  | DwDeviceClose
  | DwUapiOpen string
  | DwUapiListen string
  | DwUapiClose
  | DwConfigure string wg_config

type_synonym 'o mac_host = "(WireguardDaemon, darwin_op, 'o) wg_host"

definition on_device :: "('o mac_host, 'a) prog \<Rightarrow> ('o mac_host, 'a) prog" where
  "on_device m = bind (asks (\<lambda>h. has_device (wgd h))) (\<lambda>b. if b then m else panic)"

section \<open>Helpers of network\_util\_darwin.go\<close>

definition run_command :: "'o darwin_os \<Rightarrow> string list \<Rightarrow> ('o mac_host, unit) stmt" where
  "run_command K cmd = and_then (call (Run_command cmd) (exec_Command K cmd)) (\<lambda>_. ok ())"

definition assignInterfaceAddr :: "'o darwin_os \<Rightarrow> string \<Rightarrow> string \<Rightarrow> string \<Rightarrow> ('o mac_host, unit) stmt" where
  "assignInterfaceAddr K ifaceName addressPrefix ipAddressNet =
     run_command K [''ifconfig'', ifaceName, ''inet'', addressPrefix, ipAddressNet]"

text \<open>The first line of four or five fields that starts with \<open>default\<close>: its fourth and second field.\<close>

definition default_line :: "string \<Rightarrow> (string \<times> string) option" where
  "default_line routeLine =
     (let splitLine = re_split 6 (trim_space routeLine) in
      if (length splitLine = 4 \<or> length splitLine = 5) \<and> splitLine ! 0 = ''default''
      then Some (splitLine ! 3, splitLine ! 1) else None)"

fun default_of_lines :: "string list \<Rightarrow> string \<times> string" where
  "default_of_lines [] = ([], [])"
| "default_of_lines (l # ls) = (case default_line l of Some x \<Rightarrow> x | None \<Rightarrow> default_of_lines ls)"

definition newline :: char where
  "newline = char_of (10 :: nat)"

definition findDefaultInterface :: "'o darwin_os \<Rightarrow> ('o mac_host, string \<times> string) stmt" where
  "findDefaultInterface K =
     and_then (query (exec_Command K [''netstat'', ''-nr''])) (\<lambda>out.
       ok (default_of_lines (split_on newline out)))"

definition routeAddIFace :: "'o darwin_os \<Rightarrow> string \<Rightarrow> string \<Rightarrow> ('o mac_host, unit) stmt" where
  "routeAddIFace K p i = run_command K [''route'', ''add'', ''-net'', p, ''-interface'', i]"

definition routeAddGateway :: "'o darwin_os \<Rightarrow> string \<Rightarrow> string \<Rightarrow> ('o mac_host, unit) stmt" where
  "routeAddGateway K p g = run_command K [''route'', ''add'', ''-net'', p, g]"

definition routeDelIFace :: "'o darwin_os \<Rightarrow> string \<Rightarrow> string \<Rightarrow> ('o mac_host, unit) stmt" where
  "routeDelIFace K p i = run_command K [''route'', ''delete'', ''-net'', p, ''-interface'', i]"

definition routeDelGateway :: "'o darwin_os \<Rightarrow> string \<Rightarrow> string \<Rightarrow> ('o mac_host, unit) stmt" where
  "routeDelGateway K p g = run_command K [''route'', ''delete'', ''-net'', p, g]"

section \<open>StartDevice\<close>

definition StartDevice :: "'o darwin_os \<Rightarrow> ('o mac_host, unit) stmt" where
  "StartDevice K =
     and_then (call (DwCreateTUN ''utun140'' 1420) (dw_CreateTUN K ''utun140'' 1420)) (\<lambda>_.
     and_then (call DwDeviceUp (dw_DeviceUp K)) (\<lambda>_.
     and_then (call (DwUapiOpen ''utun140'') (dw_UapiOpen K ''utun140'')) (\<lambda>_.
     and_then (call (DwUapiListen ''utun140'') (dw_UapiListen K ''utun140'')) (\<lambda>_.
       set_wgd_stmt (\<lambda>d. d\<lparr>has_device := True, InterfaceName := ''utun140''\<rparr>)))))"

section \<open>UpdateClientConf\<close>

text \<open>Lines 113 to 122.\<close>

definition bring_up :: "'o darwin_os \<Rightarrow> ('o mac_host, unit) prog" where
  "bring_up K =
     bind (asks (\<lambda>h. InterfaceName (wgd h))) (\<lambda>name.
     then_do (must (run_command K [''ifconfig'', name, ''up'']))
       (on_device (must (call DwDeviceUp (dw_DeviceUp K)))))"

definition parse_ips :: "string \<Rightarrow> string \<Rightarrow> ('o mac_host, unit) prog" where
  "parse_ips serverIp controlPlaneAddr =
     bind (parse_host serverIp) (\<lambda>s.
     then_do (set_wgd (\<lambda>d. d\<lparr>ServerIP := Some s\<rparr>))
     (bind (parse_host controlPlaneAddr) (\<lambda>c.
        set_wgd (\<lambda>d. d\<lparr>ControlPlaneIP := Some c\<rparr>))))"

text \<open>Lines 145 to 168: only while no default interface is known; a changed one is left to a TODO.\<close>

definition exclude_hosts :: "'o darwin_os \<Rightarrow> string \<Rightarrow> string \<Rightarrow> ('o mac_host, unit) prog" where
  "exclude_hosts K currDefaultIFace currDefaultGateway =
     bind (asks wgd) (\<lambda>d.
       if DefaultIFaceName d = []
       then then_do (set_wgd (\<lambda>d. d\<lparr>DefaultIFaceName := currDefaultIFace, DefaultGatewayIP := currDefaultGateway\<rparr>))
            (then_do (must (routeAddGateway K (prefix_String (ServerIP d)) currDefaultGateway))
                     (must (routeAddGateway K (prefix_String (ControlPlaneIP d)) currDefaultGateway)))
       else ret ())"

definition open_wgctrl :: "'o darwin_os \<Rightarrow> ('o mac_host, unit) prog" where
  "open_wgctrl K = then_do (must (query (dw_WgctrlNew K))) (must (query (dw_WgctrlDevices K)))"

definition must_key :: "'o darwin_os \<Rightarrow> string \<Rightarrow> ('s, wg_key) prog" where
  "must_key K s = (case dw_ParseKey K s of Inl _ \<Rightarrow> log_fatal | Inr k \<Rightarrow> ret k)"

definition configure :: "'o darwin_os \<Rightarrow> wg_config \<Rightarrow> ('o mac_host, unit) prog" where
  "configure K conf =
     bind (asks (\<lambda>h. InterfaceName (wgd h))) (\<lambda>name.
       configure_device (DwConfigure name conf) (dw_ConfigureDevice K name conf))"

text \<open>Lines 243 to 260.\<close>

definition tunnel_routes :: "string \<Rightarrow> routeInfo list" where
  "tunnel_routes name =
     [\<lparr>ipAddressPrefix = ''0.0.0.0/1'', interfaceName = name\<rparr>,
      \<lparr>ipAddressPrefix = ''128.0.0.0/1'', interfaceName = name\<rparr>]"

definition add_tunnel_routes :: "'o darwin_os \<Rightarrow> ('o mac_host, unit) prog" where
  "add_tunnel_routes K =
     bind (asks (\<lambda>h. InterfaceName (wgd h))) (\<lambda>name.
     then_do (each (\<lambda>r. must (routeAddIFace K (ipAddressPrefix r) (interfaceName r))) (tunnel_routes name))
       (set_wgd (\<lambda>d. d\<lparr>appendedRoutes := tunnel_routes name\<rparr>)))"

definition UpdateClientConf :: "'o darwin_os \<Rightarrow> ClientWgConfig \<Rightarrow> string \<Rightarrow> ('o mac_host, unit) prog" where
  "UpdateClientConf K wgConf controlPlaneAddr =
     then_do (bring_up K)
     (then_do (parse_ips (cw_ServerIp wgConf) controlPlaneAddr)
     (bind (must (findDefaultInterface K)) (\<lambda>(currDefaultIFace, currDefaultGateway).
     then_do (exclude_hosts K currDefaultIFace currDefaultGateway)
     (bind (asks (\<lambda>h. InterfaceName (wgd h))) (\<lambda>name.
     then_do (warn (assignInterfaceAddr K name (cw_ClientIp wgConf @ cw_ClientCidr wgConf) (cw_ClientIp wgConf)))
     (then_do (open_wgctrl K)
     (bind (must_key K (ClientPrivateKey wgConf)) (\<lambda>pri.
     bind (must_key K (cw_ServerPublicKey wgConf)) (\<lambda>pub.
     then_do (configure K (client_wg_config pri pub wgConf))
       (add_tunnel_routes K))))))))))"

section \<open>Disconnect and ShutdownDevice\<close>

definition delete_appended :: "'o darwin_os \<Rightarrow> ('o mac_host, unit) prog" where
  "delete_appended K =
     bind (asks (\<lambda>h. appendedRoutes (wgd h)))
       (each (\<lambda>r. warn (routeDelIFace K (ipAddressPrefix r) (interfaceName r))))"

definition Disconnect :: "'o darwin_os \<Rightarrow> ('o mac_host, unit) prog" where
  "Disconnect K =
     then_do (on_device (must (call DwDeviceDown (dw_DeviceDown K))))
     (then_do (delete_appended K)
       (set_wgd (\<lambda>d. d\<lparr>appendedRoutes := []\<rparr>)))"

definition ShutdownDevice :: "'o darwin_os \<Rightarrow> ('o mac_host, unit) prog" where
  "ShutdownDevice K =
     then_do (on_device (warn (call DwUapiClose (dw_UapiClose K))))
     (then_do (on_device (warn (call DwDeviceClose (dw_DeviceClose K))))
     (bind (asks wgd) (\<lambda>d.
     then_do
       (if DefaultIFaceName d \<noteq> []
        then then_do (must (routeDelGateway K (prefix_String (ServerIP d)) (DefaultGatewayIP d)))
                     (must (routeDelGateway K (prefix_String (ControlPlaneIP d)) (DefaultGatewayIP d)))
        else ret ())
       (delete_appended K))))"

end
