(* ===== verification/Wg_Darwin_Props.thy ===== *)
theory Wg_Darwin_Props
  imports Wg_Darwin
begin

text \<open>
  What the macOS daemon reads out of \<open>netstat\<close>: tables printed as rows of fields, set apart by white
  space, are read back; and what a connection and a disconnection run.
\<close>

section \<open>Reading rows of fields\<close>

text \<open>
  A printed row: its fields, the white space between them, and around them.  Fields hold no white
  space; the space between two columns is not empty; nothing holds a newline.
\<close>

record row =
  columns :: "string list"
  gaps :: "string list"
  indent :: string
  tail :: string

fun spaced :: "string list \<Rightarrow> string list \<Rightarrow> string" where
  "spaced [] gs = []"
| "spaced [w] gs = w"
| "spaced (w # ws) [] = w"
| "spaced (w # ws) (g # gs) = w @ g @ spaced ws gs"

definition print_row :: "row \<Rightarrow> string" where
  "print_row r = indent r @ spaced (columns r) (gaps r) @ tail r"

definition blank :: "string \<Rightarrow> bool" where
  "blank s \<longleftrightarrow> (\<forall>c \<in> set s. is_re_space c \<and> c \<noteq> newline)"

definition well_formed :: "row \<Rightarrow> bool" where
  "well_formed r \<longleftrightarrow>
     columns r \<noteq> [] \<and> length (gaps r) = length (columns r) - 1 \<and>
     (\<forall>w \<in> set (columns r). w \<noteq> [] \<and> (\<forall>c \<in> set w. \<not> is_space c)) \<and>
     (\<forall>g \<in> set (gaps r). g \<noteq> [] \<and> blank g) \<and> blank (indent r) \<and> blank (tail r)"

lemma re_space_space: "is_re_space c \<Longrightarrow> is_space c"
  by (auto simp: is_re_space_def is_space_def)

lemma newline_space: "is_space newline" "is_re_space newline"
  by (simp_all add: newline_def is_space_def is_re_space_def)

text \<open>Fields and gaps, as the two lists of \<open>spaced\<close>.\<close>

definition field_list :: "string list \<Rightarrow> bool" where
  "field_list ws \<longleftrightarrow> (\<forall>w \<in> set ws. w \<noteq> [] \<and> (\<forall>c \<in> set w. \<not> is_space c))"

definition gap_list :: "string list \<Rightarrow> bool" where
  "gap_list gs \<longleftrightarrow> (\<forall>g \<in> set gs. g \<noteq> [] \<and> blank g)"

lemma spaced_Cons_hd:
  "field_list (w # ws) \<Longrightarrow> \<exists>c cs. spaced (w # ws) gs = c # cs \<and> \<not> is_space c"
  by (cases ws; cases gs; cases w) (auto simp: field_list_def)

lemma spaced_last:
  "field_list ws \<Longrightarrow> ws \<noteq> [] \<Longrightarrow> length gs = length ws - 1 \<Longrightarrow>
     spaced ws gs \<noteq> [] \<and> \<not> is_space (last (spaced ws gs))"
proof (induction ws gs rule: spaced.induct)
  case (4 w v va g gs)
  then have "spaced (v # va) gs \<noteq> [] \<and> \<not> is_space (last (spaced (v # va) gs))"
    by (auto simp: field_list_def)
  then show ?case by (simp add: last_append)
qed (auto simp: field_list_def)

lemma spaced_Cons:
  "length gs = length ws \<Longrightarrow> ws \<noteq> [] \<Longrightarrow> spaced (w # ws) gs = w @ hd gs @ spaced ws (tl gs)"
  by (cases ws; cases gs) simp_all

lemma re_split_field:
  assumes "\<forall>c \<in> set w. \<not> is_re_space c" and "g \<noteq> []" and "\<forall>c \<in> set g. is_re_space c"
    and "\<not> is_re_space c"
  shows "re_split (Suc (Suc n)) (w @ g @ c # cs) = w # re_split (Suc n) (c # cs)"
proof -
  obtain g0 g' where g: "g = g0 # g'" using assms(2) by (cases g) auto
  have d: "dropWhile (\<lambda>c. \<not> is_re_space c) (w @ g @ c # cs) = g @ c # cs"
    and t: "takeWhile (\<lambda>c. \<not> is_re_space c) (w @ g @ c # cs) = w"
    using assms(1,3) g by (simp_all add: dropWhile_append2 takeWhile_append2)
  have "dropWhile is_re_space (g @ c # cs) = c # cs"
    using assms(3,4) by (simp add: dropWhile_append2)
  then show ?thesis using d t g by simp
qed

lemma re_split_last: "\<forall>c \<in> set w. \<not> is_re_space c \<Longrightarrow> re_split (Suc n) w = [w]"
proof (cases n)
  case (Suc m)
  assume "\<forall>c \<in> set w. \<not> is_re_space c"
  then have "dropWhile (\<lambda>c. \<not> is_re_space c) w = []" by simp
  then show ?thesis using Suc by (simp del: dropWhile_eq_Nil_conv)
qed simp

lemma re_split_step:
  assumes "field_list (w # v # vs)" "gap_list (g # gs)"
  shows "re_split (Suc (Suc n)) (spaced (w # v # vs) (g # gs)) = w # re_split (Suc n) (spaced (v # vs) gs)"
proof -
  have w: "\<forall>c \<in> set w. \<not> is_re_space c" and g: "g \<noteq> []" "\<forall>c \<in> set g. is_re_space c"
    using assms re_space_space by (auto simp: field_list_def gap_list_def blank_def)
  obtain c cs where c: "spaced (v # vs) gs = c # cs" "\<not> is_space c"
    using spaced_Cons_hd [of v vs gs] assms(1) by (auto simp: field_list_def)
  then have "\<not> is_re_space c" using re_space_space by blast
  from re_split_field [OF w g this] show ?thesis by (simp only: c spaced.simps(4))
qed

lemma re_split_spaced:
  "field_list ws \<Longrightarrow> gap_list gs \<Longrightarrow> ws \<noteq> [] \<Longrightarrow> length gs = length ws - 1 \<Longrightarrow>
     (length ws \<le> n \<longrightarrow> re_split n (spaced ws gs) = ws) \<and>
     (n < length ws \<longrightarrow> length (re_split n (spaced ws gs)) = n)"
proof (induction n arbitrary: ws gs)
  case (Suc n)
  obtain w ws' where ws: "ws = w # ws'" using Suc.prems(3) by (cases ws) auto
  have w: "\<forall>c \<in> set w. \<not> is_re_space c"
    using Suc.prems(1) ws re_space_space by (auto simp: field_list_def)
  show ?case
  proof (cases ws')
    case Nil
    then show ?thesis using re_split_last [OF w] ws by simp
  next
    case (Cons v vs)
    then obtain g gs' where gs: "gs = g # gs'" using Suc.prems(4) ws by (cases gs) auto
    show ?thesis
    proof (cases n)
      case 0
      then show ?thesis using Cons ws by simp
    next
      case m: (Suc m)
      have "(length (v # vs) \<le> n \<longrightarrow> re_split n (spaced (v # vs) gs') = v # vs) \<and>
        (n < length (v # vs) \<longrightarrow> length (re_split n (spaced (v # vs) gs')) = n)"
        using Suc.prems ws Cons gs by (intro Suc.IH) (auto simp: field_list_def gap_list_def)
      moreover have "re_split (Suc n) (spaced ws gs) = w # re_split n (spaced (v # vs) gs')"
        using re_split_step [of w v vs g gs' m] Suc.prems(1,2) ws Cons gs m by simp
      ultimately show ?thesis using ws Cons by simp
    qed
  qed
qed simp

lemma trim_space_print:
  assumes "well_formed r"
  shows "trim_space (print_row r) = spaced (columns r) (gaps r)"
proof -
  let ?s = "spaced (columns r) (gaps r)"
  have b: "\<forall>c \<in> set (indent r). is_space c" "\<forall>c \<in> set (tail r). is_space c"
    using assms re_space_space by (auto simp: well_formed_def blank_def)
  have f: "field_list (columns r)" "columns r \<noteq> []" "length (gaps r) = length (columns r) - 1"
    using assms by (simp_all add: well_formed_def field_list_def)
  obtain c cs where c: "?s = c # cs" "\<not> is_space c"
    using spaced_Cons_hd f(1,2) by (metis list.exhaust)
  have l: "?s \<noteq> []" "\<not> is_space (last ?s)" using spaced_last [OF f] by simp_all
  have "dropWhile is_space (print_row r) = ?s @ tail r"
    using b(1) c by (simp add: print_row_def dropWhile_append2)
  moreover have "dropWhile is_space (rev (?s @ tail r)) = rev ?s"
  proof -
    obtain x xs where x: "rev ?s = x # xs" "\<not> is_space x"
      using l by (cases "rev ?s") (auto simp: last_rev hd_rev simp flip: hd_rev)
    have "dropWhile is_space (rev (tail r) @ x # xs) = dropWhile is_space (x # xs)"
      by (rule dropWhile_append2) (use b(2) in simp)
    then show ?thesis by (simp add: x)
  qed
  ultimately show ?thesis by (simp add: trim_space_def)
qed

definition is_default :: "row \<Rightarrow> bool" where
  "is_default r \<longleftrightarrow> (length (columns r) = 4 \<or> length (columns r) = 5) \<and> columns r ! 0 = ''default''"

lemma default_line_print:
  assumes "well_formed r"
  shows "default_line (print_row r) = (if is_default r then Some (columns r ! 3, columns r ! 1) else None)"
proof -
  have f: "field_list (columns r)" "gap_list (gaps r)" "columns r \<noteq> []" "length (gaps r) = length (columns r) - 1"
    using assms by (simp_all add: well_formed_def field_list_def gap_list_def)
  show ?thesis
  proof (cases "length (columns r) \<le> 6")
    case True
    then show ?thesis
      using re_split_spaced [OF f, of 6]
      by (simp add: default_line_def trim_space_print [OF assms] is_default_def Let_def)
  next
    case False
    then have "length (re_split 6 (spaced (columns r) (gaps r))) = 6" using re_split_spaced [OF f, of 6] by simp
    then show ?thesis
      using False by (simp add: default_line_def trim_space_print [OF assms] is_default_def Let_def)
  qed
qed

text \<open>A table: the printed rows, each with its newline.\<close>

definition print_table :: "row list \<Rightarrow> string" where
  "print_table rs = concat (map (\<lambda>r. print_row r @ [newline]) rs)"

lemma newline_not_in_spaced:
  "field_list ws \<Longrightarrow> gap_list gs \<Longrightarrow> newline \<notin> set (spaced ws gs)"
  by (induction ws gs rule: spaced.induct)
    (use newline_space in \<open>auto simp: field_list_def gap_list_def blank_def\<close>)

lemma newline_not_in_row: "well_formed r \<Longrightarrow> newline \<notin> set (print_row r)"
  using newline_not_in_spaced [of "columns r" "gaps r"]
  by (auto simp: print_row_def well_formed_def field_list_def gap_list_def blank_def)

lemma split_table:
  "\<forall>r \<in> set rs. well_formed r \<Longrightarrow> split_on newline (print_table rs) = map print_row rs @ [[]]"
  by (induction rs) (simp_all add: print_table_def split_on_append_sep newline_not_in_row)

lemma default_of_table:
  assumes "\<forall>r \<in> set rs. well_formed r"
  shows "default_of_lines (map print_row rs @ [[]]) =
    (case find is_default rs of None \<Rightarrow> ([], []) | Some r \<Rightarrow> (columns r ! 3, columns r ! 1))"
  using assms
proof (induction rs)
  case Nil
  have "default_line [] = None" by (simp add: default_line_def trim_space_def eval_nat_numeral)
  then show ?case by simp
qed (simp add: default_line_print)

text \<open>
  C30: On any table of rows of fields the daemon reads the default interface and its gateway out of the
  first row of four or five fields whose first is \<open>default\<close>, whatever the white space; a default route
  printed with more columns is passed over, and without one the answer is two empty texts and no error.
\<close>

theorem default_interface_of_table:
  assumes "\<forall>r \<in> set rs. well_formed r"
    and "exec_Command K [''netstat'', ''-nr''] (host_os h) = (Inr (print_table rs), s)"
  shows "findDefaultInterface K h =
    (Inr (case find is_default rs of None \<Rightarrow> ([], []) | Some r \<Rightarrow> (columns r ! 3, columns r ! 1)),
     h\<lparr>host_os := s\<rparr>)"
  using assms(2)
  by (simp add: findDefaultInterface_def query_def and_then_def ok_def split_table [OF assms(1)]
      default_of_table [OF assms(1)])

section \<open>Connecting and disconnecting\<close>

definition add_command :: "string \<Rightarrow> string \<Rightarrow> darwin_op" where
  "add_command p name = Run_command [''route'', ''add'', ''-net'', p, ''-interface'', name]"

definition delete_command :: "string \<Rightarrow> string \<Rightarrow> darwin_op" where
  "delete_command p name = Run_command [''route'', ''delete'', ''-net'', p, ''-interface'', name]"

lemma run_command_ops:
  "run_command K cmd h = (r, h') \<Longrightarrow> only_ops h h' [(Run_command cmd, case r of Inl _ \<Rightarrow> False | Inr _ \<Rightarrow> True)]"
  by (auto simp: run_command_def and_then_def ok_def dest!: call_ops split: prod.splits sum.splits)

lemma run_command_Inr: "run_command K cmd h = (Inr u, h') \<Longrightarrow> only_ops h h' [(Run_command cmd, True)]"
  by (drule run_command_ops) simp

lemma mac_tunnel_routes_ops:
  assumes "add_tunnel_routes K h = (Return u, h')"
  shows "ops h' = ops h @ [(add_command ''0.0.0.0/1'' (InterfaceName (wgd h)), True),
      (add_command ''128.0.0.0/1'' (InterfaceName (wgd h)), True)] \<and>
    wgd h' = (wgd h)\<lparr>appendedRoutes := tunnel_routes (InterfaceName (wgd h))\<rparr>"
  using assms
  by (auto simp: add_tunnel_routes_def tunnel_routes_def set_wgd_def returned routeAddIFace_def add_command_def
      only_ops_def dest!: run_command_Inr)

text \<open>Up to the tunnel routes, the log only grows and the interface keeps its name.\<close>

definition grows :: "'o mac_host \<Rightarrow> 'o mac_host \<Rightarrow> bool" where
  "grows h0 h \<longleftrightarrow> (\<exists>xs. ops h = ops h0 @ xs) \<and> InterfaceName (wgd h) = InterfaceName (wgd h0)"

lemma grows_calls [keeps_intros]: "keeps (grows h0) (query m)" "keeps (grows h0) (call op m)"
  by (fastforce simp: keeps_def grows_def query_def call_def split: prod.splits)+

lemma grows_commands [keeps_intros]:
  "keeps (grows h0) (run_command K cmd)" "keeps (grows h0) (configure_device op m)"
  unfolding configure_device_def run_command_def by (intro keeps_intros keeps_and_then; simp)+

lemma grows_fields [keeps_intros]:
  "(\<And>d. InterfaceName (f d) = InterfaceName d) \<Longrightarrow> keeps (grows h0) (set_wgd f)"
  by (auto simp: keeps_def grows_def set_wgd_def modify_def)

lemma keeps_must_key [keeps_intros]: "keeps P (must_key K s)" "keeps P (parse_host s)"
  unfolding must_key_def parse_host_def by (auto split: sum.split intro: keeps_intros)

lemma grows_until_routes:
  "keeps (grows h0) (bring_up K)" "keeps (grows h0) (parse_ips s c)"
  "keeps (grows h0) (findDefaultInterface K)" "keeps (grows h0) (exclude_hosts K i g)"
  "keeps (grows h0) (assignInterfaceAddr K a b c')" "keeps (grows h0) (open_wgctrl K)"
  "keeps (grows h0) (configure K conf)"
  unfolding bring_up_def on_device_def parse_ips_def findDefaultInterface_def exclude_hosts_def
    assignInterfaceAddr_def open_wgctrl_def configure_def routeAddGateway_def
  by (intro keeps_intros keeps_and_then; simp)+

lemma UpdateClientConf_end:
  assumes "UpdateClientConf K conf cp h = (Return u, h')"
  shows "\<exists>xs. new_ops h h' = xs @ [(add_command ''0.0.0.0/1'' (InterfaceName (wgd h)), True),
      (add_command ''128.0.0.0/1'' (InterfaceName (wgd h)), True)] \<and>
    appendedRoutes (wgd h') = tunnel_routes (InterfaceName (wgd h))"
proof -
  obtain u1 h1 u2 h2 i g h3 u4 h4 r h5 u6 h6 pri pub u7 h7 where
    s1: "bring_up K h = (Return u1, h1)" and
    s2: "parse_ips (cw_ServerIp conf) cp h1 = (Return u2, h2)" and
    s3: "findDefaultInterface K h2 = (Inr (i, g), h3)" and
    s4: "exclude_hosts K i g h3 = (Return u4, h4)" and
    s5: "assignInterfaceAddr K (InterfaceName (wgd h4)) (cw_ClientIp conf @ cw_ClientCidr conf) (cw_ClientIp conf) h4 = (r, h5)" and
    s6: "open_wgctrl K h5 = (Return u6, h6)" and
    s7: "configure K (client_wg_config pri pub conf) h6 = (Return u7, h7)" and
    s8: "add_tunnel_routes K h7 = (Return u, h')"
    using assms unfolding UpdateClientConf_def
    by (simp only: bind_Return then_do_Return must_Return asks_Return warn_Return)
      (auto simp: bind_Return then_do_Return must_Return asks_Return warn_Return must_key_def returned split: sum.splits)
  have "grows h h" by (simp add: grows_def)
  then have "grows h h7"
    using keepsD [OF grows_until_routes(1) _ s1] keepsD [OF grows_until_routes(2) _ s2]
      keepsD [OF grows_until_routes(3) _ s3] keepsD [OF grows_until_routes(4) _ s4]
      keepsD [OF grows_until_routes(5) _ s5] keepsD [OF grows_until_routes(6) _ s6]
      keepsD [OF grows_until_routes(7) _ s7] by blast
  then obtain xs where "ops h7 = ops h @ xs" "InterfaceName (wgd h7) = InterfaceName (wgd h)"
    by (auto simp: grows_def)
  then show ?thesis using mac_tunnel_routes_ops [OF s8] by (auto simp: new_ops_def)
qed

text \<open>
  The last things a connection runs are the two routes that send IPv4 into the tunnel, and the
  disconnection after it runs exactly the two deletions of these routes.
\<close>

theorem mac_disconnect_undoes_tunnel:
  assumes "UpdateClientConf K conf cp h = (Return u, h1)" and "Disconnect K h1 = (Return v, h2)"
  shows "\<exists>xs b1 b2. new_ops h h1 = xs @ [(add_command ''0.0.0.0/1'' (InterfaceName (wgd h)), True),
      (add_command ''128.0.0.0/1'' (InterfaceName (wgd h)), True)] \<and>
    new_ops h1 h2 = [(DwDeviceDown, True), (delete_command ''0.0.0.0/1'' (InterfaceName (wgd h)), b1),
      (delete_command ''128.0.0.0/1'' (InterfaceName (wgd h)), b2)] \<and> appendedRoutes (wgd h2) = []"
proof -
  let ?n = "InterfaceName (wgd h)"
  obtain xs where xs: "new_ops h h1 = xs @ [(add_command ''0.0.0.0/1'' ?n, True), (add_command ''128.0.0.0/1'' ?n, True)]"
    and routes: "appendedRoutes (wgd h1) = tunnel_routes ?n"
    using UpdateClientConf_end [OF assms(1)] by blast
  obtain u1 k1 u2 k2 where d: "call DwDeviceDown (dw_DeviceDown K) h1 = (Inr u1, k1)"
    and a: "delete_appended K k1 = (Return u2, k2)" and h2: "h2 = k2\<lparr>wgd := (wgd k2)\<lparr>appendedRoutes := []\<rparr>\<rparr>"
    using assms(2) by (auto simp: Disconnect_def on_device_def set_wgd_def returned)
  note o1 = call_Inr [OF d]
  have "appendedRoutes (wgd k1) = tunnel_routes ?n" using o1 routes by (simp add: only_ops_def)
  then obtain r1 m1 r2 where c1: "run_command K [''route'', ''delete'', ''-net'', ''0.0.0.0/1'', ''-interface'', ?n] k1 = (r1, m1)"
    and c2: "run_command K [''route'', ''delete'', ''-net'', ''128.0.0.0/1'', ''-interface'', ?n] m1 = (r2, k2)"
    using a by (auto simp: delete_appended_def routeDelIFace_def tunnel_routes_def returned)
  show ?thesis
    using xs o1 run_command_ops [OF c1] run_command_ops [OF c2] h2
    by (auto simp: new_ops_def only_ops_def delete_command_def)
qed

section \<open>A machine with two default routes\<close>

definition mac_row :: "string list \<Rightarrow> row" where
  "mac_row ws = \<lparr>columns = ws, gaps = replicate (length ws - 1) ''  '', indent = [], tail = [CHR '' '']\<rparr>"

definition mac_table :: "row list" where
  "mac_table =
     [mac_row [''Routing'', ''tables''], mac_row [''Internet:''],
      mac_row [''Destination'', ''Gateway'', ''Flags'', ''Netif'', ''Expire''],
      mac_row [''default'', ''192.168.1.1'', ''UGScg'', ''en0''],
      mac_row [''default'', ''10.0.0.1'', ''UGScIg'', ''en1'', ''600'']]"

definition mac_output :: "string list \<Rightarrow> string" where
  "mac_output cmd = (if cmd = [''netstat'', ''-nr''] then print_table mac_table else [])"

definition mac_lab :: "unit darwin_os" where
  "mac_lab =
     \<lparr>exec_Command = (\<lambda>cmd. ok (mac_output cmd)),
      dw_CreateTUN = (\<lambda>_ _. ok ()), dw_DeviceUp = ok (), dw_DeviceDown = ok (), dw_DeviceClose = ok (),
      dw_UapiOpen = (\<lambda>_. ok ()), dw_UapiListen = (\<lambda>_. ok ()), dw_UapiClose = ok (), dw_WgctrlNew = ok (),
      dw_WgctrlDevices = ok (), dw_ConfigureDevice = (\<lambda>_ _. ok ()), dw_ParseKey = (\<lambda>s. Inr (Key s))\<rparr>"

definition mac_host :: "unit mac_host" where
  "mac_host = \<lparr>wgd = NewWireguardDaemon\<lparr>has_device := True, InterfaceName := ''utun140''\<rparr>, host_os = (), ops = []\<rparr>"

definition mac_client :: ClientWgConfig where
  "mac_client =
     \<lparr>ClientPrivateKey = ''k1'', cw_ServerPublicKey = ''k2'', cw_ClientIp = ''10.8.0.2'',
      cw_ClientCidr = ''/24'', cw_ServerIp = ''9.9.9.9'', cw_ServerPort = 51820, cw_DnsIp = []\<rparr>"

lemma space_no_newline: "CHR '' '' \<noteq> newline"
  unfolding newline_def by code_simp

lemma mac_table_well_formed: "\<forall>r \<in> set mac_table. well_formed r"
  by (simp add: mac_table_def mac_row_def well_formed_def blank_def is_space_def is_re_space_def space_no_newline)

lemma mac_default: "find is_default mac_table = Some (mac_row [''default'', ''192.168.1.1'', ''UGScg'', ''en0''])"
  by (simp add: mac_table_def mac_row_def is_default_def)

theorem default_interface_of_table_witness:
  "list_all well_formed mac_table \<and>
   findDefaultInterface mac_lab mac_host = (Inr (''en0'', ''192.168.1.1''), mac_host)"
proof -
  have "exec_Command mac_lab [''netstat'', ''-nr''] (host_os mac_host) = (Inr (print_table mac_table), ())"
    by (simp add: mac_lab_def ok_def mac_output_def)
  from default_interface_of_table [OF mac_table_well_formed this] show ?thesis
    using mac_table_well_formed mac_default by (simp add: mac_row_def list_all_iff)
qed

lemma mac_find: "findDefaultInterface mac_lab h = (Inr (''en0'', ''192.168.1.1''), h)"
proof -
  have "exec_Command mac_lab [''netstat'', ''-nr''] () = (Inr (print_table mac_table), ())"
    by (simp add: mac_lab_def ok_def mac_output_def)
  then show ?thesis
    using default_of_table [OF mac_table_well_formed] mac_default
    by (simp add: findDefaultInterface_def query_def and_then_def ok_def split_table [OF mac_table_well_formed] mac_row_def)
qed

definition mac_connected :: "unit mac_host" where
  "mac_connected = snd (UpdateClientConf mac_lab mac_client ''1.2.3.4'' mac_host)"

definition mac_left :: "unit mac_host" where
  "mac_left = snd (Disconnect mac_lab mac_connected)"

lemma mac_prefixes [simp]:
  "parse_prefix ''9.9.9.9/32'' = Inr \<lparr>pfx_addr = 151587081, pfx_bits = 32\<rparr>"
  "parse_prefix ''1.2.3.4/32'' = Inr \<lparr>pfx_addr = 16909060, pfx_bits = 32\<rparr>"
  by (rule parse_prefix_of_text, code_simp, simp)+

lemma mac_lab_answers:
  "exec_Command mac_lab cmd = ok (mac_output cmd)" "dw_DeviceUp mac_lab = ok ()" "dw_DeviceDown mac_lab = ok ()"
  "dw_WgctrlNew mac_lab = ok ()" "dw_WgctrlDevices mac_lab = ok ()" "dw_ConfigureDevice mac_lab n c = ok ()"
  "dw_ParseKey mac_lab k = Inr (Key k)"
  by (simp_all add: mac_lab_def)

lemmas mac_run = on_device_def run_command_def routeAddGateway_def routeAddIFace_def routeDelIFace_def
  assignInterfaceAddr_def open_wgctrl_def must_key_def configure_def configure_device_def tunnel_routes_def
  prog_run query_def call_def set_wgd_def mac_lab_answers mac_host_def NewWireguardDaemon_def mac_client_def

lemma mac_connects: "UpdateClientConf mac_lab mac_client ''1.2.3.4'' mac_host = (Return (), mac_connected)"
  unfolding mac_connected_def
  by (simp add: UpdateClientConf_def mac_find bring_up_def parse_ips_def parse_host_def exclude_hosts_def
      add_tunnel_routes_def mac_run)

lemma mac_leaves: "Disconnect mac_lab mac_connected = (Return (), mac_left)"
  unfolding mac_left_def mac_connected_def
  by (simp add: UpdateClientConf_def mac_find bring_up_def parse_ips_def parse_host_def exclude_hosts_def
      add_tunnel_routes_def mac_run Disconnect_def delete_appended_def)

theorem mac_disconnect_undoes_tunnel_witness:
  "UpdateClientConf mac_lab mac_client ''1.2.3.4'' mac_host = (Return (), mac_connected) \<and>
   Disconnect mac_lab mac_connected = (Return (), mac_left) \<and> appendedRoutes (wgd mac_left) = []"
  using mac_disconnect_undoes_tunnel [OF mac_connects mac_leaves] mac_connects mac_leaves by blast

end
