(* ===== verification/Wg_Contract.thy ===== *)
theory Wg_Contract
  imports Rvpn_Linux Wg_Windows_Props Wg_Darwin_Props
begin

text \<open>
  The interface between the rVPN daemon and the WireGuard daemon of the platform: what the former relies
  on is the locale \<open>wg_platform\<close>, in which its status is shown to tell whether the tunnel's routes are
  in place; the three platforms are its interpretations.
\<close>

section \<open>The contract\<close>

text \<open>
  \<open>up\<close> says that the platform's daemon holds routes into the tunnel: a connection that returns puts them
  in, a disconnection that returns takes them out, and nothing else touches them.
\<close>

locale wg_platform =
  fixes G :: "'w wireguard" and up :: "'w \<Rightarrow> bool"
  assumes connect_up: "wg_UpdateClientConf G conf cp w = (Return u, w') \<Longrightarrow> up w'"
    and disconnect_down: "wg_Disconnect G w = (Return u, w') \<Longrightarrow> \<not> up w'"
    and start_same: "wg_StartDevice G w = (Inr u, w') \<Longrightarrow> up w' = up w"
    and serve_same: "can_serve G \<Longrightarrow> wg_UpdateServeConf G sc w = (Return u, w') \<Longrightarrow> up w' = up w"
    and append_same: "can_serve G \<Longrightarrow> wg_AppendPeers G ps w = (Return u, w') \<Longrightarrow> up w' = up w"

text \<open>The status and the WireGuard daemon of a process, which most of what a process does leaves alone.\<close>

definition at_rest :: "RVPNStatus \<Rightarrow> 'w \<Rightarrow> 'w process \<Rightarrow> bool" where
  "at_rest st w p \<longleftrightarrow> status (rvpn p) = st \<and> wireguard p = w"

lemma at_rest_steps [keeps_intros]:
  "keeps (at_rest st w) (reply c r)" "keeps (at_rest st w) (on_disk m)" "keeps (at_rest st w) (next_key_pair W)"
  "keeps (at_rest st w) (beat c)" "keeps (at_rest st w) close_conn" "keeps (at_rest st w) cancel_ctx"
  "(\<And>r. status (f r) = status r) \<Longrightarrow> keeps (at_rest st w) (set_rvpn f)"
  by (auto simp: keeps_def at_rest_def reply_def on_disk_def next_key_pair_def set_rvpn_def modify_def beat_def
      close_conn_def cancel_ctx_def prog_run split: prod.splits option.splits)

lemma at_rest_parts [keeps_intros]:
  "keeps (at_rest st w) (load_state c f)" "keeps (at_rest st w) (ensure_keys W c f s)"
  "keeps (at_rest st w) (complain_if b c)"
  unfolding load_state_def ensure_keys_def complain_if_def Let_def by (intro keeps_intros)+

lemma at_rest_unmarshal [keeps_intros]: "keeps (at_rest st w) (unmarshal c x)"
  by (cases x) (auto simp: unmarshal_def intro!: keeps_intros)

lemma at_rest_open_channel [keeps_intros]: "keeps (at_rest st w) (open_channel url profile token d)"
  unfolding open_channel_def
  by (intro keeps_intros) (auto simp: at_rest_def split: option.split intro!: keeps_intros)

lemma at_rest_kept:
  assumes "\<And>st w. keeps (at_rest st w) m" and "m p = (r, p')"
  shows "status (rvpn p') = status (rvpn p) \<and> wireguard p' = wireguard p"
  using keepsD [OF assms(1) _ assms(2)] by (simp add: at_rest_def)

lemmas at_rest_load = at_rest_kept [OF at_rest_parts(1)]
lemmas at_rest_complain = at_rest_kept [OF at_rest_parts(3)]
lemmas at_rest_read = at_rest_kept [OF at_rest_unmarshal]

context wg_platform
begin

definition truthful :: "'w process \<Rightarrow> bool" where
  "truthful p \<longleftrightarrow>
     (status (rvpn p) = StatusConnected \<longrightarrow> up (wireguard p)) \<and>
     (status (rvpn p) = StatusDisconnected \<longrightarrow> \<not> up (wireguard p))"

lemma truthful_rest:
  "(\<And>st w. keeps (at_rest st w) m) \<Longrightarrow> truthful p \<Longrightarrow> m p = (r, p') \<Longrightarrow> truthful p'"
  using at_rest_kept [of m p r p'] by (simp add: truthful_def)

lemma truthful_Handle:
  assumes "truthful p" and "Handle W G h c req p = (Return (), p')"
  shows "truthful p'"
proof (cases req)
  case (rq_ConnectServer params)
  then have "status (rvpn p') = StatusConnected \<and> up (wireguard p')"
    using assms(2)
    by (auto simp: handle_ConnectServer_def returned on_wg_def set_rvpn_def beat_def modify_def
        dest: connect_up split: if_splits prod.splits)
  then show ?thesis by (simp add: truthful_def)
next
  case (rq_ServeVPN params)
  show ?thesis
  proof (cases "can_serve G")
    case True
    have "ends (\<lambda>p. status (rvpn p) = StatusServing) (serveVPNHandler G c params)"
      unfolding serveVPNHandler_def if_P [OF True]
      by (rule ends_last, rule ends_last, rule ends_last, rule ends_last, rule ends_last, rule ends_first)
        (auto simp: ends_def keeps_def set_rvpn_def reply_def beat_def prog_run)
    from endsD [OF this] have "status (rvpn p') = StatusServing" using assms(2) rq_ServeVPN by simp
    then show ?thesis by (simp add: truthful_def)
  next
    case False
    then have "keeps (at_rest st w) (Handle W G h c req)" for st w
      unfolding rq_ServeVPN by (simp add: serveVPNHandler_def keeps_intros)
    then show ?thesis by (rule truthful_rest [where m = "Handle W G h c req", OF _ assms])
  qed
next
  case (rq_AppendVPNPeers params)
  show ?thesis
  proof (cases "can_serve G")
    case True
    then obtain ps p1 w where "unmarshal c params p = (Return ps, p1)"
      and a: "wg_AppendPeers G (map wg_peer_of ps) (wireguard p1) = (Return (), w)"
      and p': "status (rvpn p') = status (rvpn p1)" "wireguard p' = w"
      using rq_AppendVPNPeers assms(2)
      by (auto simp: appendVPNPeersHandler_def returned on_wg_def split: if_splits prod.splits)
    then have "status (rvpn p1) = status (rvpn p)" "wireguard p1 = wireguard p" using at_rest_read by blast+
    then show ?thesis using assms(1) append_same [OF True a] p' by (simp add: truthful_def)
  next
    case False
    then have "keeps (at_rest st w) (Handle W G h c req)" for st w
      unfolding rq_AppendVPNPeers by (simp add: appendVPNPeersHandler_def keeps_intros)
    then show ?thesis by (rule truthful_rest [where m = "Handle W G h c req", OF _ assms])
  qed
qed (rule truthful_rest [where m = "Handle W G h c req", OF _ assms];
    auto simp: handle_GetClientInformation_def handle_GetServeInformation_def Let_def intro!: keeps_intros)+

lemma truthful_Disconnect:
  assumes "Disconnect_rpc G p = (Return r, p')"
  shows "truthful p'"
proof -
  obtain w u p1 v p2 where d: "wg_Disconnect G (wireguard p) = (Return (), w)"
    and c: "close_conn (p\<lparr>wireguard := w\<rparr>) = (Return u, p1)" "cancel_ctx p1 = (Return v, p2)"
    and p': "p' = p2\<lparr>rvpn := (rvpn p2)\<lparr>status := StatusDisconnected\<rparr>\<rparr>"
    using assms by (auto simp: Disconnect_rpc_def returned on_wg_def set_rvpn_def split: if_splits prod.splits)
  have "wireguard p' = w"
    using at_rest_kept [where m = close_conn, OF at_rest_steps(5) c(1)]
      at_rest_kept [where m = cancel_ctx, OF at_rest_steps(6) c(2)] p' by simp
  then show ?thesis using disconnect_down [OF d] p' by (simp add: truthful_def)
qed

lemma truthful_step:
  assumes "truthful p" and "daemon_step W G e p = (Return u, p')"
  shows "truthful p'"
proof (cases e)
  case EvDisconnect
  then show ?thesis using assms(2) truthful_Disconnect by (auto simp: returned)
next
  case (EvRequest c req)
  then show ?thesis using assms truthful_Handle by (auto simp: returned split: if_splits)
qed (rule truthful_rest [where m = "daemon_step W G e", OF _ assms];
    auto simp: GetState_def SetState_def Status_def Ping_def Connect_def Serve_def intro!: keeps_intros)+

lemma truthful_run: "truthful p \<Longrightarrow> each (daemon_step W G) es p = (Return (), p') \<Longrightarrow> truthful p'"
  by (induction es arbitrary: p) (auto simp: returned dest: truthful_step)

lemma truthful_start:
  assumes "start_up G l (new_process w d) = (Return (), p)" and "\<not> up w"
  shows "truthful p"
proof -
  obtain u w' where "wg_StartDevice G w = (Inr u, w')" "wireguard p = w'"
    using assms(1) by (auto simp: start_up_def on_disk_def on_wg_def set_rvpn_def new_process_def returned
        split: prod.splits sum.splits if_splits)
  then show ?thesis using start_same assms(2) start_up_inv [OF assms(1)] by (simp add: truthful_def)
qed

end

text \<open>
  \<open>tells_routes W G up\<close>: in every run of a daemon over the platform \<open>G\<close> that starts without routes, a
  daemon that says it is connected holds the routes into its tunnel, and one that says it is
  disconnected holds none.
\<close>

definition tells_routes :: "'k wgtypes \<Rightarrow> 'w wireguard \<Rightarrow> ('w \<Rightarrow> bool) \<Rightarrow> bool" where
  "tells_routes W G up \<longleftrightarrow>
     (\<forall>w d l es p0 p. \<not> up w \<and> start_up G l (new_process w d) = (Return (), p0) \<and>
        each (daemon_step W G) es p0 = (Return (), p) \<longrightarrow>
        (status (rvpn p) = StatusConnected \<longrightarrow> up (wireguard p)) \<and>
        (status (rvpn p) = StatusDisconnected \<longrightarrow> \<not> up (wireguard p)))"

context wg_platform
begin

lemma tells: "tells_routes W G up"
  unfolding tells_routes_def
proof (intro allI impI)
  fix w d l es p0 p
  assume "\<not> up w \<and> start_up G l (new_process w d) = (Return (), p0) \<and> each (daemon_step W G) es p0 = (Return (), p)"
  then have "truthful p" using truthful_start truthful_run by blast
  then show "(status (rvpn p) = StatusConnected \<longrightarrow> up (wireguard p)) \<and>
      (status (rvpn p) = StatusDisconnected \<longrightarrow> \<not> up (wireguard p))" by (simp add: truthful_def)
qed

end

section \<open>The platforms\<close>

text \<open>On Windows and macOS the build has no methods for serving; the stubs above them never call one.\<close>

definition windows_wireguard :: "'o windows_os \<Rightarrow> 'o win_host wireguard" where
  "windows_wireguard K =
     \<lparr>wg_StartDevice = Wg_Windows.StartDevice K, wg_UpdateClientConf = Wg_Windows.UpdateClientConf K,
      wg_UpdateServeConf = (\<lambda>conf. panic), wg_AppendPeers = (\<lambda>ps. panic),
      wg_Disconnect = Wg_Windows.Disconnect K, wg_ShutdownDevice = Wg_Windows.ShutdownDevice K, can_serve = False\<rparr>"

definition darwin_wireguard :: "'o darwin_os \<Rightarrow> 'o mac_host wireguard" where
  "darwin_wireguard K =
     \<lparr>wg_StartDevice = Wg_Darwin.StartDevice K, wg_UpdateClientConf = Wg_Darwin.UpdateClientConf K,
      wg_UpdateServeConf = (\<lambda>conf. panic), wg_AppendPeers = (\<lambda>ps. panic),
      wg_Disconnect = Wg_Darwin.Disconnect K, wg_ShutdownDevice = Wg_Darwin.ShutdownDevice K, can_serve = False\<rparr>"

definition linux_up :: "'o host \<Rightarrow> bool" where
  "linux_up h \<longleftrightarrow> Wg_Linux.appendedRoutes (wgd h) \<noteq> []"

definition windows_up :: "'o win_host \<Rightarrow> bool" where
  "windows_up h \<longleftrightarrow> prevRoutes (wgd h) \<noteq> []"

definition darwin_up :: "'o mac_host \<Rightarrow> bool" where
  "darwin_up h \<longleftrightarrow> Wg_Darwin.appendedRoutes (wgd h) \<noteq> []"

subsection \<open>Linux\<close>

lemma linux_connect_up: "Wg_Linux.UpdateClientConf K conf cp h = (Return u, h') \<Longrightarrow> linux_up h'"
  by (drule client_connection_log) (auto simp: linux_up_def Wg_Linux.tunnel_routes_def)

lemma linux_disconnect_down: "Wg_Linux.Disconnect K h = (Return u, h') \<Longrightarrow> \<not> linux_up h'"
proof -
  have "ends (field Wg_Linux.appendedRoutes []) (Wg_Linux.Disconnect K)"
    unfolding Wg_Linux.Disconnect_def
    by (rule ends_last, rule ends_last, rule ends_last, rule ends_first)
      (auto simp: ends_def field_def set_wgd_def modify_def intro!: keeps_intros)
  from endsD [OF this] show "Wg_Linux.Disconnect K h = (Return u, h') \<Longrightarrow> \<not> linux_up h'"
    by (simp add: linux_up_def field_def)
qed

lemma linux_same:
  "Wg_Linux.StartDevice K h = (Inr u, h') \<Longrightarrow> linux_up h' = linux_up h"
  "UpdateServeConf K conf h = (Return v, h') \<Longrightarrow> linux_up h' = linux_up h"
  "AppendPeers K ps h = (Return v, h') \<Longrightarrow> linux_up h' = linux_up h"
  unfolding linux_up_def
  by (drule field_kept [where F = Wg_Linux.appendedRoutes, rotated]; simp add: linux_fields)+

interpretation linux: wg_platform "linux_wireguard K" linux_up for K
  by unfold_locales
    (auto simp: linux_wireguard_def intro: linux_connect_up dest: linux_disconnect_down linux_same)

subsection \<open>Windows\<close>

lemma windows_keeps [keeps_intros]:
  "(\<And>l. keeps P (m l)) \<Longrightarrow> keeps P (with_adapter f m)"
  "keeps P n \<Longrightarrow> keeps P (drop_error n)"
  unfolding with_adapter_def
  by (intro keeps_intros) (auto simp: keeps_def drop_error_def split: prod.splits)

lemma windows_connect_up:
  assumes "Wg_Windows.UpdateClientConf K conf cp h = (Return u, h')"
  shows "windows_up h'"
proof -
  have routes: "ends (field prevRoutes [all_traffic]) (replace_routes K)"
    unfolding replace_routes_def
    by (intro ends_last) (simp add: ends_def field_def set_wgd_def modify_def)
  have key: "keeps (field prevRoutes v) (Wg_Windows.must_key K s)" for v s
    unfolding Wg_Windows.must_key_def by (auto split: sum.split intro: keeps_intros)
  have "ends (field prevRoutes [all_traffic]) (Wg_Windows.UpdateClientConf K conf cp)"
    unfolding Wg_Windows.UpdateClientConf_def
    by (rule ends_last, rule ends_last, rule ends_last, rule ends_prod, rule ends_last, rule ends_last, rule ends_last,
        rule ends_first) (auto simp: Wg_Windows.open_wgctrl_def Wg_Windows.configure_def intro!: keeps_intros routes key)
  from endsD [OF this assms] show ?thesis by (simp add: windows_up_def field_def)
qed

lemma windows_disconnect_down: "Wg_Windows.Disconnect K h = (Return u, h') \<Longrightarrow> \<not> windows_up h'"
proof -
  have "ends (field prevRoutes []) (Wg_Windows.Disconnect K)"
    unfolding Wg_Windows.Disconnect_def
    by (rule ends_last, rule ends_last) (simp add: ends_def field_def set_wgd_def modify_def)
  from endsD [OF this] show "Wg_Windows.Disconnect K h = (Return u, h') \<Longrightarrow> \<not> windows_up h'"
    by (simp add: windows_up_def field_def)
qed

lemma windows_start_same:
  assumes "Wg_Windows.StartDevice K h = (Inr u, h')"
  shows "windows_up h' = windows_up h"
proof -
  have "keeps (field prevRoutes v) (tun_name K)" for v
    by (auto simp: keeps_def tun_name_def query_def field_def split: prod.splits sum.splits)
  then have "keeps (field prevRoutes v) (Wg_Windows.StartDevice K)" for v
    unfolding Wg_Windows.StartDevice_def
    by (intro keeps_intros; (simp | (rule option.split [THEN iffD2], auto intro!: keeps_intros))?)
  from field_kept [OF this assms] show ?thesis by (simp add: windows_up_def)
qed

interpretation windows: wg_platform "windows_wireguard K" windows_up for K
  by unfold_locales
    (auto simp: windows_wireguard_def intro: windows_connect_up dest: windows_disconnect_down windows_start_same)

subsection \<open>macOS\<close>

lemma darwin_connect_up: "Wg_Darwin.UpdateClientConf K conf cp h = (Return u, h') \<Longrightarrow> darwin_up h'"
  by (drule UpdateClientConf_end) (auto simp: darwin_up_def Wg_Darwin.tunnel_routes_def)

lemma darwin_disconnect_down: "Wg_Darwin.Disconnect K h = (Return u, h') \<Longrightarrow> \<not> darwin_up h'"
proof -
  have "ends (field Wg_Darwin.appendedRoutes []) (Wg_Darwin.Disconnect K)"
    unfolding Wg_Darwin.Disconnect_def
    by (rule ends_last, rule ends_last) (simp add: ends_def field_def set_wgd_def modify_def)
  from endsD [OF this] show "Wg_Darwin.Disconnect K h = (Return u, h') \<Longrightarrow> \<not> darwin_up h'"
    by (simp add: darwin_up_def field_def)
qed

lemma darwin_start_same:
  assumes "Wg_Darwin.StartDevice K h = (Inr u, h')"
  shows "darwin_up h' = darwin_up h"
proof -
  have "keeps (field Wg_Darwin.appendedRoutes v) (Wg_Darwin.StartDevice K)" for v
    unfolding Wg_Darwin.StartDevice_def by (intro keeps_intros) simp
  from field_kept [OF this assms] show ?thesis by (simp add: darwin_up_def)
qed

interpretation darwin: wg_platform "darwin_wireguard K" darwin_up for K
  by unfold_locales
    (auto simp: darwin_wireguard_def intro: darwin_connect_up dest: darwin_disconnect_down darwin_start_same)

section \<open>The status tells the truth\<close>



end
