(* ===== verification/Heartbeats.thy ===== *)
theory Heartbeats
  imports Connect_Session Serve_Session Rvpn_Daemon
begin

text \<open>
  The heartbeats of a device and the wait of its session, with the clock: how long the silence of a device
  goes unnoticed, and how late its heartbeats may come without its session being ended.  Times are in
  seconds.
\<close>

section \<open>A session that waits\<close>

text \<open>
  What both kinds of session are while they wait: a place that remembers the last heartbeat, which an event
  moves as \<open>session_wait\<close> says, or ends.
\<close>

definition attend ::
  "(session_event \<Rightarrow> 'p \<Rightarrow> world \<Rightarrow> 'p \<times> world) \<Rightarrow> wait_event list \<Rightarrow> 'p \<times> world \<Rightarrow> 'p \<times> world" where
  "attend step es s = fold (\<lambda>e (pc, w). step (Wait e) pc w) es s"

locale waiting_session =
  fixes step :: "session_event \<Rightarrow> 'p \<Rightarrow> world \<Rightarrow> 'p \<times> world"
    and waiting :: "int \<Rightarrow> 'p"
    and over :: 'p
  assumes step_waiting: "step (Wait e) (waiting l) w =
      (case session_wait l e of None \<Rightarrow> over | Some l' \<Rightarrow> waiting l', w)"
    and step_over: "step (Wait e) over w = (over, w)"
begin

lemma attend_over: "attend step es (over, w) = (over, w)"
  by (induction es) (simp_all add: attend_def step_over)

lemma attend_blocks:
  "attend step es (waiting l, w) =
    (case blockUntilStale stale_timeout l es of Waiting l' \<Rightarrow> waiting l' | Returned rest \<Rightarrow> over, w)"
proof (induction es arbitrary: l)
  case (Cons e es)
  have "attend step (e # es) (waiting l, w) =
      attend step es (case session_wait l e of None \<Rightarrow> over | Some l' \<Rightarrow> waiting l', w)"
    by (simp add: attend_def step_waiting)
  then show ?case
    using Cons attend_over by (cases e) (simp_all add: session_wait_def)
qed (simp add: attend_def)

end

interpretation connecting: waiting_session "connect_step J key target me" CWait CDone for J key target me
  by unfold_locales (simp_all add: connect_step_def split: option.splits)

interpretation serving: waiting_session "serve_step J key target ip me" SWait SDone for J key target ip me
  by unfold_locales (simp_all add: serve_step_def split: option.splits)

section \<open>The clock\<close>

text \<open>Heartbeats are generated every half minute; the wait looks at the clock every minute.\<close>

definition heartbeat_interval :: int where
  "heartbeat_interval = 30"

definition tick_interval :: int where
  "tick_interval = 60"

fun clock :: "wait_event \<Rightarrow> int option" where
  "clock (Tick now) = Some now"
| "clock (Heartbeat now) = Some now"
| "clock CtxDone = None"

text \<open>The clock of a run never goes back, and starts no earlier than the wait.\<close>

fun timely :: "int \<Rightarrow> wait_event list \<Rightarrow> bool" where
  "timely l [] = True"
| "timely l (e # es) = (case clock e of None \<Rightarrow> timely l es | Some now \<Rightarrow> l \<le> now \<and> timely now es)"

text \<open>
  What reaches the channel of the session: the device has been told at \<open>start\<close>, its generator's ticker
  has ticked \<open>n\<close> times, the \<open>i\<close>-th of its calls arrives with a delay of its own and is handled.
\<close>

definition arrivals :: "int \<Rightarrow> (nat \<Rightarrow> int) \<Rightarrow> nat \<Rightarrow> wait_event option list" where
  "arrivals start delay n =
     map (\<lambda>(i, call). fst (session_Handle (start + int i * heartbeat_interval + delay i) (method_name call)))
       (enumerate 0 (heartbeatGenerator (replicate n BeatTick)))"

lemma beat_loop_ticks: "beat_loop (replicate n BeatTick) = replicate n DeviceHeartbeat"
  by (induction n) simp_all

lemma arrivals_beat:
  assumes "i \<le> n"
  shows "Some (Heartbeat (start + int i * heartbeat_interval + delay i)) \<in> set (arrivals start delay n)"
proof -
  have g: "heartbeatGenerator (replicate n BeatTick) = replicate (Suc n) DeviceHeartbeat"
    by (simp add: heartbeatGenerator_def beat_loop_ticks)
  have "(i, DeviceHeartbeat) \<in> set (enumerate 0 (replicate (Suc n) DeviceHeartbeat))"
    using assms by (auto simp: in_set_enumerate_eq nth_Cons')
  then show ?thesis unfolding arrivals_def g by (force simp: session_Handle_def)
qed

lemma timely_later: "timely l es \<Longrightarrow> e \<in> set es \<Longrightarrow> clock e = Some now \<Longrightarrow> l \<le> now"
  by (induction l es rule: timely.induct) (fastforce split: option.splits)+

lemma timely_weaken: "timely l' es \<Longrightarrow> l \<le> l' \<Longrightarrow> timely l es"
  by (induction l' es rule: timely.induct) (auto split: option.splits)

lemma last_beat_mono: "timely l (xs @ ys) \<Longrightarrow> l \<le> last_beat l xs"
proof (induction xs arbitrary: l)
  case (Cons e xs)
  show ?case
  proof (cases e)
    case (Heartbeat u)
    then show ?thesis using Cons.IH [of u] Cons.prems by (simp add: beat_after_def)
  qed (use Cons timely_weaken in \<open>auto simp: beat_after_def\<close>)
qed simp

text \<open>The heartbeats before a tick are the earlier ones, and the wait remembers the latest of them.\<close>

lemma last_beat_ge:
  assumes "timely l (xs @ Tick now # ys)" and "Heartbeat t \<in> set (xs @ Tick now # ys)" and "t < now"
  shows "t \<le> last_beat b xs"
  using assms
proof (induction xs arbitrary: l b)
  case Nil
  then have "timely now ys" "Heartbeat t \<in> set ys" by auto
  then have "now \<le> t" using timely_later by fastforce
  with Nil.prems(3) show ?case by simp
next
  case (Cons e xs)
  show ?case
  proof (cases "e = Heartbeat t")
    case True
    then show ?thesis using Cons.prems(1) last_beat_mono by (auto simp: beat_after_def)
  next
    case False
    moreover obtain l' where "timely l' (xs @ Tick now # ys)" using Cons.prems(1) by (auto split: option.splits)
    ultimately show ?thesis using Cons.IH Cons.prems(2,3) by auto
  qed
qed

text \<open>
  The latest heartbeat that has arrived for certain: with delays of at most \<open>late\<close>, at a time \<open>now\<close> that is
  not past what the generator has sent, there is one not older than the interval and the delay.
\<close>

lemma recent_arrival:
  assumes "\<And>i. 0 \<le> delay i \<and> delay i \<le> late" and "start + late < now"
    and "now \<le> start + (int n + 1) * heartbeat_interval + late"
  shows "\<exists>t. Some (Heartbeat t) \<in> set (arrivals start delay n) \<and> t < now \<and> now \<le> t + heartbeat_interval + late"
proof -
  define k where "k = nat ((now - late - start - 1) div heartbeat_interval)"
  have pos: "0 \<le> now - late - start - 1" using assms(2) by simp
  have k: "int k = (now - late - start - 1) div 30"
    using pos by (simp add: k_def heartbeat_interval_def)
  have "int k * 30 \<le> now - late - start - 1" "now - late - start - 1 < int k * 30 + 30"
    unfolding k by linarith+
  moreover have "k \<le> n" using calculation assms(3) by (simp add: heartbeat_interval_def)
  ultimately show ?thesis
    using arrivals_beat [of k n start delay] assms(1) [of k]
    by (intro exI [of _ "start + int k * heartbeat_interval + delay k"]) (auto simp: heartbeat_interval_def)
qed

section \<open>How long a wait lasts\<close>

lemma beats_in_time:
  assumes "timely l es" and "CtxDone \<notin> set es" and "set (arrivals start delay n) \<subseteq> Some ` set es"
    and "\<And>i. 0 \<le> delay i \<and> delay i \<le> late" and "late < 150" and "start \<le> l + heartbeat_interval"
    and "\<And>now. Tick now \<in> set es \<Longrightarrow> now \<le> start + (int n + 1) * heartbeat_interval + late"
  shows "blockUntilStale stale_timeout l es = Waiting (last_beat l es)"
proof (rule blockUntilStale_stays [OF assms(2)], intro allI impI)
  fix xs now ys
  assume es: "es = xs @ Tick now # ys"
  show "now - last_beat l xs < stale_timeout"
  proof (cases "start + late < now")
    case True
    have "now \<le> start + (int n + 1) * heartbeat_interval + late" using assms(7) es by simp
    then obtain t where t: "Some (Heartbeat t) \<in> set (arrivals start delay n)" "t < now" "now \<le> t + heartbeat_interval + late"
      using recent_arrival [where delay = delay and late = late, OF _ True] assms(4) by blast
    then have "t \<le> last_beat l xs" using last_beat_ge assms(1,3) es by (metis image_iff option.inject subsetD)
    then show ?thesis using t(3) assms(5) by (simp add: heartbeat_interval_def stale_timeout_def)
  next
    case False
    have "l \<le> last_beat l xs" using last_beat_mono assms(1) es by blast
    then show ?thesis using False assms(5,6) by (simp add: heartbeat_interval_def stale_timeout_def)
  qed
qed


text \<open>
  C38: A device that falls silent is noticed within four minutes: when its last heartbeat was handled at
  \<open>silent\<close>, the ticks of the following four minutes, each read with a lag of its own, end its session.
\<close>

theorem silent_device_dropped:
  assumes "l \<le> silent" and "\<And>t. Heartbeat t \<in> set es \<Longrightarrow> t \<le> silent"
    and "\<And>j. l + int j * tick_interval < silent + 240 \<Longrightarrow> 0 \<le> lag j \<and> Tick (l + int j * tick_interval + lag j) \<in> set es"
  shows "attend (connect_step J key target me) es (CWait l, w) = (CDone, w) \<and>
    attend (serve_step J key target ip me) es (SWait l, w) = (SDone, w)"
proof -
  define j where "j = nat ((silent + 239 - l) div 60)"
  have "0 \<le> silent + 239 - l" using assms(1) by simp
  then have j: "int j = (silent + 239 - l) div 60" by (simp add: j_def)
  have b: "l + int j * 60 < silent + 240" "silent + 180 \<le> l + int j * 60" unfolding j by linarith+
  have "\<exists>rest. blockUntilStale stale_timeout l es = Returned rest"
    using assms b
    by (intro blockUntilStale_notices [of "l + int j * tick_interval + lag j"])
      (force simp: tick_interval_def stale_timeout_def)+
  then show ?thesis by (auto simp: connecting.attend_blocks serving.attend_blocks)
qed

section \<open>Witnesses\<close>

text \<open>A run of two minutes: a device that beats at once and every half minute, each beat five seconds on its way.\<close>

definition lab_wait :: "wait_event list" where
  "lab_wait = [Heartbeat 5, Heartbeat 35, Tick 60, Heartbeat 65, Heartbeat 95, Tick 120, Heartbeat 125]"


theorem silent_device_dropped_witness:
  "\<forall>J key target ip me w.
     attend (serve_step J key target ip me) [Heartbeat 5, Tick 0, Tick 60, Tick 120, Tick 180, Tick 240] (SWait 0, w) = (SDone, w)"
proof (intro allI)
  fix J key target ip me w
  let ?es = "[Heartbeat 5, Tick 0, Tick 60, Tick 120, Tick 180, Tick 240]"
  have "Tick (0 + int j * tick_interval + 0) \<in> set ?es" if "0 + int j * tick_interval < 5 + 240" for j
  proof -
    have "j \<in> {0, 1, 2, 3, 4}" using that by (auto simp: tick_interval_def)
    then show ?thesis by (auto simp: tick_interval_def)
  qed
  then show "attend (serve_step J key target ip me) ?es (SWait 0, w) = (SDone, w)"
    using silent_device_dropped [of 0 5 ?es "\<lambda>_. 0" J key target me w ip] by simp
qed

end
