(* ===== verification/Service_Windows.thy ===== *)
theory Service_Windows
  imports Go_Prog
begin

text \<open>
  How the daemon is started (\<open>service/service_windows.go\<close>, and the one-line entry points of
  \<open>service_linux.go\<close> and \<open>service_darwin.go\<close>): the manager of the Windows service, and the service itself,
  two threads that meet in \<open>RVPNDaemon.Stop\<close>.  The service control manager is the record \<open>scm\<close>, over a
  state of its own; its errors are texts, since the code compares one.  Closing the handles of the
  manager is left out.
\<close>

section \<open>The manager of the service\<close>

type_synonym ('s, 'a) fallible = "'s \<Rightarrow> (string + 'a) \<times> 's"

record 's scm =
  mgr_Connect :: "('s, unit) fallible"
  OpenService :: "('s, unit) fallible"
  CreateService :: "string \<Rightarrow> ('s, unit) fallible"
  InstallAsEventCreate :: "('s, unit) fallible"
  s_Delete :: "('s, unit) fallible"
  s_Start :: "('s, unit) fallible"

definition succeed :: "'a \<Rightarrow> ('s, 'a) fallible" where
  "succeed x s = (Inr x, s)"

definition err_text :: "string \<Rightarrow> ('s, 'a) fallible" where
  "err_text e s = (Inl e, s)"

text \<open>\<open>x, err := m(); if err != nil { return wrap(err) }; ...\<close>.\<close>

definition check_as :: "(string \<Rightarrow> string) \<Rightarrow> ('s, 'a) fallible \<Rightarrow> ('a \<Rightarrow> ('s, 'b) fallible) \<Rightarrow> ('s, 'b) fallible" where
  "check_as wrap m k s = (case m s of (Inl e, s') \<Rightarrow> (Inl (wrap e), s') | (Inr x, s') \<Rightarrow> k x s')"

text \<open>\<open>x, err := m(); if err == nil { ... } else { ... }\<close>.\<close>

definition if_ok :: "('s, 'a) fallible \<Rightarrow> ('s, 'b) fallible \<Rightarrow> ('s, 'b) fallible \<Rightarrow> ('s, 'b) fallible" where
  "if_ok m yes no s = (case m s of (Inl e, s') \<Rightarrow> no s' | (Inr x, s') \<Rightarrow> yes s')"

definition Exists :: "'s scm \<Rightarrow> ('s, bool) fallible" where
  "Exists M = check_as id (mgr_Connect M) (\<lambda>_. if_ok (OpenService M) (succeed True) (succeed False))"

definition Install :: "'s scm \<Rightarrow> string \<Rightarrow> ('s, unit) fallible" where
  "Install M cliClientPath =
     check_as id (mgr_Connect M) (\<lambda>_.
     if_ok (OpenService M) (err_text ''service rvpnsvc already exists'')
     (check_as id (CreateService M cliClientPath) (\<lambda>_ s.
       case InstallAsEventCreate M s of
         (Inr _, s) \<Rightarrow> (Inr (), s)
       | (Inl err, s) \<Rightarrow>
           (case s_Delete M s of (_, s) \<Rightarrow> (Inl (''SetupEventLogSource() failed: '' @ err), s)))))"

definition Start_service :: "'s scm \<Rightarrow> ('s, unit) fallible" where
  "Start_service M =
     check_as id (mgr_Connect M) (\<lambda>_.
     check_as (\<lambda>err. ''could not access service: '' @ err) (OpenService M) (\<lambda>_.
     check_as (\<lambda>err. ''could not start service: '' @ err) (s_Start M) (\<lambda>_. succeed ())))"

definition EnsureServiceStarted :: "'s scm \<Rightarrow> string \<Rightarrow> ('s, unit) fallible" where
  "EnsureServiceStarted M cliClientPath =
     check_as id (Exists M) (\<lambda>present.
     check_as id (if \<not> present then Install M cliClientPath else succeed ()) (\<lambda>_ s.
       case Start_service M s of
         (Inr _, s) \<Rightarrow> (Inr (), s)
       | (Inl err, s) \<Rightarrow>
           if err = ''could not start service: An instance of the service is already running.''
           then (Inr (), s) else (Inl err, s)))"

text \<open>
  \<open>runService\<close>: without an event log nothing is run, and an error of the run is only logged.  The runs
  of the service by the system and by the debugger are arguments.
\<close>

definition runService ::
  "string + unit \<Rightarrow> ('s, string option) prog \<Rightarrow> ('s, string option) prog \<Rightarrow> bool \<Rightarrow> ('s, unit) prog" where
  "runService eventlog_Open svc_Run debug_Run isDebug =
     (case (if isDebug then Inr () else eventlog_Open) of
        Inl err \<Rightarrow> ret ()
      | Inr elog \<Rightarrow> bind (if isDebug then debug_Run else svc_Run) (\<lambda>err. ret ()))"

text \<open>\<open>StartRVPNDaemon\<close> on Windows; the run of the service proper is an argument.\<close>

definition StartRVPNDaemon_windows :: "'s scm \<Rightarrow> string + bool \<Rightarrow> ('s, unit) prog \<Rightarrow> string \<Rightarrow> ('s, unit) prog" where
  "StartRVPNDaemon_windows M IsWindowsService run_service cliClientPath s =
     (case IsWindowsService of
        Inl err \<Rightarrow> (Fatal, s)
      | Inr inService \<Rightarrow>
          if \<not> inService
          then (case EnsureServiceStarted M cliClientPath s of
                  (Inl err, s) \<Rightarrow> (Fatal, s) | (Inr _, s) \<Rightarrow> (Return (), s))
          else run_service s)"

text \<open>On the other systems the argument has no effect: the daemon runs in the process itself.\<close>

definition StartRVPNDaemon_linux :: "('s, unit) prog \<Rightarrow> string \<Rightarrow> ('s, unit) prog" where
  "StartRVPNDaemon_linux newDaemon_Start cliClientPath = newDaemon_Start"

definition StartRVPNDaemon_darwin :: "('s, unit) prog \<Rightarrow> string \<Rightarrow> ('s, unit) prog" where
  "StartRVPNDaemon_darwin newDaemon_Start cliClientPath = newDaemon_Start"

section \<open>The service\<close>

datatype svc_state = StartPending | Running | Paused | StopPending

record svc_status =
  State :: svc_state
  Accepts :: bool

datatype svc_cmd = Interrogate | Stop | Shutdown | Pause | Continue | OtherCmd nat

record change_request =
  Cmd :: svc_cmd
  CurrentStatus :: svc_status

text \<open>What the loop of \<open>Execute\<close> sends for a request that does not end it; the error log of the default case is left out.\<close>

fun svc_answer :: "svc_status \<Rightarrow> svc_cmd \<Rightarrow> svc_status list" where
  "svc_answer cur Interrogate = [cur, cur]"
| "svc_answer cur Pause = [\<lparr>State = Paused, Accepts = True\<rparr>]"
| "svc_answer cur Continue = [\<lparr>State = Running, Accepts = True\<rparr>]"
| "svc_answer cur (OtherCmd n) = []"
| "svc_answer cur Stop = []"
| "svc_answer cur Shutdown = []"

text \<open>
  The two threads.  The daemon's thread runs \<open>Start\<close>: it comes up, waits for one of its four reasons to
  end, shuts the device down and is over.  The service's thread runs the loop; on a stop request it is
  in \<open>Stop\<close>, which sends on the unbuffered channel \<open>manualTerm\<close>, so it goes on only together with a
  daemon that waits.
\<close>

datatype daemon_thread = Starting | Waiting | ShuttingDown | Over

datatype svc_thread = Looping | InStop | Returned

record service =
  daemon_at :: daemon_thread
  svc_at :: svc_thread
  requests :: "change_request list"
  changes :: "svc_status list"

definition Execute_start :: "change_request list \<Rightarrow> service" where
  "Execute_start rs =
     \<lparr>daemon_at = Starting, svc_at = Looping, requests = rs,
      changes = [\<lparr>State = StartPending, Accepts = False\<rparr>, \<lparr>State = Running, Accepts = True\<rparr>]\<rparr>"

definition stopping :: "svc_cmd \<Rightarrow> bool" where
  "stopping c \<longleftrightarrow> c = Stop \<or> c = Shutdown"

definition stop_pending :: svc_status where
  "stop_pending = \<lparr>State = StopPending, Accepts = False\<rparr>"

text \<open>\<open>loop_closed\<close>: the channel of requests is closed, and the loop ends without \<open>Stop\<close>.\<close>

inductive svc_step :: "service \<Rightarrow> service \<Rightarrow> bool" where
  daemon_up: "daemon_at s = Starting \<Longrightarrow> svc_step s (s\<lparr>daemon_at := Waiting\<rparr>)"
| daemon_ends: "daemon_at s = Waiting \<Longrightarrow> svc_step s (s\<lparr>daemon_at := ShuttingDown\<rparr>)"
| daemon_over: "daemon_at s = ShuttingDown \<Longrightarrow> svc_step s (s\<lparr>daemon_at := Over\<rparr>)"
| loop_answer: "svc_at s = Looping \<Longrightarrow> requests s = c # rs \<Longrightarrow> \<not> stopping (Cmd c) \<Longrightarrow>
    svc_step s (s\<lparr>requests := rs, changes := changes s @ svc_answer (CurrentStatus c) (Cmd c)\<rparr>)"
| loop_stop: "svc_at s = Looping \<Longrightarrow> requests s = c # rs \<Longrightarrow> stopping (Cmd c) \<Longrightarrow>
    svc_step s (s\<lparr>requests := rs, svc_at := InStop\<rparr>)"
| loop_closed: "svc_at s = Looping \<Longrightarrow> requests s = [] \<Longrightarrow>
    svc_step s (s\<lparr>svc_at := Returned, changes := changes s @ [stop_pending]\<rparr>)"
| stop_taken: "svc_at s = InStop \<Longrightarrow> daemon_at s = Waiting \<Longrightarrow>
    svc_step s (s\<lparr>svc_at := Returned, daemon_at := ShuttingDown, changes := changes s @ [stop_pending]\<rparr>)"

inductive_cases svc_stepE: "svc_step s s'"

inductive_simps svc_step_iff: "svc_step s s'"

text \<open>The daemon's thread only ever moves on; its places are ordered by what it has behind it.\<close>

fun stage :: "daemon_thread \<Rightarrow> nat" where
  "stage Starting = 0"
| "stage Waiting = 1"
| "stage ShuttingDown = 2"
| "stage Over = 3"

instantiation daemon_thread :: linorder
begin

definition less_eq_daemon_thread :: "daemon_thread \<Rightarrow> daemon_thread \<Rightarrow> bool" where
  "less_eq_daemon_thread x y = (stage x \<le> stage y)"

definition less_daemon_thread :: "daemon_thread \<Rightarrow> daemon_thread \<Rightarrow> bool" where
  "less_daemon_thread x y = (stage x < stage y)"

instance
proof
  fix x y z :: daemon_thread
  show "x < y \<longleftrightarrow> x \<le> y \<and> \<not> y \<le> x" by (auto simp: less_eq_daemon_thread_def less_daemon_thread_def)
  show "x \<le> x" by (simp add: less_eq_daemon_thread_def)
  show "x \<le> z" if "x \<le> y" "y \<le> z" using that by (simp add: less_eq_daemon_thread_def)
  show "x = y" if "x \<le> y" "y \<le> x" using that by (cases x; cases y) (simp_all add: less_eq_daemon_thread_def)
  show "x \<le> y \<or> y \<le> x" by (auto simp: less_eq_daemon_thread_def)
qed

end

inductive svc_steps :: "service \<Rightarrow> service \<Rightarrow> bool" where
  svc_refl: "svc_steps s s"
| svc_more: "svc_steps s s' \<Longrightarrow> svc_step s' s'' \<Longrightarrow> svc_steps s s''"

lemma svc_steps_inv:
  assumes "svc_steps s s'" and "P s" and "\<And>x y. P x \<Longrightarrow> svc_step x y \<Longrightarrow> P y"
  shows "P s'"
  using assms by (induction rule: svc_steps.induct) auto

section \<open>What the manager does\<close>

text \<open>
  The documented behaviour of a service control manager that can be reached: \<open>path_of\<close> is the executable
  of the installed service, \<open>runs\<close> whether an instance is running.
\<close>

definition scm_works :: "'s scm \<Rightarrow> ('s \<Rightarrow> string option) \<Rightarrow> ('s \<Rightarrow> bool) \<Rightarrow> bool" where
  "scm_works M path_of runs \<longleftrightarrow>
     (\<forall>s. mgr_Connect M s = (Inr (), s)) \<and>
     (\<forall>s. path_of s \<noteq> None \<longrightarrow> OpenService M s = (Inr (), s)) \<and>
     (\<forall>s. path_of s = None \<longrightarrow> (\<exists>e. OpenService M s = (Inl e, s))) \<and>
     (\<forall>s p. path_of s = None \<longrightarrow> (\<exists>s'. CreateService M p s = (Inr (), s') \<and> path_of s' = Some p \<and> runs s' = runs s)) \<and>
     (\<forall>s. InstallAsEventCreate M s = (Inr (), s)) \<and>
     (\<forall>s. runs s \<longrightarrow> s_Start M s = (Inl ''An instance of the service is already running.'', s)) \<and>
     (\<forall>s. \<not> runs s \<and> path_of s \<noteq> None \<longrightarrow> (\<exists>s'. s_Start M s = (Inr (), s') \<and> path_of s' = path_of s \<and> runs s'))"

lemma start_service_works:
  assumes "scm_works M path_of runs" and "path_of s \<noteq> None"
  shows "\<exists>s'. Start_service M s =
      (if runs s then Inl ''could not start service: An instance of the service is already running.'' else Inr (), s') \<and>
    runs s' \<and> path_of s' = path_of s \<and> (runs s \<longrightarrow> s' = s)"
proof (cases "runs s")
  case True
  then show ?thesis using assms by (simp add: scm_works_def Start_service_def check_as_def)
next
  case False
  then obtain s' where "s_Start M s = (Inr (), s')" "path_of s' = path_of s" "runs s'"
    using assms unfolding scm_works_def by blast
  then show ?thesis using assms False by (simp add: scm_works_def Start_service_def check_as_def succeed_def)
qed

lemma ensure_present:
  assumes "scm_works M path_of runs" and "path_of s \<noteq> None"
  shows "\<exists>s'. EnsureServiceStarted M p s = (Inr (), s') \<and> runs s' \<and> path_of s' = path_of s \<and> (runs s \<longrightarrow> s' = s)"
proof -
  have "Exists M s = (Inr True, s)"
    using assms by (simp add: scm_works_def Exists_def check_as_def if_ok_def succeed_def)
  then show ?thesis
    using start_service_works [OF assms] by (auto simp: EnsureServiceStarted_def check_as_def succeed_def split: if_splits)
qed

text \<open>
  With a working service manager \<open>EnsureServiceStarted\<close> never fails: afterwards the service is
  installed and runs, an installed one is left as it is, a missing one is installed with the given
  executable; and doing it again changes nothing and is no error, since the error that an instance is
  running is the one that is let pass.
\<close>

theorem ensure_service_started:
  assumes "scm_works M path_of runs"
  shows "\<exists>s'. EnsureServiceStarted M p s = (Inr (), s') \<and> runs s' \<and>
    path_of s' = Some (case path_of s of None \<Rightarrow> p | Some q \<Rightarrow> q) \<and>
    (\<forall>q. EnsureServiceStarted M q s' = (Inr (), s'))"
proof -
  have again: "EnsureServiceStarted M q s' = (Inr (), s')" if "runs s'" "path_of s' \<noteq> None" for q s'
    using ensure_present [OF assms that(2), of q] that(1) by auto
  show ?thesis
  proof (cases "path_of s")
    case None
    obtain e s1 where o: "OpenService M s = (Inl e, s)"
      and c: "CreateService M p s = (Inr (), s1)" "path_of s1 = Some p"
      using assms None unfolding scm_works_def by blast
    have 1: "Exists M s = (Inr False, s)"
      using assms o by (simp add: scm_works_def Exists_def check_as_def if_ok_def succeed_def)
    have 2: "Install M p s = (Inr (), s1)"
      using assms o c by (simp add: scm_works_def Install_def check_as_def if_ok_def)
    obtain s2 where 3: "Start_service M s1 = (if runs s1 then Inl ''could not start service: An instance of the service is already running.'' else Inr (), s2)"
      "runs s2" "path_of s2 = path_of s1"
      using start_service_works [OF assms, of s1] c(2) by auto
    have "EnsureServiceStarted M p s = (Inr (), s2)"
      using 1 2 3(1) by (simp add: EnsureServiceStarted_def check_as_def)
    then show ?thesis using 3 c(2) None again [of s2] by auto
  next
    case (Some q)
    then obtain s' where "EnsureServiceStarted M p s = (Inr (), s')" "runs s'" "path_of s' = Some q"
      using ensure_present [OF assms, of s p] by auto
    then show ?thesis using Some again [of s'] by auto
  qed
qed

section \<open>What the service does\<close>

text \<open>What has been answered: the two first reports, the answers to the requests taken so far, the last report.\<close>

definition reported :: "change_request list \<Rightarrow> svc_thread \<Rightarrow> svc_status list" where
  "reported taken at =
     [\<lparr>State = StartPending, Accepts = False\<rparr>, \<lparr>State = Running, Accepts = True\<rparr>] @
     concat (map (\<lambda>c. svc_answer (CurrentStatus c) (Cmd c)) taken) @
     (if at = Returned then [stop_pending] else [])"

definition service_inv :: "change_request list \<Rightarrow> service \<Rightarrow> bool" where
  "service_inv rs s \<longleftrightarrow>
     (\<exists>taken rest. rs = taken @ rest \<and> (\<forall>c \<in> set taken. \<not> stopping (Cmd c)) \<and>
        changes s = reported taken (svc_at s) \<and>
        (case svc_at s of
           Looping \<Rightarrow> rest = requests s
         | InStop \<Rightarrow> (\<exists>c. rest = c # requests s \<and> stopping (Cmd c))
         | Returned \<Rightarrow> rest = [] \<or>
             (\<exists>c. rest = c # requests s \<and> stopping (Cmd c) \<and> daemon_at s \<in> {ShuttingDown, Over})))"

lemma service_inv_step: "service_inv rs s \<Longrightarrow> svc_step s s' \<Longrightarrow> service_inv rs s'"
proof (erule svc_stepE)
  fix c qs assume inv: "service_inv rs s" and s': "s' = s\<lparr>requests := qs, changes := changes s @ svc_answer (CurrentStatus c) (Cmd c)\<rparr>"
    and at: "svc_at s = Looping" "requests s = c # qs" "\<not> stopping (Cmd c)"
  obtain taken where "rs = taken @ c # qs" "\<forall>c \<in> set taken. \<not> stopping (Cmd c)" "changes s = reported taken Looping"
    using inv at unfolding service_inv_def by auto
  then show "service_inv rs s'"
    using at unfolding service_inv_def s' by (intro exI [of _ "taken @ [c]"] exI [of _ qs]) (simp add: reported_def)
qed (auto simp: service_inv_def reported_def split: svc_thread.splits)

lemma service_inv_start: "service_inv rs (Execute_start rs)"
  by (simp add: service_inv_def Execute_start_def reported_def)

lemma service_inv_reached: "svc_steps (Execute_start rs) s \<Longrightarrow> service_inv rs s"
  by (erule svc_steps_inv [where P = "service_inv rs"]) (rule service_inv_start, rule service_inv_step)

text \<open>
  Whatever the two threads do, the service reports start pending and running, answers every request
  up to the first stop in order, and nothing after it; it returns only after it has reported that it is
  stopping, and then either the requests have ended or the daemon has taken the stop.
\<close>

theorem service_reports:
  assumes "svc_steps (Execute_start rs) s"
  shows "\<exists>taken rest. rs = taken @ rest \<and> (\<forall>c \<in> set taken. \<not> stopping (Cmd c)) \<and>
    changes s = reported taken (svc_at s) \<and>
    (svc_at s = Returned \<longrightarrow> rest = [] \<or> stopping (Cmd (hd rest)) \<and> daemon_at s \<in> {ShuttingDown, Over})"
proof -
  have "service_inv rs s" by (rule service_inv_reached [OF assms])
  then obtain taken rest where "rs = taken @ rest" "\<forall>c \<in> set taken. \<not> stopping (Cmd c)"
    "changes s = reported taken (svc_at s)" and "case svc_at s of Looping \<Rightarrow> rest = requests s
      | InStop \<Rightarrow> (\<exists>c. rest = c # requests s \<and> stopping (Cmd c))
      | Returned \<Rightarrow> rest = [] \<or> (\<exists>c. rest = c # requests s \<and> stopping (Cmd c) \<and> daemon_at s \<in> {ShuttingDown, Over})"
    unfolding service_inv_def by blast
  then show ?thesis by (intro exI [of _ taken] exI [of _ rest]) (cases "svc_at s"; auto)
qed

lemma daemon_progress: "svc_step s s' \<Longrightarrow> daemon_at s \<le> daemon_at s'"
  by (elim svc_stepE) (auto simp: less_eq_daemon_thread_def)

lemma ended_iff: "ShuttingDown \<le> t \<longleftrightarrow> t = ShuttingDown \<or> t = Over"
  by (cases t) (simp_all add: less_eq_daemon_thread_def)

text \<open>A stop request is still to be handled.\<close>

definition stop_ahead :: "service \<Rightarrow> bool" where
  "stop_ahead s \<longleftrightarrow> svc_at s = InStop \<or> svc_at s = Looping \<and> list_ex (\<lambda>c. stopping (Cmd c)) (requests s)"

lemma late_stop_step:
  assumes "svc_step s s'" and "ShuttingDown \<le> daemon_at s" and "stop_ahead s"
  shows "ShuttingDown \<le> daemon_at s' \<and> stop_ahead s'"
  using daemon_progress [OF assms(1)] assms by (elim svc_stepE) (auto simp: stop_ahead_def ended_iff)

text \<open>
  A stop that comes after the daemon has ended by itself is never carried out: once the daemon's
  thread is past its wait - by a signal or because its device is gone - a service that still has a stop
  request to handle never returns, whatever happens: \<open>Stop\<close> blocks on a channel nobody reads.
\<close>

theorem late_stop_hangs:
  assumes "svc_steps s s'" and "ShuttingDown \<le> daemon_at s" and "stop_ahead s"
  shows "svc_at s' \<noteq> Returned"
proof -
  have "ShuttingDown \<le> daemon_at s' \<and> stop_ahead s'"
    by (rule svc_steps_inv [OF assms(1)]) (use assms(2,3) late_stop_step in blast)+
  then show ?thesis by (auto simp: stop_ahead_def)
qed

text \<open>How much is left to do: every step takes a request, ends the service's thread or moves the daemon's.\<close>

definition work :: "service \<Rightarrow> nat" where
  "work s = length (requests s) + (if svc_at s = Returned then 0 else 1) + (3 - stage (daemon_at s))"

lemma work_step: "svc_step s s' \<Longrightarrow> work s' < work s"
  by (elim svc_stepE) (auto simp: work_def)

lemma work_bound: "(svc_step ^^ n) s s' \<Longrightarrow> n + work s' \<le> work s"
proof (induction n arbitrary: s')
  case (Suc n)
  then obtain t where "(svc_step ^^ n) s t" "svc_step t s'" by auto
  with Suc.IH work_step show ?case by fastforce
qed simp

lemma svc_steps_relpow: "(svc_step ^^ n) s s' \<Longrightarrow> svc_steps s s'"
  by (induction n arbitrary: s') (auto intro: svc_refl svc_more)

text \<open>Where nothing can move, the daemon is over and the service has returned or waits for it in vain.\<close>

lemma stuck:
  assumes "\<nexists>s'. svc_step s s'"
  shows "daemon_at s = Over \<and> svc_at s \<noteq> Looping"
proof
  show "daemon_at s = Over" using assms by (cases "daemon_at s") (auto intro: daemon_up daemon_ends daemon_over)
  show "svc_at s \<noteq> Looping"
  proof
    assume l: "svc_at s = Looping"
    show False
    proof (cases "requests s")
      case Nil
      then show ?thesis using assms l loop_closed by blast
    next
      case (Cons c rs)
      then show ?thesis using assms l loop_answer loop_stop by blast
    qed
  qed
qed


text \<open>
  The service does not wait for the cleanup: it can have returned, which ends its process, while the
  daemon is still shutting its device down.
\<close>

theorem service_returns_before_cleanup:
  assumes "stopping (Cmd c)"
  shows "\<exists>s. svc_steps (Execute_start (c # rs)) s \<and> svc_at s = Returned \<and> daemon_at s = ShuttingDown"
proof -
  let ?s0 = "Execute_start (c # rs)"
  let ?s1 = "?s0\<lparr>requests := rs, svc_at := InStop\<rparr>"
  let ?s2 = "?s1\<lparr>daemon_at := Waiting\<rparr>"
  let ?s3 = "?s2\<lparr>svc_at := Returned, daemon_at := ShuttingDown, changes := changes ?s2 @ [stop_pending]\<rparr>"
  have "svc_step ?s0 ?s1" by (rule loop_stop) (use assms in \<open>simp_all add: Execute_start_def\<close>)
  moreover have "svc_step ?s1 ?s2" by (rule daemon_up) (simp add: Execute_start_def)
  moreover have "svc_step ?s2 ?s3" by (rule stop_taken) simp_all
  ultimately have "svc_steps ?s0 ?s3" by (blast intro: svc_refl svc_more)
  then show ?thesis by (intro exI [of _ ?s3] conjI) simp_all
qed

section \<open>A service manager for the witnesses\<close>

definition lab_scm :: "(string option \<times> bool) scm" where
  "lab_scm =
     \<lparr>mgr_Connect = succeed (),
      OpenService = (\<lambda>(path, r). (if path = None then Inl ''not found'' else Inr (), (path, r))),
      CreateService = (\<lambda>p (path, r). (Inr (), (Some p, r))),
      InstallAsEventCreate = succeed (),
      s_Delete = (\<lambda>(path, r). (Inr (), (None, r))),
      s_Start = (\<lambda>(path, r). if r then (Inl ''An instance of the service is already running.'', (path, r))
                            else (Inr (), (path, True)))\<rparr>"

theorem ensure_service_started_witness:
  "EnsureServiceStarted lab_scm ''rvpn.exe'' (None, False) = (Inr (), (Some ''rvpn.exe'', True)) \<and>
   EnsureServiceStarted lab_scm ''other.exe'' (Some ''rvpn.exe'', True) = (Inr (), (Some ''rvpn.exe'', True))"
proof -
  have "scm_works lab_scm fst snd" by (auto simp: scm_works_def lab_scm_def succeed_def)
  from ensure_service_started [OF this, of "''rvpn.exe''" "(None, False)"] show ?thesis by auto
qed

definition lab_stop :: "change_request list" where
  "lab_stop = [\<lparr>Cmd = Pause, CurrentStatus = \<lparr>State = Running, Accepts = True\<rparr>\<rparr>, \<lparr>Cmd = Stop, CurrentStatus = stop_pending\<rparr>]"

lemma relpow_five: "r a b \<Longrightarrow> r b c \<Longrightarrow> r c d \<Longrightarrow> r d e \<Longrightarrow> r e f \<Longrightarrow> (r ^^ 5) a f"
  by (simp add: eval_nat_numeral relcompp_apply) blast

text \<open>A run of the witnesses: the daemon comes up, a pause is answered, a stop is taken, the daemon cleans up.\<close>

lemma lab_service_run:
  "\<exists>s. (svc_step ^^ 5) (Execute_start lab_stop) s \<and> daemon_at s = Over \<and> svc_at s = Returned \<and>
     changes s = [\<lparr>State = StartPending, Accepts = False\<rparr>, \<lparr>State = Running, Accepts = True\<rparr>,
       \<lparr>State = Paused, Accepts = True\<rparr>, stop_pending]"
proof -
  let ?s0 = "Execute_start lab_stop"
  let ?s1 = "?s0\<lparr>daemon_at := Waiting\<rparr>"
  let ?s2 = "?s1\<lparr>requests := tl lab_stop, changes := changes ?s1 @ svc_answer \<lparr>State = Running, Accepts = True\<rparr> Pause\<rparr>"
  let ?s3 = "?s2\<lparr>requests := [], svc_at := InStop\<rparr>"
  let ?s4 = "?s3\<lparr>svc_at := Returned, daemon_at := ShuttingDown, changes := changes ?s3 @ [stop_pending]\<rparr>"
  let ?s5 = "?s4\<lparr>daemon_at := Over\<rparr>"
  have "svc_step ?s0 ?s1" by (rule daemon_up) (simp add: Execute_start_def)
  moreover have "svc_step ?s1 ?s2"
    using loop_answer [of ?s1 "hd lab_stop" "tl lab_stop"] by (simp add: Execute_start_def lab_stop_def stopping_def)
  moreover have "svc_step ?s2 ?s3"
    using loop_stop [of ?s2 "lab_stop ! 1" "[]"] by (simp add: Execute_start_def lab_stop_def stopping_def)
  moreover have "svc_step ?s3 ?s4" by (rule stop_taken) simp_all
  moreover have "svc_step ?s4 ?s5" by (rule daemon_over) simp
  ultimately have "(svc_step ^^ 5) ?s0 ?s5" by (rule relpow_five)
  then show ?thesis by (intro exI [of _ ?s5] conjI) (simp_all add: Execute_start_def)
qed

theorem service_reports_witness:
  "\<exists>s taken. svc_steps (Execute_start lab_stop) s \<and> svc_at s = Returned \<and> changes s = reported taken Returned \<and>
     length taken = 1"
proof -
  obtain s where r: "(svc_step ^^ 5) (Execute_start lab_stop) s" "svc_at s = Returned"
    and c: "length (changes s) = 4"
    using lab_service_run by fastforce
  obtain taken rest where t: "lab_stop = taken @ rest" "\<forall>c \<in> set taken. \<not> stopping (Cmd c)" "changes s = reported taken Returned"
    "rest = [] \<or> stopping (Cmd (hd rest))"
    using service_reports [OF svc_steps_relpow [OF r(1)]] r(2) by auto
  have "length taken = 1"
    using t by (cases taken; cases "tl taken") (auto simp: lab_stop_def stopping_def)
  with r t svc_steps_relpow show ?thesis by blast
qed


theorem late_stop_hangs_witness:
  "\<exists>s. svc_steps (Execute_start (tl lab_stop)) s \<and> daemon_at s = ShuttingDown \<and>
     svc_at s = Looping \<and> \<not> (\<exists>s'. svc_steps s s' \<and> svc_at s' = Returned)"
proof -
  let ?s0 = "Execute_start (tl lab_stop)"
  let ?s1 = "?s0\<lparr>daemon_at := Waiting\<rparr>"
  let ?s2 = "?s1\<lparr>daemon_at := ShuttingDown\<rparr>"
  have "svc_step ?s0 ?s1" by (rule daemon_up) (simp add: Execute_start_def)
  moreover have "svc_step ?s1 ?s2" by (rule daemon_ends) simp
  ultimately have r: "svc_steps ?s0 ?s2" by (blast intro: svc_refl svc_more)
  have h: "ShuttingDown \<le> daemon_at ?s2" "stop_ahead ?s2"
    by (simp_all add: Execute_start_def stopping_def stop_ahead_def lab_stop_def)
  have "svc_at s' \<noteq> Returned" if "svc_steps ?s2 s'" for s'
    using late_stop_hangs [OF that h] .
  then have "\<not> (\<exists>s'. svc_steps ?s2 s' \<and> svc_at s' = Returned)" by blast
  with r show ?thesis by (intro exI [of _ ?s2] conjI) (assumption | simp add: Execute_start_def)+
qed

end
