(* ===== verification/Go_Codec.thy ===== *)
theory Go_Codec
  imports Rvpn_Prelude
begin

text \<open>
  The codecs of the standard library the login uses, on bytes: the decoder \<open>base64.RawStdEncoding\<close>, and
  \<open>url.QueryEscape\<close> with \<open>url.Values.Encode\<close>.  Against them stand the other directions, which are not in
  the program: base64url without padding, in which RFC 7515 writes the parts of a token, and the decoding
  of a query string.
\<close>

section \<open>Codecs\<close>

text \<open>
  The contract of a codec: what was written is read back.  So nothing is written in the same way as
  something else, and a list of texts that are written one by one is read back one by one.
\<close>

locale codec =
  fixes encode :: "'a \<Rightarrow> string"
    and decode :: "string \<Rightarrow> 'a option"
  assumes decode_encode: "decode (encode x) = Some x"
begin

lemma encode_inj: "encode x = encode y \<longleftrightarrow> x = y"
  using decode_encode by (metis option.inject)

lemma decode_all: "those (map decode (map encode xs)) = Some xs"
  by (induction xs) (simp_all add: decode_encode)

end

section \<open>Base64\<close>

text \<open>The value of a letter of the standard alphabet.\<close>

definition b64_value :: "char \<Rightarrow> nat option" where
  "b64_value c =
     (let n = (of_char c :: nat) in
      if 65 \<le> n \<and> n \<le> 90 then Some (n - 65)
      else if 97 \<le> n \<and> n \<le> 122 then Some (n - 71)
      else if 48 \<le> n \<and> n \<le> 57 then Some (n + 4)
      else if c = CHR ''+'' then Some 62
      else if c = CHR ''/'' then Some 63
      else None)"

text \<open>
  Four letters make three bytes; at the end two make one and three make two, with the bits that are left
  over ignored, and a single one is an error.
\<close>

fun b64_bytes :: "nat list \<Rightarrow> string option" where
  "b64_bytes (a # b # c # d # vs) =
     (let v = a * 262144 + b * 4096 + c * 64 + d in
      map_option (\<lambda>s. char_of (v div 65536) # char_of (v div 256) # char_of v # s) (b64_bytes vs))"
| "b64_bytes [a, b, c] =
     (let v = a * 262144 + b * 4096 + c * 64 in Some [char_of (v div 65536), char_of (v div 256)])"
| "b64_bytes [a, b] = (let v = a * 262144 + b * 4096 in Some [char_of (v div 65536)])"
| "b64_bytes [a] = None"
| "b64_bytes [] = Some []"

text \<open>\<open>RawStdEncoding.DecodeString\<close>: line ends are skipped, any other foreign byte is an error, the padding too.\<close>

definition RawStd_DecodeString :: "string \<Rightarrow> string option" where
  "RawStd_DecodeString s =
     (case those (map b64_value [c \<leftarrow> s. c \<noteq> char_of (10 :: nat) \<and> c \<noteq> char_of (13 :: nat)]) of
        None \<Rightarrow> None
      | Some vs \<Rightarrow> b64_bytes vs)"

subsection \<open>The other direction\<close>

text \<open>The letters of an alphabet that ends in the two given ones, and the text of bytes in it.\<close>

definition b64_letter :: "char \<Rightarrow> char \<Rightarrow> nat \<Rightarrow> char" where
  "b64_letter c62 c63 n =
     (if n < 26 then char_of (65 + n) else if n < 52 then char_of (71 + n) else if n < 62 then char_of (n - 4)
      else if n = 62 then c62 else c63)"

fun b64_digits :: "string \<Rightarrow> nat list" where
  "b64_digits (x # y # z # s) =
     (let v = of_char x * 65536 + of_char y * 256 + of_char z in
      v div 262144 # v div 4096 mod 64 # v div 64 mod 64 # v mod 64 # b64_digits s)"
| "b64_digits [x, y] =
     (let v = of_char x * 65536 + of_char y * 256 in [v div 262144, v div 4096 mod 64, v div 64 mod 64])"
| "b64_digits [x] = (let v = of_char x * 65536 in [v div 262144, v div 4096 mod 64])"
| "b64_digits [] = []"

definition b64url :: "string \<Rightarrow> string" where
  "b64url s = map (b64_letter (CHR ''-'') (CHR ''_'')) (b64_digits s)"

definition b64std :: "string \<Rightarrow> string" where
  "b64std s = map (b64_letter (CHR ''+'') (CHR ''/'')) (b64_digits s)"

lemma of_char_byte [simp]: "of_char c < (256 :: nat)"
  using nat_of_char_less_256 .

lemma b64_digits_bound: "n \<in> set (b64_digits s) \<Longrightarrow> n < 64"
proof (induction s rule: b64_digits.induct)
  case (1 x y z s)
  have "of_char x * 65536 + of_char y * 256 + of_char z < (16777216 :: nat)"
    using of_char_byte [of x] of_char_byte [of y] of_char_byte [of z] by linarith
  then have "(of_char x * 65536 + of_char y * 256 + of_char z) div 262144 < (64 :: nat)"
    by (simp add: less_mult_imp_div_less)
  with 1 show ?case by (auto simp: Let_def)
next
  case (2 x y)
  have "of_char x * 65536 + of_char y * 256 < (16777216 :: nat)"
    using of_char_byte [of x] of_char_byte [of y] by linarith
  then have "(of_char x * 65536 + of_char y * 256) div 262144 < (64 :: nat)"
    by (simp add: less_mult_imp_div_less)
  with 2 show ?case by (auto simp: Let_def)
next
  case (3 x)
  have "of_char x * 65536 < (16777216 :: nat)" using of_char_byte [of x] by linarith
  then have "(of_char x * 65536) div 262144 < (64 :: nat)" by (simp add: less_mult_imp_div_less)
  with 3 show ?case by (auto simp: Let_def)
qed simp

lemma digits_value:
  fixes v :: nat
  shows "v div 262144 * 262144 + v div 4096 mod 64 * 4096 + v div 64 mod 64 * 64 + v mod 64 = v"
proof -
  have "v div 64 div 64 = v div 4096" "v div 4096 div 64 = v div 262144" by (simp_all flip: div_mult2_eq)
  then show ?thesis
    using div_mult_mod_eq [of v 64] div_mult_mod_eq [of "v div 64" 64] div_mult_mod_eq [of "v div 4096" 64] by linarith
qed

lemma byte_digits:
  fixes x y z :: nat
  assumes "x < 256" "y < 256" "z < 256"
  shows "(x * 65536 + y * 256 + z) div 65536 = x" "(x * 65536 + y * 256 + z) div 256 = x * 256 + y"
  using assms by (auto intro!: div_nat_eqI)

lemma char_of_plus_256 [simp]: "char_of (n * 256 + m :: nat) = char_of m"
  by (metis char_of_mod_256 mod_mult_self3)

lemma b64_bytes_digits: "b64_bytes (b64_digits s) = Some s"
proof (induction s rule: b64_digits.induct)
  case (1 x y z s)
  define v :: nat where "v = of_char x * 65536 + of_char y * 256 + of_char z"
  have "char_of (v div 65536) = x" "char_of (v div 256) = y"
    unfolding v_def using byte_digits [of "of_char x" "of_char y" "of_char z"] by simp_all
  moreover have "v = (of_char x * 256 + of_char y) * 256 + of_char z" by (simp add: v_def)
  then have "char_of v = z" by (simp only: char_of_plus_256 char_of_char)
  ultimately show ?case using digits_value [of v] 1 by (simp add: Let_def flip: v_def)
next
  case (2 x y)
  define v :: nat where "v = of_char x * 65536 + of_char y * 256"
  have "char_of (v div 65536) = x" "v div 256 = of_char x * 256 + of_char y"
    unfolding v_def using byte_digits [of "of_char x" "of_char y" 0] by simp_all
  then have "char_of (v div 65536) = x" "char_of (v div 256) = y" by (simp_all only: char_of_plus_256 char_of_char)
  moreover have "v mod 64 = 0" unfolding v_def by presburger
  ultimately show ?case using digits_value [of v] by (simp add: Let_def flip: v_def)
next
  case (3 x)
  define v :: nat where "v = of_char x * 65536"
  have "char_of (v div 65536) = x" by (simp add: v_def)
  moreover have "v = of_char x * 16 * 64 * 64" by (simp add: v_def)
  then have "v mod 64 = 0" "v div 64 mod 64 = 0" by simp_all
  ultimately show ?case using digits_value [of v] by (simp add: Let_def flip: v_def)
qed simp

lemma b64_value_letter:
  assumes "n < 64"
  shows "b64_value (b64_letter (CHR ''+'') (CHR ''/'') n) = Some n"
    "b64_letter (CHR ''+'') (CHR ''/'') n \<noteq> char_of (10 :: nat)" "b64_letter (CHR ''+'') (CHR ''/'') n \<noteq> char_of (13 :: nat)"
proof -
  let ?c = "b64_letter (CHR ''+'') (CHR ''/'') n"
  have c: "of_char ?c = (if n < 26 then 65 + n else if n < 52 then 71 + n else if n < 62 then n - 4 else if n = 62 then 43 else 47)"
    by (simp add: b64_letter_def)
  have p: "?c = CHR ''+'' \<longleftrightarrow> n = 62" "?c = CHR ''/'' \<longleftrightarrow> 63 \<le> n"
    unfolding of_char_eq_iff [where 'a = nat, symmetric] c using assms by auto
  have "b64_value d = Some n"
    if "of_char d = (if n < 26 then 65 + n else if n < 52 then 71 + n else if n < 62 then n - 4 else if n = 62 then 43 else 47)"
      "d = CHR ''+'' \<longleftrightarrow> n = 62" "d = CHR ''/'' \<longleftrightarrow> 63 \<le> n" for d
    unfolding b64_value_def that Let_def using assms by auto
  then show "b64_value ?c = Some n" using c p by blast
  have "of_char ?c \<noteq> (10 :: nat)" "of_char ?c \<noteq> (13 :: nat)" unfolding c by auto
  then show "?c \<noteq> char_of (10 :: nat)" "?c \<noteq> char_of (13 :: nat)" by auto
qed

lemma those_map_value: "\<forall>v \<in> set vs. f (g v) = Some v \<Longrightarrow> those (map f (map g vs)) = Some vs"
  by (induction vs) auto

text \<open>The decoder inverts the standard alphabet.\<close>

lemma RawStd_b64std: "RawStd_DecodeString (b64std s) = Some s"
proof -
  have d: "\<forall>n \<in> set (b64_digits s). n < 64" using b64_digits_bound by blast
  have "[c \<leftarrow> b64std s. c \<noteq> char_of (10 :: nat) \<and> c \<noteq> char_of (13 :: nat)] = b64std s"
    using d by (auto simp: b64std_def filter_id_conv dest: b64_value_letter(2,3))
  moreover have "those (map b64_value (b64std s)) = Some (b64_digits s)"
    unfolding b64std_def by (rule those_map_value) (use d in \<open>simp add: b64_value_letter\<close>)
  ultimately show ?thesis by (simp add: RawStd_DecodeString_def b64_bytes_digits)
qed

interpretation b64: codec b64std RawStd_DecodeString
  by unfold_locales (rule RawStd_b64std)

lemma those_None: "None \<in> set xs \<Longrightarrow> those xs = None"
  by (induction xs) (auto split: option.splits)

lemma b64url_no_dot: "CHR ''.'' \<notin> set (b64url s)"
proof -
  have "b64_letter (CHR ''-'') (CHR ''_'') n \<noteq> CHR ''.''" if "n < 64" for n
  proof
    assume "b64_letter (CHR ''-'') (CHR ''_'') n = CHR ''.''"
    then have "of_char (b64_letter (CHR ''-'') (CHR ''_'') n) = (46 :: nat)" by simp
    then show False using that by (auto simp: b64_letter_def split: if_splits)
  qed
  then show ?thesis using b64_digits_bound by (fastforce simp: b64url_def)
qed

text \<open>The two alphabets differ in two letters, and the decoder refuses the other two.\<close>

definition url_only :: "string \<Rightarrow> bool" where
  "url_only s \<longleftrightarrow> CHR ''-'' \<in> set s \<or> CHR ''_'' \<in> set s"

lemma RawStd_foreign: "url_only s \<Longrightarrow> RawStd_DecodeString s = None"
proof -
  assume "url_only s"
  moreover have "b64_value (CHR ''-'') = None" "b64_value (CHR ''_'') = None"
    "CHR ''-'' \<noteq> char_of (10 :: nat)" "CHR ''-'' \<noteq> char_of (13 :: nat)"
    "CHR ''_'' \<noteq> char_of (10 :: nat)" "CHR ''_'' \<noteq> char_of (13 :: nat)" by code_simp+
  ultimately have "None \<in> set (map b64_value [c \<leftarrow> s. c \<noteq> char_of (10 :: nat) \<and> c \<noteq> char_of (13 :: nat)])"
    by (auto simp: url_only_def image_iff intro: sym)
  then show ?thesis by (simp add: RawStd_DecodeString_def those_None)
qed

lemma b64url_std: "\<not> url_only (b64url s) \<Longrightarrow> b64url s = b64std s"
  by (auto simp: url_only_def b64url_def b64std_def b64_letter_def image_iff split: if_splits)

lemma RawStd_b64url: "RawStd_DecodeString (b64url s) = (if url_only (b64url s) then None else Some s)"
  using RawStd_foreign b64url_std [of s] b64.decode_encode [of s] by auto

section \<open>Query strings\<close>

text \<open>\<open>url.QueryEscape\<close>.\<close>

definition unreserved :: "char \<Rightarrow> bool" where
  "unreserved c =
     (let n = (of_char c :: nat) in
      48 \<le> n \<and> n \<le> 57 \<or> 65 \<le> n \<and> n \<le> 90 \<or> 97 \<le> n \<and> n \<le> 122 \<or> c \<in> {CHR ''-'', CHR ''_'', CHR ''.'', CHR ''~''})"

definition hex_digit :: "nat \<Rightarrow> char" where
  "hex_digit n = (if n < 10 then char_of (48 + n) else char_of (55 + n))"

definition escape_byte :: "char \<Rightarrow> string" where
  "escape_byte c =
     (if unreserved c then [c] else if c = CHR '' '' then ''+''
      else [CHR ''%'', hex_digit (of_char c div 16), hex_digit (of_char c mod 16)])"

definition QueryEscape :: "string \<Rightarrow> string" where
  "QueryEscape s = concat (map escape_byte s)"

text \<open>\<open>url.Values\<close> with one value for a key; \<open>Encode\<close> sorts by key and joins with ampersands.\<close>

type_synonym url_values = "(string \<times> string) list"

definition Values_Set :: "string \<Rightarrow> string \<Rightarrow> url_values \<Rightarrow> url_values" where
  "Values_Set k v ps = [p \<leftarrow> ps. fst p \<noteq> k] @ [(k, v)]"

fun text_le :: "string \<Rightarrow> string \<Rightarrow> bool" where
  "text_le [] t = True"
| "text_le (c # s) [] = False"
| "text_le (c # s) (d # t) = ((of_char c :: nat) < of_char d \<or> c = d \<and> text_le s t)"

fun insert_pair :: "string \<times> string \<Rightarrow> url_values \<Rightarrow> url_values" where
  "insert_pair p [] = [p]"
| "insert_pair p (q # qs) = (if text_le (fst p) (fst q) then p # q # qs else q # insert_pair p qs)"

definition sort_pairs :: "url_values \<Rightarrow> url_values" where
  "sort_pairs ps = foldr insert_pair ps []"

fun join_with :: "char \<Rightarrow> string list \<Rightarrow> string" where
  "join_with c [] = []"
| "join_with c [w] = w"
| "join_with c (w # ws) = w @ c # join_with c ws"

definition Values_Encode :: "url_values \<Rightarrow> string" where
  "Values_Encode ps =
     join_with (CHR ''&'') (map (\<lambda>(k, v). QueryEscape k @ CHR ''='' # QueryEscape v) (sort_pairs ps))"

subsection \<open>The other direction\<close>

definition hex_value :: "char \<Rightarrow> nat option" where
  "hex_value c =
     (let n = (of_char c :: nat) in
      if 48 \<le> n \<and> n \<le> 57 then Some (n - 48) else if 65 \<le> n \<and> n \<le> 70 then Some (n - 55)
      else if 97 \<le> n \<and> n \<le> 102 then Some (n - 87) else None)"

fun QueryUnescape :: "string \<Rightarrow> string option" where
  "QueryUnescape [] = Some []"
| "QueryUnescape (c # s) =
     (if c = CHR ''%'' then
        (case s of
           h # l # t \<Rightarrow>
             (case (hex_value h, hex_value l) of
                (Some a, Some b) \<Rightarrow> map_option (Cons (char_of (16 * a + b))) (QueryUnescape t)
              | _ \<Rightarrow> None)
         | _ \<Rightarrow> None)
      else map_option (Cons (if c = CHR ''+'' then CHR '' '' else c)) (QueryUnescape s))"

definition parse_pair :: "string \<Rightarrow> (string \<times> string) option" where
  "parse_pair w =
     (case split_on (CHR ''='') w of
        [k, v] \<Rightarrow>
          (case (QueryUnescape k, QueryUnescape v) of (Some k, Some v) \<Rightarrow> Some (k, v) | _ \<Rightarrow> None)
      | _ \<Rightarrow> None)"

definition ParseQuery :: "string \<Rightarrow> url_values option" where
  "ParseQuery s = those (map parse_pair (split_on (CHR ''&'') s))"

lemma hex_value_digit:
  assumes "n < 16"
  shows "hex_value (hex_digit n) = Some n"
proof -
  have "of_char (hex_digit n) = (if n < 10 then 48 + n else 55 + n)" using assms by (simp add: hex_digit_def)
  then show ?thesis using assms by (simp add: hex_value_def Let_def)
qed

lemma hex_digit_plain: "n < 16 \<Longrightarrow> hex_digit n \<noteq> CHR ''&'' \<and> hex_digit n \<noteq> CHR ''=''"
proof -
  assume "n < 16"
  then have "of_char (hex_digit n) = (if n < 10 then 48 + n else 55 + n)" by (simp add: hex_digit_def)
  then have "of_char (hex_digit n) \<noteq> (38 :: nat) \<and> (\<not> 61 \<le> (of_char (hex_digit n) :: nat) \<or> 65 \<le> (of_char (hex_digit n) :: nat))"
    by simp
  then show ?thesis by auto
qed

lemma unreserved_plain: "unreserved c \<Longrightarrow> c \<noteq> CHR ''%'' \<and> c \<noteq> CHR ''+'' \<and> c \<noteq> CHR ''&'' \<and> c \<noteq> CHR ''=''"
  by (auto simp: unreserved_def)

lemma unescape_byte: "QueryUnescape (escape_byte c @ s) = map_option (Cons c) (QueryUnescape s)"
proof -
  have d: "of_char c div 16 < (16 :: nat)" using nat_of_char_less_256 [of c] by (simp add: less_mult_imp_div_less)
  have "16 * (of_char c div 16) + of_char c mod 16 = (of_char c :: nat)" by simp
  then have "char_of (16 * (of_char c div 16) + of_char c mod 16 :: nat) = c" by (simp only: char_of_char)
  then show ?thesis
    using unreserved_plain [of c] by (simp add: escape_byte_def hex_value_digit [OF d] hex_value_digit)
qed

lemma unescape_escape: "QueryUnescape (QueryEscape s) = Some s"
  by (induction s) (simp_all add: QueryEscape_def unescape_byte)

interpretation esc: codec QueryEscape QueryUnescape
  by unfold_locales (rule unescape_escape)

lemma escape_plain: "CHR ''&'' \<notin> set (QueryEscape s)" "CHR ''='' \<notin> set (QueryEscape s)"
proof -
  have "c \<noteq> CHR ''&'' \<and> c \<noteq> CHR ''=''" if "c \<in> set (escape_byte d)" for c d
  proof -
    have "of_char d div 16 < (16 :: nat)" using nat_of_char_less_256 [of d] by (simp add: less_mult_imp_div_less)
    then show ?thesis
      using that unreserved_plain [of d] hex_digit_plain [of "of_char d div 16"] hex_digit_plain [of "of_char d mod 16"]
      by (auto simp: escape_byte_def split: if_splits)
  qed
  then show "CHR ''&'' \<notin> set (QueryEscape s)" "CHR ''='' \<notin> set (QueryEscape s)" by (auto simp: QueryEscape_def)
qed

lemma split_join: "ws \<noteq> [] \<Longrightarrow> \<forall>w \<in> set ws. c \<notin> set w \<Longrightarrow> split_on c (join_with c ws) = ws"
  by (induction c ws rule: join_with.induct) (simp_all add: split_on_no_sep split_on_append_sep)

lemma join_with_Cons: "join_with c ((a # w) # ws) = a # join_with c (w # ws)"
  by (cases ws) simp_all

lemma join_split: "join_with c (split_on c s) = s"
proof (induction s)
  case (Cons a s)
  then show ?case by (cases "split_on c s") (auto simp: join_with_Cons)
qed simp

definition pair_text :: "string \<times> string \<Rightarrow> string" where
  "pair_text = (\<lambda>(k, v). QueryEscape k @ CHR ''='' # QueryEscape v)"

interpretation pairs: codec pair_text parse_pair
  by unfold_locales
    (auto simp: pair_text_def parse_pair_def split_on_append_sep split_on_no_sep escape_plain esc.decode_encode)

lemma insert_pair_nonempty [simp]: "insert_pair p qs \<noteq> []"
  by (cases qs) auto

lemma sort_pairs_nonempty [simp]: "sort_pairs ps = [] \<longleftrightarrow> ps = []"
  by (cases ps) (simp_all add: sort_pairs_def)

text \<open>An encoded query reads back as its pairs, in the order of the keys.\<close>

lemma ParseQuery_Encode:
  assumes "ps \<noteq> []"
  shows "ParseQuery (Values_Encode ps) = Some (sort_pairs ps)"
proof -
  have "Values_Encode ps = join_with (CHR ''&'') (map pair_text (sort_pairs ps))"
    by (simp add: Values_Encode_def pair_text_def)
  moreover have "split_on (CHR ''&'') (join_with (CHR ''&'') (map pair_text (sort_pairs ps))) = map pair_text (sort_pairs ps)"
    by (rule split_join) (use assms in \<open>auto simp: pair_text_def escape_plain\<close>)
  ultimately show ?thesis using pairs.decode_all by (simp only: ParseQuery_def)
qed

end
