(* ===== verification/State_File.thy ===== *)
theory State_File
  imports Json_Struct Daemon_Store
begin

text \<open>
  The state of the daemon as bytes in a file: the JSON that \<open>daemon/state.go\<close> writes and reads, and the
  operations of \<open>Daemon_Store\<close> on a file of bytes, whose writes may stop anywhere.  \<open>Daemon_Store\<close>, on
  which the daemon is built, keeps the struct in place of the bytes; here it is shown to be an abstraction
  of them.
\<close>

section \<open>The text of a state\<close>

definition state_json :: "RVpnState \<Rightarrow> json" where
  "state_json s =
     JObj [(''controlplaneauth'', JStr (ControlPlaneAuth s)), (''privatekey'', JStr (st_PrivateKey s)),
       (''publickey'', JStr (st_PublicKey s)), (''activeprofile'', JStr (ActiveProfile s))]"

definition json_Marshal :: "RVpnState \<Rightarrow> string" where
  "json_Marshal s = json_text (state_json s)"

definition state_fields :: "(string \<times> RVpnState field) list" where
  "state_fields =
     [(''controlplaneauth'', text_field (\<lambda>w s. s\<lparr>ControlPlaneAuth := w\<rparr>)),
      (''privatekey'', text_field (\<lambda>w s. s\<lparr>st_PrivateKey := w\<rparr>)),
      (''publickey'', text_field (\<lambda>w s. s\<lparr>st_PublicKey := w\<rparr>)),
      (''activeprofile'', text_field (\<lambda>w s. s\<lparr>ActiveProfile := w\<rparr>))]"

text \<open>The error is dropped.\<close>

definition json_Unmarshal :: "string \<Rightarrow> RVpnState \<Rightarrow> RVpnState" where
  "json_Unmarshal data s = fst (Unmarshal state_fields data s)"

section \<open>The file\<close>

text \<open>What the next system call does: it works, or it fails, a write after so many bytes.\<close>

datatype outcome = Works | Fails nat

record byte_disk =
  b_dir :: bool
  b_file :: "string option"
  b_calls :: "outcome list"

definition b_syscall :: "(byte_disk, 'a) stmt \<Rightarrow> (nat \<Rightarrow> byte_disk \<Rightarrow> byte_disk) \<Rightarrow> (byte_disk, 'a) stmt" where
  "b_syscall m partial d =
     (case b_calls d of
        [] \<Rightarrow> m d
      | Works # cs \<Rightarrow> m (d\<lparr>b_calls := cs\<rparr>)
      | Fails n # cs \<Rightarrow> (Inl OsError, partial n (d\<lparr>b_calls := cs\<rparr>)))"

definition unchanged :: "nat \<Rightarrow> byte_disk \<Rightarrow> byte_disk" where
  "unchanged n d = d"

definition b_ReadFile :: "(byte_disk, string) stmt" where
  "b_ReadFile = b_syscall (\<lambda>d. case b_file d of None \<Rightarrow> (Inl OsNotExist, d) | Some t \<Rightarrow> (Inr t, d)) unchanged"

definition b_OpenTrunc :: "(byte_disk, unit) stmt" where
  "b_OpenTrunc =
     b_syscall (\<lambda>d. if b_dir d then (Inr (), d\<lparr>b_file := Some []\<rparr>) else (Inl OsNotExist, d)) unchanged"

text \<open>
  A write at the start of the file, over what is there: the file has just been emptied, unless another
  thread has written to it since.  A write that fails has written less than the whole.
\<close>

definition overlay :: "string \<Rightarrow> string \<Rightarrow> string" where
  "overlay t f = t @ drop (length t) f"

definition b_write :: "string \<Rightarrow> (byte_disk, unit) stmt" where
  "b_write t =
     b_syscall (\<lambda>d. (Inr (), d\<lparr>b_file := map_option (overlay t) (b_file d)\<rparr>))
       (\<lambda>n d. d\<lparr>b_file := map_option (overlay (take (min n (length t - 1)) t)) (b_file d)\<rparr>)"

text \<open>\<open>bufio.Writer\<close> with its 4096 bytes: a text that does not fit is written at once, another one at \<open>Flush\<close>.\<close>

definition b_Write :: "string \<Rightarrow> (byte_disk, unit) stmt" where
  "b_Write t = (if 4096 < length t then b_write t else ok ())"

definition b_Flush :: "string \<Rightarrow> (byte_disk, unit) stmt" where
  "b_Flush t = (if 4096 < length t then ok () else b_write t)"

definition b_GetRVpnState :: "(byte_disk, RVpnState) stmt" where
  "b_GetRVpnState =
     (case getRVpnStatePath of
        Inl e \<Rightarrow> fail e
      | Inr _ \<Rightarrow> and_then b_ReadFile (\<lambda>rVpnStateData. ok (json_Unmarshal rVpnStateData empty_RVpnState)))"

definition b_SetRVpnState :: "RVpnState \<Rightarrow> (byte_disk, unit) stmt" where
  "b_SetRVpnState rVpnStateData =
     (case getRVpnStatePath of
        Inl e \<Rightarrow> fail e
      | Inr _ \<Rightarrow>
          (let rVpnStateJson = json_Marshal rVpnStateData in
           and_then b_OpenTrunc (\<lambda>_.
           and_then (b_Write rVpnStateJson) (\<lambda>_.
           and_then (drop_error (b_Flush rVpnStateJson)) (\<lambda>_.
             ok ())))))"

text \<open>\<open>os.IsNotExist\<close> of the error of \<open>os.Stat\<close>, and the set-up of directory and file.\<close>

definition b_missing :: "(byte_disk \<Rightarrow> bool) \<Rightarrow> byte_disk \<Rightarrow> bool \<times> byte_disk" where
  "b_missing there d =
     (case b_syscall (\<lambda>d. if there d then (Inr (), d) else (Inl OsNotExist, d)) unchanged d of
        (r, d') \<Rightarrow> (r = Inl OsNotExist, d'))"

definition b_MkdirAll :: "(byte_disk, unit) stmt" where
  "b_MkdirAll = b_syscall (\<lambda>d. (Inr (), d\<lparr>b_dir := True\<rparr>)) unchanged"

definition b_InitRVPNState :: "(byte_disk, unit) stmt" where
  "b_InitRVPNState d =
     (case getRVpnStatePath of
        Inl e \<Rightarrow> (Inl e, d)
      | Inr _ \<Rightarrow>
          (case b_missing b_dir d of
             (missing, d) \<Rightarrow>
               and_then (if missing then b_MkdirAll else ok ()) (\<lambda>_ d.
                 case b_missing (\<lambda>d. b_file d \<noteq> None) d of
                   (missing, d) \<Rightarrow>
                     if missing then drop_error (b_SetRVpnState empty_RVpnState) d else (Inr (), d)) d))"

lemma overlay_empty [simp]: "overlay t [] = t"
  by (simp add: overlay_def)

section \<open>Reading back\<close>

definition ascii_state :: "RVpnState \<Rightarrow> bool" where
  "ascii_state s \<longleftrightarrow>
     ascii (ControlPlaneAuth s) \<and> ascii (st_PrivateKey s) \<and> ascii (st_PublicKey s) \<and> ascii (ActiveProfile s)"

lemma names_ascii:
  "ascii ''controlplaneauth''" "ascii ''privatekey''" "ascii ''publickey''" "ascii ''activeprofile''"
  by (simp_all add: ascii_def)

abbreviation state_tokens :: "RVpnState \<Rightarrow> token list" where
  "state_tokens s \<equiv> json_tokens (state_json s)"

lemma json_Marshal_tokens: "json_Marshal s = text_of (state_tokens s)"
  by (simp add: json_Marshal_def json_text_def)

lemma state_json_facts:
  assumes "ascii_state s"
  shows "list_all written (state_tokens s)" "proper (state_json s)" "json_depth (state_json s) \<le> maxNestingDepth"
  using assms by (simp_all add: state_json_def ascii_state_def names_ascii maxNestingDepth_def)

text \<open>
  What was written is read, whatever was in the struct before; and of a text that is cut off nothing is.
\<close>

lemma Unmarshal_Marshal:
  assumes "ascii_state s"
  shows "json_Unmarshal (json_Marshal s) v = s"
proof -
  have "json_Unmarshal (json_Marshal s) v = fst (struct_value state_fields (state_json s) v)"
    using state_json_facts(2,3) [OF assms] by (simp add: json_Unmarshal_def json_Marshal_def Unmarshal_text)
  then show ?thesis by (simp add: state_json_def struct_value_def state_fields_def)
qed

lemma Unmarshal_cut:
  assumes "ascii_state s" and "n < length (json_Marshal s)"
  shows "json_Unmarshal (take n (json_Marshal s)) v = v"
  using parse_json_cut [OF state_json_facts(1,3) [OF assms(1)]] assms(2)
  by (simp add: json_Unmarshal_def json_Marshal_def Unmarshal_def)

text \<open>The size of the text: a byte of a value takes one to six.\<close>

lemma length_quote: "ascii s \<Longrightarrow> length s \<le> length (quote s) \<and> length (quote s) \<le> 6 * length s"
  by (induction s) (auto simp: ascii_def quote_byte_def)

lemma length_Marshal:
  assumes "ascii_state s"
  defines "n \<equiv> length (ControlPlaneAuth s) + length (st_PrivateKey s) + length (st_PublicKey s) + length (ActiveProfile s)"
  shows "73 + n \<le> length (json_Marshal s)" and "length (json_Marshal s) \<le> 313 + 6 * n"
  using assms(1) [unfolded ascii_state_def] names_ascii [THEN length_quote]
  by (auto simp: json_Marshal_tokens text_of_def state_json_def n_def simp del: quote.simps dest!: length_quote)

section \<open>The abstraction\<close>

text \<open>
  The abstract disk a disk of bytes stands for: the struct its bytes read as, and any script of faults.
  The scripts differ: a small text makes no system call until it is flushed, and how far a write got is
  not in the abstract one.
\<close>

definition disk_of :: "bool list \<Rightarrow> byte_disk \<Rightarrow> disk" where
  "disk_of fs d =
     \<lparr>dir_exists = b_dir d, state_file = map_option (\<lambda>t. json_Unmarshal t empty_RVpnState) (b_file d), faults = fs\<rparr>"

text \<open>Every run of the one is a run of the other, with some script before any that is given for what follows.\<close>

definition simulates :: "(byte_disk \<Rightarrow> 'r \<times> byte_disk) \<Rightarrow> (disk \<Rightarrow> 'r \<times> disk) \<Rightarrow> bool" where
  "simulates m a \<longleftrightarrow> (\<forall>d r d' rest. m d = (r, d') \<longrightarrow> (\<exists>fs. a (disk_of (fs @ rest) d) = (r, disk_of rest d')))"

lemma simulatesI:
  "(\<And>d r d' rest. m d = (r, d') \<Longrightarrow> \<exists>fs. a (disk_of (fs @ rest) d) = (r, disk_of rest d')) \<Longrightarrow> simulates m a"
  by (simp add: simulates_def)

lemma simulates_ok: "simulates (ok x) (ok x)"
  by (auto simp: simulates_def ok_def intro: exI [of _ "[]"])

lemma simulates_and_then:
  assumes "simulates m a" and "\<And>x. simulates (f x) (g x)"
  shows "simulates (and_then m f) (and_then a g)"
proof (rule simulatesI)
  fix d r d' rest
  assume run: "and_then m f d = (r, d')"
  obtain q e where m: "m d = (q, e)" by fastforce
  show "\<exists>fs. and_then a g (disk_of (fs @ rest) d) = (r, disk_of rest d')"
  proof (cases q)
    case (Inl err)
    obtain fs where "a (disk_of (fs @ rest) d) = (q, disk_of rest e)" using assms(1) m unfolding simulates_def by blast
    then show ?thesis using run m Inl by (intro exI [of _ fs]) (auto simp: and_then_def)
  next
    case (Inr x)
    then have "f x e = (r, d')" using run m by (simp add: and_then_def)
    then obtain gs where g: "g x (disk_of (gs @ rest) e) = (r, disk_of rest d')"
      using assms(2) unfolding simulates_def by blast
    obtain fs where "a (disk_of (fs @ gs @ rest) d) = (q, disk_of (gs @ rest) e)"
      using assms(1) m unfolding simulates_def by blast
    then show ?thesis using g Inr by (intro exI [of _ "fs @ gs"]) (simp add: and_then_def)
  qed
qed

lemma and_then_return [simp]: "and_then m ok = m"
  by (auto simp: and_then_def ok_def fun_eq_iff split: prod.splits sum.splits)

lemma simulates_drop_error:
  assumes "simulates m a"
  shows "simulates (drop_error m) (drop_error a)"
proof (rule simulatesI)
  fix d r d' rest
  assume run: "drop_error m d = (r, d')"
  obtain q where m: "m d = (q, d')" and r: "r = Inr ()" using run by (auto simp: drop_error_def split: prod.splits)
  obtain fs where "a (disk_of (fs @ rest) d) = (q, disk_of rest d')" using assms m unfolding simulates_def by blast
  then show "\<exists>fs. drop_error a (disk_of (fs @ rest) d) = (r, disk_of rest d')"
    using r by (intro exI [of _ fs]) (simp add: drop_error_def)
qed

text \<open>One call: it works with the rest of the script, or it fails.\<close>

lemma b_syscall_cases:
  assumes "b_syscall m partial d = (r, d')"
  obtains (works) cs where "m (d\<lparr>b_calls := cs\<rparr>) = (r, d')"
    | (failed) n cs where "r = Inl OsError" "d' = partial n (d\<lparr>b_calls := cs\<rparr>)"
proof (cases "b_calls d")
  case Nil
  have "d\<lparr>b_calls := b_calls d\<rparr> = d" by simp
  moreover have "m d = (r, d')" using assms Nil by (simp add: b_syscall_def)
  ultimately have "m (d\<lparr>b_calls := b_calls d\<rparr>) = (r, d')" by (simp only:)
  then show ?thesis by (rule works)
next
  case (Cons c cs)
  then show ?thesis using assms works [of cs] failed [of _ cs] by (cases c) (auto simp: b_syscall_def)
qed

lemma disk_of_calls [simp]: "disk_of fs (d\<lparr>b_calls := cs\<rparr>) = disk_of fs d"
  by (simp add: disk_of_def)

lemma syscall_disk_of [simp]:
  "syscall a (disk_of (False # fs) d) = a (disk_of fs d)"
  "syscall a (disk_of (True # fs) d) = (Inl OsError, disk_of fs d)"
  by (simp_all add: syscall_def disk_of_def)

lemma simulates_call:
  assumes "\<And>d r d' fs. m d = (r, d') \<Longrightarrow> a (disk_of fs d) = (r, disk_of fs d')"
  shows "simulates (b_syscall m unchanged) (syscall a)"
proof (rule simulatesI)
  fix d r d' rest
  assume "b_syscall m unchanged d = (r, d')"
  then show "\<exists>fs. syscall a (disk_of (fs @ rest) d) = (r, disk_of rest d')"
  proof (cases rule: b_syscall_cases)
    case (works cs)
    then show ?thesis using assms [of "d\<lparr>b_calls := cs\<rparr>"] by (intro exI [of _ "[False]"]) simp
  next
    case (failed n cs)
    then show ?thesis by (intro exI [of _ "[True]"]) (simp add: unchanged_def)
  qed
qed

lemma simulates_Get: "simulates b_GetRVpnState GetRVpnState"
proof -
  have "simulates (and_then b_ReadFile (\<lambda>t. ok (json_Unmarshal t empty_RVpnState))) os_ReadFile"
  proof (rule simulatesI)
    fix d r d' rest
    assume run: "and_then b_ReadFile (\<lambda>t. ok (json_Unmarshal t empty_RVpnState)) d = (r, d')"
    obtain q e where read: "b_ReadFile d = (q, e)" by fastforce
    from read [unfolded b_ReadFile_def] show "\<exists>fs. os_ReadFile (disk_of (fs @ rest) d) = (r, disk_of rest d')"
    proof (cases rule: b_syscall_cases)
      case (works cs)
      then show ?thesis using run read
        by (intro exI [of _ "[False]"]) (auto simp: os_ReadFile_def and_then_def ok_def disk_of_def syscall_def split: option.splits)
    next
      case (failed n cs)
      then show ?thesis using run read
        by (intro exI [of _ "[True]"]) (auto simp: os_ReadFile_def and_then_def unchanged_def)
    qed
  qed
  then show ?thesis
    by (simp add: b_GetRVpnState_def GetRVpnState_def getRVpnStatePath_def)
qed

lemma Unmarshal_empty [simp]: "json_Unmarshal [] v = v"
  by (simp add: json_Unmarshal_def Unmarshal_def parse_json_def checkValid_def)

text \<open>Saving: the four ways it can go are the truncation that fails, and the writing that works, fails early or late.\<close>

lemma simulates_Set:
  assumes "ascii_state s"
  shows "simulates (b_SetRVpnState s) (SetRVpnState s)"
proof (rule simulatesI)
  fix d r d' rest
  let ?t = "json_Marshal s"
  note defs = SetRVpnState_def getRVpnStatePath_def os_OpenTrunc_def bufio_Write_def bufio_Flush_def
    and_then_def drop_error_def ok_def
  have "?t \<noteq> []" by (simp add: json_Marshal_tokens state_json_def text_of_def)
  then have "min n (length ?t - 1) < length ?t" for n by (cases ?t) auto
  then have cut: "json_Unmarshal (take (min n (length ?t - 1)) ?t) v = v" for n v
    by (rule Unmarshal_cut [OF assms])
  assume run: "b_SetRVpnState s d = (r, d')"
  obtain q e where o: "b_OpenTrunc d = (q, e)" by fastforce
  show "\<exists>fs. SetRVpnState s (disk_of (fs @ rest) d) = (r, disk_of rest d')"
  proof (cases q)
    case (Inl err)
    then have r: "r = Inl err" "d' = e"
      using run o by (simp_all add: b_SetRVpnState_def getRVpnStatePath_def and_then_def Let_def)
    from o [unfolded b_OpenTrunc_def] show ?thesis
    proof (cases rule: b_syscall_cases)
      case (works cs)
      then show ?thesis using r Inl
        by (intro exI [of _ "[False]"]) (auto simp: defs disk_of_def syscall_def split: if_splits)
    next
      case (failed n cs)
      then show ?thesis using r Inl by (intro exI [of _ "[True]"]) (simp add: defs unchanged_def)
    qed
  next
    case (Inr u)
    then have dir: "b_dir d" and e: "b_dir e" "b_file e = Some []"
      using o by (auto simp: b_OpenTrunc_def unchanged_def elim!: b_syscall_cases split: if_splits)
    obtain w e' where wr: "b_write ?t e = (w, e')" by fastforce
    have r: "(r, d') = (if 4096 < length ?t then w else Inr (), e')"
      using run o Inr wr
      by (cases w)
        (simp_all add: b_SetRVpnState_def getRVpnStatePath_def and_then_def b_Write_def b_Flush_def drop_error_def
          ok_def Let_def split: if_splits)
    from wr [unfolded b_write_def] show ?thesis
    proof (cases rule: b_syscall_cases)
      case (works cs)
      then show ?thesis using r dir e Unmarshal_Marshal [OF assms]
        by (intro exI [of _ "[False, False, False]"]) (auto simp: defs disk_of_def syscall_def)
    next
      case (failed n cs)
      then show ?thesis using r dir e cut
        by (intro exI [of _ "if 4096 < length ?t then [False, True] else [False, False, True]"])
          (auto simp: defs disk_of_def syscall_def)
    qed
  qed
qed

text \<open>The two questions of the set-up, and the set-up as a whole.\<close>

lemma simulates_bind:
  assumes "simulates m a" and "\<And>x. simulates (f x) (g x)"
  shows "simulates (\<lambda>d. case m d of (x, d) \<Rightarrow> f x d) (\<lambda>d. case a d of (x, d) \<Rightarrow> g x d)"
proof (rule simulatesI)
  fix d r d' rest
  assume run: "(case m d of (x, d) \<Rightarrow> f x d) = (r, d')"
  obtain x e where m: "m d = (x, e)" by fastforce
  then have "f x e = (r, d')" using run by simp
  then obtain gs where g: "g x (disk_of (gs @ rest) e) = (r, disk_of rest d')"
    using assms(2) unfolding simulates_def by blast
  obtain fs where "a (disk_of (fs @ gs @ rest) d) = (x, disk_of (gs @ rest) e)"
    using assms(1) m unfolding simulates_def by blast
  then show "\<exists>fs. (case a (disk_of (fs @ rest) d) of (x, d) \<Rightarrow> g x d) = (r, disk_of rest d')"
    using g by (intro exI [of _ "fs @ gs"]) simp
qed

lemma simulates_Pair: "simulates (Pair r) (Pair r)"
  by (auto simp: simulates_def intro: exI [of _ "[]"])

lemma simulates_dir_missing: "simulates (b_missing b_dir) stat_dir_missing"
  unfolding b_missing_def stat_dir_missing_def
  by (rule simulates_bind [OF simulates_call simulates_Pair]) (auto simp: disk_of_def split: if_splits)

lemma simulates_file_missing: "simulates (b_missing (\<lambda>d. b_file d \<noteq> None)) stat_file_missing"
  unfolding b_missing_def stat_file_missing_def
  by (rule simulates_bind [OF simulates_call simulates_Pair]) (auto simp: disk_of_def split: if_splits)

lemma simulates_MkdirAll: "simulates b_MkdirAll os_MkdirAll"
  unfolding b_MkdirAll_def os_MkdirAll_def by (rule simulates_call) (auto simp: disk_of_def)

lemma simulates_if: "simulates m a \<Longrightarrow> simulates m' a' \<Longrightarrow> simulates (if c then m else m') (if c then a else a')"
  by simp

lemma simulates_Init: "simulates b_InitRVPNState InitRVPNState"
proof -
  have empty: "ascii_state empty_RVpnState" by (simp add: ascii_state_def empty_RVpnState_def ascii_def)
  have files: "simulates
      (\<lambda>d. case b_missing (\<lambda>d. b_file d \<noteq> None) d of (missing, d) \<Rightarrow>
         (if missing then drop_error (b_SetRVpnState empty_RVpnState) else Pair (Inr ())) d)
      (\<lambda>d. case stat_file_missing d of (missing, d) \<Rightarrow>
         (if missing then drop_error (SetRVpnState empty_RVpnState) else Pair (Inr ())) d)"
    by (intro simulates_bind simulates_file_missing simulates_if simulates_drop_error simulates_Set empty simulates_Pair)
  have "simulates
      (\<lambda>d. case b_missing b_dir d of (missing, d) \<Rightarrow> and_then (if missing then b_MkdirAll else ok ()) (\<lambda>_ d.
         case b_missing (\<lambda>d. b_file d \<noteq> None) d of (missing, d) \<Rightarrow>
           (if missing then drop_error (b_SetRVpnState empty_RVpnState) else Pair (Inr ())) d) d)
      (\<lambda>d. case stat_dir_missing d of (missing, d) \<Rightarrow> and_then (if missing then os_MkdirAll else ok ()) (\<lambda>_ d.
         case stat_file_missing d of (missing, d) \<Rightarrow>
           (if missing then drop_error (SetRVpnState empty_RVpnState) else Pair (Inr ())) d) d)"
    by (intro simulates_bind simulates_dir_missing simulates_and_then simulates_if simulates_MkdirAll simulates_ok files)
  then show ?thesis
    by (simp add: b_InitRVPNState_def InitRVPNState_def getRVpnStatePath_def simulates_def if_distribR)
qed

section \<open>Properties\<close>

text \<open>
  C13: The operations on the struct are an abstraction of those on the bytes: whatever a read, a write or the
  set-up does to the file of bytes, with writes that stop anywhere, the operation of \<open>Daemon_Store\<close> can do
  to the struct the bytes read as, with the same result, under some script of faults.
\<close>

theorem state_file_refines:
  assumes "ascii_state s"
  shows "simulates b_GetRVpnState GetRVpnState \<and> simulates (b_SetRVpnState s) (SetRVpnState s) \<and>
    simulates b_InitRVPNState InitRVPNState"
  by (intro conjI simulates_Get simulates_Set [OF assms] simulates_Init)

theorem state_file_refines_witness:
  "let s = empty_RVpnState\<lparr>ControlPlaneAuth := ''token''\<rparr>;
       d = \<lparr>b_dir = True, b_file = None, b_calls = [Works, Works]\<rparr> in
   ascii_state s \<and> b_SetRVpnState s d = (Inr (), \<lparr>b_dir = True, b_file = Some (json_Marshal s), b_calls = []\<rparr>) \<and>
   (\<exists>fs. SetRVpnState s \<lparr>dir_exists = True, state_file = None, faults = fs\<rparr> =
      (Inr (), \<lparr>dir_exists = True, state_file = Some s, faults = []\<rparr>))"
proof -
  let ?s = "empty_RVpnState\<lparr>ControlPlaneAuth := ''token''\<rparr>"
  let ?d = "\<lparr>b_dir = True, b_file = None, b_calls = [Works, Works]\<rparr>"
  have s: "ascii_state ?s" by (simp add: ascii_state_def empty_RVpnState_def ascii_def)
  have run: "b_SetRVpnState ?s ?d = (Inr (), \<lparr>b_dir = True, b_file = Some (json_Marshal ?s), b_calls = []\<rparr>)"
    by (simp add: b_SetRVpnState_def getRVpnStatePath_def b_OpenTrunc_def b_Write_def b_Flush_def b_write_def
        b_syscall_def and_then_def drop_error_def ok_def Let_def)
  have "simulates (b_SetRVpnState ?s) (SetRVpnState ?s)" using state_file_refines [OF s] by (elim conjE)
  from this [unfolded simulates_def, rule_format, OF run, of "[]"] show ?thesis
    using s run by (simp add: disk_of_def Unmarshal_Marshal Let_def)
qed

text \<open>
  The text of a state reads back as that state, whatever the struct held before, and any part of it that
  was cut off leaves the struct as it was: there is no state a torn write could make up.
\<close>

theorem state_text_roundtrip:
  assumes "ascii_state s"
  shows "json_Unmarshal (take n (json_Marshal s)) v = (if n < length (json_Marshal s) then v else s)"
  using Unmarshal_cut [OF assms] Unmarshal_Marshal [OF assms] by simp

theorem state_text_roundtrip_witness:
  "let s = empty_RVpnState\<lparr>ControlPlaneAuth := ''a<b'', ActiveProfile := CHR 0x22 # ''prod''\<rparr> in
   ascii_state s \<and> json_Unmarshal (json_Marshal s) empty_RVpnState = s \<and>
   json_Unmarshal (take 30 (json_Marshal s)) empty_RVpnState = empty_RVpnState"
proof -
  let ?s = "empty_RVpnState\<lparr>ControlPlaneAuth := ''a<b'', ActiveProfile := CHR 0x22 # ''prod''\<rparr>"
  have s: "ascii_state ?s" by (simp add: ascii_state_def empty_RVpnState_def ascii_def)
  have "30 < length (json_Marshal ?s)" using length_Marshal(1) [OF s] by simp
  then show ?thesis
    using s state_text_roundtrip [OF s, of 30 empty_RVpnState]
      state_text_roundtrip [OF s, of "length (json_Marshal ?s)" empty_RVpnState]
    by (simp add: Let_def)
qed

text \<open>
  C33: A save that stops anywhere in the text - a full disk - empties the state: every read after it succeeds
  with neither keys nor token.  The save itself reports success, unless the text is longer than the buffer.
\<close>

theorem torn_state_reads_empty:
  assumes "ascii_state s" and "b_dir d" and "b_calls d = [Works, Fails n]"
  shows "\<exists>d'. b_SetRVpnState s d = (if length (json_Marshal s) \<le> 4096 then Inr () else Inl OsError, d') \<and>
    b_GetRVpnState d' = (Inr empty_RVpnState, d')"
proof -
  let ?t = "json_Marshal s"
  have "?t \<noteq> []" by (simp add: json_Marshal_tokens state_json_def text_of_def)
  then have "min n (length ?t - 1) < length ?t" by (cases ?t) auto
  then have "json_Unmarshal (take (min n (length ?t - 1)) ?t) empty_RVpnState = empty_RVpnState"
    by (rule Unmarshal_cut [OF assms(1)])
  then show ?thesis using assms(2,3)
    by (simp add: b_SetRVpnState_def b_GetRVpnState_def getRVpnStatePath_def b_OpenTrunc_def b_Write_def b_Flush_def
        b_write_def b_ReadFile_def b_syscall_def and_then_def drop_error_def ok_def Let_def)
qed

theorem torn_state_reads_empty_witness:
  "let s = empty_RVpnState\<lparr>ControlPlaneAuth := ''token'', st_PrivateKey := ''key''\<rparr>;
       d = \<lparr>b_dir = True, b_file = Some (json_Marshal s), b_calls = [Works, Fails 20]\<rparr> in
   ascii_state s \<and> (\<exists>d'. b_SetRVpnState s d = (Inr (), d') \<and> b_GetRVpnState d' = (Inr empty_RVpnState, d'))"
proof -
  let ?s = "empty_RVpnState\<lparr>ControlPlaneAuth := ''token'', st_PrivateKey := ''key''\<rparr>"
  let ?d = "\<lparr>b_dir = True, b_file = Some (json_Marshal ?s), b_calls = [Works, Fails 20]\<rparr>"
  have s: "ascii_state ?s" by (simp add: ascii_state_def empty_RVpnState_def ascii_def)
  have "length (json_Marshal ?s) \<le> 4096" using length_Marshal(2) [OF s] by (simp add: empty_RVpnState_def)
  then show ?thesis using s torn_state_reads_empty [OF s, of ?d 20] by (simp add: Let_def)
qed

end
