(* ===== verification/State_Race.thy ===== *)
theory State_Race
  imports State_File Rvpn_Daemon_Props
begin

text \<open>
  The state file under several threads.  The daemon answers the control plane and the clients from
  different goroutines (\<open>daemon/daemon.go\<close>), none of which takes a lock: the requests for the information
  of the device read the state and may save it with new keys, and a login (\<open>cmd/client/client.go\<close>) reads
  it and saves it with a new token.  Between any two system calls of one thread another may run.
\<close>

section \<open>The threads\<close>

datatype job = Login_job string | ClientInfo_job | ServeInfo_job

text \<open>
  Where a thread is: before it reads the file; with a state to save, before and after it has truncated the
  file; at its end, with whether it has succeeded.
\<close>

datatype stage = Starts | Loaded RVpnState | Opened RVpnState | Ended bool

text \<open>The login: lines 40 to 49 of \<open>client.go\<close>, through \<open>GetState\<close> and \<open>SetState\<close> of the daemon.\<close>

fun login_step :: "string \<Rightarrow> stage \<Rightarrow> byte_disk \<Rightarrow> stage \<times> byte_disk" where
  "login_step token Starts d =
     (case b_GetRVpnState d of
        (Inl e, d) \<Rightarrow> (Ended False, d)
      | (Inr s, d) \<Rightarrow> (Loaded (s\<lparr>ControlPlaneAuth := token\<rparr>), d))"
| "login_step token (Loaded s) d =
     (case b_OpenTrunc d of (Inl e, d) \<Rightarrow> (Ended False, d) | (Inr _, d) \<Rightarrow> (Opened s, d))"
| "login_step token (Opened s) d =
     (case b_write (json_Marshal s) d of (r, d) \<Rightarrow> (Ended (length (json_Marshal s) \<le> 4096 \<or> r = Inr ()), d))"
| "login_step token (Ended b) d = (Ended b, d)"

text \<open>The answer to the control plane, which serving devices give with their port.\<close>

definition answer :: "job \<Rightarrow> bool \<Rightarrow> string \<Rightarrow> rpc_reply" where
  "answer j b key =
     (if j = ServeInfo_job then GetServeInformationResponse b key (if b then ''21820'' else [])
      else GetClientInformationResponse b key)"

text \<open>
  The handler of the requests for information, with its errors, which are answered and do not end it; the
  number counts the keys made.
\<close>

fun info_step :: "'k wgtypes \<Rightarrow> job \<Rightarrow> stage \<Rightarrow> byte_disk \<Rightarrow> nat \<Rightarrow> stage \<times> rpc_reply list \<times> byte_disk \<times> nat" where
  "info_step W j Starts d n =
     (case b_GetRVpnState d of
        (r, d) \<Rightarrow>
          (let rVPNState = (case r of Inl err \<Rightarrow> empty_RVpnState | Inr s \<Rightarrow> s);
               complaint = (case r of Inl err \<Rightarrow> [answer j False []] | Inr s \<Rightarrow> []) in
           if st_PublicKey rVPNState = []
           then (case GenerateKeyPair W n of
                   (privateKey, publicKey, err) \<Rightarrow>
                     (Loaded (rVPNState\<lparr>st_PrivateKey := privateKey, st_PublicKey := publicKey\<rparr>),
                      complaint @ (if err \<noteq> None then [answer j False []] else []), d, Suc n))
           else (Ended True, complaint @ [answer j True (st_PublicKey rVPNState)], d, n)))"
| "info_step W j (Loaded s) d n =
     (case b_OpenTrunc d of
        (Inl e, d) \<Rightarrow> (Ended True, [answer j False [], answer j True (st_PublicKey s)], d, n)
      | (Inr _, d) \<Rightarrow> (Opened s, [], d, n))"
| "info_step W j (Opened s) d n =
     (case b_write (json_Marshal s) d of
        (r, d) \<Rightarrow>
          (Ended True,
           (if length (json_Marshal s) \<le> 4096 \<or> r = Inr () then [] else [answer j False []]) @
             [answer j True (st_PublicKey s)], d, n))"
| "info_step W j (Ended b) d n = (Ended b, [], d, n)"

record race =
  r_disk :: byte_disk
  r_keys :: nat
  r_threads :: "(job \<times> stage) list"
  r_replies :: "(nat \<times> rpc_reply) list"

fun thread_step :: "'k wgtypes \<Rightarrow> job \<Rightarrow> stage \<Rightarrow> byte_disk \<Rightarrow> nat \<Rightarrow> stage \<times> rpc_reply list \<times> byte_disk \<times> nat" where
  "thread_step W (Login_job token) st d n = (case login_step token st d of (st, d) \<Rightarrow> (st, [], d, n))"
| "thread_step W j st d n = info_step W j st d n"

definition race_step :: "'k wgtypes \<Rightarrow> nat \<Rightarrow> race \<Rightarrow> race" where
  "race_step W i w =
     (if i < length (r_threads w)
      then (case r_threads w ! i of
              (j, st) \<Rightarrow>
                (case thread_step W j st (r_disk w) (r_keys w) of
                   (st, replies, d, n) \<Rightarrow>
                     \<lparr>r_disk = d, r_keys = n, r_threads = (r_threads w)[i := (j, st)],
                      r_replies = r_replies w @ map (Pair i) replies\<rparr>))
      else w)"

text \<open>A schedule says which thread makes the next step.\<close>

definition run_race :: "'k wgtypes \<Rightarrow> nat list \<Rightarrow> race \<Rightarrow> race" where
  "run_race W sched w = fold (race_step W) sched w"

definition race_start :: "RVpnState \<Rightarrow> job list \<Rightarrow> race" where
  "race_start s jobs =
     \<lparr>r_disk = \<lparr>b_dir = True, b_file = Some (json_Marshal s), b_calls = []\<rparr>, r_keys = 0,
      r_threads = map (\<lambda>j. (j, Starts)) jobs, r_replies = []\<rparr>"

section \<open>A text over another\<close>

text \<open>What is left of a longer text after a shorter one makes the file unreadable.\<close>

lemma Unmarshal_overlaid:
  assumes "ascii_state s" and "r \<noteq> []" and "last r = CHR ''}''"
  shows "json_Unmarshal (json_Marshal s @ r) v = v"
proof -
  have "\<not> list_all white r" using last_in_set [OF assms(2)] assms(3) by (auto simp: list_all_iff intro: bexI [of _ "last r"])
  then have "parse_json (json_Marshal s @ r) = None"
    using parse_json_followed state_json_facts(1,3) [OF assms(1)] by (simp add: json_Marshal_def)
  then show ?thesis by (simp add: json_Unmarshal_def Unmarshal_def)
qed

lemma Marshal_ends: "json_Marshal s \<noteq> []" "last (json_Marshal s) = CHR ''}''"
  by (simp_all add: json_Marshal_tokens state_json_def text_of_def)


section \<open>The invariant\<close>

text \<open>A state that is made of whole pieces: its keys belong together, and its token is one of those around.\<close>

definition key_pairs :: "'k wgtypes \<Rightarrow> RVpnState \<Rightarrow> (string \<times> string) set" where
  "key_pairs W s0 =
     {(st_PrivateKey s0, st_PublicKey s0), ([], [])} \<union> {(prv, pub). \<exists>n err. GenerateKeyPair W n = (prv, pub, err)}"

definition tokens_around :: "RVpnState \<Rightarrow> job list \<Rightarrow> string set" where
  "tokens_around s0 jobs = {ControlPlaneAuth s0, []} \<union> {t. Login_job t \<in> set jobs}"

definition unmixed :: "'k wgtypes \<Rightarrow> RVpnState \<Rightarrow> job list \<Rightarrow> RVpnState \<Rightarrow> bool" where
  "unmixed W s0 jobs s \<longleftrightarrow>
     ascii_state s \<and> (st_PrivateKey s, st_PublicKey s) \<in> key_pairs W s0 \<and> ControlPlaneAuth s \<in> tokens_around s0 jobs"

text \<open>The library for keys, and the logins, give ASCII texts.\<close>

definition ascii_keys :: "'k wgtypes \<Rightarrow> bool" where
  "ascii_keys W \<longleftrightarrow> (\<forall>n. case GenerateKeyPair W n of (prv, pub, err) \<Rightarrow> ascii prv \<and> ascii pub)"

definition ascii_logins :: "job list \<Rightarrow> bool" where
  "ascii_logins jobs \<longleftrightarrow> list_all (\<lambda>j. case j of Login_job t \<Rightarrow> ascii t | _ \<Rightarrow> True) jobs"

text \<open>A file is empty, or a whole text with what another, longer one has left behind it.\<close>

definition file_of :: "(RVpnState \<Rightarrow> bool) \<Rightarrow> string \<Rightarrow> bool" where
  "file_of P f \<longleftrightarrow> f = [] \<or> (\<exists>s r. f = json_Marshal s @ r \<and> P s \<and> (r = [] \<or> last r = CHR ''}''))"

fun stage_of :: "(RVpnState \<Rightarrow> bool) \<Rightarrow> stage \<Rightarrow> bool" where
  "stage_of P (Loaded s) = P s"
| "stage_of P (Opened s) = P s"
| "stage_of P st = True"

definition race_inv :: "'k wgtypes \<Rightarrow> RVpnState \<Rightarrow> job list \<Rightarrow> race \<Rightarrow> bool" where
  "race_inv W s0 jobs w \<longleftrightarrow>
     b_dir (r_disk w) \<and> b_calls (r_disk w) = [] \<and>
     (\<exists>f. b_file (r_disk w) = Some f \<and> file_of (unmixed W s0 jobs) f) \<and>
     map fst (r_threads w) = jobs \<and> list_all (\<lambda>(j, st). stage_of (unmixed W s0 jobs) st) (r_threads w)"

lemma unmixed_empty: "unmixed W s0 jobs empty_RVpnState"
  by (simp add: unmixed_def ascii_state_def ascii_def key_pairs_def tokens_around_def empty_RVpnState_def)

lemma unmixed_login: "unmixed W s0 jobs s \<Longrightarrow> Login_job t \<in> set jobs \<Longrightarrow> ascii_logins jobs \<Longrightarrow> unmixed W s0 jobs (s\<lparr>ControlPlaneAuth := t\<rparr>)"
  by (auto simp: unmixed_def ascii_state_def tokens_around_def ascii_logins_def list_all_iff)

lemma unmixed_keys:
  "unmixed W s0 jobs s \<Longrightarrow> ascii_keys W \<Longrightarrow> GenerateKeyPair W n = (prv, pub, err) \<Longrightarrow>
     unmixed W s0 jobs (s\<lparr>st_PrivateKey := prv, st_PublicKey := pub\<rparr>)"
  by (auto simp: unmixed_def ascii_state_def key_pairs_def ascii_keys_def split: prod.splits)

lemma read_file_of:
  assumes "file_of (unmixed W s0 jobs) f"
  shows "unmixed W s0 jobs (json_Unmarshal f empty_RVpnState)"
proof (cases "f = []")
  case False
  then obtain s r where f: "f = json_Marshal s @ r" "unmixed W s0 jobs s" "r = [] \<or> last r = CHR ''}''"
    using assms by (auto simp: file_of_def)
  then have s: "ascii_state s" by (simp add: unmixed_def)
  show ?thesis
  proof (cases "r = []")
    case True
    then show ?thesis using f Unmarshal_Marshal [OF s] by simp
  next
    case False
    then show ?thesis using f Unmarshal_overlaid [OF s False] unmixed_empty by simp
  qed
qed (simp add: unmixed_empty)

lemma file_of_overlay:
  assumes "P s" and "file_of P f"
  shows "file_of P (overlay (json_Marshal s) f)"
proof -
  let ?r = "drop (length (json_Marshal s)) f"
  have "last ?r = CHR ''}''" if "?r \<noteq> []"
    using that assms(2) Marshal_ends by (auto simp: file_of_def last_drop last_append)
  then show ?thesis using assms(1) unfolding file_of_def overlay_def by blast
qed


definition disk_ok :: "(RVpnState \<Rightarrow> bool) \<Rightarrow> byte_disk \<Rightarrow> bool" where
  "disk_ok P d \<longleftrightarrow> b_dir d \<and> b_calls d = [] \<and> (\<exists>f. b_file d = Some f \<and> file_of P f)"

lemma file_runs:
  assumes "b_dir d" "b_calls d = []" "b_file d = Some f"
  shows "b_GetRVpnState d = (Inr (json_Unmarshal f empty_RVpnState), d)"
    "b_OpenTrunc d = (Inr (), d\<lparr>b_file := Some []\<rparr>)"
    "b_write t d = (Inr (), d\<lparr>b_file := Some (overlay t f)\<rparr>)"
  using assms
  by (simp_all add: b_GetRVpnState_def getRVpnStatePath_def b_ReadFile_def b_OpenTrunc_def b_write_def b_syscall_def
      and_then_def ok_def)

lemma thread_step_inv:
  assumes "ascii_keys W" "ascii_logins jobs" "j \<in> set jobs" "disk_ok (unmixed W s0 jobs) d"
    "stage_of (unmixed W s0 jobs) st" and run: "thread_step W j st d n = (st', rs, d', n')"
  shows "disk_ok (unmixed W s0 jobs) d' \<and> stage_of (unmixed W s0 jobs) st'"
proof -
  obtain f where f: "b_dir d" "b_calls d = []" "b_file d = Some f" "file_of (unmixed W s0 jobs) f"
    using assms(4) by (auto simp: disk_ok_def)
  note runs = file_runs [OF f(1-3)]
  have read: "unmixed W s0 jobs (json_Unmarshal f empty_RVpnState)" by (rule read_file_of [OF f(4)])
  show ?thesis
  proof (cases st)
    case Starts
    then show ?thesis
      using run assms(1-4) read unmixed_login [OF read] unmixed_keys [OF read]
      by (cases j) (auto simp: runs Let_def split: if_splits prod.splits)
  next
    case (Loaded s)
    have "file_of (unmixed W s0 jobs) []" by (simp add: file_of_def)
    then show ?thesis using run Loaded assms(5) f by (cases j) (auto simp: runs disk_ok_def)
  next
    case (Opened s)
    then have "file_of (unmixed W s0 jobs) (overlay (json_Marshal s) f)"
      using assms(5) f(4) by (auto intro: file_of_overlay)
    then show ?thesis using run Opened f by (cases j) (auto simp: runs disk_ok_def)
  next
    case (Ended b)
    then show ?thesis using run assms(4) by (cases j) auto
  qed
qed

lemma race_inv_alt:
  "race_inv W s0 jobs w \<longleftrightarrow> disk_ok (unmixed W s0 jobs) (r_disk w) \<and> map fst (r_threads w) = jobs \<and>
     (\<forall>(j, st) \<in> set (r_threads w). stage_of (unmixed W s0 jobs) st)"
  by (auto simp: race_inv_def disk_ok_def list_all_iff)

lemma race_step_inv:
  assumes "ascii_keys W" "ascii_logins jobs" "race_inv W s0 jobs w"
  shows "race_inv W s0 jobs (race_step W i w)"
proof (cases "i < length (r_threads w)")
  case True
  obtain j st where th: "r_threads w ! i = (j, st)" by fastforce
  obtain st' rs d n where run: "thread_step W j st (r_disk w) (r_keys w) = (st', rs, d, n)"
    by (cases "thread_step W j st (r_disk w) (r_keys w)") auto
  have mem: "(j, st) \<in> set (r_threads w)" using True th nth_mem by metis
  then have "j \<in> set jobs" "stage_of (unmixed W s0 jobs) st"
    using assms(3) by (force simp: race_inv_alt)+
  with thread_step_inv [OF assms(1,2) _ _ _ run] assms(3)
  have "disk_ok (unmixed W s0 jobs) d" "stage_of (unmixed W s0 jobs) st'" by (auto simp: race_inv_alt)
  moreover have "map fst ((r_threads w)[i := (j, st')]) = map fst (r_threads w)"
    using True th by (simp add: map_update list_update_same_conv)
  ultimately show ?thesis
    using assms(3) True th run set_update_subset_insert [of "r_threads w" i "(j, st')"]
    by (auto simp: race_step_def race_inv_alt)
qed (use assms in \<open>simp add: race_step_def\<close>)


interpretation race: stepper "race_step W" "\<lambda>w. ascii_keys W \<and> ascii_logins jobs \<and> race_inv W s0 jobs w" for W s0 jobs
  by unfold_locales (auto intro: race_step_inv)

lemma race_start_inv: "ascii_state s0 \<Longrightarrow> race_inv W s0 jobs (race_start s0 jobs)"
  by (auto simp: race_inv_def race_start_def file_of_def unmixed_def key_pairs_def tokens_around_def list_all_iff comp_def
      intro!: exI [of _ s0])


definition lab_pair :: "nat wgtypes" where
  "lab_pair = \<lparr>GeneratePrivateKey = Inr, key_String = (\<lambda>n. ''private''), PublicKey_String = (\<lambda>n. ''public'')\<rparr>"

lemma lab_pair_keys: "GenerateKeyPair lab_pair n = (''private'', ''public'', None)" "ascii_keys lab_pair"
  by (simp_all add: lab_pair_def GenerateKeyPair_def ascii_keys_def ascii_def)


text \<open>
  C34: A login can make the daemon report a key it does not have.  Whatever the state is at the beginning,
  there is an order of the steps in which the login succeeds, the control plane is answered once and with
  success, and the key it was told is not the key in the file.
\<close>

theorem login_race_reports_lost_key:
  assumes "ascii_state s0" and "ascii token"
    and "GenerateKeyPair W 0 = (prv, pub, None)" and "ascii prv" and "ascii pub" and "pub \<noteq> []"
    and "pub \<noteq> st_PublicKey s0"
  shows "\<exists>sched w s. run_race W sched (race_start s0 [Login_job token, ClientInfo_job]) = w \<and>
    r_threads w = [(Login_job token, Ended True), (ClientInfo_job, Ended True)] \<and>
    r_replies w = [(1, GetClientInformationResponse True pub)] \<and>
    b_GetRVpnState (r_disk w) = (Inr s, r_disk w) \<and> st_PublicKey s \<noteq> pub"
proof (cases "st_PublicKey s0 = []")
  case True
  let ?s1 = "s0\<lparr>st_PrivateKey := prv, st_PublicKey := pub\<rparr>" and ?s2 = "s0\<lparr>ControlPlaneAuth := token\<rparr>"
  have s2: "ascii_state ?s2" using assms(1,2) by (simp add: ascii_state_def)
  have "run_race W [0, 1, 1, 1, 0, 0] (race_start s0 [Login_job token, ClientInfo_job]) =
    \<lparr>r_disk = \<lparr>b_dir = True, b_file = Some (json_Marshal ?s2), b_calls = []\<rparr>, r_keys = 1,
     r_threads = [(Login_job token, Ended True), (ClientInfo_job, Ended True)],
     r_replies = [(1, GetClientInformationResponse True pub)]\<rparr>"
    using True
    by (simp add: run_race_def race_start_def race_step_def file_runs Unmarshal_Marshal [OF assms(1)] assms(3) answer_def
        Let_def)
  then show ?thesis
    using True assms(6) Unmarshal_Marshal [OF s2]
    by (intro exI [of _ "[0, 1, 1, 1, 0, 0]"] exI [of _ ?s2] exI) (auto simp: file_runs)
next
  case False
  let ?s1 = "empty_RVpnState\<lparr>st_PrivateKey := prv, st_PublicKey := pub\<rparr>" and ?s2 = "s0\<lparr>ControlPlaneAuth := token\<rparr>"
  let ?f = "overlay (json_Marshal ?s2) (json_Marshal ?s1)"
  have s1: "ascii_state ?s1" using assms(4,5) by (simp add: ascii_state_def empty_RVpnState_def ascii_def)
  have s2: "ascii_state ?s2" using assms(1,2) by (simp add: ascii_state_def)
  have "run_race W [0, 0, 1, 1, 1, 0] (race_start s0 [Login_job token, ClientInfo_job]) =
    \<lparr>r_disk = \<lparr>b_dir = True, b_file = Some ?f, b_calls = []\<rparr>, r_keys = 1,
     r_threads = [(Login_job token, Ended True), (ClientInfo_job, Ended True)],
     r_replies = [(1, GetClientInformationResponse True pub)]\<rparr>"
    by (simp add: run_race_def race_start_def race_step_def file_runs Unmarshal_Marshal [OF assms(1)] assms(3) answer_def
        Let_def empty_RVpnState_def)
  moreover have "st_PublicKey (json_Unmarshal ?f empty_RVpnState) \<noteq> pub"
  proof (cases "drop (length (json_Marshal ?s2)) (json_Marshal ?s1) = []")
    case True
    then show ?thesis using Unmarshal_Marshal [OF s2] assms(7) by (simp add: overlay_def)
  next
    case False
    then show ?thesis
      using Unmarshal_overlaid [OF s2 False] Marshal_ends(2) [of ?s1] assms(6)
      by (simp add: overlay_def last_drop empty_RVpnState_def)
  qed
  ultimately show ?thesis
    by (intro exI [of _ "[0, 0, 1, 1, 1, 0]"] exI [of _ "json_Unmarshal ?f empty_RVpnState"] exI) (auto simp: file_runs)
qed


theorem login_race_reports_lost_key_witness:
  "let s0 = empty_RVpnState\<lparr>ControlPlaneAuth := ''old'', st_PrivateKey := ''mine'', st_PublicKey := ''known''\<rparr> in
   ascii_state s0 \<and>
   (\<exists>sched w s. run_race lab_pair sched (race_start s0 [Login_job ''new'', ClientInfo_job]) = w \<and>
      r_threads w = [(Login_job ''new'', Ended True), (ClientInfo_job, Ended True)] \<and>
      r_replies w = [(1, GetClientInformationResponse True ''public'')] \<and>
      b_GetRVpnState (r_disk w) = (Inr s, r_disk w) \<and> st_PublicKey s \<noteq> ''public'')"
proof -
  let ?s0 = "empty_RVpnState\<lparr>ControlPlaneAuth := ''old'', st_PrivateKey := ''mine'', st_PublicKey := ''known''\<rparr>"
  have s0: "ascii_state ?s0" by (simp add: ascii_state_def empty_RVpnState_def ascii_def)
  have texts: "ascii ''new''" "ascii ''private''" "ascii ''public''" by (simp_all add: ascii_def)
  show ?thesis
    unfolding Let_def
    by (intro conjI s0 login_race_reports_lost_key [OF s0 texts(1) lab_pair_keys(1) texts(2,3)]) simp_all
qed

section \<open>A thread alone\<close>

text \<open>Opening and writing, with nothing between, are \<open>SetRVpnState\<close>; three steps are the handler.\<close>

lemma b_SetRVpnState_steps:
  "b_SetRVpnState s d =
     (case b_OpenTrunc d of
        (Inl e, d) \<Rightarrow> (Inl e, d)
      | (Inr _, d) \<Rightarrow>
          (case b_write (json_Marshal s) d of (r, d) \<Rightarrow> (if length (json_Marshal s) \<le> 4096 then Inr () else r, d)))"
  by (auto simp: b_SetRVpnState_def getRVpnStatePath_def b_Write_def b_Flush_def and_then_def drop_error_def ok_def
      Let_def split: prod.split sum.split)

definition info_alone :: "'k wgtypes \<Rightarrow> job \<Rightarrow> byte_disk \<Rightarrow> nat \<Rightarrow> race" where
  "info_alone W j d n =
     run_race W [0, 0, 0] \<lparr>r_disk = d, r_keys = n, r_threads = [(j, Starts)], r_replies = []\<rparr>"

fun request_for :: "job \<Rightarrow> request" where
  "request_for ServeInfo_job = rq_GetServeInformation"
| "request_for j = rq_GetClientInformation"

fun is_info :: "job \<Rightarrow> bool" where
  "is_info (Login_job t) = False"
| "is_info j = True"

lemma race_step_one:
  "race_step W 0 \<lparr>r_disk = d, r_keys = n, r_threads = [(j, st)], r_replies = rs\<rparr> =
     (case thread_step W j st d n of
        (st, replies, d, n) \<Rightarrow> \<lparr>r_disk = d, r_keys = n, r_threads = [(j, st)], r_replies = rs @ map (Pair 0) replies\<rparr>)"
  by (simp add: race_step_def)

lemma thread_step_info: "is_info j \<Longrightarrow> thread_step W j st d n = info_step W j st d n"
  by (cases j) simp_all

lemma info_alone_steps:
  assumes "is_info j" and "b_GetRVpnState d = (r, d1)"
    and "s = (case r of Inl e \<Rightarrow> empty_RVpnState | Inr s \<Rightarrow> s)" and "cs = (case r of Inl e \<Rightarrow> [answer j False []] | Inr s \<Rightarrow> [])"
  shows "st_PublicKey s \<noteq> [] \<Longrightarrow> info_alone W j d n =
      \<lparr>r_disk = d1, r_keys = n, r_threads = [(j, Ended True)],
       r_replies = map (Pair 0) (cs @ [answer j True (st_PublicKey s)])\<rparr>"
    and "st_PublicKey s = [] \<Longrightarrow> GenerateKeyPair W n = (prv, pub, err) \<Longrightarrow>
      b_SetRVpnState (s\<lparr>st_PrivateKey := prv, st_PublicKey := pub\<rparr>) d1 = (q, d2) \<Longrightarrow> info_alone W j d n =
      \<lparr>r_disk = d2, r_keys = Suc n, r_threads = [(j, Ended True)],
       r_replies = map (Pair 0) (cs @ (if err \<noteq> None then [answer j False []] else []) @
         (if q = Inr () then [] else [answer j False []]) @ [answer j True pub])\<rparr>"
proof -
  note steps = info_alone_def run_race_def race_step_one thread_step_info [OF assms(1)]
  show "info_alone W j d n =
      \<lparr>r_disk = d1, r_keys = n, r_threads = [(j, Ended True)],
       r_replies = map (Pair 0) (cs @ [answer j True (st_PublicKey s)])\<rparr>" if "st_PublicKey s \<noteq> []"
    using that by (simp add: steps assms(2) flip: assms(3,4))
  show "info_alone W j d n =
      \<lparr>r_disk = d2, r_keys = Suc n, r_threads = [(j, Ended True)],
       r_replies = map (Pair 0) (cs @ (if err \<noteq> None then [answer j False []] else []) @
         (if q = Inr () then [] else [answer j False []]) @ [answer j True pub])\<rparr>"
    if "st_PublicKey s = []" "GenerateKeyPair W n = (prv, pub, err)"
      "b_SetRVpnState (s\<lparr>st_PrivateKey := prv, st_PublicKey := pub\<rparr>) d1 = (q, d2)"
    using that
    by (cases "b_OpenTrunc d1"; cases "fst (b_OpenTrunc d1)")
      (auto simp: steps assms(2) b_SetRVpnState_steps split: prod.splits simp flip: assms(3,4))
qed


lemma Handle_info:
  assumes "is_info j"
  shows "Handle W G h c (request_for j) =
    bind (load_state c (answer j False [])) (\<lambda>rVPNState.
    bind (ensure_keys W c (answer j False []) rVPNState) (\<lambda>rVPNState.
      reply c (answer j True (st_PublicKey rVPNState))))"
  using assms
  by (cases j) (simp_all add: handle_GetClientInformation_def handle_GetServeInformation_def answer_def Let_def)

lemma read_ascii:
  assumes "b_GetRVpnState d = (Inr s, d1)" and "\<And>f. b_file d = Some f \<Longrightarrow> ascii_state (json_Unmarshal f empty_RVpnState)"
  shows "ascii_state s"
  using assms(1)
  by (auto simp: b_GetRVpnState_def getRVpnStatePath_def b_ReadFile_def and_then_def ok_def assms(2)
      split: prod.splits sum.splits elim!: b_syscall_cases split: option.splits)

lemma load_simulated:
  assumes "b_GetRVpnState d = (r, d1)" and "c \<notin> set (closed p)"
  shows "\<exists>fs. load_state c a (p\<lparr>state_disk := disk_of (fs @ rest) d, keys_made := n\<rparr>) =
    (Return (case r of Inl e \<Rightarrow> empty_RVpnState | Inr s \<Rightarrow> s),
     p\<lparr>state_disk := disk_of rest d1, keys_made := n,
       sent := sent p @ map (Pair c) (case r of Inl e \<Rightarrow> [a] | Inr s \<Rightarrow> [])\<rparr>)"
proof -
  obtain fs where "GetRVpnState (disk_of (fs @ rest) d) = (r, disk_of rest d1)"
    using simulates_Get assms(1) unfolding simulates_def by blast
  then show ?thesis using assms(2)
    by (intro exI [of _ fs]) (cases r; simp add: load_state_def on_disk_def prog_run)
qed

text \<open>
  C15: The threads are the daemon's handlers, cut at the system calls on the file: one that runs alone, on any
  file and with any failures of its calls, is a run of the handler of the daemon, with the same answers, the
  same keys made and the state the file is left with, under some script of faults.
\<close>

theorem info_alone_refines:
  assumes "is_info j" and "ascii_keys W" and "c \<notin> set (closed p)"
    and "\<And>f. b_file d = Some f \<Longrightarrow> ascii_state (json_Unmarshal f empty_RVpnState)"
  shows "\<exists>fs. Handle W G h c (request_for j) (p\<lparr>state_disk := disk_of fs d, keys_made := n\<rparr>) =
      (Return (), p\<lparr>state_disk := disk_of [] (r_disk (info_alone W j d n)), keys_made := r_keys (info_alone W j d n),
         sent := sent p @ map (\<lambda>(i, r). (c, r)) (r_replies (info_alone W j d n))\<rparr>) \<and>
    r_threads (info_alone W j d n) = [(j, Ended True)]"
proof -
  obtain r d1 where r: "b_GetRVpnState d = (r, d1)" by fastforce
  define s where "s = (case r of Inl e \<Rightarrow> empty_RVpnState | Inr s \<Rightarrow> s)"
  define cs where "cs = (case r of Inl e \<Rightarrow> [answer j False []] | Inr s \<Rightarrow> [])"
  note alone = info_alone_steps [OF assms(1) r s_def cs_def, of W n]
  note load = load_simulated [OF r assms(3), where a = "answer j False []", folded s_def cs_def]
  show ?thesis
  proof (cases "st_PublicKey s = []")
    case False
    obtain fs where "load_state c (answer j False []) (p\<lparr>state_disk := disk_of (fs @ []) d, keys_made := n\<rparr>) =
        (Return s, p\<lparr>state_disk := disk_of [] d1, keys_made := n, sent := sent p @ map (Pair c) cs\<rparr>)"
      using load [where rest = "[]"] by blast
    then show ?thesis using False assms(3)
      by (intro exI [of _ fs])
        (simp add: Handle_info [OF assms(1)] bind_step alone(1) ensure_keys_def ret_def comp_def)
  next
    case True
    obtain prv pub err where g: "GenerateKeyPair W n = (prv, pub, err)" by (cases "GenerateKeyPair W n") auto
    let ?s = "s\<lparr>st_PrivateKey := prv, st_PublicKey := pub\<rparr>"
    obtain q d2 where q: "b_SetRVpnState ?s d1 = (q, d2)" by fastforce
    have "ascii_state s"
      using read_ascii [of d s d1] r assms(4) by (cases r) (auto simp: s_def ascii_state_def empty_RVpnState_def ascii_def)
    then have "ascii_state ?s"
      using assms(2) g by (auto simp: ascii_state_def ascii_keys_def dest: spec [of _ n])
    from simulates_Set [OF this] q obtain gs where set_state: "SetRVpnState ?s (disk_of gs d1) = (q, disk_of [] d2)"
      unfolding simulates_def by (metis append_Nil2)
    obtain fs where "load_state c (answer j False []) (p\<lparr>state_disk := disk_of (fs @ gs) d, keys_made := n\<rparr>) =
        (Return s, p\<lparr>state_disk := disk_of gs d1, keys_made := n, sent := sent p @ map (Pair c) cs\<rparr>)"
      using load [where rest = gs] by blast
    then show ?thesis using True assms(3) g q set_state
      by (intro exI [of _ "fs @ gs"])
        (cases q; cases err; simp add: Handle_info [OF assms(1)] bind_step alone(2) ensure_keys_def next_key_pair_def
          on_disk_def prog_run Let_def comp_def)
  qed
qed


theorem info_alone_refines_witness:
  "let d = \<lparr>b_dir = True, b_file = Some [], b_calls = [Works, Works, Fails 3]\<rparr>;
       p = new_process () \<lparr>dir_exists = True, state_file = None, faults = []\<rparr> in
   is_info ServeInfo_job \<and> ascii_keys lab_pair \<and> closed p = [] \<and>
   (\<forall>G :: unit wireguard. \<forall>h. \<exists>fs.
      Handle lab_pair G h 0 (request_for ServeInfo_job) (p\<lparr>state_disk := disk_of fs d, keys_made := 0\<rparr>) =
        (Return (), p\<lparr>state_disk := disk_of [] (r_disk (info_alone lab_pair ServeInfo_job d 0)),
           keys_made := r_keys (info_alone lab_pair ServeInfo_job d 0),
           sent := sent p @ map (\<lambda>(i, r). (0, r)) (r_replies (info_alone lab_pair ServeInfo_job d 0))\<rparr>) \<and>
      r_threads (info_alone lab_pair ServeInfo_job d 0) = [(ServeInfo_job, Ended True)])"
proof -
  let ?d = "\<lparr>b_dir = True, b_file = Some [], b_calls = [Works, Works, Fails 3]\<rparr>"
  let ?p = "new_process () \<lparr>dir_exists = True, state_file = None, faults = []\<rparr>"
  have j: "is_info ServeInfo_job" by simp
  have c: "0 \<notin> set (closed ?p)" by (simp add: new_process_def)
  have f: "ascii_state (json_Unmarshal f empty_RVpnState)" if "b_file ?d = Some f" for f
    using that by (auto simp: ascii_state_def empty_RVpnState_def ascii_def)
  show ?thesis
    unfolding Let_def
    by (intro conjI allI j lab_pair_keys(2) info_alone_refines [OF j lab_pair_keys(2) c f]) (simp_all add: new_process_def)
qed

end
