(* ===== verification/Daemon_Race.thy ===== *)
theory Daemon_Race
  imports Client_Props Wg_Contract
begin

text \<open>
  The handlers of the daemon (\<open>daemon/daemon.go\<close>, \<open>daemon/daemon_linux.go\<close>) cut into their statements.
  A request of the control plane is handled in the goroutine of its connection and a disconnection in that
  of the client's RPC connection; both work on the fields of one daemon and take no lock, and closing the
  connection does not wait for the handler.  Between any two statements of one the other may run.  A call of
  the WireGuard daemon is one statement.
\<close>

section \<open>The statements\<close>

datatype statement =
    Complain bool
  | ConfigureClient ClientWgConfig string
  | ConfigureServe ServeWgConfig
  | SetStatus RVPNStatus
  | ReplySuccess
  | StartBeat
  | LeaveTunnel
  | CloseConn
  | CancelCtx

text \<open>What a statement does in a handler of connection \<open>c\<close>.\<close>

fun exec_statement :: "'w wireguard \<Rightarrow> nat \<Rightarrow> statement \<Rightarrow> ('w process, unit) prog" where
  "exec_statement G c (Complain b) = complain_if b c"
| "exec_statement G c (ConfigureClient conf addr) = on_wg (wg_UpdateClientConf G conf addr)"
| "exec_statement G c (ConfigureServe conf) = on_wg (wg_UpdateServeConf G conf)"
| "exec_statement G c (SetStatus st) = set_rvpn (\<lambda>r. r\<lparr>status := st\<rparr>)"
| "exec_statement G c ReplySuccess = reply c (SuccessResponse True)"
| "exec_statement G c StartBeat = beat c"
| "exec_statement G c LeaveTunnel = on_wg (wg_Disconnect G)"
| "exec_statement G c CloseConn = close_conn"
| "exec_statement G c CancelCtx = cancel_ctx"

definition run_statements :: "'w wireguard \<Rightarrow> nat \<Rightarrow> statement list \<Rightarrow> ('w process, unit) prog" where
  "run_statements G c ss = each (exec_statement G c) ss"

text \<open>
  The handlers of ConnectServer and ServeVPN once they hold the state of the device and the request, and
  the disconnection.
\<close>

definition connect_statements :: "RVpnState \<Rightarrow> jrpcHandler \<Rightarrow> ConnectServerRequest \<Rightarrow> statement list" where
  "connect_statements rVPNState h r =
     [Complain (ClientPublicKey r \<noteq> st_PublicKey rVPNState),
      ConfigureClient (user_config rVPNState r) (controlPlaneAddr h),
      SetStatus StatusConnected, ReplySuccess, StartBeat]"

definition serve_statements :: "RVpnState \<Rightarrow> ServeVPNRequest \<Rightarrow> statement list" where
  "serve_statements rVPNState r =
     [Complain (sv_ServerPublicKey r \<noteq> st_PublicKey rVPNState),
      ConfigureServe (serve_config rVPNState r),
      SetStatus StatusServing, ReplySuccess, StartBeat]"

definition disconnect_statements :: "statement list" where
  "disconnect_statements = [LeaveTunnel, CloseConn, CancelCtx, SetStatus StatusDisconnected]"

lemmas statement_lists = connect_statements_def serve_statements_def disconnect_statements_def

lemma then_do_ret: "then_do m (ret ()) = m"
  by (rule ext) (auto simp: then_do_def bind_def ret_def split: prod.splits exec.splits)

lemma then_do_assoc: "then_do (then_do a b) m = then_do a (then_do b m)"
  by (rule ext) (auto simp: then_do_def bind_def split: prod.splits exec.splits)

text \<open>Run without interruption the statements are the handlers.\<close>

lemma handlers_are_statements:
  "handle_ConnectServer G h c params =
     bind (load_state c (SuccessResponse False)) (\<lambda>s.
       then_do (complain_if (st_PublicKey s = [] \<or> st_PrivateKey s = []) c)
         (bind (unmarshal c params) (\<lambda>r. run_statements G c (connect_statements s h r))))"
  "can_serve G \<Longrightarrow> serveVPNHandler G c sparams =
     bind (load_state c (SuccessResponse False)) (\<lambda>s.
       then_do (complain_if (st_PublicKey s = [] \<or> st_PrivateKey s = []) c)
         (bind (unmarshal c sparams) (\<lambda>r. run_statements G c (serve_statements s r))))"
  "Disconnect_rpc G = then_do (run_statements G c disconnect_statements) (ret (Inr True))"
  by (simp_all add: handle_ConnectServer_def serveVPNHandler_def Disconnect_rpc_def run_statements_def
      statement_lists then_do_ret then_do_assoc)

section \<open>What they do to the status and the device\<close>

fun effective :: "statement \<Rightarrow> bool" where
  "effective (ConfigureClient conf addr) = True"
| "effective (ConfigureServe conf) = True"
| "effective (SetStatus st) = True"
| "effective LeaveTunnel = True"
| "effective _ = False"

fun device_call :: "'w wireguard \<Rightarrow> statement \<Rightarrow> ('w, unit) prog" where
  "device_call G (ConfigureClient conf addr) = wg_UpdateClientConf G conf addr"
| "device_call G (ConfigureServe conf) = wg_UpdateServeConf G conf"
| "device_call G LeaveTunnel = wg_Disconnect G"
| "device_call G _ = ret ()"

fun effect :: "'w wireguard \<Rightarrow> statement list \<Rightarrow> RVPNStatus \<Rightarrow> 'w \<Rightarrow> (RVPNStatus \<times> 'w) option" where
  "effect G [] st w = Some (st, w)"
| "effect G (SetStatus st' # ss) st w = effect G ss st' w"
| "effect G (s # ss) st w =
     (case device_call G s w of (Return _, w') \<Rightarrow> effect G ss st w' | _ \<Rightarrow> None)"

lemma effect_filter: "effect G (filter effective ss) st w = effect G ss st w"
  by (induction G ss st w rule: effect.induct) (auto simp: ret_def split: prod.splits exec.splits)

text \<open>A daemon that has a device and a channel goes through any statements whose device calls return.\<close>

definition engaged :: "'w process \<Rightarrow> bool" where
  "engaged p \<longleftrightarrow> has_wireguard (rvpn p) \<and> jrpcConn (rvpn p) \<noteq> None \<and> jrpcCtxCancel (rvpn p) \<noteq> None"

lemma exec_statement_run:
  assumes "engaged p" and "effect G [s] (status (rvpn p)) (wireguard p) = Some (st, w)"
  shows "\<exists>p'. exec_statement G c s p = (Return (), p') \<and> engaged p' \<and> status (rvpn p') = st \<and> wireguard p' = w"
  using assms
  by (cases s) (auto simp: engaged_def complain_if_def reply_def beat_def on_wg_def set_rvpn_def close_conn_def
      cancel_ctx_def prog_run split: prod.splits exec.splits)

lemma effect_Cons:
  "effect G (s # ss) st w = Some x \<longleftrightarrow>
     (\<exists>st' w'. effect G [s] st w = Some (st', w') \<and> effect G ss st' w' = Some x)"
  by (cases s) (auto split: prod.splits exec.splits)

lemma statements_run:
  "engaged p \<Longrightarrow> effect G ss (status (rvpn p)) (wireguard p) = Some (st, w) \<Longrightarrow>
     \<exists>p'. run_statements G c ss p = (Return (), p') \<and> status (rvpn p') = st \<and> wireguard p' = w"
proof (induction ss arbitrary: p)
  case Nil
  then show ?case by (simp add: run_statements_def ret_def)
next
  case (Cons s ss)
  from effect_Cons [THEN iffD1, OF Cons.prems(2)] obtain st' w'
    where one: "effect G [s] (status (rvpn p)) (wireguard p) = Some (st', w')"
      and rest: "effect G ss st' w' = Some (st, w)" by blast
  from exec_statement_run [OF Cons.prems(1) one] obtain p1
    where p1: "exec_statement G c s p = (Return (), p1)" "engaged p1" "status (rvpn p1) = st'" "wireguard p1 = w'"
    by blast
  with Cons.IH [OF p1(2)] rest show ?case by (simp add: run_statements_def then_do_step)
qed

section \<open>The interleavings\<close>

lemma effective_parts:
  "filter effective (connect_statements s h r) =
     [ConfigureClient (user_config s r) (controlPlaneAddr h), SetStatus StatusConnected]"
  "filter effective (serve_statements s sr) = [ConfigureServe (serve_config s sr), SetStatus StatusServing]"
  "filter effective disconnect_statements = [LeaveTunnel, SetStatus StatusDisconnected]"
  by (simp_all add: statement_lists)

text \<open>
  The results, as the status and the device, of all interleavings of a handler with a disconnection, when
  the handler makes one device call and sets one status.
\<close>

definition race_results ::
  "'w wireguard \<Rightarrow> nat \<Rightarrow> statement list \<Rightarrow> statement list \<Rightarrow> 'w process \<Rightarrow> (RVPNStatus \<times> 'w) set" where
  "race_results G c as bs p =
     {(status (rvpn p'), wireguard p') | ss p'. ss \<in> shuffles as bs \<and> run_statements G c ss p = (Return (), p')}"

lemma shuffled_effect:
  assumes "engaged p" and "\<forall>ss \<in> shuffles (filter effective as) (filter effective bs).
      \<exists>x. effect G ss (status (rvpn p)) (wireguard p) = Some x"
  shows "\<forall>ss \<in> shuffles as bs. \<exists>p'. run_statements G c ss p = (Return (), p')"
    and "race_results G c as bs p =
      {x. \<exists>ss \<in> shuffles (filter effective as) (filter effective bs).
            effect G ss (status (rvpn p)) (wireguard p) = Some x}"
proof -
  let ?e = "\<lambda>ss. effect G ss (status (rvpn p)) (wireguard p)"
  have im: "shuffles (filter effective as) (filter effective bs) = filter effective ` shuffles as bs"
    by (simp add: filter_shuffles)
  have run: "\<exists>st w p'. ?e ss = Some (st, w) \<and> run_statements G c ss p = (Return (), p') \<and>
      status (rvpn p') = st \<and> wireguard p' = w" if ss: "ss \<in> shuffles as bs" for ss
  proof -
    from ss im have "filter effective ss \<in> shuffles (filter effective as) (filter effective bs)" by simp
    from bspec [OF assms(2) this] obtain st w where "?e ss = Some (st, w)" by (auto simp: effect_filter)
    with statements_run [OF assms(1) this] show ?thesis by blast
  qed
  show "\<forall>ss \<in> shuffles as bs. \<exists>p'. run_statements G c ss p = (Return (), p')" using run by blast
  have "race_results G c as bs p = {x. \<exists>ss \<in> shuffles as bs. ?e ss = Some x}"
    unfolding race_results_def using run by fastforce
  then show "race_results G c as bs p =
      {x. \<exists>ss \<in> shuffles (filter effective as) (filter effective bs). ?e ss = Some x}"
    by (simp add: im effect_filter)
qed

lemma four_results:
  assumes "engaged p" and "filter effective as = [cfg, SetStatus st]" and "effective cfg" and "\<And>x. cfg \<noteq> SetStatus x"
    and "device_call G cfg (wireguard p) = (Return (), up)" and "wg_Disconnect G up = (Return (), up_down)"
    and "wg_Disconnect G (wireguard p) = (Return (), down)" and "device_call G cfg down = (Return (), down_up)"
  shows "\<forall>ss \<in> shuffles as disconnect_statements. \<exists>p'. run_statements G c ss p = (Return (), p')"
    and "race_results G c as disconnect_statements p =
      {(StatusDisconnected, up_down), (st, down_up), (StatusDisconnected, down_up), (st, up_down)}"
proof -
  let ?s = "status (rvpn p)" and ?w = "wireguard p"
  have cfg: "effect G (cfg # ss) x w = (case device_call G cfg w of (Return _, w') \<Rightarrow> effect G ss x w' | _ \<Rightarrow> None)"
    for ss x w using assms(3,4) by (cases cfg) auto
  have six: "shuffles (filter effective as) (filter effective disconnect_statements) =
      {[cfg, SetStatus st, LeaveTunnel, SetStatus StatusDisconnected], [cfg, LeaveTunnel, SetStatus st, SetStatus StatusDisconnected],
       [cfg, LeaveTunnel, SetStatus StatusDisconnected, SetStatus st], [LeaveTunnel, cfg, SetStatus st, SetStatus StatusDisconnected],
       [LeaveTunnel, cfg, SetStatus StatusDisconnected, SetStatus st], [LeaveTunnel, SetStatus StatusDisconnected, cfg, SetStatus st]}"
    unfolding assms(2) effective_parts by (auto simp: insert_commute)
  have "\<forall>ss \<in> shuffles (filter effective as) (filter effective disconnect_statements). \<exists>x. effect G ss ?s ?w = Some x"
    unfolding six by (simp add: cfg assms(5-8))
  note r = shuffled_effect [OF assms(1) this]
  from r(1) show "\<forall>ss \<in> shuffles as disconnect_statements. \<exists>p'. run_statements G c ss p = (Return (), p')" .
  have "x \<in> race_results G c as disconnect_statements p \<longleftrightarrow>
      x = (StatusDisconnected, up_down) \<or> x = (st, down_up) \<or> x = (StatusDisconnected, down_up) \<or> x = (st, up_down)" for x
    unfolding r(2) six by (simp add: cfg assms(5-8)) blast
  then show "race_results G c as disconnect_statements p =
      {(StatusDisconnected, up_down), (st, down_up), (StatusDisconnected, down_up), (st, up_down)}" by blast
qed

lemma keeps_statement [keeps_intros]: "keeps (serving c h) (exec_statement G c s)"
proof (cases s)
  case CloseConn
  then show ?thesis
    by (auto intro!: keepsI simp: close_conn_def prog_run serving_def daemon_inv_def split: option.splits)
next
  case CancelCtx
  then show ?thesis
    by (auto intro!: keepsI simp: cancel_ctx_def prog_run serving_def daemon_inv_def split: option.splits)
qed (auto intro!: keeps_intros)

text \<open>Whatever the interleaving, and wherever it stops, the daemon stays consistent.\<close>

lemma keeps_statements: "keeps (serving c h) (run_statements G c ss)"
  unfolding run_statements_def by (induction ss) (auto intro!: keeps_intros)

lemma serving_engaged: "serving c h p \<Longrightarrow> has_wireguard (rvpn p) \<Longrightarrow> engaged p"
  by (simp add: serving_def daemon_inv_def engaged_def)

lemma race_consistent:
  assumes "serving c h p" and "run_statements G c ss p = (x, p')"
  shows "daemon_inv p'"
  using keepsD [OF keeps_statements assms] by (simp add: serving_def)

lemma connect_race:
  assumes "serving c h p" and "has_wireguard (rvpn p)"
    and "wg_UpdateClientConf G (user_config s r) (controlPlaneAddr h) (wireguard p) = (Return (), up)"
    and "wg_Disconnect G up = (Return (), up_down)" and "wg_Disconnect G (wireguard p) = (Return (), down)"
    and "wg_UpdateClientConf G (user_config s r) (controlPlaneAddr h) down = (Return (), down_up)"
  shows "\<forall>ss \<in> shuffles (connect_statements s h r) disconnect_statements.
      \<exists>p'. run_statements G c ss p = (Return (), p')"
    and "race_results G c (connect_statements s h r) disconnect_statements p =
      {(StatusDisconnected, up_down), (StatusConnected, down_up),
       (StatusDisconnected, down_up), (StatusConnected, up_down)}"
  using four_results [where up = up and up_down = up_down and down = down and down_up = down_up,
      OF serving_engaged [OF assms(1,2)] effective_parts(1)] assms(3-6) by simp_all


text \<open>The same for a request to serve.\<close>

lemma serve_race_results:
  assumes "serving c h p" and "has_wireguard (rvpn p)"
    and "wg_UpdateServeConf G (serve_config s r) (wireguard p) = (Return (), up)"
    and "wg_Disconnect G up = (Return (), up_down)" and "wg_Disconnect G (wireguard p) = (Return (), down)"
    and "wg_UpdateServeConf G (serve_config s r) down = (Return (), down_up)"
  shows "race_results G c (serve_statements s r) disconnect_statements p =
      {(StatusDisconnected, up_down), (StatusServing, down_up),
       (StatusDisconnected, down_up), (StatusServing, up_down)}"
  using four_results(2) [where up = up and up_down = up_down and down = down and down_up = down_up,
      OF serving_engaged [OF assms(1,2)] effective_parts(2)] assms(3-6) by simp

section \<open>The tunnel that nobody takes down\<close>

lemma disconnect_refused:
  "running s \<Longrightarrow> status (rvpn (proc s)) = StatusDisconnected \<Longrightarrow>
     fst (ClientDisconnectProfile G X s) = Fatal \<and> proc (snd (ClientDisconnectProfile G X s)) = proc s"
  by (simp add: ClientDisconnectProfile_def or_exit_step [OF rpc_Dial_run] or_exit_step [OF status_run] die_run)

text \<open>
  \<open>race_strands G routed\<close>: on the platform \<open>G\<close>, whenever the device calls of a request to connect and of a
  disconnection return, the two can be interleaved so that the daemon holds its routes but says it is
  disconnected, with which every further command to disconnect is refused and changes nothing; and so that
  it says it is connected and holds none.
\<close>

definition race_strands :: "'w wireguard \<Rightarrow> ('w \<Rightarrow> bool) \<Rightarrow> bool" where
  "race_strands G routed \<longleftrightarrow>
     (\<forall>c h p s r up up_down down down_up.
        serving c h p \<and> has_wireguard (rvpn p) \<and>
        wg_UpdateClientConf G (user_config s r) (controlPlaneAddr h) (wireguard p) = (Return (), up) \<and>
        wg_Disconnect G up = (Return (), up_down) \<and> wg_Disconnect G (wireguard p) = (Return (), down) \<and>
        wg_UpdateClientConf G (user_config s r) (controlPlaneAddr h) down = (Return (), down_up) \<longrightarrow>
        (\<exists>ss \<in> shuffles (connect_statements s h r) disconnect_statements. \<exists>p'.
           run_statements G c ss p = (Return (), p') \<and>
           status (rvpn p') = StatusDisconnected \<and> routed (wireguard p') \<and>
           (\<forall>X t. running t \<and> proc t = p' \<longrightarrow>
              fst (ClientDisconnectProfile G X t) = Fatal \<and> proc (snd (ClientDisconnectProfile G X t)) = p')) \<and>
        (\<exists>ss \<in> shuffles (connect_statements s h r) disconnect_statements. \<exists>p'.
           run_statements G c ss p = (Return (), p') \<and>
           status (rvpn p') = StatusConnected \<and> \<not> routed (wireguard p')))"

context wg_platform
begin

lemma strands: "race_strands G up"
  unfolding race_strands_def
proof (intro allI impI)
  fix c and h :: jrpcHandler and p :: "'w process" and s and r :: ConnectServerRequest and w_up w_up_down w_down w_down_up
  let ?cfg = "\<lambda>w. wg_UpdateClientConf G (user_config s r) (controlPlaneAddr h) w"
  let ?race = "race_results G c (connect_statements s h r) disconnect_statements p"
  let ?reached = "\<lambda>st w. \<exists>ss \<in> shuffles (connect_statements s h r) disconnect_statements. \<exists>p'.
      run_statements G c ss p = (Return (), p') \<and> status (rvpn p') = st \<and> wireguard p' = w"
  assume *: "serving c h p \<and> has_wireguard (rvpn p) \<and> ?cfg (wireguard p) = (Return (), w_up) \<and>
      wg_Disconnect G w_up = (Return (), w_up_down) \<and> wg_Disconnect G (wireguard p) = (Return (), w_down) \<and>
      ?cfg w_down = (Return (), w_down_up)"
  then have "(StatusDisconnected, w_down_up) \<in> ?race" "(StatusConnected, w_up_down) \<in> ?race"
    using connect_race(2) [of c h p G s r w_up w_up_down w_down w_down_up] by simp_all
  then have "?reached StatusDisconnected w_down_up" "?reached StatusConnected w_up_down"
    unfolding race_results_def mem_Collect_eq prod.inject by metis+
  moreover have "up w_down_up" "\<not> up w_up_down" using * connect_up disconnect_down by blast+
  ultimately show "(\<exists>ss \<in> shuffles (connect_statements s h r) disconnect_statements. \<exists>p'.
         run_statements G c ss p = (Return (), p') \<and>
         status (rvpn p') = StatusDisconnected \<and> up (wireguard p') \<and>
         (\<forall>X t. running t \<and> proc t = p' \<longrightarrow>
            fst (ClientDisconnectProfile G X t) = Fatal \<and> proc (snd (ClientDisconnectProfile G X t)) = p')) \<and>
      (\<exists>ss \<in> shuffles (connect_statements s h r) disconnect_statements. \<exists>p'.
         run_statements G c ss p = (Return (), p') \<and>
         status (rvpn p') = StatusConnected \<and> \<not> up (wireguard p'))"
    using disconnect_refused by metis
qed

end

text \<open>
  C18: On every platform a request to connect that is handled while the client disconnects can leave a
  tunnel behind that the daemon denies and that no later command takes down, and can leave a daemon that
  says it is connected without one.
\<close>

theorem race_strands_tunnel:
  "race_strands (linux_wireguard K) linux_up \<and>
   race_strands (windows_wireguard K') windows_up \<and>
   race_strands (darwin_wireguard K'') darwin_up"
  using linux.strands windows.strands darwin.strands by blast

section \<open>On the small system\<close>

definition lab_back :: "unit host" where
  "lab_back = snd (Wg_Linux.UpdateClientConf lab lab_client ''1.2.3.4'' lab_idle_left)"

lemma lab_comes_back: "Wg_Linux.UpdateClientConf lab lab_client ''1.2.3.4'' lab_idle_left = (Return (), lab_back)"
  unfolding lab_back_def
  by (simp add: lab_idle_left_def lab_started_eq lab_not_serving Wg_Linux_Props.client_eval Wg_Linux.Disconnect_def Wg_Linux.stop_forwarding_def
      Wg_Linux.delete_appended_def Wg_Linux.stopSourceRouting_def)

lemma lab_race:
  "serving 0 lab_handler (lab_running lab_state)" "has_wireguard (rvpn (lab_running lab_state))"
  "wg_UpdateClientConf (linux_wireguard lab) (user_config lab_state (lab_request k)) (controlPlaneAddr lab_handler)
     (wireguard (lab_running lab_state)) = (Return (), lab_connected)"
  "wg_Disconnect (linux_wireguard lab) lab_connected = (Return (), lab_left)"
  "wg_Disconnect (linux_wireguard lab) (wireguard (lab_running lab_state)) = (Return (), lab_idle_left)"
  "wg_UpdateClientConf (linux_wireguard lab) (user_config lab_state (lab_request k)) (controlPlaneAddr lab_handler)
     lab_idle_left = (Return (), lab_back)"
proof -
  have r: "rvpn (lab_running lab_state) = NewRVPNDaemon\<lparr>has_wireguard := True, activeControlPlaneWs := Some 0,
      activeProfile := ''t'', jrpcConn := Some 0, jrpcCtxCancel := Some 0\<rparr>"
    by (simp add: lab_running_def Connect_def open_channel_run lab_dial_def lab_args_def lab_daemon_eq(2) new_process_def)
  show "serving 0 lab_handler (lab_running lab_state)" "has_wireguard (rvpn (lab_running lab_state))"
    by (simp_all add: serving_def daemon_inv_def lab_running_eq r)
qed (simp_all add: lab_running_eq lab_client_config lab_handler_def linux_wireguard_def lab_connects lab_leaves
    lab_idle_leaves lab_comes_back)


theorem race_strands_tunnel_witness:
  "\<exists>ss \<in> shuffles (connect_statements lab_state lab_handler (lab_request ''p1'')) disconnect_statements. \<exists>p'.
     run_statements (linux_wireguard lab) 0 ss (lab_running lab_state) = (Return (), p') \<and>
     status (rvpn p') = StatusDisconnected \<and> linux_up (wireguard p')"
  using conjunct1 [OF race_strands_tunnel [of lab]] lab_race unfolding race_strands_def by blast

end
