(* ===== verification/Daemon_Threads.thy ===== *)
theory Daemon_Threads
  imports Rvpn_Linux
begin

text \<open>
  The daemon with all its goroutines.  A request of the control plane is handled in the goroutine that reads
  its connection, a call of a client in that of the RPC server, which accepts one client at a time
  (\<open>daemon/daemon.go\<close>); nothing is locked.  Here the handlers are threads, cut at every statement that
  touches the daemon, the disk or the WireGuard daemon, and a schedule says which thread goes on.
\<close>

section \<open>Threads\<close>

text \<open>A thread has ended, or makes a step on the shared state and goes on.\<close>

datatype ('s, 'a) thread = Ended "'a exec" | Act "'s \<Rightarrow> ('s, 'a) thread \<times> 's"

primrec t_bind :: "('s, 'a) thread \<Rightarrow> ('a \<Rightarrow> ('s, 'b) thread) \<Rightarrow> ('s, 'b) thread" where
  "t_bind (Ended r) f = (case r of Return x \<Rightarrow> f x | Panic \<Rightarrow> Ended Panic | Fatal \<Rightarrow> Ended Fatal)"
| "t_bind (Act k) f = Act (\<lambda>s. map_prod (\<lambda>t. t_bind t f) id (k s))"

definition t_ret :: "'a \<Rightarrow> ('s, 'a) thread" where
  "t_ret x = Ended (Return x)"

definition t_then :: "('s, 'a) thread \<Rightarrow> ('s, 'b) thread \<Rightarrow> ('s, 'b) thread" where
  "t_then t u = t_bind t (\<lambda>_. u)"

text \<open>A statement, during which nothing else runs.\<close>

definition step :: "('s, 'a) prog \<Rightarrow> ('s, 'a) thread" where
  "step m = Act (\<lambda>s. case m s of (r, s') \<Rightarrow> (Ended r, s'))"

text \<open>A thread that runs to its end with nothing in between.\<close>

primrec alone :: "('s, 'a) thread \<Rightarrow> ('s, 'a) prog" where
  "alone (Ended r) = (\<lambda>s. (r, s))"
| "alone (Act k) = (\<lambda>s. case map_prod alone id (k s) of (m, s') \<Rightarrow> m s')"

named_theorems alone_simps \<open>what a thread does alone\<close>

lemma alone_ret [alone_simps]: "alone (t_ret x) = ret x"
  by (rule ext) (simp add: t_ret_def ret_def)

lemma alone_panic [alone_simps]: "alone (Ended Panic) = panic"
  by (rule ext) (simp add: panic_def)

lemma alone_step [alone_simps]: "alone (step m) = m"
  by (rule ext) (simp add: step_def split: prod.splits)

lemma alone_bind [alone_simps]: "alone (t_bind t f) = bind (alone t) (\<lambda>x. alone (f x))"
proof (induction t)
  case (Ended r)
  then show ?case by (intro ext) (simp add: bind_def panic_def split: exec.split)
next
  case (Act k)
  show ?case
  proof (rule ext)
    fix s
    obtain t s' where k: "k s = (t, s')" by (cases "k s")
    then have "t \<in> Basic_BNFs.fsts (k s)" by simp
    from Act.IH [OF rangeI this] have "alone (t_bind t f) = bind (alone t) (\<lambda>x. alone (f x))" .
    then show "alone (t_bind (Act k) f) s = bind (alone (Act k)) (\<lambda>x. alone (f x)) s" by (simp add: k bind_def)
  qed
qed

declare alone.simps [simp del]

lemma alone_then [alone_simps]: "alone (t_then t u) = then_do (alone t) (alone u)"
  by (simp add: t_then_def then_do_def alone_bind)

lemma alone_cases [alone_simps]:
  "alone (if b then t else u) = (if b then alone t else alone u)"
  "alone (case r of Inl e \<Rightarrow> f e | Inr x \<Rightarrow> g x) = (case r of Inl e \<Rightarrow> alone (f e) | Inr x \<Rightarrow> alone (g x))"
  "alone (case z of (a, b) \<Rightarrow> j a b) = (case z of (a, b) \<Rightarrow> alone (j a b))"
  "alone (case y of None \<Rightarrow> n | Some v \<Rightarrow> q v) = (case y of None \<Rightarrow> alone n | Some v \<Rightarrow> alone (q v))"
  by (simp_all split: sum.split prod.split option.split)

section \<open>The handlers as threads\<close>

definition t_load_state :: "nat \<Rightarrow> rpc_reply \<Rightarrow> ('w process, RVpnState) thread" where
  "t_load_state c failure =
     t_bind (step (attempt (on_disk GetRVpnState))) (\<lambda>r.
       case r of
         Inl err \<Rightarrow> t_then (step (reply c failure)) (t_ret empty_RVpnState)
       | Inr rVPNState \<Rightarrow> t_ret rVPNState)"

definition t_complain_if :: "bool \<Rightarrow> nat \<Rightarrow> ('w process, unit) thread" where
  "t_complain_if b c = (if b then step (reply c (SuccessResponse False)) else t_ret ())"

definition t_ensure_keys ::
  "'k wgtypes \<Rightarrow> nat \<Rightarrow> rpc_reply \<Rightarrow> RVpnState \<Rightarrow> ('w process, RVpnState) thread" where
  "t_ensure_keys W c failure rVPNState =
     (if st_PublicKey rVPNState = []
      then t_bind (step (next_key_pair W)) (\<lambda>(privateKey, publicKey, err).
           t_then (if err \<noteq> None then step (reply c failure) else t_ret ())
           (let rVPNState = rVPNState\<lparr>st_PrivateKey := privateKey, st_PublicKey := publicKey\<rparr>
            in t_bind (step (attempt (on_disk (SetRVpnState rVPNState)))) (\<lambda>r.
               t_then (case r of Inl err \<Rightarrow> step (reply c failure) | Inr _ \<Rightarrow> t_ret ())
                 (t_ret rVPNState))))
      else t_ret rVPNState)"

definition t_unmarshal :: "nat \<Rightarrow> 'a params \<Rightarrow> ('w process, 'a) thread" where
  "t_unmarshal c params =
     (case params of
        Absent \<Rightarrow> Ended Panic
      | Parsed x \<Rightarrow> t_ret x
      | Malformed x \<Rightarrow> t_then (step (reply c (SuccessResponse False))) (t_ret x))"

definition t_GetClientInformation :: "'k wgtypes \<Rightarrow> nat \<Rightarrow> ('w process, unit) thread" where
  "t_GetClientInformation W c =
     (let failure = GetClientInformationResponse False [] in
      t_bind (t_load_state c failure) (\<lambda>rVPNState.
      t_bind (t_ensure_keys W c failure rVPNState) (\<lambda>rVPNState.
        step (reply c (GetClientInformationResponse True (st_PublicKey rVPNState))))))"

definition t_GetServeInformation :: "'k wgtypes \<Rightarrow> nat \<Rightarrow> ('w process, unit) thread" where
  "t_GetServeInformation W c =
     (let failure = GetServeInformationResponse False [] [] in
      t_bind (t_load_state c failure) (\<lambda>rVPNState.
      t_bind (t_ensure_keys W c failure rVPNState) (\<lambda>rVPNState.
        step (reply c (GetServeInformationResponse True (st_PublicKey rVPNState) ''21820'')))))"

definition t_ConnectServer ::
  "'w wireguard \<Rightarrow> jrpcHandler \<Rightarrow> nat \<Rightarrow> ConnectServerRequest params \<Rightarrow> ('w process, unit) thread" where
  "t_ConnectServer G h c params =
     t_bind (t_load_state c (SuccessResponse False)) (\<lambda>rVPNState.
     t_then (t_complain_if (st_PublicKey rVPNState = [] \<or> st_PrivateKey rVPNState = []) c)
     (t_bind (t_unmarshal c params) (\<lambda>connectServerRequest.
     t_then (t_complain_if (ClientPublicKey connectServerRequest \<noteq> st_PublicKey rVPNState) c)
     (t_then (step (on_wg (wg_UpdateClientConf G (user_config rVPNState connectServerRequest) (controlPlaneAddr h))))
     (t_then (step (set_rvpn (\<lambda>r. r\<lparr>status := StatusConnected\<rparr>)))
     (t_then (step (reply c (SuccessResponse True)))
       (step (beat c))))))))"

definition t_serveVPNHandler ::
  "'w wireguard \<Rightarrow> nat \<Rightarrow> ServeVPNRequest params \<Rightarrow> ('w process, unit) thread" where
  "t_serveVPNHandler G c params =
     (if can_serve G
      then t_bind (t_load_state c (SuccessResponse False)) (\<lambda>rVPNState.
           t_then (t_complain_if (st_PublicKey rVPNState = [] \<or> st_PrivateKey rVPNState = []) c)
           (t_bind (t_unmarshal c params) (\<lambda>serveVPNRequest.
           t_then (t_complain_if (sv_ServerPublicKey serveVPNRequest \<noteq> st_PublicKey rVPNState) c)
           (t_then (step (on_wg (wg_UpdateServeConf G (serve_config rVPNState serveVPNRequest))))
           (t_then (step (set_rvpn (\<lambda>r. r\<lparr>status := StatusServing\<rparr>)))
           (t_then (step (reply c (SuccessResponse True)))
             (step (beat c))))))))
      else step (serveVPNHandler_stub c))"

definition t_appendVPNPeersHandler ::
  "'w wireguard \<Rightarrow> nat \<Rightarrow> WireGuardPeer list params \<Rightarrow> ('w process, unit) thread" where
  "t_appendVPNPeersHandler G c params =
     (if can_serve G
      then t_bind (t_unmarshal c params) (\<lambda>appendVPNPeersRequest.
           t_then (step (on_wg (wg_AppendPeers G (map wg_peer_of appendVPNPeersRequest))))
             (step (reply c (SuccessResponse True))))
      else step (appendVPNPeersHandler_stub c))"

fun request_thread ::
  "'k wgtypes \<Rightarrow> 'w wireguard \<Rightarrow> jrpcHandler \<Rightarrow> nat \<Rightarrow> request \<Rightarrow> ('w process, unit) thread" where
  "request_thread W G h c rq_GetDeviceAuth = step (reply c (GetDeviceAuthResponse True (deviceToken h)))"
| "request_thread W G h c rq_GetClientInformation = t_GetClientInformation W c"
| "request_thread W G h c rq_GetServeInformation = t_GetServeInformation W c"
| "request_thread W G h c (rq_ConnectServer params) = t_ConnectServer G h c params"
| "request_thread W G h c (rq_ServeVPN params) = t_serveVPNHandler G c params"
| "request_thread W G h c (rq_AppendVPNPeers params) = t_appendVPNPeersHandler G c params"
| "request_thread W G h c (rq_unknown m) = t_ret ()"

text \<open>
  Opening a channel: the new connection is read as soon as it is made, before the daemon has noted it.
\<close>

definition t_open_channel ::
  "string \<Rightarrow> string \<Rightarrow> string \<Rightarrow> dial \<Rightarrow> ('w process, bool result) thread" where
  "t_open_channel websocketURL profile token d =
     t_then (step (modify (\<lambda>p. p\<lparr>dialled := dialled p @ [websocketURL]\<rparr>)))
     (case websocket_Dial d of
        (Inl err, _) \<Rightarrow> t_ret (Inr False)
      | (Inr _, None) \<Rightarrow> Ended Panic
      | (Inr _, Some controlPlaneRemoteAddr) \<Rightarrow>
          t_bind (step (asks (\<lambda>p. length (handlers p)))) (\<lambda>c.
          t_then (step (set_rvpn (\<lambda>r. r\<lparr>activeControlPlaneWs := Some c\<rparr>)))
          (t_then (step (set_rvpn (\<lambda>r. r\<lparr>activeProfile := profile\<rparr>)))
          (t_then (step (modify (\<lambda>p. p\<lparr>handlers := handlers p @
              [\<lparr>deviceToken = token, controlPlaneAddr = host_part controlPlaneRemoteAddr\<rparr>]\<rparr>)))
          (t_then (step (set_rvpn (\<lambda>r. r\<lparr>jrpcConn := Some c\<rparr>)))
          (t_then (step (set_rvpn (\<lambda>r. r\<lparr>jrpcCtxCancel := Some c\<rparr>)))
            (t_ret (Inr True))))))))"

definition t_Disconnect :: "'w wireguard \<Rightarrow> ('w process, bool result) thread" where
  "t_Disconnect G =
     t_then (step (on_wg (wg_Disconnect G)))
     (t_then (step close_conn)
     (t_then (step cancel_ctx)
     (t_then (step (set_rvpn (\<lambda>r. r\<lparr>status := StatusDisconnected\<rparr>)))
       (t_ret (Inr True)))))"

fun client_thread :: "'w wireguard \<Rightarrow> daemon_event \<Rightarrow> ('w process, unit) thread" where
  "client_thread G EvGetState = t_then (step GetState) (t_ret ())"
| "client_thread G (EvSetState s) = t_then (step (SetState s)) (t_ret ())"
| "client_thread G EvStatus = t_then (step Status) (t_ret ())"
| "client_thread G (EvConnect args d) =
     t_then (t_open_channel (cr_ControlPlaneWS args @ ''/api/v1/target/'' @ cr_Profile args @ ''/connect'')
       (cr_Profile args) (cr_DeviceToken args) d) (t_ret ())"
| "client_thread G (EvServe args d) =
     t_then (if can_serve G
             then t_open_channel (sr_ControlPlaneWS args @ ''/api/v1/target/'' @ sr_Profile args @ ''/serve'')
                    (sr_Profile args) (sr_DeviceToken args) d
             else step Serve_stub) (t_ret ())"
| "client_thread G EvDisconnect = t_then (t_Disconnect G) (t_ret ())"
| "client_thread G EvPing = t_then (step Ping) (t_ret ())"
| "client_thread G (EvRequest c req) = t_ret ()"

text \<open>Run alone, the threads are the handlers.\<close>

lemma parts_alone [alone_simps]:
  "alone (t_load_state c f) = load_state c f" "alone (t_complain_if b c) = complain_if b c"
  "alone (t_ensure_keys W c f s) = ensure_keys W c f s" "alone (t_unmarshal c x) = unmarshal c x"
  by (simp_all add: t_load_state_def load_state_def t_complain_if_def complain_if_def t_ensure_keys_def ensure_keys_def
      t_unmarshal_def unmarshal_def alone_simps Let_def split_beta' cong: sum.case_cong if_cong split: params.split)

lemma request_alone: "alone (request_thread W G h c req) = Handle W G h c req"
  by (cases req)
    (simp_all add: t_GetClientInformation_def t_GetServeInformation_def t_ConnectServer_def t_serveVPNHandler_def
      t_appendVPNPeersHandler_def handle_GetClientInformation_def handle_GetServeInformation_def
      handle_ConnectServer_def serveVPNHandler_def appendVPNPeersHandler_def alone_simps Let_def)

lemma set_rvpn_twice: "then_do (set_rvpn f) (then_do (set_rvpn g) m) = then_do (set_rvpn (\<lambda>r. g (f r))) m"
  by (rule ext) (simp add: set_rvpn_def prog_run)

lemma open_channel_alone [alone_simps]: "alone (t_open_channel url profile token d) = open_channel url profile token d"
  by (simp add: t_open_channel_def open_channel_def alone_simps set_rvpn_twice split: prod.split sum.split option.split)

lemma client_alone:
  assumes "\<nexists>c req. e = EvRequest c req"
  shows "alone (client_thread G e) = daemon_step W G e"
  using assms
  by (cases e) (simp_all add: alone_simps t_Disconnect_def Disconnect_rpc_def Connect_def Serve_def)

section \<open>The pool\<close>

text \<open>
  Where a thread belongs: the requests of a connection are handled one after the other, and so are the
  calls of clients.  A panic or \<open>log.Fatalf\<close> in any thread is the end of the process.
\<close>

datatype origin = Client | Conn nat

fun origin_of :: "daemon_event \<Rightarrow> origin" where
  "origin_of (EvRequest c req) = Conn c"
| "origin_of _ = Client"

record 'w pool =
  shared :: "'w process"
  active :: "(origin \<times> ('w process, unit) thread) list"
  fallen :: bool

definition idle_pool :: "'w process \<Rightarrow> 'w pool" where
  "idle_pool p = \<lparr>shared = p, active = [], fallen = False\<rparr>"

definition event_thread :: "'k wgtypes \<Rightarrow> 'w wireguard \<Rightarrow> daemon_event \<Rightarrow> 'w process \<Rightarrow> ('w process, unit) thread option" where
  "event_thread W G e p =
     (case e of
        EvRequest c req \<Rightarrow>
          if c < length (handlers p) \<and> c \<notin> set (closed p) then Some (request_thread W G (handlers p ! c) c req) else None
      | _ \<Rightarrow> Some (client_thread G e))"

datatype move = Begin daemon_event | Go nat

fun pool_step :: "'k wgtypes \<Rightarrow> 'w wireguard \<Rightarrow> move \<Rightarrow> 'w pool \<Rightarrow> 'w pool" where
  "pool_step W G (Begin e) u =
     (if fallen u \<or> origin_of e \<in> fst ` set (active u) then u
      else case event_thread W G e (shared u) of
        None \<Rightarrow> u
      | Some t \<Rightarrow> u\<lparr>active := active u @ [(origin_of e, t)]\<rparr>)"
| "pool_step W G (Go i) u =
     (if fallen u \<or> length (active u) \<le> i then u
      else case active u ! i of
        (o', Ended (Return _)) \<Rightarrow> u\<lparr>active := take i (active u) @ drop (Suc i) (active u)\<rparr>
      | (o', Ended _) \<Rightarrow> u\<lparr>fallen := True\<rparr>
      | (o', Act k) \<Rightarrow> (case k (shared u) of (t, p) \<Rightarrow> u\<lparr>shared := p, active := (active u)[i := (o', t)]\<rparr>))"

definition run_pool :: "'k wgtypes \<Rightarrow> 'w wireguard \<Rightarrow> move list \<Rightarrow> 'w pool \<Rightarrow> 'w pool" where
  "run_pool W G ms u = fold (pool_step W G) ms u"

text \<open>A thread that is left to itself comes to its end, and does what the handler does.\<close>

lemma thread_finishes:
  "alone t p = (Return (), p') \<Longrightarrow>
     \<exists>n. run_pool W G (replicate n (Go 0)) \<lparr>shared = p, active = [(o', t)], fallen = False\<rparr> = idle_pool p'"
proof (induction t arbitrary: p)
  case (Ended r)
  then show ?case by (intro exI [of _ 1]) (simp add: run_pool_def idle_pool_def alone.simps)
next
  case (Act k)
  obtain t q where k: "k p = (t, q)" by (cases "k p")
  then have "t \<in> Basic_BNFs.fsts (k p)" by simp
  moreover have "alone t q = (Return (), p')" using Act.prems k by (simp add: alone.simps)
  ultimately obtain n
    where "run_pool W G (replicate n (Go 0)) \<lparr>shared = q, active = [(o', t)], fallen = False\<rparr> = idle_pool p'"
    using Act.IH [OF rangeI] by blast
  then show ?case by (intro exI [of _ "Suc n"]) (simp add: run_pool_def k)
qed

text \<open>
  C17: The threads are the handlers of the daemon: a call or a request that begins while nothing else runs, and
  is left alone, comes to its end after finitely many steps with what the handler computes in one.
\<close>

theorem threads_refine:
  assumes "daemon_step W G e p = (Return (), p')"
  shows "\<exists>n. run_pool W G (Begin e # replicate n (Go 0)) (idle_pool p) = idle_pool p'"
proof (cases "event_thread W G e p")
  case None
  then obtain c req where "e = EvRequest c req" "\<not> (c < length (handlers p) \<and> c \<notin> set (closed p))"
    by (auto simp: event_thread_def split: daemon_event.splits if_splits)
  then have "p' = p" using assms by (auto simp: returned split: if_splits)
  then show ?thesis using None by (intro exI [of _ 0]) (simp add: run_pool_def idle_pool_def)
next
  case (Some t)
  have "alone t p = (Return (), p')"
  proof (cases "\<exists>c req. e = EvRequest c req")
    case True
    then show ?thesis
      using Some assms by (auto simp: event_thread_def request_alone returned split: if_splits)
  next
    case False
    then show ?thesis
      using Some assms client_alone [OF False, of G W] by (cases e) (auto simp: event_thread_def)
  qed
  from thread_finishes [OF this, of W G "origin_of e"] show ?thesis
    using Some by (auto simp: run_pool_def idle_pool_def)
qed

section \<open>What every thread keeps\<close>

text \<open>
  The fields that only the calls of clients write; and the invariant of the daemon in two parts: what holds
  between any two statements, and what the fields of the clients satisfy while no call is under way.
\<close>

type_synonym owned = "jrpcHandler list \<times> nat list \<times> nat option \<times> nat option \<times> nat option"

definition own :: "'w process \<Rightarrow> owned" where
  "own p = (handlers p, closed p, jrpcConn (rvpn p), jrpcCtxCancel (rvpn p), activeControlPlaneWs (rvpn p))"

fun settled :: "owned \<Rightarrow> bool" where
  "settled (hs, cl, conn, ctx, ws) \<longleftrightarrow> ctx = conn \<and> ws = conn \<and> (hs \<noteq> [] \<longleftrightarrow> conn \<noteq> None)"

definition between :: "'w process \<Rightarrow> bool" where
  "between p \<longleftrightarrow>
     (\<forall>c. jrpcConn (rvpn p) = Some c \<longrightarrow> c < length (handlers p)) \<and>
     (status (rvpn p) \<noteq> StatusDisconnected \<longrightarrow> handlers p \<noteq> []) \<and>
     set (closed p) \<union> set (beating p) \<subseteq> {..<length (handlers p)} \<and>
     (\<forall>(c, r) \<in> set (sent p). c < length (handlers p) \<and>
        (DeviceToken r = [] \<or> DeviceToken r = deviceToken (handlers p ! c)))"

lemma daemon_inv_parts: "daemon_inv p \<longleftrightarrow> between p \<and> settled (own p)"
  by (auto simp: daemon_inv_def between_def own_def)

definition knows :: "nat \<Rightarrow> jrpcHandler \<Rightarrow> owned \<Rightarrow> bool" where
  "knows c h v \<longleftrightarrow> c < length (fst v) \<and> fst v ! c = h"

text \<open>A statement of a request leaves the fields of the clients alone.\<close>

definition polite :: "nat \<Rightarrow> jrpcHandler \<Rightarrow> ('w process, 'a) prog \<Rightarrow> bool" where
  "polite c h m \<longleftrightarrow> (\<forall>p. between p \<and> knows c h (own p) \<longrightarrow> between (snd (m p)) \<and> own (snd (m p)) = own p)"

primrec request_safe :: "nat \<Rightarrow> jrpcHandler \<Rightarrow> ('w process, 'a) thread \<Rightarrow> bool" where
  "request_safe c h (Ended r) = True"
| "request_safe c h (Act k) =
     (\<forall>p. between p \<and> knows c h (own p) \<longrightarrow>
        (case map_prod (request_safe c h) id (k p) of (safe, p') \<Rightarrow> safe \<and> between p' \<and> own p' = own p))"

lemma case_map_prod: "(case map_prod f g z of (x, y) \<Rightarrow> j x y) = j (f (fst z)) (g (snd z))"
  by (cases z) simp

lemma request_Act:
  "request_safe c h (Act k) \<longleftrightarrow>
     (\<forall>p. between p \<and> knows c h (own p) \<longrightarrow>
        request_safe c h (fst (k p)) \<and> between (snd (k p)) \<and> own (snd (k p)) = own p)"
  by (simp add: case_map_prod)

declare request_safe.simps(2) [simp del]

named_theorems request_intros \<open>threads of requests that leave the clients' fields alone\<close>

lemma request_step [request_intros]: "polite c h m \<Longrightarrow> request_safe c h (step m)"
  by (simp add: step_def polite_def request_Act split_beta)

lemma request_bind [request_intros]:
  "request_safe c h t \<Longrightarrow> (\<And>x. request_safe c h (f x)) \<Longrightarrow> request_safe c h (t_bind t f)"
proof (induction t)
  case (Act k)
  have "request_safe c h (t_bind (fst (k p)) f)" if "request_safe c h (fst (k p))" for p
    using Act.IH [OF rangeI, of "fst (k p)" p] that Act.prems(2) by (cases "k p") simp
  then show ?case using Act.prems(1) by (simp add: request_Act)
qed (simp split: exec.split)

lemma request_rest [request_intros]:
  "request_safe c h (t_ret x)" "request_safe c h (Ended r)"
  "(b \<Longrightarrow> request_safe c h t) \<Longrightarrow> (\<not> b \<Longrightarrow> request_safe c h u) \<Longrightarrow> request_safe c h (if b then t else u)"
  "(\<And>e. request_safe c h (v e)) \<Longrightarrow> (\<And>x. request_safe c h (g x)) \<Longrightarrow>
     request_safe c h (case r' of Inl e \<Rightarrow> v e | Inr x \<Rightarrow> g x)"
  "(\<And>a b. request_safe c h (j a b)) \<Longrightarrow> request_safe c h (case z of (a, b) \<Rightarrow> j a b)"
  by (auto simp: t_ret_def t_then_def request_bind split: sum.split prod.split)

lemma request_then [request_intros]:
  "request_safe c h t \<Longrightarrow> request_safe c h u \<Longrightarrow> request_safe c h (t_then t u)"
  by (simp add: t_then_def request_bind)

lemma polite_parts [request_intros]:
  "DeviceToken r = [] \<or> DeviceToken r = deviceToken h \<Longrightarrow> polite c h (reply c r)"
  "polite c h (attempt (on_disk m'))" "polite c h (on_wg m'')" "polite c h (next_key_pair W)"
  "polite c h (beat c)" "polite c h (set_rvpn (\<lambda>r. r\<lparr>status := st\<rparr>))"
  by (auto simp: polite_def between_def own_def knows_def reply_def on_disk_def attempt_def on_wg_def next_key_pair_def
      beat_def set_rvpn_def modify_def split: prod.splits)

lemma request_load [request_intros]:
  "DeviceToken f = [] \<Longrightarrow> request_safe c h (t_load_state c f)" "request_safe c h (t_complain_if b c)"
  unfolding t_load_state_def t_complain_if_def by (intro request_intros; simp)+

lemma request_keys [request_intros]: "DeviceToken f = [] \<Longrightarrow> request_safe c h (t_ensure_keys W c f s)"
  unfolding t_ensure_keys_def Let_def by (intro request_intros) simp_all

lemma request_unmarshal [request_intros]: "request_safe c h (t_unmarshal c x)"
  unfolding t_unmarshal_def by (cases x) (auto intro!: request_intros)

lemma request_thread_safe: "request_safe c h (request_thread W G h c req)"
  by (cases req)
    (simp_all add: t_GetClientInformation_def t_GetServeInformation_def t_ConnectServer_def t_serveVPNHandler_def
      t_appendVPNPeersHandler_def Let_def request_intros)

text \<open>
  A call of a client finds its fields as it left them; where it ends, the result and the fields satisfy \<open>Q\<close>.
\<close>

definition grows :: "'w process \<Rightarrow> 'w process \<Rightarrow> bool" where
  "grows p p' \<longleftrightarrow> (\<exists>hs. handlers p' = handlers p @ hs)"

primrec call_safe :: "('a \<Rightarrow> owned \<Rightarrow> bool) \<Rightarrow> ('w process, 'a) thread \<Rightarrow> owned \<Rightarrow> bool" where
  "call_safe Q (Ended r) = (\<lambda>v. case r of Return x \<Rightarrow> Q x v | _ \<Rightarrow> True)"
| "call_safe Q (Act k) =
     (\<lambda>v. \<forall>p. between p \<and> own p = v \<longrightarrow>
        (case map_prod (call_safe Q) id (k p) of (safe, p') \<Rightarrow> safe (own p') \<and> between p' \<and> grows p p'))"

lemma call_Act:
  "call_safe Q (Act k) v \<longleftrightarrow>
     (\<forall>p. between p \<and> own p = v \<longrightarrow>
        call_safe Q (fst (k p)) (own (snd (k p))) \<and> between (snd (k p)) \<and> grows p (snd (k p)))"
  by (simp add: case_map_prod)

declare call_safe.simps(2) [simp del]

lemma call_step [simp]:
  "call_safe Q (step m) v \<longleftrightarrow>
     (\<forall>p. between p \<and> own p = v \<longrightarrow>
        (case fst (m p) of Return x \<Rightarrow> Q x (own (snd (m p))) | _ \<Rightarrow> True) \<and> between (snd (m p)) \<and> grows p (snd (m p)))"
  by (simp add: step_def call_Act split_beta)

lemma call_bind [simp]: "call_safe Q (t_bind t f) = call_safe (\<lambda>x. call_safe Q (f x)) t"
proof (induction t)
  case (Ended r)
  then show ?case by (intro ext) (simp split: exec.split)
next
  case (Act k)
  have "call_safe Q (t_bind (fst (k p)) f) = call_safe (\<lambda>x. call_safe Q (f x)) (fst (k p))" for p
    using Act.IH [OF rangeI, of "fst (k p)" p] by (cases "k p") simp
  then show ?case by (intro ext) (simp add: call_Act)
qed

lemma call_rest [simp]:
  "call_safe Q (t_ret x) = Q x" "call_safe Q (t_then t u) = call_safe (\<lambda>_. call_safe Q u) t"
  by (rule ext) (simp_all add: t_ret_def t_then_def)

text \<open>Statements of calls that leave these fields alone, too.\<close>

lemma call_quiet:
  assumes "\<And>p. between p \<Longrightarrow> between (snd (m p)) \<and> own (snd (m p)) = own p"
    and "\<And>x. Q x v"
  shows "call_safe Q (step m) v"
  using assms by (auto simp: own_def grows_def split: exec.split)

text \<open>The statements of \<open>Connect\<close>, by what they make of the fields.\<close>

lemma call_asks: "(\<And>p. own p = v \<Longrightarrow> Q (f p) v) \<Longrightarrow> call_safe Q (step (asks f)) v"
  by (auto simp: asks_def grows_def)

lemma call_modify:
  assumes "\<And>p. between p \<Longrightarrow> own p = v \<Longrightarrow> between (g p) \<and> own (g p) = v' \<and> grows p (g p)" and "Q () v'"
  shows "call_safe Q (step (modify g)) v"
  using assms by (auto simp: modify_def)

lemma call_dialled: "Q () v \<Longrightarrow> call_safe Q (step (modify (\<lambda>p. p\<lparr>dialled := ds p\<rparr>))) v"
  by (rule call_modify [where v' = v]) (auto simp: between_def own_def grows_def)

lemma call_set_ws:
  "Q () (hs, cl, conn, ctx, w) \<Longrightarrow>
     call_safe Q (step (set_rvpn (\<lambda>r. r\<lparr>activeControlPlaneWs := w\<rparr>))) (hs, cl, conn, ctx, ws)"
  unfolding set_rvpn_def by (rule call_modify) (auto simp: between_def own_def grows_def)

lemma call_set_profile: "Q () v \<Longrightarrow> call_safe Q (step (set_rvpn (\<lambda>r. r\<lparr>activeProfile := w\<rparr>))) v"
  unfolding set_rvpn_def by (rule call_modify [where v' = v]) (auto simp: between_def own_def grows_def)

lemma call_new_handler:
  "Q () (hs @ [h], cl, conn, ctx, ws) \<Longrightarrow>
     call_safe Q (step (modify (\<lambda>p. p\<lparr>handlers := handlers p @ [h]\<rparr>))) (hs, cl, conn, ctx, ws)"
  by (rule call_modify) (fastforce simp: between_def own_def grows_def nth_append)+

lemma call_set_conn:
  "c < length hs \<Longrightarrow> Q () (hs, cl, Some c, ctx, ws) \<Longrightarrow>
     call_safe Q (step (set_rvpn (\<lambda>r. r\<lparr>jrpcConn := Some c\<rparr>))) (hs, cl, conn, ctx, ws)"
  unfolding set_rvpn_def by (rule call_modify) (auto simp: between_def own_def grows_def)

lemma call_set_cancel:
  "Q () (hs, cl, conn, x, ws) \<Longrightarrow>
     call_safe Q (step (set_rvpn (\<lambda>r. r\<lparr>jrpcCtxCancel := x\<rparr>))) (hs, cl, conn, ctx, ws)"
  unfolding set_rvpn_def by (rule call_modify) (auto simp: between_def own_def grows_def)

lemma open_channel_safe:
  assumes "settled v"
  shows "call_safe (\<lambda>_. settled) (t_open_channel url profile token d) v"
proof (cases "websocket_Dial d")
  case (Pair r a)
  obtain hs cl conn ctx ws where v: "v = (hs, cl, conn, ctx, ws)" by (cases v) auto
  show ?thesis
    unfolding t_open_channel_def Pair v prod.case call_rest call_bind
    by (intro call_dialled; cases r; cases a;
        simp only: sum.case option.case call_rest call_bind call_safe.simps(1) exec.case settled.simps;
        (use assms v in simp; fail)?;
        intro call_asks call_set_ws call_set_profile call_new_handler call_set_conn call_set_cancel;
        simp add: own_def)
qed

text \<open>Those of \<open>Disconnect\<close>.\<close>

lemma call_on_wg: "(\<And>x. Q x v) \<Longrightarrow> call_safe Q (step (on_wg m)) v"
  by (rule call_quiet) (auto simp: between_def own_def on_wg_def split: prod.splits)

lemma call_close:
  assumes "\<And>c. conn = Some c \<Longrightarrow> Q () (hs, cl @ [c], conn, ctx, ws)"
  shows "call_safe Q (step close_conn) (hs, cl, conn, ctx, ws)"
proof (cases conn)
  case None
  then show ?thesis by (auto simp: own_def close_conn_def prog_run grows_def)
next
  case (Some c)
  then show ?thesis
    using assms by (auto simp: own_def close_conn_def prog_run between_def grows_def)
qed

lemma call_cancel: "Q () v \<Longrightarrow> call_safe Q (step cancel_ctx) v"
  by (rule call_quiet) (auto simp: between_def own_def cancel_ctx_def prog_run split: option.splits)

lemma call_set_off: "Q () v \<Longrightarrow> call_safe Q (step (set_rvpn (\<lambda>r. r\<lparr>status := StatusDisconnected\<rparr>))) v"
  unfolding set_rvpn_def by (rule call_modify [where v' = v]) (auto simp: between_def own_def grows_def)

lemma Disconnect_safe:
  assumes "settled v"
  shows "call_safe (\<lambda>_. settled) (t_Disconnect G) v"
proof -
  obtain hs cl conn ctx ws where v: "v = (hs, cl, conn, ctx, ws)" by (cases v) auto
  show ?thesis
    using assms unfolding t_Disconnect_def v call_rest call_bind
    by (intro call_on_wg call_close call_cancel call_set_off) (simp add: t_ret_def)
qed

lemma call_disk: "(\<And>x. Q x v) \<Longrightarrow> call_safe Q (step (attempt (on_disk m))) v"
  by (rule call_quiet) (auto simp: between_def own_def attempt_def on_disk_def split: prod.splits)

lemma call_SetState: "(\<And>x. Q x v) \<Longrightarrow> call_safe Q (step (SetState s)) v"
  by (rule call_quiet)
    (auto simp: between_def own_def SetState_def attempt_def on_disk_def bind_def ret_def split: prod.splits sum.splits exec.splits)

lemma call_read: "(\<And>r. Q r v) \<Longrightarrow> call_safe Q (step (asks f)) v" "Q x v \<Longrightarrow> call_safe Q (step (ret x)) v"
  by (auto simp: asks_def ret_def grows_def)

lemma client_thread_safe: "settled v \<Longrightarrow> call_safe (\<lambda>_. settled) (client_thread G e) v"
  by (cases e)
    (simp_all add: call_disk call_SetState call_read open_channel_safe Disconnect_safe GetState_def Status_def Ping_def
      del: call_step settled.simps)

section \<open>What every schedule keeps\<close>

fun thread_safe :: "owned \<Rightarrow> origin \<times> ('w process, unit) thread \<Rightarrow> bool" where
  "thread_safe v (Client, t) = call_safe (\<lambda>_. settled) t v"
| "thread_safe v (Conn c, t) = (c < length (fst v) \<and> request_safe c (fst v ! c) t)"

definition pool_inv :: "'w pool \<Rightarrow> bool" where
  "pool_inv u \<longleftrightarrow>
     between (shared u) \<and> distinct (map fst (active u)) \<and>
     (\<forall>x \<in> set (active u). thread_safe (own (shared u)) x) \<and>
     (\<not> fallen u \<and> Client \<notin> fst ` set (active u) \<longrightarrow> settled (own (shared u)))"

lemma pool_begin:
  assumes "pool_inv u"
  shows "pool_inv (pool_step W G (Begin e) u)"
proof (cases "\<not> fallen u \<and> origin_of e \<notin> fst ` set (active u)")
  case new: True
  have "thread_safe (own (shared u)) (origin_of e, t)" if t: "event_thread W G e (shared u) = Some t" for t
  proof (cases "\<exists>c req. e = EvRequest c req")
    case True
    then show ?thesis
      using t request_thread_safe by (auto simp: event_thread_def own_def split: if_splits)
  next
    case False
    then have "origin_of e = Client" "t = client_thread G e"
      using t by (cases e; simp add: event_thread_def)+
    moreover have "settled (own (shared u))" using assms new calculation(1) by (simp add: pool_inv_def)
    ultimately show ?thesis using client_thread_safe by simp
  qed
  then show ?thesis
    using assms new by (auto simp: pool_inv_def split: option.splits)
qed (use assms in auto)

text \<open>A step of one thread and the others.\<close>

lemma distinct_origins:
  assumes "distinct (map fst xs)" and "i < length xs" and "y \<in> set (xs[i := (fst (xs ! i), t)])"
  shows "y = (fst (xs ! i), t) \<or> y \<in> set xs \<and> fst y \<noteq> fst (xs ! i)"
proof -
  obtain j where j: "j < length xs" "y = xs[i := (fst (xs ! i), t)] ! j" using assms(3) by (auto simp: in_set_conv_nth)
  then show ?thesis
    using assms(1,2) by (cases "j = i") (auto simp: distinct_conv_nth)
qed

lemma thread_safe_grows:
  assumes "thread_safe (own p) (Conn c, t)" and "grows p p'"
  shows "thread_safe (own p') (Conn c, t)"
  using assms by (auto simp: own_def grows_def nth_append)

lemma pool_act:
  assumes inv: "pool_inv u" and i: "\<not> fallen u" "i < length (active u)" "active u ! i = (o', Act k)"
    and k: "k (shared u) = (t, p)"
  shows "pool_inv (u\<lparr>shared := p, active := (active u)[i := (o', t)]\<rparr>)"
proof -
  have me: "thread_safe (own (shared u)) (o', Act k)" "between (shared u)" "distinct (map fst (active u))"
    using inv i(2,3) nth_mem [OF i(2)] by (auto simp: pool_inv_def)
  have fst_i: "fst (active u ! i) = o'" using i(3) by simp
  have origins: "map fst ((active u)[i := (o', t)]) = map fst (active u)"
    using fst_i i(2) by (simp add: map_update list_update_same_conv)
  then have clients: "fst ` set ((active u)[i := (o', t)]) = fst ` set (active u)" by (metis set_map)
  show ?thesis
  proof (cases o')
    case Client
    then have safe: "call_safe (\<lambda>_. settled) t (own p)" "between p" "grows (shared u) p"
      using me k by (auto simp: call_Act)
    have "thread_safe (own p) y" if "y \<in> set ((active u)[i := (o', t)])" for y
    proof -
      from distinct_origins [OF me(3) i(2), unfolded fst_i, OF that] consider "y = (o', t)" | c t' where "y = (Conn c, t')" "y \<in> set (active u)"
        using Client by (cases y; cases "fst y") auto
      then show ?thesis
      proof cases
        case 2
        then have "thread_safe (own (shared u)) (Conn c, t')" using inv by (auto simp: pool_inv_def)
        from thread_safe_grows [OF this safe(3)] 2(1) show ?thesis by simp
      qed (simp add: Client safe(1))
    qed
    moreover have "Client \<in> fst ` set (active u)" using i(2,3) Client by (metis fst_conv imageI nth_mem)
    ultimately show ?thesis using safe(2) me(3) by (simp add: pool_inv_def origins clients)
  next
    case (Conn c)
    then have safe: "request_safe c (fst (own (shared u)) ! c) t" "between p" "own p = own (shared u)"
      "c < length (fst (own (shared u)))"
      using me k by (auto simp: request_Act knows_def)
    have "thread_safe (own p) y" if "y \<in> set ((active u)[i := (o', t)])" for y
      using distinct_origins [OF me(3) i(2), unfolded fst_i, OF that] inv safe Conn by (auto simp: pool_inv_def)
    then show ?thesis using safe(2,3) me(3) inv i(1) by (simp add: pool_inv_def origins clients)
  qed
qed

lemma pool_end:
  assumes inv: "pool_inv u" and i: "i < length (active u)" "active u ! i = (o', Ended (Return x))" "\<not> fallen u"
  shows "pool_inv (u\<lparr>active := take i (active u) @ drop (Suc i) (active u)\<rparr>)"
proof -
  let ?xs = "take i (active u) @ drop (Suc i) (active u)"
  have split: "active u = take i (active u) @ (o', Ended (Return x)) # drop (Suc i) (active u)"
    using i(1,2) by (metis id_take_nth_drop)
  then have all: "set (active u) = insert (o', Ended (Return x)) (set ?xs)" by (metis Un_insert_right list.simps(15) set_append)
  have "distinct (map fst (active u))" using inv by (simp add: pool_inv_def)
  then have "distinct (map fst ?xs)" by (subst (asm) split) simp
  moreover have "settled (own (shared u))" if "Client \<notin> fst ` set ?xs"
  proof (cases o')
    case Client
    have "\<forall>y \<in> set (active u). thread_safe (own (shared u)) y" using inv unfolding pool_inv_def by blast
    from bspec [OF this nth_mem [OF i(1)]] show ?thesis by (simp add: i(2) Client)
  next
    case (Conn c)
    then have "Client \<notin> fst ` set (active u)" using that unfolding all by simp
    then show ?thesis using inv i(3) by (simp add: pool_inv_def)
  qed
  ultimately show ?thesis using inv all by (simp add: pool_inv_def)
qed

lemma pool_step_inv: "pool_inv u \<Longrightarrow> pool_inv (pool_step W G m u)"
proof (cases m)
  case (Begin e)
  then show "pool_inv u \<Longrightarrow> ?thesis" using pool_begin by blast
next
  case (Go i)
  assume inv: "pool_inv u"
  show ?thesis
  proof (cases "fallen u \<or> length (active u) \<le> i")
    case False
    then have i: "\<not> fallen u" "i < length (active u)" by auto
    obtain o' t where at: "active u ! i = (o', t)" by (cases "active u ! i")
    show ?thesis
    proof (cases t)
      case (Ended r)
      then show ?thesis
        using pool_end [OF inv i(2) _ i(1)] inv i at Go by (cases r) (auto simp: pool_inv_def)
    next
      case (Act k)
      obtain t' p where k: "k (shared u) = (t', p)" by (cases "k (shared u)")
      from pool_act [OF inv i at [unfolded Act] k] show ?thesis using k i at Act Go by simp
    qed
  qed (use inv Go in auto)
qed

interpretation pool: stepper "pool_step W G" pool_inv for W G
  by unfold_locales (rule pool_step_inv)

lemma idle_pool_inv: "daemon_inv p \<Longrightarrow> pool_inv (idle_pool p)"
  by (simp add: pool_inv_def idle_pool_def daemon_inv_parts)

text \<open>
  C16: However the requests of any number of control planes and the calls of the clients interleave, statement
  by statement, and wherever it is looked at: a token has been sent only on a connection opened with it,
  heartbeats and closings belong to connections that were opened, and whenever no call of a client is under
  way, a daemon that says it is connected or serving has a channel that a disconnection can close.
\<close>

theorem concurrent_daemon_consistent:
  assumes "start_up G l (new_process w d) = (Return (), p0)" and "u = run_pool W G ms (idle_pool p0)"
  shows "(\<forall>(c, r) \<in> set (sent (shared u)). c < length (handlers (shared u)) \<and>
      (DeviceToken r = [] \<or> DeviceToken r = deviceToken (handlers (shared u) ! c))) \<and>
    set (closed (shared u)) \<union> set (beating (shared u)) \<subseteq> {..<length (handlers (shared u))} \<and>
    (\<not> fallen u \<and> Client \<notin> fst ` set (active u) \<and> status (rvpn (shared u)) \<noteq> StatusDisconnected \<longrightarrow>
       (\<exists>c < length (handlers (shared u)). jrpcConn (rvpn (shared u)) = Some c \<and> jrpcCtxCancel (rvpn (shared u)) = Some c))"
proof -
  have "daemon_inv p0" using start_up_inv [OF assms(1)] by blast
  then have inv: "pool_inv u"
    unfolding assms(2) run_pool_def by (intro pool.run_inv idle_pool_inv)
  have "daemon_inv (shared u)" if "\<not> fallen u" "Client \<notin> fst ` set (active u)"
    using inv that by (simp add: pool_inv_def daemon_inv_parts)
  then have "\<not> fallen u \<and> Client \<notin> fst ` set (active u) \<and> status (rvpn (shared u)) \<noteq> StatusDisconnected \<longrightarrow>
      (\<exists>c < length (handlers (shared u)). jrpcConn (rvpn (shared u)) = Some c \<and> jrpcCtxCancel (rvpn (shared u)) = Some c)"
    unfolding daemon_inv_def by fastforce
  moreover have "between (shared u)" using inv by (simp add: pool_inv_def)
  ultimately show ?thesis unfolding between_def by blast
qed

section \<open>On the small system\<close>

theorem threads_refine_witness:
  "daemon_step lab_keys (linux_wireguard lab) (EvConnect lab_args (lab_dial ''1.2.3.4:443'')) (lab_daemon lab_state) =
     (Return (), lab_running lab_state) \<and>
   (\<exists>n. run_pool lab_keys (linux_wireguard lab) (Begin (EvConnect lab_args (lab_dial ''1.2.3.4:443'')) # replicate n (Go 0))
      (idle_pool (lab_daemon lab_state)) = idle_pool (lab_running lab_state))"
proof -
  have "daemon_step lab_keys (linux_wireguard lab) (EvConnect lab_args (lab_dial ''1.2.3.4:443'')) (lab_daemon lab_state) =
      (Return (), lab_running lab_state)"
    using lab_running_eq(1) by (simp add: prog_run)
  then show ?thesis using threads_refine by blast
qed

text \<open>
  The control plane asks for the token over a connection that the daemon has not noted yet.
\<close>

definition early_request :: "move list" where
  "early_request =
     Begin (EvConnect lab_args (lab_dial ''1.2.3.4:443'')) # replicate 5 (Go 0) @ [Begin (EvRequest 0 rq_GetDeviceAuth), Go 1]"

theorem concurrent_daemon_consistent_witness:
  "let u = run_pool lab_keys (linux_wireguard lab) early_request (idle_pool (lab_daemon lab_state)) in
   start_up (linux_wireguard lab) (Inr ()) (new_process lab_host (lab_disk lab_state)) = (Return (), lab_daemon lab_state) \<and>
   sent (shared u) = [(0, GetDeviceAuthResponse True ''tok'')] \<and> jrpcConn (rvpn (shared u)) = None \<and>
   0 < length (handlers (shared u)) \<and> deviceToken (handlers (shared u) ! 0) = ''tok''"
proof -
  let ?u = "run_pool lab_keys (linux_wireguard lab) early_request (idle_pool (lab_daemon lab_state))"
  have n: "replicate 5 x = [x, x, x, x, x]" for x :: move by (simp add: eval_nat_numeral)
  have u: "sent (shared ?u) = [(0, GetDeviceAuthResponse True ''tok'')]" "jrpcConn (rvpn (shared ?u)) = None"
    unfolding run_pool_def early_request_def n idle_pool_def lab_args_def lab_dial_def
    by (simp_all add: t_open_channel_def websocket_Dial_def remoteAddressDialHook_def t_then_def step_def t_ret_def
        modify_def asks_def set_rvpn_def reply_def lab_daemon_eq(2) new_process_def NewRVPNDaemon_def event_thread_def)
  have "\<forall>(c, r) \<in> set (sent (shared ?u)). c < length (handlers (shared ?u)) \<and>
      (DeviceToken r = [] \<or> DeviceToken r = deviceToken (handlers (shared ?u) ! c))"
    using concurrent_daemon_consistent [OF lab_daemon_eq(1) refl] by blast
  then show ?thesis using u lab_daemon_eq(1) by (simp add: Let_def)
qed

end
