(* ===== verification/Wire_Json.thy ===== *)
theory Wire_Json
  imports Json_Struct Rvpn_Daemon_Props
begin

text \<open>
  The messages as JSON: the parameters and results of the calls between the control plane and the devices,
  with the tags of \<open>common/jrpc_types.go\<close>.  Elsewhere a message is the struct it stands for; here the structs
  are shown to arrive.
\<close>

section \<open>The calls of the control plane\<close>

definition peer_json :: "WireGuardPeer \<Rightarrow> json" where
  "peer_json p =
     JObj [(''publickey'', JStr (PublicKey p)), (''allowedip'', JStr (AllowedIP p)), (''allowedcidr'', JStr (AllowedCidr p))]"

definition peer_fields :: "(string \<times> WireGuardPeer field) list" where
  "peer_fields =
     [(''publickey'', text_field (\<lambda>w p. p\<lparr>PublicKey := w\<rparr>)), (''allowedip'', text_field (\<lambda>w p. p\<lparr>AllowedIP := w\<rparr>)),
      (''allowedcidr'', text_field (\<lambda>w p. p\<lparr>AllowedCidr := w\<rparr>))]"

definition zero_peer :: WireGuardPeer where
  "zero_peer = \<lparr>PublicKey = [], AllowedIP = [], AllowedCidr = []\<rparr>"

definition connect_json :: "ConnectServerRequest \<Rightarrow> json" where
  "connect_json r =
     JObj [(''serverpublickey'', JStr (ServerPublicKey r)), (''clientpublickey'', JStr (ClientPublicKey r)),
       (''clientip'', JStr (ClientIp r)), (''clientcidr'', JStr (ClientCidr r)), (''serverip'', JStr (ServerIp r)),
       (''serverport'', JNum (int_text (ServerPort r))), (''dnsip'', JStr (DnsIp r))]"

definition connect_fields :: "(string \<times> ConnectServerRequest field) list" where
  "connect_fields =
     [(''serverpublickey'', text_field (\<lambda>w r. r\<lparr>ServerPublicKey := w\<rparr>)),
      (''clientpublickey'', text_field (\<lambda>w r. r\<lparr>ClientPublicKey := w\<rparr>)),
      (''clientip'', text_field (\<lambda>w r. r\<lparr>ClientIp := w\<rparr>)), (''clientcidr'', text_field (\<lambda>w r. r\<lparr>ClientCidr := w\<rparr>)),
      (''serverip'', text_field (\<lambda>w r. r\<lparr>ServerIp := w\<rparr>)), (''serverport'', int_field (\<lambda>i r. r\<lparr>ServerPort := i\<rparr>)),
      (''dnsip'', text_field (\<lambda>w r. r\<lparr>DnsIp := w\<rparr>))]"

definition zero_connect :: ConnectServerRequest where
  "zero_connect =
     \<lparr>ServerPublicKey = [], ClientPublicKey = [], ClientIp = [], ClientCidr = [], ServerIp = [], ServerPort = 0, DnsIp = []\<rparr>"

definition serve_json :: "ServeVPNRequest \<Rightarrow> json" where
  "serve_json r =
     JObj [(''serverpublickey'', JStr (sv_ServerPublicKey r)), (''serverinternalip'', JStr (ServerInternalIp r)),
       (''serverinternalcidr'', JStr (ServerInternalCidr r)),
       (''serverpublicvpnport'', JNum (int_text (ServerPublicVPNPort r))),
       (''peers'', JArr (map peer_json (Peers r)))]"

definition serve_fields :: "(string \<times> ServeVPNRequest field) list" where
  "serve_fields =
     [(''serverpublickey'', text_field (\<lambda>w r. r\<lparr>sv_ServerPublicKey := w\<rparr>)),
      (''serverinternalip'', text_field (\<lambda>w r. r\<lparr>ServerInternalIp := w\<rparr>)),
      (''serverinternalcidr'', text_field (\<lambda>w r. r\<lparr>ServerInternalCidr := w\<rparr>)),
      (''serverpublicvpnport'', int_field (\<lambda>i r. r\<lparr>ServerPublicVPNPort := i\<rparr>)),
      (''peers'', slice_field peer_fields zero_peer (\<lambda>ps r. r\<lparr>Peers := ps\<rparr>))]"

definition zero_serve :: ServeVPNRequest where
  "zero_serve =
     \<lparr>sv_ServerPublicKey = [], ServerInternalIp = [], ServerInternalCidr = [], ServerPublicVPNPort = 0, Peers = []\<rparr>"

text \<open>The struct \<open>AppendVPNPeersRequest\<close> has one field, its peers.\<close>

definition append_json :: "WireGuardPeer list \<Rightarrow> json" where
  "append_json ps = JObj [(''peers'', JArr (map peer_json ps))]"

definition append_fields :: "(string \<times> WireGuardPeer list field) list" where
  "append_fields = [(''peers'', slice_field peer_fields zero_peer (\<lambda>ps r. ps))]"

text \<open>What \<open>jsonrpc2.Conn.Call\<close> marshals.\<close>

fun params_json :: "rpc_call \<Rightarrow> json" where
  "params_json (ConnectServer r) = connect_json r"
| "params_json (ServeVPN r) = serve_json r"
| "params_json (AppendVPNPeers ps) = append_json ps"
| "params_json (DeleteVPNPeers ps) = append_json ps"
| "params_json c = JObj []"

text \<open>
  The switch of the daemon's \<open>Handle\<close> on the method, and the decoding of \<open>req.Params\<close> in its branches;
  parameters may be missing.
\<close>

definition decode_params :: "(string \<times> 'r field) list \<Rightarrow> 'r \<Rightarrow> string option \<Rightarrow> 'r params" where
  "decode_params fs zero params =
     (case params of
        None \<Rightarrow> Absent
      | Some data \<Rightarrow> (case Unmarshal fs data zero of (r, fine) \<Rightarrow> if fine then Parsed r else Malformed r))"

definition receive :: "string \<Rightarrow> string option \<Rightarrow> request" where
  "receive req_Method params =
     (if req_Method = ''get_device_auth'' then rq_GetDeviceAuth
      else if req_Method = ''get_client_information'' then rq_GetClientInformation
      else if req_Method = ''get_serve_information'' then rq_GetServeInformation
      else if req_Method = ''connect_server'' then rq_ConnectServer (decode_params connect_fields zero_connect params)
      else if req_Method = ''serve_vpn'' then rq_ServeVPN (decode_params serve_fields zero_serve params)
      else if req_Method = ''append_vpn_peers'' then rq_AppendVPNPeers (decode_params append_fields [] params)
      else rq_unknown req_Method)"

section \<open>The answers\<close>

text \<open>Each call has a response struct: which of the fields of an answer it has.\<close>

fun reply_json :: "rpc_call \<Rightarrow> rpc_reply \<Rightarrow> json" where
  "reply_json GetDeviceAuth r = JObj [(''success'', JBool (Success r)), (''devicetoken'', JStr (DeviceToken r))]"
| "reply_json GetClientInformation r = JObj [(''success'', JBool (Success r)), (''publickey'', JStr (re_PublicKey r))]"
| "reply_json GetServeInformation r =
     JObj [(''success'', JBool (Success r)), (''publickey'', JStr (re_PublicKey r)),
       (''publicvpnport'', JStr (PublicVpnPort r))]"
| "reply_json c r = JObj [(''success'', JBool (Success r))]"

definition success_field :: "string \<times> rpc_reply field" where
  "success_field = (''success'', bool_field (\<lambda>b r. r\<lparr>Success := b\<rparr>))"

fun reply_fields :: "rpc_call \<Rightarrow> (string \<times> rpc_reply field) list" where
  "reply_fields GetDeviceAuth = [success_field, (''devicetoken'', text_field (\<lambda>w r. r\<lparr>DeviceToken := w\<rparr>))]"
| "reply_fields GetClientInformation = [success_field, (''publickey'', text_field (\<lambda>w r. r\<lparr>re_PublicKey := w\<rparr>))]"
| "reply_fields GetServeInformation =
     [success_field, (''publickey'', text_field (\<lambda>w r. r\<lparr>re_PublicKey := w\<rparr>)),
      (''publicvpnport'', text_field (\<lambda>w r. r\<lparr>PublicVpnPort := w\<rparr>))]"
| "reply_fields c = [success_field]"

definition zero_reply :: rpc_reply where
  "zero_reply = \<lparr>Success = False, DeviceToken = [], re_PublicKey = [], PublicVpnPort = []\<rparr>"

text \<open>An answer as the daemon makes it for a call.\<close>

fun answers :: "rpc_call \<Rightarrow> rpc_reply \<Rightarrow> bool" where
  "answers GetDeviceAuth r = (r = GetDeviceAuthResponse (Success r) (DeviceToken r))"
| "answers GetClientInformation r = (r = GetClientInformationResponse (Success r) (re_PublicKey r))"
| "answers GetServeInformation r = (r = GetServeInformationResponse (Success r) (re_PublicKey r) (PublicVpnPort r))"
| "answers c r = (r = SuccessResponse (Success r))"

section \<open>What is sent is received\<close>

definition int64 :: "int \<Rightarrow> bool" where
  "int64 i \<longleftrightarrow> - (2 ^ 63) \<le> i \<and> i < 2 ^ 63"

definition ascii_peer :: "WireGuardPeer \<Rightarrow> bool" where
  "ascii_peer p \<longleftrightarrow> ascii (PublicKey p) \<and> ascii (AllowedIP p) \<and> ascii (AllowedCidr p)"

fun ascii_call :: "rpc_call \<Rightarrow> bool" where
  "ascii_call (ConnectServer r) =
     (list_all ascii [ServerPublicKey r, ClientPublicKey r, ClientIp r, ClientCidr r, ServerIp r, DnsIp r] \<and>
      int64 (ServerPort r))"
| "ascii_call (ServeVPN r) =
     (list_all ascii [sv_ServerPublicKey r, ServerInternalIp r, ServerInternalCidr r] \<and> int64 (ServerPublicVPNPort r) \<and>
      list_all ascii_peer (Peers r))"
| "ascii_call (AppendVPNPeers ps) = list_all ascii_peer ps"
| "ascii_call (DeleteVPNPeers ps) = list_all ascii_peer ps"
| "ascii_call c = True"

lemma ascii_literals [simp]:
  "ascii ''publickey''" "ascii ''allowedip''" "ascii ''allowedcidr''" "ascii ''serverpublickey''" "ascii ''clientpublickey''"
  "ascii ''clientip''" "ascii ''clientcidr''" "ascii ''serverip''" "ascii ''serverport''" "ascii ''dnsip''"
  "ascii ''serverinternalip''" "ascii ''serverinternalcidr''" "ascii ''serverpublicvpnport''" "ascii ''peers''"
  "ascii ''success''" "ascii ''devicetoken''" "ascii ''publicvpnport''"
  by (simp_all add: ascii_def)

lemma peer_stored: "struct_value peer_fields (peer_json p) zero_peer = (p, True)"
  by (simp add: struct_value_def peer_json_def peer_fields_def zero_peer_def)

lemma peers_stored: "slice_value peer_fields zero_peer (JArr (map peer_json ps)) = Some (ps, True)"
  by (rule slice_value_map) (rule peer_stored)

lemma peers_proper: "list_all ascii_peer ps \<Longrightarrow> proper (JArr (map peer_json ps))"
  by (auto simp: list_all_iff ascii_peer_def peer_json_def)

lemma peers_depth: "json_depth (JArr (map peer_json ps)) \<le> 2"
  by (auto simp: peer_json_def)

lemma connect_stored: "int64 (ServerPort r) \<Longrightarrow> struct_value connect_fields (connect_json r) zero_connect = (r, True)"
  by (simp add: struct_value_def connect_json_def connect_fields_def zero_connect_def int_field_text int64_def)

lemma serve_stored: "int64 (ServerPublicVPNPort r) \<Longrightarrow> struct_value serve_fields (serve_json r) zero_serve = (r, True)"
  by (simp add: struct_value_def serve_json_def serve_fields_def zero_serve_def int_field_text int64_def slice_field_def
      peers_stored)

lemma append_stored: "struct_value append_fields (append_json ps) [] = (ps, True)"
  by (simp add: struct_value_def append_json_def append_fields_def slice_field_def peers_stored)

lemma params_proper: "ascii_call c \<Longrightarrow> proper (params_json c) \<and> json_depth (params_json c) \<le> 3"
  using peers_proper peers_depth
  by (cases c)
    (auto simp: connect_json_def serve_json_def append_json_def int64_def int_text_proper simp del: proper.simps(3) json_depth.simps(1))


lemma decode_params_json:
  assumes "proper v" "json_depth v \<le> 3" "struct_value fs v z = (r, True)"
  shows "decode_params fs z (Some (json_text v)) = Parsed r"
  using assms by (simp add: decode_params_def Unmarshal_text maxNestingDepth_def)



section \<open>The answers of the daemon\<close>

lemma reply_stored:
  assumes "answers call r" and "list_all ascii [DeviceToken r, re_PublicKey r, PublicVpnPort r]"
  shows "Unmarshal (reply_fields call) (json_text (reply_json call r)) zero_reply = (r, True)"
proof -
  have "proper (reply_json call r)" using assms(2) by (cases call) auto
  moreover have "json_depth (reply_json call r) \<le> maxNestingDepth" by (cases call) (auto simp: maxNestingDepth_def)
  moreover have "struct_value (reply_fields call) (reply_json call r) zero_reply = (r, True)"
    using assms(1)
    by (cases call; simp add: struct_value_def success_field_def zero_reply_def GetDeviceAuthResponse_def
        GetClientInformationResponse_def GetServeInformationResponse_def SuccessResponse_def)
  ultimately show ?thesis by (simp add: Unmarshal_text)
qed

text \<open>What a handler sends are answers to its call.\<close>

definition answered :: "rpc_call \<Rightarrow> nat \<Rightarrow> (nat \<times> rpc_reply) list \<Rightarrow> 'w process \<Rightarrow> bool" where
  "answered call c before p \<longleftrightarrow>
     (\<exists>rs. sent p = before @ rs \<and> list_all (\<lambda>(c', r). c' = c \<and> answers call r) rs)"

lemma keeps_answered_reply: "answers call r \<Longrightarrow> keeps (answered call c before) (reply c r)"
  unfolding reply_def answered_def by (intro keeps_modify) auto

lemma keeps_answered_parts:
  "keeps (answered call c before) (on_disk m)" "keeps (answered call c before) (on_wg m')"
  "keeps (answered call c before) (next_key_pair W)" "keeps (answered call c before) (set_rvpn f)"
  "keeps (answered call c before) (beat d)"
  by (auto simp: keeps_def on_disk_def on_wg_def next_key_pair_def set_rvpn_def beat_def modify_def answered_def split: prod.splits if_splits)

lemma keeps_answered_state:
  assumes "answers call f"
  shows "keeps (answered call c before) (load_state c f)" "keeps (answered call c before) (ensure_keys W c f s)"
  unfolding load_state_def ensure_keys_def Let_def
  by (intro keeps_intros keeps_answered_parts keeps_answered_reply assms)+

lemma keeps_answered_Handle: "keeps (answered call c before) (Handle W G h c (request_of call))"
  by (cases call)
    (auto simp: handle_GetClientInformation_def handle_GetServeInformation_def handle_ConnectServer_def
      serveVPNHandler_def appendVPNPeersHandler_def complain_if_def unmarshal_def Let_def GetDeviceAuthResponse_def
      GetClientInformationResponse_def GetServeInformationResponse_def SuccessResponse_def
      intro!: keeps_intros keeps_answered_parts keeps_answered_reply keeps_answered_state)


text \<open>
  C22: Whatever the state of the daemon, all it sends while it handles a call goes out on the connection of the
  call and is read by the control plane, in the response struct of that call, as what the daemon meant.
\<close>

theorem answers_received:
  assumes "Handle W G h c (request_of call) p = (e, p')" and "(c', r) \<in> set (drop (length (sent p)) (sent p'))"
    and "list_all ascii [DeviceToken r, re_PublicKey r, PublicVpnPort r]"
  shows "c' = c \<and> Unmarshal (reply_fields call) (json_text (reply_json call r)) zero_reply = (r, True)"
proof -
  have "answered call c (sent p) p" by (simp add: answered_def)
  then have "answered call c (sent p) p'" using keepsD [OF keeps_answered_Handle] assms(1) by blast
  then have "c' = c" "answers call r" using assms(2) by (auto simp: answered_def list_all_iff)
  with reply_stored [OF _ assms(3)] show ?thesis by simp
qed

theorem answers_received_witness:
  "let p = new_process () \<lparr>dir_exists = True, state_file = None, faults = []\<rparr>; r = GetDeviceAuthResponse True ''token'' in
   \<forall>W :: nat wgtypes. \<forall>G.
     (\<exists>p'. Handle W G \<lparr>deviceToken = ''token'', controlPlaneAddr = []\<rparr> 0 (request_of GetDeviceAuth) p = (Return (), p') \<and>
        (0, r) \<in> set (drop (length (sent p)) (sent p'))) \<and>
     Unmarshal (reply_fields GetDeviceAuth) (json_text (reply_json GetDeviceAuth r)) zero_reply = (r, True)"
proof -
  let ?p = "new_process () \<lparr>dir_exists = True, state_file = None, faults = []\<rparr>" and ?r = "GetDeviceAuthResponse True ''token''"
  let ?p' = "?p\<lparr>sent := [(0, ?r)]\<rparr>"
  have run: "Handle W G \<lparr>deviceToken = ''token'', controlPlaneAddr = []\<rparr> 0 (request_of GetDeviceAuth) ?p = (Return (), ?p')"
    for W :: "nat wgtypes" and G :: "unit wireguard"
    by (simp add: new_process_def)
  have mem: "(0, ?r) \<in> set (drop (length (sent ?p)) (sent ?p'))" by (simp add: new_process_def)
  have texts: "list_all ascii [DeviceToken ?r, re_PublicKey ?r, PublicVpnPort ?r]" by (simp add: GetDeviceAuthResponse_def ascii_def)
  show ?thesis
    unfolding Let_def
    by (intro allI conjI exI [of _ ?p'] run mem answers_received [OF run mem texts, THEN conjunct2])
qed

end
