(* ===== verification/Streams.thy ===== *)
theory Streams
  imports Wire_Json Control_Plane_Props
begin

text \<open>
  The WebSocket under JSON-RPC: the adapters of both ends (\<open>daemon/jrpc/stream.go\<close>,
  \<open>cmd/control-plane/jrpc/stream.go\<close>), which make an object stream of a connection of their library, and
  what the message limit of the daemon's library means for a target with many devices.
\<close>

section \<open>The adapters\<close>

text \<open>
  The libraries over a connection: \<open>wsjson\<close> and \<open>websocket.Conn\<close> of \<open>nhooyr.io/websocket\<close> on the device,
  \<open>websocket.Conn\<close> of \<open>gofiber/websocket\<close> on the control plane.
\<close>

record 's nhooyr_websocket =
  wsjson_Write :: "json \<Rightarrow> ('s, unit) stmt"
  wsjson_Read :: "('s, json) stmt"
  nhooyr_Close :: "nat \<Rightarrow> string \<Rightarrow> ('s, unit) stmt"

record 's gofiber_websocket =
  WriteJSON :: "json \<Rightarrow> ('s, unit) stmt"
  ReadJSON :: "('s, json) stmt"
  gofiber_Close :: "('s, unit) stmt"

text \<open>The interface \<open>jsonrpc2.ObjectStream\<close>.\<close>

record 's ObjectStream =
  WriteObject :: "json \<Rightarrow> ('s, unit) stmt"
  ReadObject :: "('s, json) stmt"
  Close :: "('s, unit) stmt"

definition StatusNormalClosure :: nat where
  "StatusNormalClosure = 1000"

definition NewObjectStream :: "'s nhooyr_websocket \<Rightarrow> 's ObjectStream" where
  "NewObjectStream conn =
     \<lparr>WriteObject = (\<lambda>obj. wsjson_Write conn obj), ReadObject = wsjson_Read conn,
      Close = nhooyr_Close conn StatusNormalClosure []\<rparr>"

definition NewObjectStream_control :: "'s gofiber_websocket \<Rightarrow> 's ObjectStream" where
  "NewObjectStream_control conn =
     \<lparr>WriteObject = (\<lambda>obj. WriteJSON conn obj), ReadObject = ReadJSON conn, Close = gofiber_Close conn\<rparr>"

section \<open>What the libraries document\<close>

text \<open>
  \<open>inbox\<close> lists the messages on the way to the device.  \<open>WriteJSON\<close> sends the JSON text, with white space
  after it; \<open>wsjson.Read\<close> takes one message and decodes it, unless the message has more bytes than the read
  limit, which is 32768 when it was never set, as here: then it fails.
\<close>

definition sends_text :: "'s gofiber_websocket \<Rightarrow> ('s \<Rightarrow> string list) \<Rightarrow> bool" where
  "sends_text F inbox \<longleftrightarrow>
     (\<forall>v s s'. WriteJSON F v s = (Inr (), s') \<longrightarrow>
        (\<exists>e. list_all white e \<and> inbox s' = inbox s @ [json_text v @ e]))"

definition read_limit :: nat where
  "read_limit = 32768"

definition reads_up_to_limit :: "'s nhooyr_websocket \<Rightarrow> ('s \<Rightarrow> string list) \<Rightarrow> bool" where
  "reads_up_to_limit N inbox \<longleftrightarrow>
     (\<forall>s m ms. inbox s = m # ms \<longrightarrow>
        (if read_limit < length m then \<exists>err s'. wsjson_Read N s = (Inl err, s')
         else \<forall>v. parse_json m = Some v \<longrightarrow> (\<exists>s'. wsjson_Read N s = (Inr v, s') \<and> inbox s' = ms)))"

text \<open>A JSON-RPC request holds the parameters of the call.\<close>

definition frames_params :: "(string \<Rightarrow> json \<Rightarrow> json) \<Rightarrow> bool" where
  "frames_params frame \<longleftrightarrow> (\<forall>m v. length (json_text v) \<le> length (json_text (frame m v)))"

section \<open>How long a request to serve is\<close>

lemma rune_size_le: "rune_size s \<le> length s"
  by (auto simp: rune_size_def Let_def Suc_le_eq)

lemma rune_size_le_4: "rune_size s \<le> 4"
  by (simp add: rune_size_def Let_def)

lemma quote_not_shorter: "length s \<le> length (quote s)"
proof (induction s rule: quote.induct)
  case (2 c s)
  let ?k = "rune_size (c # s)"
  have q: "1 \<le> length (quote_byte c)" by (simp add: quote_byte_def)
  have k: "?k \<le> Suc (length s)" using rune_size_le [of "c # s"] by simp
  show ?case
  proof (cases "byte c < 128 \<or> ?k = 0")
    case True
    then show ?thesis using 2 q by (auto simp: Let_def)
  next
    case False
    have "line_separator (Suc 0) \<noteq> line_separator 0" by (simp add: line_separator_def)
    then show ?thesis using False 2 k rune_size_le_4 [of "c # s"] by (auto simp: Let_def)
  qed
qed simp

lemma length_text_of [simp]: "length (text_of ts) = (\<Sum>t\<leftarrow>ts. length (token_text t))"
  by (simp add: text_of_def length_concat o_def)

lemma length_commas:
  assumes "\<And>x. x \<in> set xs \<Longrightarrow> n \<le> length (text_of (blk x))"
  shows "length xs * Suc n \<le> Suc (length (text_of (commas (map blk xs))))"
  using assms by (induction xs rule: induct_list012) force+

lemma length_str [simp]: "length (token_text (Str s)) = length (quote s) + 2"
  by simp

text \<open>A peer with a WireGuard key and an address takes at least 103 bytes.\<close>

definition full_peer :: "WireGuardPeer \<Rightarrow> bool" where
  "full_peer p \<longleftrightarrow> 44 \<le> length (PublicKey p) \<and> 8 \<le> length (AllowedIP p) \<and> 3 \<le> length (AllowedCidr p)"

lemma length_peer: "full_peer p \<Longrightarrow> 103 \<le> length (json_text (peer_json p))"
  using quote_not_shorter [of "PublicKey p"] quote_not_shorter [of "AllowedIP p"] quote_not_shorter [of "AllowedCidr p"]
    quote_not_shorter [of "''publickey''"] quote_not_shorter [of "''allowedip''"] quote_not_shorter [of "''allowedcidr''"]
  by (simp add: full_peer_def json_text_def peer_json_def)

lemma length_serve_params:
  assumes "list_all full_peer (Peers r)"
  shows "104 * length (Peers r) + 90 \<le> length (json_text (serve_json r))"
proof -
  have "103 \<le> length (text_of (json_tokens (peer_json p)))" if "p \<in> set (Peers r)" for p
    using that assms length_peer [of p] by (simp add: list_all_iff json_text_def)
  then have "length (Peers r) * 104 \<le> Suc (length (text_of (commas (map (\<lambda>p. json_tokens (peer_json p)) (Peers r)))))"
    using length_commas [of "Peers r" 103 "\<lambda>p. json_tokens (peer_json p)"] by simp
  then show ?thesis
    using quote_not_shorter [of "''serverpublickey''"] quote_not_shorter [of "''serverinternalip''"]
      quote_not_shorter [of "''serverinternalcidr''"] quote_not_shorter [of "''serverpublicvpnport''"] quote_not_shorter [of "''peers''"]
    by (simp add: json_text_def serve_json_def comp_def)
qed

section \<open>What is sent is received\<close>

lemma stops_spaced: "delimits ts \<Longrightarrow> ts \<noteq> [] \<Longrightarrow> stops (text_of ts @ e)"
  by (cases ts) (auto simp: stops_def text_of_def)

lemma tokens_all_white: "list_all white e \<Longrightarrow> tokens e = Some []"
  by (induction e) auto

lemma tokens_spaced_white:
  "spaced ts \<Longrightarrow> ts = us @ [RBrace] \<Longrightarrow> list_all white e \<Longrightarrow> tokens (text_of ts @ e) = Some ts"
proof (induction ts arbitrary: us)
  case (Cons t ts)
  have tx: "text_of (t # ts) = token_text t @ text_of ts" by (simp add: text_of_def)
  show ?case
  proof (cases us)
    case Nil
    then show ?thesis using Cons.prems tokens_token [of RBrace e] by (simp add: text_of_def tokens_all_white)
  next
    case us: (Cons u us')
    then have ts: "ts = us' @ [RBrace]" using Cons.prems by simp
    show ?thesis
    proof (cases "written t")
      case True
      then have "spaced ts" using Cons.prems(1) by (simp add: spaced_written)
      from Cons.IH [OF this ts Cons.prems(3)] show ?thesis using True by (simp add: tx tokens_token)
    next
      case False
      then obtain w where t: "t = Num w" using Cons.prems(1) by (cases t) auto
      then have sp: "is_int_text w" "delimits ts" "spaced ts" using Cons.prems(1) by simp_all
      have "stops (text_of ts @ e)" using sp(2) ts by (intro stops_spaced) simp_all
      from tokens_number [OF sp(1) this] Cons.IH [OF sp(3) ts Cons.prems(3)] show ?thesis by (simp add: tx [unfolded t] t)
    qed
  qed
qed simp

lemma parse_json_white:
  assumes "proper (JObj ms)" and "json_depth (JObj ms) \<le> maxNestingDepth" and "list_all white e"
  shows "parse_json (json_text (JObj ms) @ e) = Some (JObj ms)"
proof -
  let ?ts = "json_tokens (JObj ms)"
  have sp: "spaced ?ts" using spaced_json_tokens [OF assms(1), of "[]"] by simp
  obtain us where us: "?ts = us @ [RBrace]" by simp
  have "tokens (json_text (JObj ms) @ e) = Some ?ts" "tokens (json_text (JObj ms)) = Some ?ts"
    using tokens_spaced_white [OF sp us assms(3)] tokens_spaced [OF sp] by (simp_all add: json_text_def)
  then show ?thesis using parse_json_text [OF assms(1,2)] by (simp add: parse_json_def)
qed

lemma stream_written:
  "sends_text F inbox \<Longrightarrow> WriteObject (NewObjectStream_control F) v s = (Inr (), s') \<Longrightarrow>
     \<exists>e. list_all white e \<and> inbox s' = inbox s @ [json_text v @ e]"
  by (simp add: sends_text_def NewObjectStream_control_def)

text \<open>
  A request that fits the limit goes through both adapters unchanged: what the control plane writes is what
  the daemon reads, and nothing is left of it.
\<close>

theorem stream_carries:
  assumes "sends_text F inbox" and "reads_up_to_limit N inbox" and "inbox s = []"
    and "WriteObject (NewObjectStream_control F) (JObj ms) s = (Inr (), s')"
    and "proper (JObj ms)" and "json_depth (JObj ms) \<le> maxNestingDepth" and "\<forall>m \<in> set (inbox s'). length m \<le> read_limit"
  shows "\<exists>s''. ReadObject (NewObjectStream N) s' = (Inr (JObj ms), s'') \<and> inbox s'' = []"
proof -
  obtain e where e: "list_all white e" "inbox s' = [json_text (JObj ms) @ e]"
    using stream_written [OF assms(1,4)] assms(3) by auto
  moreover have "length (json_text (JObj ms) @ e) \<le> read_limit" using assms(7) e(2) by simp
  ultimately show ?thesis
    using assms(2) parse_json_white [OF assms(5,6) e(1)] unfolding reads_up_to_limit_def
    by (auto simp: NewObjectStream_def)
qed

section \<open>A target with too many devices\<close>

text \<open>
  A request that does not fit is never read.
\<close>

lemma oversized_not_read:
  assumes "sends_text F inbox" and "reads_up_to_limit N inbox" and "frames_params frame" and "inbox s = []"
    and "WriteObject (NewObjectStream_control F) (frame m v) s = (Inr (), s')" and "read_limit < length (json_text v)"
  shows "\<exists>err s''. ReadObject (NewObjectStream N) s' = (Inl err, s'')"
proof -
  obtain e where "inbox s' = [json_text (frame m v) @ e]"
    using stream_written [OF assms(1,5)] assms(4) by auto
  moreover have "read_limit < length (json_text (frame m v) @ e)"
    using assms(3,6) unfolding frames_params_def by (metis le_add1 length_append less_le_trans)
  ultimately show ?thesis using assms(2) unfolding reads_up_to_limit_def by (simp add: NewObjectStream_def)
qed

text \<open>
  C20: A target that 315 devices have connected to cannot be served any more.  The session of the device that
  serves goes through, and the target counts as alive; but the request that carries its peers is longer than
  the daemon's WebSocket reads, so that whatever the libraries do within what they document, the daemon gets
  an error in place of it.  The rows are never deleted, and the network of a target has room for 510 devices.
\<close>

theorem crowded_target_unserved:
  assumes "answers (db w) = []" and "ValidateDeviceToken J key (DeviceToken a) = Return (Inr dev)"
    and "filter (\<lambda>r. t_name r = target) (targets (db w)) = [t0]"
    and "atoi (PublicVpnPort i) = Inr port" and "re_PublicKey i \<noteq> []" and "ip \<noteq> []"
    and "315 \<le> length (filter (\<lambda>r. c_target r = target) (connections (db w)))"
    and "\<forall>r \<in> set (connections (db w)). c_target r = target \<longrightarrow> full_peer (peer_of r)"
    and "sends_text F inbox" and "reads_up_to_limit N inbox" and "frames_params frame"
  shows "\<exists>w' r. clientServe_body J key target ip me (Inr a) (Inr i) now w = (SWait now, w') \<and>
    last (sent w') = (me, ServeVPN r) \<and> (\<exists>t. filter (\<lambda>r. t_name r = target) (targets (db w')) = [t] \<and>
      targetServerAlive (Some t) (connMan w')) \<and>
    (\<forall>s s'. inbox s = [] \<and>
       WriteObject (NewObjectStream_control F) (frame (method_name (ServeVPN r)) (params_json (ServeVPN r))) s = (Inr (), s') \<longrightarrow>
       (\<exists>err s''. ReadObject (NewObjectStream N) s' = (Inl err, s'')))"
proof -
  let ?ps = "map peer_of (filter (\<lambda>r. c_target r = target) (connections (db w)))"
  let ?t = "t0\<lparr>serverPubkey := re_PublicKey i, serverPublicIp := ip, serverPublicVpnPort := PublicVpnPort i\<rparr>"
  let ?r = "serve_request ?t port ?ps"
  have "list_all full_peer (Peers ?r)" "315 \<le> length (Peers ?r)"
    using assms(7,8) by (auto simp: serve_request_def list_all_iff)
  then have long: "read_limit < length (json_text (params_json (ServeVPN ?r)))"
    using length_serve_params [of ?r] by (simp add: read_limit_def)
  show ?thesis
    using served_run [OF assms(1-3) refl assms(4-6), of me now] oversized_not_read [OF assms(9-11) _ _ long] by fastforce
qed

section \<open>On small libraries\<close>

text \<open>A wire that is the list of the messages on it, and the frame of a JSON-RPC request.\<close>

definition queue_gofiber :: "string list gofiber_websocket" where
  "queue_gofiber =
     \<lparr>WriteJSON = (\<lambda>v q. (Inr (), q @ [json_text v @ [char_of (10 :: nat)]])), ReadJSON = (\<lambda>q. (Inl RpcError, q)),
      gofiber_Close = (\<lambda>q. (Inr (), []))\<rparr>"

definition queue_nhooyr :: "string list nhooyr_websocket" where
  "queue_nhooyr =
     \<lparr>wsjson_Write = (\<lambda>v q. (Inl RpcError, q)),
      wsjson_Read = (\<lambda>q. case q of
         [] \<Rightarrow> (Inl RpcError, [])
       | m # ms \<Rightarrow> (case parse_json m of
           Some v \<Rightarrow> if length m \<le> read_limit then (Inr v, ms) else (Inl RpcError, [])
         | None \<Rightarrow> (Inl RpcError, []))),
      nhooyr_Close = (\<lambda>code reason q. (Inr (), []))\<rparr>"

definition rpc_frame :: "string \<Rightarrow> json \<Rightarrow> json" where
  "rpc_frame m v = JObj [(''method'', JStr m), (''params'', v), (''jsonrpc'', JStr ''2.0'')]"

lemma queue_laws: "sends_text queue_gofiber (\<lambda>q. q)" "reads_up_to_limit queue_nhooyr (\<lambda>q. q)" "frames_params rpc_frame"
proof -
  show "sends_text queue_gofiber (\<lambda>q. q)"
    by (auto simp: sends_text_def queue_gofiber_def white_def intro!: exI [of _ "[char_of (10 :: nat)]"])
  show "reads_up_to_limit queue_nhooyr (\<lambda>q. q)"
    by (auto simp: reads_up_to_limit_def queue_nhooyr_def split: option.split)
  show "frames_params rpc_frame" by (simp add: frames_params_def rpc_frame_def json_text_def)
qed

theorem stream_carries_witness:
  "let v = rpc_frame ''get_device_auth'' (JObj []); q = snd (WriteObject (NewObjectStream_control queue_gofiber) v []) in
   ReadObject (NewObjectStream queue_nhooyr) q = (Inr v, [])"
proof -
  let ?ms = "[(''method'', JStr ''get_device_auth''), (''params'', JObj []), (''jsonrpc'', JStr ''2.0'')]"
  let ?q = "[json_text (JObj ?ms) @ [char_of (10 :: nat)]]"
  have w: "WriteObject (NewObjectStream_control queue_gofiber) (JObj ?ms) [] = (Inr (), ?q)"
    by (simp add: NewObjectStream_control_def queue_gofiber_def)
  have "proper (JObj ?ms)" "json_depth (JObj ?ms) \<le> maxNestingDepth"
    by (simp_all add: ascii_def maxNestingDepth_def)
  moreover have "length (json_text (JObj ?ms)) < read_limit" by code_simp
  ultimately have "\<exists>s''. ReadObject (NewObjectStream queue_nhooyr) ?q = (Inr (JObj ?ms), s'') \<and> s'' = []"
    by (intro stream_carries [OF queue_laws(1,2) _ w]) simp_all
  then show ?thesis by (simp add: Let_def rpc_frame_def NewObjectStream_control_def queue_gofiber_def)
qed

text \<open>A target with 315 connections.\<close>

definition crowd :: "nat \<Rightarrow> RVPNConnection" where
  "crowd n =
     \<lparr>c_id = nat_text n, c_target = ''t'', c_deviceId = ''d'' @ nat_text n,
      c_pubkey = nat_text n @ replicate 43 (CHR ''=''),
      clientIp = (if n < 254 then ''10.8.0.'' @ nat_text (n + 2) else ''10.8.1.'' @ nat_text (n - 254)),
      clientCidr = ''/23''\<rparr>"

definition crowded_world :: world where
  "crowded_world = live_world\<lparr>db := (db live_world)\<lparr>connections := map crowd [0..<315]\<rparr>\<rparr>"

lemma crowd_full: "full_peer (peer_of (crowd n))"
proof -
  have "1 \<le> length (nat_text m)" for m by (cases "nat_text m") simp_all
  then show ?thesis using Suc_le_mono by (auto simp: full_peer_def peer_of_def crowd_def)
qed

theorem crowded_target_unserved_witness:
  "\<exists>w' r. clientServe_body colon_jwt ''k'' ''t'' ''8.8.8.8'' 9 (Inr (token_reply ''device:k:d2''))
      (Inr (GetServeInformationResponse True ''spk2'' ''80'')) 100 crowded_world = (SWait 100, w') \<and>
    last (sent w') = (9, ServeVPN r) \<and>
    (let q = snd (WriteObject (NewObjectStream_control queue_gofiber) (rpc_frame ''serve_vpn'' (serve_json r)) []) in
     \<exists>err q'. ReadObject (NewObjectStream queue_nhooyr) q = (Inl err, q'))"
proof -
  let ?i = "GetServeInformationResponse True ''spk2'' ''80''"
  have i: "re_PublicKey ?i \<noteq> []" "atoi (PublicVpnPort ?i) = Inr 80" "''8.8.8.8'' \<noteq> []"
    using demo_tokens(4) by (simp_all add: GetServeInformationResponse_def)
  have rows: "connections (db crowded_world) = map crowd [0..<315]" "answers (db crowded_world) = []"
    "filter (\<lambda>r. t_name r = ''t'') (targets (db crowded_world)) = [live_target]"
    using live_world_facts(1,2) by (simp_all add: crowded_world_def)
  have t: "c_target (crowd n) = ''t''" for n by (simp add: crowd_def)
  have many: "315 \<le> length (filter (\<lambda>r. c_target r = ''t'') (connections (db crowded_world)))"
    by (simp add: rows(1) filter_map comp_def t del: upt.simps)
  have full: "\<forall>r \<in> set (connections (db crowded_world)). c_target r = ''t'' \<longrightarrow> full_peer (peer_of r)"
    using crowd_full by (auto simp: rows(1) simp del: upt.simps)
  have wr: "WriteObject (NewObjectStream_control queue_gofiber) v [] =
      (Inr (), snd (WriteObject (NewObjectStream_control queue_gofiber) v []))" for v
    by (simp add: NewObjectStream_control_def queue_gofiber_def)
  show ?thesis
    using crowded_target_unserved [OF rows(2) live_tokens(2) rows(3) i(2,1,3) many full queue_laws, of 9 100] wr
    unfolding Let_def by simp metis
qed

end
