(* ===== verification/Elevate.thy ===== *)
theory Elevate
  imports Go_Prog
begin

text \<open>
  Two small tools that stand beside the rest: the package \<open>elevate\<close> (\<open>cmd/client/elevate\<close>), which asks for
  administrator rights, and the report of a WireGuard device (\<open>daemon/wg/network_util.go\<close>).
\<close>

section \<open>Who runs the program\<close>

text \<open>
  \<open>user.Current\<close> returns a nil user with an error, and the code looks at the user first.
\<close>

definition CheckAdmin_linux :: "string result \<Rightarrow> (bool \<times> go_error option) exec" where
  "CheckAdmin_linux current =
     (case current of Inl err \<Rightarrow> Panic | Inr Username \<Rightarrow> Return (Username = ''root'', None))"

text \<open>The identifier of the group of administrators, and whether the token of the process is a member.\<close>

definition CheckAdmin_windows :: "'sid result \<Rightarrow> ('sid \<Rightarrow> bool result) \<Rightarrow> (bool \<times> go_error option) exec" where
  "CheckAdmin_windows AllocateAndInitializeSid IsMember =
     (case AllocateAndInitializeSid of
        Inl err \<Rightarrow> Fatal
      | Inr sid \<Rightarrow> (case IsMember sid of Inl err \<Rightarrow> Fatal | Inr member \<Rightarrow> Return (member, None)))"

lemma root_is_admin: "CheckAdmin_linux (Inr u) = Return (b, e) \<longleftrightarrow> b = (u = ''root'') \<and> e = None"
  by (auto simp: CheckAdmin_linux_def)

lemma unknown_user_panics: "CheckAdmin_linux (Inl err) = Panic"
  by (simp add: CheckAdmin_linux_def)

section \<open>A command with elevated rights\<close>

text \<open>The system: the output of \<open>where wireguard\<close>, the working directory, and \<open>ShellExecute\<close>.\<close>

record shell_call =
  sc_verb :: "string option"
  sc_exe :: "string option"
  sc_args :: "string option"
  sc_cwd :: "string option"

record 'o shell_os =
  run_where :: "('o, string) stmt"
  Getwd :: "('o, string) stmt"
  ShellExecute :: "shell_call \<Rightarrow> ('o, unit) stmt"
  shell_error :: "go_error \<Rightarrow> string"

record 'o console =
  shell_state :: 'o
  shell_printed :: "string list"

definition on_shell :: "('o, 'a) stmt \<Rightarrow> ('o console, 'a) stmt" where
  "on_shell m s = (case m (shell_state s) of (r, st) \<Rightarrow> (r, s\<lparr>shell_state := st\<rparr>))"

definition shell_println :: "string \<Rightarrow> ('o console, unit) prog" where
  "shell_println msg = modify (\<lambda>s. s\<lparr>shell_printed := shell_printed s @ [msg]\<rparr>)"

text \<open>\<open>strings.TrimSuffix\<close>, and \<open>syscall.UTF16PtrFromString\<close>, which is nil for a text with a zero byte.\<close>

definition TrimSuffix :: "string \<Rightarrow> string \<Rightarrow> string" where
  "TrimSuffix s suffix =
     (if length suffix \<le> length s \<and> drop (length s - length suffix) s = suffix
      then take (length s - length suffix) s else s)"

definition UTF16PtrFromString :: "string \<Rightarrow> string option" where
  "UTF16PtrFromString s = (if CHR 0x00 \<in> set s then None else Some s)"

definition newline :: string where
  "newline = [CHR 0x0A]"

definition cmd_exe :: string where
  "cmd_exe = ''C:'' @ CHR 0x5C # ''Windows'' @ CHR 0x5C # ''System32'' @ CHR 0x5C # ''cmd.exe''"

definition wireguard_args :: "string \<Rightarrow> string" where
  "wireguard_args cmd = ''/C '' @ CHR 0x22 # ''wireguard '' @ cmd @ [CHR 0x22]"

definition RunWGCmdElevated :: "'o shell_os \<Rightarrow> string \<Rightarrow> ('o console, unit) prog" where
  "RunWGCmdElevated K cmd =
     bind (attempt (on_shell (run_where K))) (\<lambda>wgPathRaw.
       case wgPathRaw of
         Inl err \<Rightarrow> then_do (shell_println (''failed to execute cmd '' @ shell_error K err)) log_fatal
       | Inr raw \<Rightarrow>
           (let wgPath = TrimSuffix raw newline in
            if wgPath = ''INFO: Could not find files for the given pattern(s).''
            then then_do (shell_println ''wireguard not installed, please install and try again'') log_fatal
            else bind (attempt (on_shell (Getwd K))) (\<lambda>cwdResult.
              let cwd = (case cwdResult of Inl err \<Rightarrow> [] | Inr cwd \<Rightarrow> cwd) in
              bind (attempt (on_shell (ShellExecute K
                  \<lparr>sc_verb = UTF16PtrFromString ''runas'', sc_exe = UTF16PtrFromString cmd_exe,
                   sc_args = UTF16PtrFromString (wireguard_args cmd), sc_cwd = UTF16PtrFromString cwd\<rparr>))) (\<lambda>r.
                case r of
                  Inl err \<Rightarrow> shell_println (''failed to run wg command '' @ shell_error K err)
                | Inr _ \<Rightarrow> ret ()))))"

text \<open>
  It either exits before anything is run, or asks the shell for exactly one command and returns, whatever
  became of it; a failure is only printed.
\<close>

lemma RunWGCmdElevated_cases:
  "fst (RunWGCmdElevated K cmd s) = Fatal \<or> fst (RunWGCmdElevated K cmd s) = Return ()"
  by (auto simp: RunWGCmdElevated_def on_shell_def shell_println_def prog_run Let_def split: prod.splits sum.splits)

lemma RunWGCmdElevated_fails_early:
  assumes "run_where K (shell_state s) = (Inl err, o')"
  shows "RunWGCmdElevated K cmd s =
    (Fatal, s\<lparr>shell_state := o', shell_printed := shell_printed s @ [''failed to execute cmd '' @ shell_error K err]\<rparr>)"
  using assms by (simp add: RunWGCmdElevated_def on_shell_def shell_println_def prog_run)

lemma RunWGCmdElevated_runs:
  assumes "run_where K (shell_state s) = (Inr raw, o1)"
    and "TrimSuffix raw newline \<noteq> ''INFO: Could not find files for the given pattern(s).''"
    and "Getwd K o1 = (Inr cwd, o2)" and "CHR 0x00 \<notin> set cmd \<union> set cwd"
    and "ShellExecute K \<lparr>sc_verb = Some ''runas'', sc_exe = Some cmd_exe, sc_args = Some (wireguard_args cmd), sc_cwd = Some cwd\<rparr> o2 =
      (Inr (), o3)"
  shows "RunWGCmdElevated K cmd s = (Return (), s\<lparr>shell_state := o3\<rparr>)"
proof -
  have "UTF16PtrFromString ''runas'' = Some ''runas''" "UTF16PtrFromString cmd_exe = Some cmd_exe"
    by (simp_all add: UTF16PtrFromString_def cmd_exe_def)
  moreover have "UTF16PtrFromString (wireguard_args cmd) = Some (wireguard_args cmd)" "UTF16PtrFromString cwd = Some cwd"
    using assms(4) by (auto simp: UTF16PtrFromString_def wireguard_args_def)
  ultimately show ?thesis
    using assms(1-3,5) by (simp add: RunWGCmdElevated_def on_shell_def prog_run Let_def)
qed

section \<open>The report of a device\<close>

record wg_Device =
  dev_Name :: string
  dev_Type :: string
  dev_PublicKey :: string
  dev_ListenPort :: nat

definition printDevice :: "wg_Device \<Rightarrow> string" where
  "printDevice d =
     ''interface: '' @ dev_Name d @ '' ('' @ dev_Type d @ '')'' @ newline @
     ''  public key: '' @ dev_PublicKey d @ newline @
     ''  private key: (hidden)'' @ newline @
     ''  listening port: '' @ nat_text (dev_ListenPort d) @ newline"

end
