(* ===== verification/Spec2Isabelle.thy ===== *)
theory Spec2Isabelle
  imports Control_Plane_Props Serve_Session End_To_End Wire_Types Client_Props Wg_Contract Heartbeats Service_Windows Oauth State_Race Daemon_Race Daemon_Threads Wire_Json Streams Elevate
begin

text \<open>
  A verification library for rVPN, a VPN whose control plane hands out addresses and keys over JSON-RPC
  while the traffic runs over WireGuard.  It models the Go code under \<open>src/\<close> and proves what its parts
  promise to each other.

  \<^bold>\<open>The program.\<close>  The \<^emph>\<open>control plane\<close> (\<open>cmd/control-plane\<close>) is a web server over a Postgres database.
  Users log in through an identity provider, create targets and register devices over HTTP; a registered
  device then opens a WebSocket, over which the control plane calls it.  A device that \<^emph>\<open>connects\<close> to a
  target is asked who it is and for its public key, is given an address in the network of the target and
  told to set up its tunnel, while the device that \<^emph>\<open>serves\<close> the target is told of the new peer.  On the
  device runs the \<^emph>\<open>rVPN daemon\<close> (\<open>daemon\<close>), which answers these calls, keeps its keys and the login in a
  file, and drives the \<^emph>\<open>WireGuard daemon\<close> of its platform (\<open>daemon/wg\<close>).  The \<^emph>\<open>clients\<close> (\<open>cmd/client\<close>,
  \<open>cmd/client_gui\<close>) talk to the daemon over net/rpc and to the control plane over HTTP.  On Windows the
  daemon runs as a \<^emph>\<open>service\<close> (\<open>service\<close>).

  \<^bold>\<open>How code becomes definitions.\<close>  A struct is a record and an enumeration a datatype, with the names of
  the source; an \<open>error\<close> is the left side of a sum; a body that can also panic or end in \<open>log.Fatalf\<close>
  returns \<open>exec\<close> (\<open>Rvpn_Prelude\<close>), and device-side code, which does so all the time, is written with the
  combinators of \<open>Go_Prog\<close>, one for each idiom of error handling.  State is passed explicitly.  IPv4
  addresses and Windows metrics are 32-bit words.  Libraries, the operating system, the identity
  provider and the service manager are records of functions, arguments of the definitions over a state of
  any type; the few things relied on are named predicates (\<open>jwt_correct\<close>, \<open>scm_works\<close>, \<open>disk_sound\<close>,
  \<open>reads_secret\<close>), each with an instance on which the theorems are applied.  The database driver and the
  file system are scripts in the state, which may fail any call, and lose the answer of one that took
  effect.  Definitions are executable, but for the records of functions they are given.

  \<^bold>\<open>The control plane.\<close>
  \<^item> \<open>Database\<close>: \<open>db.go\<close>, one definition per method, over tables as lists of rows; the unique keys of the
    schema are interpretations of one locale.
  \<^item> \<open>Conn_Man\<close>: \<open>connman.go\<close>; \<open>Netip\<close>: the part of \<open>net/netip\<close> in use; \<open>Device_Utils\<close>: \<open>device_utils.go\<close>,
    with the search for a free address as a loop over words that ends by a measure, and as an
    interpretation of an allocator contract: least free address, and an error only when all are taken.
  \<^item> \<open>Auth\<close>, \<open>Http_Api\<close>: \<open>auth.go\<close>, \<open>target.go\<close>, \<open>device.go\<close>, \<open>util.go\<close>, the routes of \<open>main.go\<close>: tokens
    round-trip, targets are not taken over, lists are exact.
  \<^item> \<open>Oauth\<close> over \<open>Go_Codec\<close>: \<open>oauth.go\<close> and the start of \<open>main.go\<close>, with base64 and query strings written
    out: nobody is signed in without the provider; which tokens are refused that should not be.
  \<^item> \<open>Jrpc_Types\<close>, \<open>Ws_Session\<close>, \<open>Connect_Session\<close>, \<open>Serve_Session\<close>: \<open>jrpc_types.go\<close>, \<open>device_connect.go\<close>,
    \<open>device_serve.go\<close>.  A handler is a goroutine, so it is modelled twice: straight through, as it is
    written, and as a machine whose steps end at every call to a device and every statement on the
    database.  The two refinement theorems say that the machine, when nothing comes between, does what
    the text does.  \<open>Connect_Props\<close> gives the outcomes of a whole session.
  \<^item> \<open>Control_Plane\<close> runs requests, sessions and restarts in any order over one database and one connection
    manager; \<open>Control_Plane_Inv\<close> states its invariant, \<open>Control_Plane_Safety\<close> shows that every stage keeps
    it, and \<open>Control_Plane_Props\<close> reads off the safety properties, which hold for every run.

  \<^bold>\<open>The device.\<close>
  \<^item> \<open>Daemon_Store\<close>: \<open>state.go\<close>, with the contract of a state store as a locale and its interpretation, on
    the struct that is stored.  \<open>State_File\<close>: the same operations on the bytes of the file, with writes that
    stop anywhere, and a simulation that makes the first an abstraction of the second; what a torn file
    reads as.  \<open>State_Race\<close>: the requests for the device's keys and the login of a client as threads over the
    file, which take turns at every system call; what no schedule can do, what one can, and that a thread
    alone is the handler.
  \<^item> \<open>Rvpn_Daemon\<close>, \<open>Rvpn_Daemon_Props\<close>: \<open>daemon.go\<close>, \<open>daemon_linux.go\<close> and the stubs of the other systems:
    the handler of the control plane's calls, the procedures for the clients, and the daemon's life as a
    list of events, with its invariant.
  \<^item> \<open>Wg_Config\<close>, \<open>Wg_Host\<close>: what the platforms share, with the log of what the system was asked for;
    \<open>Wg_Linux\<close>, \<open>Wg_Windows\<close>, \<open>Wg_Darwin\<close>: \<open>daemon_linux.go\<close>, \<open>daemon_windows.go\<close>, \<open>daemon_darwin.go\<close> and
    their \<open>network_util\<close> files.  Their \<open>_Props\<close> give the exact log of a connection and what a
    disconnection takes back, and which default interface is found.
  \<^item> \<open>Wg_Contract\<close>: what the rVPN daemon relies on of a platform, as a locale with the three platforms as its
    interpretations: its status tells whether the routes into the tunnel are in place.
  \<^item> \<open>Daemon_Threads\<close>: the whole daemon with its goroutines - the requests of any number of connections and the
    calls of clients as threads that are cut at every statement, in a pool under any schedule.  A thread
    alone is the handler; the fields that only clients write let the requests and the calls be shown to
    keep the invariant apart from each other.
  \<^item> \<open>Daemon_Race\<close>: all interleavings of a request that sets up the tunnel with a disconnection: what they
    can end in, and the tunnel they can leave.
  \<^item> \<open>Rvpn_Linux\<close>: the daemon over the Linux platform, and the small system the witnesses run on.
  \<^item> \<open>Client_Cli\<close>, \<open>Client_Gui\<close>, \<open>Client_Props\<close>: \<open>client.go\<close> with its platform files, \<open>app.go\<close>; the
    methods of the GUI are equivalent to the commands of the command line.
  \<^item> \<open>Service_Windows\<close>: \<open>service_windows.go\<close>, as two threads that meet on an unbuffered channel; a run is
    bounded by the number of requests, by a measure.
  \<^item> \<open>End_To_End\<close>: a session of the control plane with the daemons of the two devices it talks to;
    \<open>Heartbeats\<close>: the heartbeats of a device and the wait of its session, with the clock;
    \<open>Wire_Types\<close>: what the daemons make of the addresses in the control plane's messages.
  \<^item> \<open>Streams\<close>: the two \<open>jrpc/stream.go\<close>, which put JSON-RPC on WebSockets: what fits the limit of a message
    arrives, and a target with too many devices has a request that does not.
  \<^item> \<open>Elevate\<close>: the package \<open>cmd/client/elevate\<close>, which nothing calls, and the report of a WireGuard device.

  \<^bold>\<open>JSON.\<close>  \<open>Go_Json\<close>, \<open>Json_Value\<close> and \<open>Json_Struct\<close> write out what the program uses of \<open>encoding/json\<close>:
  escaping, tokens, the automaton with its stack and its depth, the building of values, the storing of a
  value in a struct.  A value with ASCII texts and 64-bit integers is read back from its text.  On them rest
  \<open>State_File\<close>; \<open>Http_Json\<close>, the bodies of HTTP requests and answers (\<open>api.gen.go\<close>, \<open>common/data_types.go\<close>),
  which the clients decode; and \<open>Wire_Json\<close>, the parameters and results of the calls (\<open>common/jrpc_types.go\<close>),
  which arrive as what was sent - elsewhere a message is the struct it stands for.

  \<^bold>\<open>What the theorems show.\<close>  Authority: keys, addresses and peers come only from sessions with valid
  tokens, a target never changes its owner, a login only from the provider.  Consistency: the tables keep
  their keys in every reachable state, the daemon's state and status are what its clients are told.
  Function: what a first connection, a reconnection, a changed key and a takeover of a target lead to.
  Balance: what a disconnection removes.  And where the code does not keep a promise, a theorem says how:
  two devices with one address, a leaked channel, a wiped state file, a stranded tunnel, a crowded
  target that cannot be served, a stop that hangs.

  \<^bold>\<open>Bounds.\<close>  There is no fuel: loops over data are structural, the address search and the service end
  by measures, and loops that wait run over the list of what they receive.

  \<^bold>\<open>Not modelled.\<close>  The types of \<open>api.gen.go\<close> that nothing uses; the frames of JSON-RPC around parameters and
  results, which a library writes and matches; log lines; the window framework and the TypeScript frontend;
  what \<open>sql.Open\<close> does, and the migrations.  IPv6 addresses appear as texts the parsers refuse.
  A call of the WireGuard daemon is one statement: two of them, of a request and of a disconnection, are
  never inside one another here.  What happens within is a matter of netlink and of the device, whose own
  order of system calls is in the logs of \<open>Wg_Linux_Props\<close> and its siblings.
\<close>

end
